(* ===== verification/Go_Prelude.thy ===== *)
theory Go_Prelude
  imports Main "HOL-Library.Word" "HOL-Library.Char_ord" "HOL-Library.List_Lexorder"
begin

text \<open>
  The prelude of the development: names for Go's data (a Go \<^verbatim>\<open>string\<close> is an
  immutable byte sequence, which is exactly HOL's \<open>string\<close>, a list of eight-bit
  characters), the conversion between characters and bytes, the theorem collections
  the component theories fill, and small facts on lists and options they share.
\<close>

named_theorems go_eval \<open>definitions unfolded when a concrete input is evaluated\<close>
named_theorems handler_defs \<open>definitions of HTTP handlers\<close>

type_synonym byte = "8 word"
type_synonym bytes = "8 word list"

section \<open>Characters and bytes\<close>

text \<open>The numeric value of a character, \<^verbatim>\<open>s[i]\<close> in Go.\<close>

definition byte_ord :: "char \<Rightarrow> nat" where
  "byte_ord c = of_char c"

definition byte_chr :: "nat \<Rightarrow> char" where
  "byte_chr n = char_of n"

definition byte_of_char :: "char \<Rightarrow> byte" where
  "byte_of_char c = word_of_nat (byte_ord c)"

definition char_of_byte :: "byte \<Rightarrow> char" where
  "char_of_byte b = byte_chr (unat b)"

definition bytes_of :: "string \<Rightarrow> bytes" where
  "bytes_of s = map byte_of_char s"

definition string_of_bytes :: "bytes \<Rightarrow> string" where
  "string_of_bytes bs = map char_of_byte bs"

lemma ord_less [simp]: "byte_ord c < 256"
  by (simp add: byte_ord_def)

lemma chr_ord [simp]: "byte_chr (byte_ord c) = c"
  by (simp add: byte_ord_def byte_chr_def)

lemma ord_chr: "byte_ord (byte_chr n) = n mod 256"
  by (simp add: byte_ord_def byte_chr_def)

lemma ord_chr_less [simp]: "n < 256 \<Longrightarrow> byte_ord (byte_chr n) = n"
  by (simp add: ord_chr)

lemma ord_inject [simp]: "byte_ord a = byte_ord b \<longleftrightarrow> a = b"
  by (metis chr_ord)

lemma chr_inject: "a < 256 \<Longrightarrow> b < 256 \<Longrightarrow> byte_chr a = byte_chr b \<longleftrightarrow> a = b"
  by (metis ord_chr_less)

lemma unat_byte_less [simp]: "unat (b :: byte) < 256"
  using unsigned_less [of b] by simp

lemma char_of_byte_of_char [simp]: "char_of_byte (byte_of_char c) = c"
proof -
  have "unat (byte_of_char c) = byte_ord c"
    by (simp add: byte_of_char_def unat_of_nat)
  then show ?thesis by (simp add: char_of_byte_def)
qed

lemma byte_of_char_of_byte [simp]: "byte_of_char (char_of_byte b) = b"
  by (simp add: char_of_byte_def byte_of_char_def)

lemma string_of_bytes_of [simp]: "string_of_bytes (bytes_of s) = s"
  by (simp add: string_of_bytes_def bytes_of_def comp_def)

lemma bytes_of_string_of_bytes [simp]: "bytes_of (string_of_bytes bs) = bs"
  by (simp add: string_of_bytes_def bytes_of_def comp_def)

lemma bytes_of_inject [simp]: "bytes_of s = bytes_of t \<longleftrightarrow> s = t"
  by (metis string_of_bytes_of)

lemma length_bytes_of [simp]: "length (bytes_of s) = length s"
  by (simp add: bytes_of_def)

section \<open>Lists\<close>

text \<open>The first element equal to \<open>c\<close> splits a list: \<^verbatim>\<open>strings.Cut\<close> for one byte.\<close>

lemma takeWhile_neq_append [simp]:
  "c \<notin> set xs \<Longrightarrow> takeWhile (\<lambda>x. x \<noteq> c) (xs @ c # ys) = xs"
  by (induction xs) auto

lemma dropWhile_neq_append [simp]:
  "c \<notin> set xs \<Longrightarrow> dropWhile (\<lambda>x. x \<noteq> c) (xs @ c # ys) = c # ys"
  by (induction xs) auto

lemma takeWhile_neq_all [simp]: "c \<notin> set xs \<Longrightarrow> takeWhile (\<lambda>x. x \<noteq> c) xs = xs"
  by (induction xs) auto

lemma dropWhile_neq_all [simp]: "c \<notin> set xs \<Longrightarrow> dropWhile (\<lambda>x. x \<noteq> c) xs = []"
  by (induction xs) auto

text \<open>All values of a list of options, or \<open>None\<close> when one is missing.\<close>

fun all_some :: "'a option list \<Rightarrow> 'a list option" where
  "all_some [] = Some []"
| "all_some (None # xs) = None"
| "all_some (Some x # xs) = map_option ((#) x) (all_some xs)"

lemma all_some_map_Some [simp]: "all_some (map (\<lambda>x. Some (f x)) xs) = Some (map f xs)"
  by (induction xs) auto

lemma all_some_SomeD: "all_some xs = Some ys \<Longrightarrow> xs = map Some ys"
  by (induction xs arbitrary: ys rule: all_some.induct) auto

end
