(* ===== verification/Go_Strings.thy ===== *)
theory Go_Strings
  imports Go_Prelude
begin

text \<open>
  The functions of Go's packages \<^verbatim>\<open>strings\<close> and \<^verbatim>\<open>strconv\<close> that the
  program calls, on byte strings: prefixes and suffixes, cutting and splitting at a
  one-byte separator, trimming a cut set, joining, byte-wise comparison and the decimal
  conversions \<^verbatim>\<open>strconv.Atoi\<close> and \<^verbatim>\<open>strconv.Itoa\<close> with the results they
  return beside an error.
\<close>

section \<open>Prefixes and suffixes\<close>

text \<open>\<^verbatim>\<open>strings.CutPrefix\<close>: the rest after the prefix, \<open>None\<close> when \<^verbatim>\<open>found\<close> is false.\<close>

fun cut_prefix :: "string \<Rightarrow> string \<Rightarrow> string option" where
  "cut_prefix s [] = Some s"
| "cut_prefix [] (p # ps) = None"
| "cut_prefix (c # cs) (p # ps) = (if c = p then cut_prefix cs ps else None)"

definition has_prefix :: "string \<Rightarrow> string \<Rightarrow> bool" where
  "has_prefix s p \<longleftrightarrow> cut_prefix s p \<noteq> None"

definition has_suffix :: "string \<Rightarrow> string \<Rightarrow> bool" where
  "has_suffix s p \<longleftrightarrow> has_prefix (rev s) (rev p)"

definition trim_prefix :: "string \<Rightarrow> string \<Rightarrow> string" where
  "trim_prefix s p = (case cut_prefix s p of None \<Rightarrow> s | Some r \<Rightarrow> r)"

lemma cut_prefix_iff: "cut_prefix s p = Some r \<longleftrightarrow> s = p @ r"
  by (induction s p rule: cut_prefix.induct) auto

lemma cut_prefix_append [simp]: "cut_prefix (p @ r) p = Some r"
  by (simp add: cut_prefix_iff)

lemma cut_prefix_None: "cut_prefix s p = None \<longleftrightarrow> (\<forall>r. s \<noteq> p @ r)"
  by (metis cut_prefix_iff not_Some_eq)

lemma has_prefix_iff: "has_prefix s p \<longleftrightarrow> (\<exists>r. s = p @ r)"
  by (auto simp: has_prefix_def cut_prefix_iff)

lemma has_suffix_iff: "has_suffix s p \<longleftrightarrow> (\<exists>r. s = r @ p)"
proof
  assume "has_suffix s p"
  then obtain r where "rev s = rev p @ r" by (auto simp: has_suffix_def has_prefix_iff)
  then have "s = rev r @ p" by (metis rev_append rev_rev_ident)
  then show "\<exists>r. s = r @ p" by blast
next
  assume "\<exists>r. s = r @ p"
  then show "has_suffix s p" by (auto simp: has_suffix_def has_prefix_iff)
qed

lemma trim_prefix_append [simp]: "trim_prefix (p @ r) p = r"
  by (simp add: trim_prefix_def)

section \<open>Cutting, splitting and joining\<close>

text \<open>\<^verbatim>\<open>strings.Cut(s, sep)\<close> for a one-byte separator: before, after, found.\<close>

definition cut :: "char \<Rightarrow> string \<Rightarrow> string \<times> string \<times> bool" where
  "cut c s = (case dropWhile (\<lambda>x. x \<noteq> c) s of
       [] \<Rightarrow> (s, [], False)
     | _ # r \<Rightarrow> (takeWhile (\<lambda>x. x \<noteq> c) s, r, True))"

text \<open>\<^verbatim>\<open>strings.LastIndexByte\<close> as a split: before and from the last \<open>c\<close> on.\<close>

definition cut_last :: "char \<Rightarrow> string \<Rightarrow> (string \<times> string) option" where
  "cut_last c s = (if c \<in> set s
     then Some (rev (tl (dropWhile (\<lambda>x. x \<noteq> c) (rev s))), rev (takeWhile (\<lambda>x. x \<noteq> c) (rev s)))
     else None)"

text \<open>\<^verbatim>\<open>strings.Split(s, sep)\<close> for a one-byte separator: never the empty list.\<close>

fun split :: "char \<Rightarrow> string \<Rightarrow> string list" where
  "split c [] = [[]]"
| "split c (x # xs) =
     (if x = c then [] # split c xs
      else (case split c xs of [] \<Rightarrow> [[x]] | p # ps \<Rightarrow> (x # p) # ps))"

fun join :: "string \<Rightarrow> string list \<Rightarrow> string" where
  "join sep [] = []"
| "join sep [x] = x"
| "join sep (x # y # ys) = x @ sep @ join sep (y # ys)"

lemma split_not_Nil [simp]: "split c s \<noteq> []"
  by (induction c s rule: split.induct) (auto split: list.splits)

lemma split_append:
  "c \<notin> set x \<Longrightarrow> split c (x @ c # r) = x # split c r"
  by (induction x) (auto split: list.splits)

lemma split_no_sep: "c \<notin> set x \<Longrightarrow> split c x = [x]"
  by (induction x) auto

lemma split_join:
  "xs \<noteq> [] \<Longrightarrow> \<forall>x \<in> set xs. c \<notin> set x \<Longrightarrow> split c (join [c] xs) = xs"
  by (induction "[c]" xs rule: join.induct) (auto simp: split_append split_no_sep)

lemma join_split: "join [c] (split c s) = s"
proof (induction c s rule: split.induct)
  case (1 c)
  then show ?case by simp
next
  case (2 c x xs)
  obtain p ps where ps: "split c xs = p # ps" by (cases "split c xs") auto
  show ?case
    using 2 ps by (cases ps) auto
qed

lemma split_parts: "p \<in> set (split c s) \<Longrightarrow> c \<notin> set p"
  by (induction c s arbitrary: p rule: split.induct) (auto split: list.splits if_splits)

lemma cut_found: "c \<notin> set x \<Longrightarrow> cut c (x @ c # r) = (x, r, True)"
  by (simp add: cut_def)

lemma cut_not_found: "c \<notin> set s \<Longrightarrow> cut c s = (s, [], False)"
  by (simp add: cut_def)

lemma fst_cut: "fst (cut c s) = takeWhile (\<lambda>x. x \<noteq> c) s"
proof (cases "c \<in> set s")
  case False
  then show ?thesis by (simp add: cut_not_found)
next
  case True
  then obtain a b where "s = a @ c # b" "c \<notin> set a" by (meson split_list_first)
  then show ?thesis by (simp add: cut_found)
qed

lemma cut_True: "cut c s = (a, b, True) \<Longrightarrow> s = a @ c # b \<and> c \<notin> set a"
proof -
  assume *: "cut c s = (a, b, True)"
  then have d: "dropWhile (\<lambda>x. x \<noteq> c) s = hd (dropWhile (\<lambda>x. x \<noteq> c) s) # b"
    and a: "a = takeWhile (\<lambda>x. x \<noteq> c) s"
    by (auto simp: cut_def split: list.splits)
  from d have "hd (dropWhile (\<lambda>x. x \<noteq> c) s) = c"
    by (metis (mono_tags, lifting) hd_dropWhile list.distinct(1))
  with d a show ?thesis
    by (metis (mono_tags, lifting) set_takeWhileD takeWhile_dropWhile_id)
qed

section \<open>Trimming a cut set\<close>

definition trim_left :: "string \<Rightarrow> string \<Rightarrow> string" where
  "trim_left s cutset = dropWhile (\<lambda>c. c \<in> set cutset) s"

definition trim_right :: "string \<Rightarrow> string \<Rightarrow> string" where
  "trim_right s cutset = rev (dropWhile (\<lambda>c. c \<in> set cutset) (rev s))"

lemma trim_right_id: "s = [] \<or> last s \<notin> set cutset \<Longrightarrow> trim_right s cutset = s"
  by (cases s rule: rev_cases) (auto simp: trim_right_def)

lemma trim_right_suffix: "set suf \<subseteq> set cutset \<Longrightarrow> trim_right (s @ suf) cutset = trim_right s cutset"
  unfolding trim_right_def by (subst rev_append, subst dropWhile_append2) auto

section \<open>Comparison\<close>

text \<open>\<^verbatim>\<open>strings.Compare\<close>: byte-wise lexicographic, -1, 0 or 1.\<close>

fun compare_strings :: "string \<Rightarrow> string \<Rightarrow> int" where
  "compare_strings [] [] = 0"
| "compare_strings [] (b # bs) = -1"
| "compare_strings (a # as) [] = 1"
| "compare_strings (a # as) (b # bs) =
     (if byte_ord a < byte_ord b then -1 else if byte_ord a > byte_ord b then 1 else compare_strings as bs)"

lemma compare_strings_eq_0 [simp]: "compare_strings a b = 0 \<longleftrightarrow> a = b"
  by (induction a b rule: compare_strings.induct) (auto simp: linorder_neq_iff dest: leD)

lemma compare_strings_antisym: "compare_strings b a = - compare_strings a b"
  by (induction a b rule: compare_strings.induct) auto

lemma compare_strings_range: "compare_strings a b \<in> {-1, 0, 1}"
  by (induction a b rule: compare_strings.induct) auto

lemma compare_strings_trans:
  "compare_strings a b \<le> 0 \<Longrightarrow> compare_strings b c \<le> 0 \<Longrightarrow> compare_strings a c \<le> 0"
proof (induction a b arbitrary: c rule: compare_strings.induct)
  case (2 y ys)
  then show ?case by (cases c) auto
next
  case (4 x xs y ys)
  show ?case
  proof (cases c)
    case Nil
    with "4.prems"(2) show ?thesis by simp
  next
    case (Cons z zs)
    have xy: "byte_ord x \<le> byte_ord y" and yz: "byte_ord y \<le> byte_ord z"
      using "4.prems" Cons by (simp_all split: if_splits)
    show ?thesis
    proof (cases "byte_ord x = byte_ord y \<and> byte_ord y = byte_ord z")
      case True
      then have "compare_strings xs ys \<le> 0" "compare_strings ys zs \<le> 0"
        using "4.prems" Cons by simp_all
      then have "compare_strings xs zs \<le> 0" using "4.IH" True by simp
      then show ?thesis using True Cons by simp
    next
      case False
      then have "byte_ord x < byte_ord z" using xy yz by linarith
      then show ?thesis using Cons by simp
    qed
  qed
qed simp_all

section \<open>Decimal numbers\<close>

definition is_digit :: "char \<Rightarrow> bool" where
  "is_digit c \<longleftrightarrow> byte_ord CHR ''0'' \<le> byte_ord c \<and> byte_ord c \<le> byte_ord CHR ''9''"

definition digit_val :: "char \<Rightarrow> nat" where
  "digit_val c = byte_ord c - byte_ord CHR ''0''"

definition digits_val :: "string \<Rightarrow> nat" where
  "digits_val s = foldl (\<lambda>n c. 10 * n + digit_val c) 0 s"

definition max_int64 :: int where "max_int64 = 2 ^ 63 - 1"
definition min_int64 :: int where "min_int64 = - (2 ^ 63)"

text \<open>
  \<^verbatim>\<open>strconv.Atoi\<close> on a 64-bit platform returns a number and an error. A syntax error
  (no digits, or a byte that is no digit) comes with 0; a value out of range comes with
  the nearest \<^verbatim>\<open>int\<close>. \<open>atoi\<close> is the pair, the flag telling whether the error is nil.
\<close>

definition clamp_int64 :: "int \<Rightarrow> int" where
  "clamp_int64 n = max min_int64 (min max_int64 n)"

definition signed_digits :: "string \<Rightarrow> int \<times> string" where
  "signed_digits s = (case s of
       [] \<Rightarrow> (1, [])
     | c # cs \<Rightarrow> if c = CHR ''-'' then (-1, cs) else if c = CHR ''+'' then (1, cs) else (1, s))"

definition atoi :: "string \<Rightarrow> int \<times> bool" where
  "atoi s = (let (sg, ds) = signed_digits s in
     if ds = [] \<or> \<not> list_all is_digit ds then (0, False)
     else let n = sg * int (digits_val ds) in (clamp_int64 n, clamp_int64 n = n))"

fun digits_of :: "nat \<Rightarrow> string" where
  "digits_of n = (if n < 10 then [byte_chr (48 + n)] else digits_of (n div 10) @ [byte_chr (48 + n mod 10)])"

declare digits_of.simps [simp del]

definition itoa :: "int \<Rightarrow> string" where
  "itoa n = (if n < 0 then CHR ''-'' # digits_of (nat (- n)) else digits_of (nat n))"

lemma ord_zero [simp]: "byte_ord CHR ''0'' = 48" and ord_nine [simp]: "byte_ord CHR ''9'' = 57"
  by (simp_all add: byte_ord_def)

lemma digit_chr [simp]: "n < 10 \<Longrightarrow> is_digit (byte_chr (48 + n))" "n < 10 \<Longrightarrow> digit_val (byte_chr (48 + n)) = n"
  by (simp_all add: is_digit_def digit_val_def)

lemma digits_of_digits: "list_all is_digit (digits_of n)"
  by (induction n rule: digits_of.induct) (subst digits_of.simps, simp)

lemma digits_of_not_Nil [simp]: "digits_of n \<noteq> []"
  by (subst digits_of.simps) simp

lemma digits_val_digits_of [simp]: "digits_val (digits_of n) = n"
proof (induction n rule: digits_of.induct)
  case (1 n)
  show ?case
  proof (cases "n < 10")
    case True
    then show ?thesis by (subst digits_of.simps) (simp add: digits_val_def)
  next
    case False
    with 1 show ?thesis
      by (subst digits_of.simps) (simp add: digits_val_def)
  qed
qed

lemma digits_of_hd: "\<exists>c cs. digits_of n = c # cs \<and> is_digit c"
  using digits_of_digits [of n] by (cases "digits_of n") auto

lemma is_digit_sign [simp]: "\<not> is_digit CHR ''-''" "\<not> is_digit CHR ''+''"
  by (simp_all add: is_digit_def byte_ord_def)

lemma signed_digits_itoa: "signed_digits (itoa n) = (if n < 0 then -1 else 1, digits_of (nat \<bar>n\<bar>))"
  using digits_of_hd [of "nat n"] by (auto simp: signed_digits_def itoa_def split: list.splits)

lemma atoi_itoa: "clamp_int64 n = n \<Longrightarrow> atoi (itoa n) = (n, True)"
  by (simp add: atoi_def signed_digits_itoa digits_of_digits)

end
