(* ===== verification/Go_Path.thy ===== *)
theory Go_Path
  imports Go_Strings
begin

text \<open>
  The functions of Go's \<^verbatim>\<open>path\<close> and (on Unix) \<^verbatim>\<open>path/filepath\<close> packages the
  program reaches: \<^verbatim>\<open>Clean\<close>, which \<^verbatim>\<open>http.Redirect\<close> applies to a relative
  target, \<^verbatim>\<open>Join\<close>, with which \<^verbatim>\<open>filepath.WalkDir\<close> builds the paths it
  visits, and the walk itself over a directory tree.
\<close>

section \<open>Clean and Join\<close>

fun clean_parts :: "bool \<Rightarrow> string list \<Rightarrow> string list \<Rightarrow> string list" where
  "clean_parts rooted stack [] = rev stack"
| "clean_parts rooted stack (p # ps) =
     (if p = [] \<or> p = ''.'' then clean_parts rooted stack ps
      else if p = ''..'' then
        (case stack of
           [] \<Rightarrow> clean_parts rooted (if rooted then [] else [''..'']) ps
         | t # ts \<Rightarrow> if t = ''..'' then clean_parts rooted (''..'' # stack) ps
                     else clean_parts rooted ts ps)
      else clean_parts rooted (p # stack) ps)"

definition path_clean :: "string \<Rightarrow> string" where
  "path_clean p =
     (let rooted = has_prefix p ''/'';
          body = join ''/'' (clean_parts rooted [] (split CHR ''/'' p))
      in if rooted then CHR ''/'' # body else if body = [] then ''.'' else body)"

definition path_join :: "string \<Rightarrow> string \<Rightarrow> string" where
  "path_join a b =
     (if a = [] \<and> b = [] then []
      else path_clean (if a = [] then b else if b = [] then a else a @ ''/'' @ b))"

text \<open>\<^verbatim>\<open>path.Split\<close>: the directory part, up to and with the last slash.\<close>

definition path_dir :: "string \<Rightarrow> string" where
  "path_dir p = rev (dropWhile (\<lambda>c. c \<noteq> CHR ''/'') (rev p))"

definition plain_part :: "string \<Rightarrow> bool" where
  "plain_part p \<longleftrightarrow> p \<noteq> [] \<and> p \<noteq> ''.'' \<and> p \<noteq> ''..'' \<and> CHR ''/'' \<notin> set p"

lemma clean_parts_plain:
  "\<forall>p \<in> set ps. plain_part p \<Longrightarrow> clean_parts r st ps = rev st @ ps"
  by (induction ps arbitrary: st) (auto simp: plain_part_def)

text \<open>A path made of plain parts, absolute or relative, is clean already.\<close>

definition plain_path :: "bool \<Rightarrow> string list \<Rightarrow> string" where
  "plain_path rooted ps = (if rooted then ''/'' else []) @ join ''/'' ps"

lemma split_join_plain:
  "ps \<noteq> [] \<Longrightarrow> \<forall>p \<in> set ps. plain_part p \<Longrightarrow> split CHR ''/'' (join ''/'' ps) = ps"
  by (intro split_join) (auto simp: plain_part_def)

lemma join_plain_hd:
  "ps \<noteq> [] \<Longrightarrow> \<forall>p \<in> set ps. plain_part p \<Longrightarrow> \<exists>c r. join ''/'' ps = c # r \<and> c \<noteq> CHR ''/''"
  by (cases ps; cases "hd ps"; cases "tl ps") (auto simp: plain_part_def)

lemma path_clean_plain:
  assumes "\<forall>p \<in> set ps. plain_part p" and "ps \<noteq> []"
  shows "path_clean (plain_path rooted ps) = plain_path rooted ps"
  using assms join_plain_hd [OF assms(2,1)] split_join_plain [OF assms(2,1)]
  by (auto simp: path_clean_def plain_path_def has_prefix_def clean_parts_plain)

lemma join_snoc: "ps \<noteq> [] \<Longrightarrow> join sep (ps @ [q]) = join sep ps @ sep @ q"
  by (induction sep ps rule: join.induct) auto

lemma plain_path_snoc: "ps \<noteq> [] \<Longrightarrow> plain_path rooted (ps @ [q]) = plain_path rooted ps @ ''/'' @ q"
  by (simp add: plain_path_def join_snoc)

lemma plain_path_not_Nil: "ps \<noteq> [] \<Longrightarrow> \<forall>p \<in> set ps. plain_part p \<Longrightarrow> plain_path rooted ps \<noteq> []"
  using join_plain_hd [of ps] by (auto simp: plain_path_def)

lemma path_join_plain:
  assumes "\<forall>p \<in> set ps. plain_part p" and "ps \<noteq> []" and "plain_part q"
  shows "path_join (plain_path rooted ps) q = plain_path rooted (ps @ [q])"
  using path_clean_plain [of "ps @ [q]" rooted] plain_path_not_Nil [OF assms(2,1), of rooted] assms
  by (auto simp: path_join_def plain_path_snoc plain_part_def)

text \<open>A relative folder written with a leading dot loses it in every joined path.\<close>

lemma path_join_dot:
  assumes "plain_part d" and "plain_part q"
  shows "path_join (''./'' @ d) q = plain_path False [d, q]"
proof -
  have "split CHR ''/'' (''./'' @ d @ ''/'' @ q) = [''.'', d, q]"
    using assms split_append [of "CHR ''/''" d q] by (simp add: plain_part_def split_no_sep)
  moreover have "\<not> has_prefix (''./'' @ d @ ''/'' @ q) ''/''" by (simp add: has_prefix_def)
  ultimately show ?thesis
    using assms by (auto simp: path_join_def path_clean_def plain_path_def plain_part_def)
qed

section \<open>The directory walk\<close>

text \<open>
  \<^verbatim>\<open>filepath.WalkDir(root, fn)\<close> visits the root as it is written, then for a directory
  each entry under \<^verbatim>\<open>filepath.Join(dir, name)\<close>, in the order \<^verbatim>\<open>os.ReadDir\<close>
  returns them. A directory that cannot be read is visited a second time with the error.
\<close>

datatype fs_node =
    FsFile
  | FsDir "(string \<times> fs_node) list"
  | FsBadDir \<comment> \<open>a directory whose listing fails\<close>

datatype walk_event =
    WalkDirEntry string
  | WalkFile string
  | WalkError string

fun walk_dir :: "string \<Rightarrow> fs_node \<Rightarrow> walk_event list"
  and walk_entries :: "string \<Rightarrow> (string \<times> fs_node) list \<Rightarrow> walk_event list" where
  "walk_dir p FsFile = [WalkFile p]"
| "walk_dir p FsBadDir = [WalkDirEntry p, WalkError p]"
| "walk_dir p (FsDir es) = WalkDirEntry p # walk_entries p es"
| "walk_entries p [] = []"
| "walk_entries p ((n, t) # es) = walk_dir (path_join p n) t @ walk_entries p es"

text \<open>The names of a directory tree as an operating system gives them.\<close>

fun plain_tree :: "fs_node \<Rightarrow> bool" where
  "plain_tree (FsDir es) = (\<forall>(n, t) \<in> set es. plain_part n \<and> plain_tree t)"
| "plain_tree _ = True"

fun walk_files :: "walk_event list \<Rightarrow> string list" where
  "walk_files [] = []"
| "walk_files (WalkFile p # es) = p # walk_files es"
| "walk_files (_ # es) = walk_files es"

lemma set_walk_files [simp]: "p \<in> set (walk_files es) \<longleftrightarrow> WalkFile p \<in> set es"
  by (induction es rule: walk_files.induct) auto

lemma walk_paths:
  "\<lbrakk>p = plain_path rooted ps; ps \<noteq> []; \<forall>x \<in> set ps. plain_part x; plain_tree t; WalkFile q \<in> set (walk_dir p t)\<rbrakk>
     \<Longrightarrow> \<exists>r. q = plain_path rooted (ps @ r) \<and> (\<forall>x \<in> set r. plain_part x)"
  "\<lbrakk>p = plain_path rooted ps; ps \<noteq> []; \<forall>x \<in> set ps. plain_part x; plain_tree (FsDir es); WalkFile q \<in> set (walk_entries p es)\<rbrakk>
     \<Longrightarrow> \<exists>n r. n \<in> fst ` set es \<and> q = plain_path rooted (ps @ n # r) \<and> (\<forall>x \<in> set r. plain_part x)"
proof (induction p t and p es arbitrary: ps and ps rule: walk_dir_walk_entries.induct)
  case (1 p)
  then show ?case by (intro exI [of _ "[]"]) simp
next
  case (3 p es)
  have "WalkFile q \<in> set (walk_entries p es)" using "3.prems"(5) by simp
  then obtain n r where "n \<in> fst ` set es" "q = plain_path rooted (ps @ n # r)" "\<forall>x \<in> set r. plain_part x"
    using "3.IH" [OF "3.prems"(1-4)] by blast
  then show ?case using 3 by (intro exI [of _ "n # r"]) auto
next
  case (5 p n t es)
  have plain: "plain_part n" "plain_tree t" "plain_tree (FsDir es)" using "5.prems"(4) by auto
  show ?case
  proof (cases "WalkFile q \<in> set (walk_entries p es)")
    case True
    then show ?thesis using "5.IH"(2) [OF "5.prems"(1-3) plain(3)] by auto
  next
    case False
    have "path_join p n = plain_path rooted (ps @ [n])"
      using "5.prems"(1-3) plain path_join_plain by simp
    moreover have "\<forall>x \<in> set (ps @ [n]). plain_part x" using "5.prems"(3) plain by auto
    moreover have "WalkFile q \<in> set (walk_dir (path_join p n) t)" using False "5.prems"(5) by auto
    ultimately obtain r where "q = plain_path rooted ((ps @ [n]) @ r)" "\<forall>x \<in> set r. plain_part x"
      using "5.IH"(1) [of "ps @ [n]"] plain by auto
    then show ?thesis by (intro exI [of _ n] exI [of _ r]) auto
  qed
qed auto

end
