(* ===== verification/Go_Slices.thy ===== *)
theory Go_Slices
  imports Go_Strings "HOL-Library.Multiset"
begin

text \<open>
  Sorting with a comparison function, \<^verbatim>\<open>slices.SortFunc\<close>, and the contract such a
  function has to meet. \<open>sort_by\<close> computes a sorted permutation; for a comparison that
  orders the elements totally every sorted permutation is the same list, so the result
  does not depend on which algorithm the library uses.
\<close>

fun insert_by :: "('a \<Rightarrow> 'a \<Rightarrow> int) \<Rightarrow> 'a \<Rightarrow> 'a list \<Rightarrow> 'a list" where
  "insert_by cmp x [] = [x]"
| "insert_by cmp x (y # ys) = (if cmp x y \<le> 0 then x # y # ys else y # insert_by cmp x ys)"

definition sort_by :: "('a \<Rightarrow> 'a \<Rightarrow> int) \<Rightarrow> 'a list \<Rightarrow> 'a list" where
  "sort_by cmp xs = foldr (insert_by cmp) xs []"

definition ordered_by :: "('a \<Rightarrow> 'a \<Rightarrow> int) \<Rightarrow> 'a list \<Rightarrow> bool" where
  "ordered_by cmp xs = sorted_wrt (\<lambda>a b. cmp a b \<le> 0) xs"

lemma mset_insert_by [simp]: "mset (insert_by cmp x xs) = add_mset x (mset xs)"
  by (induction xs) auto

lemma set_insert_by [simp]: "set (insert_by cmp x xs) = insert x (set xs)"
  by (induction xs) auto

lemma mset_sort_by [simp]: "mset (sort_by cmp xs) = mset xs"
  by (induction xs) (auto simp: sort_by_def)

lemma set_sort_by [simp]: "set (sort_by cmp xs) = set xs"
  by (metis mset_sort_by set_mset_mset)

lemma length_sort_by [simp]: "length (sort_by cmp xs) = length xs"
  by (metis mset_sort_by size_mset)

lemma distinct_sort_by [simp]: "distinct (sort_by cmp xs) = distinct xs"
  by (metis mset_sort_by mset_eq_imp_distinct_iff)

locale comparator =
  fixes cmp :: "'a \<Rightarrow> 'a \<Rightarrow> int"
  assumes antisym: "cmp b a = - cmp a b"
    and trans: "cmp a b \<le> 0 \<Longrightarrow> cmp b c \<le> 0 \<Longrightarrow> cmp a c \<le> 0"
begin

lemma refl: "cmp a a = 0"
  using antisym [of a a] by simp

lemma total: "cmp a b \<le> 0 \<or> cmp b a \<le> 0"
  using antisym [of a b] by linarith

lemma trans_less: "cmp a b < 0 \<Longrightarrow> cmp b c \<le> 0 \<Longrightarrow> cmp a c < 0"
  using trans [of b c a] trans [of a b c] antisym [of a c] antisym [of a b] by fastforce

lemma trans_less': "cmp a b \<le> 0 \<Longrightarrow> cmp b c < 0 \<Longrightarrow> cmp a c < 0"
  using trans [of c a b] trans [of a b c] antisym [of a c] antisym [of b c] by fastforce

lemma eq_cong: "cmp a b = 0 \<Longrightarrow> cmp a c \<le> 0 \<longleftrightarrow> cmp b c \<le> 0"
  using trans [of a b c] trans [of b a c] antisym [of a b] by auto

lemma squeeze:
  "cmp a b \<le> 0 \<Longrightarrow> cmp b c \<le> 0 \<Longrightarrow> cmp a c = 0 \<Longrightarrow> cmp a b = 0 \<and> cmp b c = 0"
  using trans [of b c a] trans [of c a b] antisym [of a b] antisym [of b c] antisym [of a c]
  by auto

lemma ordered_insert_by: "ordered_by cmp xs \<Longrightarrow> ordered_by cmp (insert_by cmp x xs)"
proof (induction xs)
  case Nil
  then show ?case by (simp add: ordered_by_def)
next
  case (Cons y ys)
  show ?case
  proof (cases "cmp x y \<le> 0")
    case True
    with Cons.prems show ?thesis by (auto simp: ordered_by_def intro: trans)
  next
    case False
    then have "cmp y x \<le> 0" using total by blast
    with False Cons show ?thesis by (auto simp: ordered_by_def)
  qed
qed

lemma ordered_sort_by: "ordered_by cmp (sort_by cmp xs)"
proof (induction xs)
  case Nil
  show ?case by (simp add: sort_by_def ordered_by_def)
next
  case (Cons x xs)
  then show ?case using ordered_insert_by by (simp add: sort_by_def)
qed

text \<open>When only equal elements compare as equal, the sorted permutation is unique.\<close>

lemma ordered_unique:
  assumes strict: "\<And>a b. a \<in> set xs \<Longrightarrow> b \<in> set xs \<Longrightarrow> cmp a b = 0 \<Longrightarrow> a = b"
    and "mset ys = mset xs" and "ordered_by cmp xs" and "ordered_by cmp ys"
  shows "ys = xs"
  using assms
proof (induction xs arbitrary: ys)
  case Nil
  then show ?case by simp
next
  case (Cons x xs)
  obtain y zs where ys: "ys = y # zs" using Cons.prems(2) by (cases ys) auto
  have eqset: "set ys = set (x # xs)" using Cons.prems(2) by (metis set_mset_mset)
  have "cmp x y \<le> 0"
  proof (cases "y = x")
    case False
    then have "y \<in> set xs" using eqset ys by auto
    then show ?thesis using Cons.prems(3) by (auto simp: ordered_by_def)
  qed (simp add: refl)
  moreover have "cmp y x \<le> 0"
  proof (cases "y = x")
    case False
    then have "x \<in> set zs" using eqset ys by auto
    then show ?thesis using Cons.prems(4) ys by (auto simp: ordered_by_def)
  qed (simp add: refl)
  ultimately have "cmp x y = 0" using antisym [of x y] by linarith
  then have "x = y" using Cons.prems(1) [of x y] eqset ys by auto
  moreover have "zs = xs"
  proof (rule Cons.IH)
    show "mset zs = mset xs" using Cons.prems(2) ys \<open>x = y\<close> by simp
    show "ordered_by cmp zs" "ordered_by cmp xs"
      using Cons.prems(3,4) ys by (simp_all add: ordered_by_def)
    show "a = b" if "a \<in> set xs" "b \<in> set xs" "cmp a b = 0" for a b
      using Cons.prems(1) that by simp
  qed
  ultimately show ?case using ys by simp
qed

lemma sort_by_unique:
  assumes "\<And>a b. a \<in> set xs \<Longrightarrow> b \<in> set xs \<Longrightarrow> cmp a b = 0 \<Longrightarrow> a = b"
    and "mset ys = mset xs" and "ordered_by cmp ys"
  shows "ys = sort_by cmp xs"
proof (rule ordered_unique)
  show "mset ys = mset (sort_by cmp xs)" using assms(2) by simp
qed (use assms ordered_sort_by in auto)

end

interpretation bytes_cmp: comparator compare_strings
  by unfold_locales (auto intro: compare_strings_antisym compare_strings_trans)

end
