(* ===== verification/Migrate.thy ===== *)
theory Migrate
  imports Go_Path Go_Slices
begin

text \<open>
  The core-database migration tool, \<^verbatim>\<open>cmd/migrate/main.go\<close>: the version order, the
  selection of migration files from a directory walk, their order, the loop that applies
  them and records the version, the database checks and \<^verbatim>\<open>main\<close> itself.

  The database and the operating system are parameters: the outcomes of opening,
  pinging and executing, the directory tree, the file contents and the SQL template
  expansion (\<^verbatim>\<open>db.ParseSQLScriptTemplate\<close>, a function of the query engine).
\<close>

section \<open>Version order\<close>

text \<open>One iteration's number: a missing or malformed part counts as what \<^verbatim>\<open>Atoi\<close> returns beside its error.\<close>

definition version_part :: "string list \<Rightarrow> nat \<Rightarrow> int" where
  "version_part ps i = (if i < length ps then fst (atoi (ps ! i)) else 0)"

fun compare_loop :: "string list \<Rightarrow> string list \<Rightarrow> nat list \<Rightarrow> int" where
  "compare_loop ap bp [] = 0"
| "compare_loop ap bp (i # is) =
     (let ai = version_part ap i; bi = version_part bp i
      in if ai < bi then -1 else if ai > bi then 1 else compare_loop ap bp is)"

definition compareVersions :: "string \<Rightarrow> string \<Rightarrow> int" where
  "compareVersions a b =
     (let ap = split CHR ''.'' a; bp = split CHR ''.'' b
      in compare_loop ap bp [0..<max (length ap) (length bp)])"

text \<open>The specification: lexicographic comparison of the keys padded with zeros.\<close>

definition version_key :: "nat \<Rightarrow> string \<Rightarrow> int list" where
  "version_key n a = map (version_part (split CHR ''.'' a)) [0..<n]"

fun lex_sign :: "int list \<Rightarrow> int list \<Rightarrow> int" where
  "lex_sign (x # xs) (y # ys) = (if x < y then -1 else if x > y then 1 else lex_sign xs ys)"
| "lex_sign _ _ = 0"

definition version_len :: "string \<Rightarrow> nat" where
  "version_len a = length (split CHR ''.'' a)"

lemma compare_loop_lex:
  "compare_loop ap bp is = lex_sign (map (version_part ap) is) (map (version_part bp) is)"
  by (induction "is") (simp_all add: Let_def)

lemma lex_sign_refl_append: "length xs = length ys \<Longrightarrow>
    lex_sign (xs @ zs) (ys @ zs) = lex_sign xs ys"
proof (induction xs ys rule: list_induct2)
  case Nil
  show ?case by (induction zs) simp_all
qed simp

text \<open>Padding beyond both lengths changes nothing, so all comparisons share one width.\<close>

lemma compareVersions_key:
  assumes "version_len a \<le> n" and "version_len b \<le> n"
  shows "compareVersions a b = lex_sign (version_key n a) (version_key n b)"
proof -
  let ?m = "max (version_len a) (version_len b)"
  let ?z = "map (\<lambda>_. 0) [?m..<n] :: int list"
  have pad: "version_key n s = version_key ?m s @ ?z" if "version_len s \<le> ?m" for s
  proof -
    have "[0..<n] = [0..<?m] @ [?m..<n]"
      using assms by (metis le_add_diff_inverse max.bounded_iff upt_add_eq_append zero_le)
    moreover have "version_part (split CHR ''.'' s) i = 0" if "i \<in> set [?m..<n]" for i
      using that \<open>version_len s \<le> ?m\<close> by (auto simp: version_part_def version_len_def)
    ultimately show ?thesis by (simp add: version_key_def)
  qed
  have "compareVersions a b = lex_sign (version_key ?m a) (version_key ?m b)"
    by (simp add: compareVersions_def compare_loop_lex version_key_def version_len_def Let_def)
  also have "\<dots> = lex_sign (version_key ?m a @ ?z) (version_key ?m b @ ?z)"
    by (simp add: lex_sign_refl_append version_key_def)
  also have "\<dots> = lex_sign (version_key n a) (version_key n b)"
    by (simp only: pad [of a] pad [of b] max.cobounded1 max.cobounded2)
  finally show ?thesis .
qed

lemma lex_sign_antisym: "lex_sign ys xs = - lex_sign xs ys"
  by (induction xs ys rule: lex_sign.induct) auto

lemma lex_sign_trans:
  "length xs = length ys \<Longrightarrow> length ys = length zs \<Longrightarrow>
   lex_sign xs ys \<le> 0 \<Longrightarrow> lex_sign ys zs \<le> 0 \<Longrightarrow> lex_sign xs zs \<le> 0"
  by (induction xs ys zs rule: list_induct3) (auto split: if_splits)

lemma lex_sign_eq_0: "length xs = length ys \<Longrightarrow> lex_sign xs ys = 0 \<longleftrightarrow> xs = ys"
  by (induction xs ys rule: list_induct2) auto

lemma lex_sign_range: "lex_sign xs ys \<in> {-1, 0, 1}"
  by (induction xs ys rule: lex_sign.induct) auto

lemma length_version_key [simp]: "length (version_key n a) = n"
  by (simp add: version_key_def)

text \<open>The laws of the order, used by the sort and by the selection of files.\<close>

lemma compareVersions_refl [simp]: "compareVersions a a = 0"
  by (subst compareVersions_key [where n = "version_len a"]) (simp_all add: lex_sign_eq_0)

lemma compareVersions_antisym: "compareVersions b a = - compareVersions a b"
  by (simp add: compareVersions_key [where n = "max (version_len a) (version_len b)"]
      lex_sign_antisym [of "version_key _ b"])

lemma compareVersions_trans:
  assumes "compareVersions a b \<le> 0" and "compareVersions b c \<le> 0"
  shows "compareVersions a c \<le> 0"
proof -
  let ?n = "max (version_len a) (max (version_len b) (version_len c))"
  have key: "compareVersions a b = lex_sign (version_key ?n a) (version_key ?n b)"
    "compareVersions b c = lex_sign (version_key ?n b) (version_key ?n c)"
    "compareVersions a c = lex_sign (version_key ?n a) (version_key ?n c)"
    by (rule compareVersions_key; simp)+
  show ?thesis
    using assms unfolding key by (rule lex_sign_trans [rotated 2]) simp_all
qed

lemma compareVersions_range: "compareVersions a b \<in> {-1, 0, 1}"
  using lex_sign_range
  by (simp add: compareVersions_key [where n = "max (version_len a) (version_len b)"])

interpretation version_cmp: comparator compareVersions
  by unfold_locales (auto intro: compareVersions_antisym compareVersions_trans)

section \<open>Selecting the migration files\<close>

record mig_file =
  mf_path :: string
  mf_version :: string

text \<open>The version of a visited path: the first part below the migrations folder, trimmed.\<close>

definition path_version :: "string \<Rightarrow> string \<Rightarrow> string" where
  "path_version fPath path =
     trim_right (hd (split CHR ''/'' (trim_left (trim_prefix path fPath) ''/''))) ''.sql''"

text \<open>The guard that keeps a file out: not newer than the database, or beyond \<^verbatim>\<open>-to-version\<close>.\<close>

definition version_skipped :: "string \<Rightarrow> string \<Rightarrow> string \<Rightarrow> bool" where
  "version_skipped version fVersion mv \<longleftrightarrow>
     compareVersions version mv \<ge> 0 \<or> fVersion \<noteq> [] \<and> compareVersions mv fVersion > 0"

text \<open>The walk callback over the visited entries; an error of the walk stops it.\<close>

fun collect_files :: "string \<Rightarrow> string \<Rightarrow> string \<Rightarrow> walk_event list \<Rightarrow> mig_file list option" where
  "collect_files fPath fVersion version [] = Some []"
| "collect_files fPath fVersion version (WalkError p # es) = None"
| "collect_files fPath fVersion version (WalkDirEntry p # es) = collect_files fPath fVersion version es"
| "collect_files fPath fVersion version (WalkFile p # es) =
     (let mv = path_version fPath p in
      if version_skipped version fVersion mv then collect_files fPath fVersion version es
      else map_option ((#) \<lparr>mf_path = p, mf_version = mv\<rparr>) (collect_files fPath fVersion version es))"

definition file_cmp :: "mig_file \<Rightarrow> mig_file \<Rightarrow> int" where
  "file_cmp a b =
     (let c = compareVersions (mf_version a) (mf_version b)
      in if c \<noteq> 0 then c else compare_strings (mf_path a) (mf_path b))"

definition sort_files :: "mig_file list \<Rightarrow> mig_file list" where
  "sort_files files = sort_by file_cmp files"

interpretation file_order: comparator file_cmp
proof
  show "file_cmp b a = - file_cmp a b" for a b
    using compareVersions_antisym [of "mf_version b" "mf_version a"]
      compare_strings_antisym [of "mf_path b" "mf_path a"]
    by (simp add: file_cmp_def Let_def)
next
  fix a b c
  assume ab: "file_cmp a b \<le> 0" and bc: "file_cmp b c \<le> 0"
  let ?v = "\<lambda>x y. compareVersions (mf_version x) (mf_version y)"
  have "?v a b \<le> 0" "?v b c \<le> 0" using ab bc by (simp_all add: file_cmp_def Let_def split: if_splits)
  then have ac: "?v a c \<le> 0" by (rule compareVersions_trans)
  show "file_cmp a c \<le> 0"
  proof (cases "?v a c = 0")
    case True
    then have "?v a b = 0 \<and> ?v b c = 0"
      using \<open>?v a b \<le> 0\<close> \<open>?v b c \<le> 0\<close> version_cmp.squeeze by blast
    then show ?thesis
      using ab bc True by (auto simp: file_cmp_def intro: compare_strings_trans)
  next
    case False
    with ac show ?thesis by (simp add: file_cmp_def Let_def)
  qed
qed

lemma file_cmp_version: "file_cmp a b \<le> 0 \<Longrightarrow> compareVersions (mf_version a) (mf_version b) \<le> 0"
  by (simp add: file_cmp_def Let_def split: if_splits)

lemma ordered_by_file_Cons:
  "ordered_by file_cmp (f # fs) \<longleftrightarrow> (\<forall>g \<in> set fs. file_cmp f g \<le> 0) \<and> ordered_by file_cmp fs"
  by (simp add: ordered_by_def)

lemma collect_files_Some:
  "collect_files fPath fVersion version es = Some fs \<Longrightarrow> f \<in> set fs \<longleftrightarrow>
     WalkFile (mf_path f) \<in> set es \<and> mf_version f = path_version fPath (mf_path f) \<and>
     \<not> version_skipped version fVersion (mf_version f)"
proof (induction fPath fVersion version es arbitrary: fs rule: collect_files.induct)
  case (4 fPath fVersion version p es)
  show ?case
  proof (cases "version_skipped version fVersion (path_version fPath p)")
    case True
    then show ?thesis using 4 by auto
  next
    case False
    then obtain gs where gs: "collect_files fPath fVersion version es = Some gs"
      "fs = \<lparr>mf_path = p, mf_version = path_version fPath p\<rparr> # gs"
      using "4.prems" by (auto simp: Let_def)
    show ?thesis
      using "4.IH"(2) [OF _ False gs(1)] False gs(2) by (cases f) auto
  qed
qed auto

lemma collect_files_None: "collect_files fPath fVersion version es = None \<longleftrightarrow> (\<exists>p. WalkError p \<in> set es)"
  by (induction fPath fVersion version es rule: collect_files.induct) (auto simp: Let_def)

text \<open>
  What \<open>path_version\<close> gives: below a clean folder the trimmed name of the folder's
  entry; below a folder written \<open>./d\<close> the trimmed name of the folder itself.
\<close>

lemma hd_split_plain:
  assumes "plain_part n" and "\<forall>x \<in> set r. plain_part x"
  shows "hd (split CHR ''/'' (join ''/'' (n # r))) = n"
  using split_join_plain [of "n # r"] assms by simp

lemma trim_left_plain: "plain_part n \<Longrightarrow> trim_left (n @ s) ''/'' = n @ s"
  by (cases n) (auto simp: trim_left_def plain_part_def)

lemma join_Cons: "r \<noteq> [] \<Longrightarrow> join sep (n # r) = n @ sep @ join sep r"
  by (cases r) auto

lemma plain_path_append:
  "ps \<noteq> [] \<Longrightarrow> r \<noteq> [] \<Longrightarrow> plain_path rooted (ps @ r) = plain_path rooted ps @ ''/'' @ join ''/'' r"
proof (induction r rule: rev_induct)
  case (snoc x xs)
  then show ?case
    by (cases "xs = []") (simp_all add: plain_path_snoc join_snoc flip: append_assoc)
qed simp

lemma path_version_plain:
  assumes "ps \<noteq> []" and "plain_part n" and "\<forall>x \<in> set r. plain_part x"
  shows "path_version (plain_path rooted ps) (plain_path rooted (ps @ n # r)) = trim_right n ''.sql''"
proof -
  have "trim_left (''/'' @ join ''/'' (n # r)) ''/'' = join ''/'' (n # r)"
    using assms(2) trim_left_plain [of n "''/'' @ join ''/'' r"] trim_left_plain [of n "[]"]
    by (cases "r = []") (simp_all add: trim_left_def join_Cons)
  then show ?thesis
    using hd_split_plain [OF assms(2,3)] assms(1) by (simp add: path_version_def plain_path_append)
qed

lemma path_version_dot:
  assumes "plain_part d" and "\<forall>x \<in> set r. plain_part x"
  shows "path_version (''./'' @ d) (plain_path False (d # r)) = trim_right d ''.sql''"
proof -
  obtain c cs where d: "d = c # cs" using assms(1) by (cases d) (auto simp: plain_part_def)
  have "cut_prefix (plain_path False (d # r)) (''./'' @ d) = None"
    using assms(1) d by (cases cs; cases "r = []") (auto simp: plain_path_def plain_part_def join_Cons)
  then have "trim_prefix (plain_path False (d # r)) (''./'' @ d) = join ''/'' (d # r)"
    by (simp add: trim_prefix_def plain_path_def)
  moreover have "trim_left (join ''/'' (d # r)) ''/'' = join ''/'' (d # r)"
    using assms(1) trim_left_plain [of d "''/'' @ join ''/'' r"] trim_left_plain [of d "[]"]
    by (cases "r = []") (simp_all add: join_Cons)
  ultimately show ?thesis using hd_split_plain [OF assms] by (simp add: path_version_def)
qed

lemma walk_version_plain:
  assumes "ps \<noteq> []" and "\<forall>x \<in> set ps. plain_part x" and "plain_tree (FsDir es)"
    and "WalkFile q \<in> set (walk_dir (plain_path rooted ps) (FsDir es))"
  shows "\<exists>n \<in> fst ` set es. path_version (plain_path rooted ps) q = trim_right n ''.sql''"
proof -
  have "WalkFile q \<in> set (walk_entries (plain_path rooted ps) es)" using assms(4) by simp
  then obtain n r where q: "n \<in> fst ` set es" "q = plain_path rooted (ps @ n # r)"
    "\<forall>x \<in> set r. plain_part x"
    using walk_paths(2) [OF refl assms(1,2,3)] by blast
  then have "plain_part n" using assms(3) by auto
  with q assms(1) show ?thesis using path_version_plain by blast
qed

lemma walk_version_dot:
  assumes "plain_part d" and "plain_tree (FsDir es)"
    and "WalkFile q \<in> set (walk_dir (''./'' @ d) (FsDir es))"
  shows "path_version (''./'' @ d) q = trim_right d ''.sql''"
proof -
  have entry: "WalkFile q \<in> set (walk_entries (''./'' @ d) fs) \<Longrightarrow> plain_tree (FsDir fs) \<Longrightarrow>
      \<exists>r. q = plain_path False (d # r) \<and> (\<forall>x \<in> set r. plain_part x)" for fs
  proof (induction fs)
    case (Cons e fs)
    obtain n t where e: "e = (n, t)" by (cases e)
    then have n: "plain_part n" "plain_tree t" using Cons.prems(2) by auto
    show ?case
    proof (cases "WalkFile q \<in> set (walk_entries (''./'' @ d) fs)")
      case True
      then show ?thesis using Cons by auto
    next
      case False
      then have "WalkFile q \<in> set (walk_dir (plain_path False [d, n]) t)"
        using Cons.prems(1) e path_join_dot [OF assms(1) n(1)] by simp
      then obtain r where "q = plain_path False ([d, n] @ r)" "\<forall>x \<in> set r. plain_part x"
        using walk_paths(1) [of "plain_path False [d, n]" False "[d, n]" t q] assms(1) n by auto
      then show ?thesis using n(1) by (intro exI [of _ "n # r"]) auto
    qed
  qed simp
  show ?thesis using entry [of es] assms path_version_dot by auto
qed

section \<open>Applying the files\<close>

text \<open>
  The database as the loop sees it: the version row, the scripts executed so far (their
  file paths, in order), and the script that failed half way, whose other effects are
  unknown.
\<close>

record mig_db =
  recorded :: string
  applied :: "string list"
  dirty :: "string option"

datatype script_db = SDBPostgres | SDBDuckDB | OtherDBType

text \<open>
  The environment of a run. \<open>exec_script\<close> is \<^verbatim>\<open>conn.Exec\<close> of a script in the given
  database: whether it succeeds, and what the version row holds afterwards, also when it
  fails half way (the scripts \<^verbatim>\<open>0.0.11\<close> to \<^verbatim>\<open>0.0.18\<close> of \<^verbatim>\<open>src/migrations\<close> end with
  an update of the row, \<^verbatim>\<open>0.0.15\<close> begins with it). \<open>update_ok\<close> decides whether the
  program's own version update succeeds; \<open>parse_script\<close> is
  \<^verbatim>\<open>db.ParseSQLScriptTemplate\<close> at the chosen database type and vector size. A script
  that deletes the version row is not modelled.
\<close>

record mig_env =
  read_file :: "string \<Rightarrow> string option"
  parse_script :: "script_db \<Rightarrow> string \<Rightarrow> int \<Rightarrow> string option"
  exec_script :: "string \<Rightarrow> mig_db \<Rightarrow> bool \<times> string"
  update_ok :: "string \<Rightarrow> mig_db \<Rightarrow> bool"

datatype mig_error =
    ReadError string
  | ParseError string
  | ApplyError string
  | UpdateError

text \<open>
  One pass of the loop body for a file: the error, or the new value of the variable
  \<^verbatim>\<open>version\<close> and the new database. The update statement writes the \<^emph>\<open>old\<close> value of
  the variable; the assignment comes after it.
\<close>

definition apply_file ::
    "mig_env \<Rightarrow> script_db \<Rightarrow> int \<Rightarrow> mig_file \<Rightarrow> string \<Rightarrow> mig_db \<Rightarrow> mig_error option \<times> string \<times> mig_db" where
  "apply_file env t vs f version db =
     (case read_file env (mf_path f) of
        None \<Rightarrow> (Some (ReadError (mf_path f)), version, db)
      | Some b \<Rightarrow>
     (case parse_script env t b vs of
        None \<Rightarrow> (Some (ParseError (mf_path f)), version, db)
      | Some sql \<Rightarrow>
     (case exec_script env sql db of
        (False, row) \<Rightarrow>
          (Some (ApplyError (mf_path f)), version, db\<lparr>recorded := row, dirty := Some (mf_path f)\<rparr>)
      | (True, row) \<Rightarrow>
        let db' = db\<lparr>recorded := row, applied := applied db @ [mf_path f]\<rparr> in
        if version \<noteq> mf_version f
        then if \<not> update_ok env version db' then (Some UpdateError, version, db')
             else (None, mf_version f, db'\<lparr>recorded := version\<rparr>)
        else (None, version, db'))))"

fun apply_files ::
    "mig_env \<Rightarrow> script_db \<Rightarrow> int \<Rightarrow> mig_file list \<Rightarrow> string \<Rightarrow> mig_db \<Rightarrow> mig_error option \<times> string \<times> mig_db" where
  "apply_files env t vs [] version db = (None, version, db)"
| "apply_files env t vs (f # fs) version db =
     (case apply_file env t vs f version db of
        (Some e, version', db') \<Rightarrow> (Some e, version', db')
      | (None, version', db') \<Rightarrow> apply_files env t vs fs version' db')"

text \<open>The statements after the loop: the last version is written.\<close>

definition finish_version :: "mig_env \<Rightarrow> string \<Rightarrow> mig_db \<Rightarrow> mig_error option \<times> mig_db" where
  "finish_version env version db =
     (if update_ok env version db then (None, db\<lparr>recorded := version\<rparr>) else (Some UpdateError, db))"

definition apply_migrations ::
    "mig_env \<Rightarrow> script_db \<Rightarrow> int \<Rightarrow> mig_file list \<Rightarrow> string \<Rightarrow> mig_db \<Rightarrow> mig_error option \<times> mig_db" where
  "apply_migrations env t vs fs version db =
     (case apply_files env t vs fs version db of
        (Some e, _, db') \<Rightarrow> (Some e, db')
      | (None, version', db') \<Rightarrow> finish_version env version' db')"

text \<open>What the script of the file at \<open>p\<close> does to the version row: success, and the row after it.\<close>

definition script_row :: "mig_env \<Rightarrow> script_db \<Rightarrow> int \<Rightarrow> string \<Rightarrow> mig_db \<Rightarrow> (bool \<times> string) option" where
  "script_row env t vs p db =
     (case read_file env p of
        None \<Rightarrow> None
      | Some b \<Rightarrow> map_option (\<lambda>sql. exec_script env sql db) (parse_script env t b vs))"

lemma apply_file_cases:
  assumes "apply_file env t vs f version db = (e, version', db')"
  obtains (not_run) err where "e = Some err" "version' = version" "db' = db"
      "\<And>p. err \<noteq> ApplyError p" "err \<noteq> UpdateError"
    | (failed) row where "e = Some (ApplyError (mf_path f))" "version' = version"
      "script_row env t vs (mf_path f) db = Some (False, row)"
      "db' = db\<lparr>recorded := row, dirty := Some (mf_path f)\<rparr>"
    | (not_recorded) row where "e = Some UpdateError" "version' = version" "version \<noteq> mf_version f"
      "script_row env t vs (mf_path f) db = Some (True, row)"
      "db' = db\<lparr>recorded := row, applied := applied db @ [mf_path f]\<rparr>"
    | (recorded) row where "e = None" "version \<noteq> mf_version f" "version' = mf_version f"
      "script_row env t vs (mf_path f) db = Some (True, row)"
      "db' = db\<lparr>recorded := version, applied := applied db @ [mf_path f]\<rparr>"
    | (same) row where "e = None" "version = mf_version f" "version' = version"
      "script_row env t vs (mf_path f) db = Some (True, row)"
      "db' = db\<lparr>recorded := row, applied := applied db @ [mf_path f]\<rparr>"
  using assms that
  by (auto simp: apply_file_def script_row_def Let_def split: option.splits prod.splits bool.splits if_splits)

lemma apply_files_SomeE:
  assumes "apply_files env t vs (f # fs) version db = (e, version', db')"
  obtains (stop) err where "e = Some err" "apply_file env t vs f version db = (Some err, version', db')"
    | (step) v1 db1 where "apply_file env t vs f version db = (None, v1, db1)"
      "apply_files env t vs fs v1 db1 = (e, version', db')"
  using assms that by (auto split: prod.splits option.splits)

section \<open>The order of the loop\<close>

text \<open>Versions that compare as equal are written alike (no \<open>1.0\<close> beside \<open>1.0.0\<close>).\<close>

definition canonical_versions :: "string set \<Rightarrow> bool" where
  "canonical_versions V \<longleftrightarrow> (\<forall>a \<in> V. \<forall>b \<in> V. compareVersions a b = 0 \<longrightarrow> a = b)"

text \<open>
  The invariant of the loop, for the value of \<^verbatim>\<open>version\<close> and the files still to do:
  they are in order and none is older than \<^verbatim>\<open>version\<close>.
\<close>

definition loop_inv :: "string \<Rightarrow> mig_file list \<Rightarrow> bool" where
  "loop_inv version fs \<longleftrightarrow> ordered_by file_cmp fs \<and>
     canonical_versions (insert version (mf_version ` set fs)) \<and>
     (\<forall>f \<in> set fs. compareVersions version (mf_version f) \<le> 0)"

lemma canonical_versions_mono: "canonical_versions V \<Longrightarrow> W \<subseteq> V \<Longrightarrow> canonical_versions W"
  by (auto simp: canonical_versions_def)

lemma loop_inv_less:
  assumes "loop_inv version (f # fs)" and "version \<noteq> mf_version f"
  shows "compareVersions version (mf_version f) < 0"
  using assms by (auto simp: loop_inv_def canonical_versions_def order_le_less)

lemma loop_inv_later:
  assumes "loop_inv version (f # fs)" and "g \<in> set fs"
  shows "compareVersions (mf_version f) (mf_version g) \<le> 0"
  using assms by (auto simp: loop_inv_def ordered_by_file_Cons intro: file_cmp_version)

lemma loop_inv_step: "loop_inv version (f # fs) \<Longrightarrow> loop_inv (mf_version f) fs"
  using loop_inv_later by (auto simp: loop_inv_def ordered_by_file_Cons intro: canonical_versions_mono)

lemma apply_file_version:
  "apply_file env t vs f version db = (None, version', db') \<Longrightarrow>
     version' = mf_version f \<and> applied db' = applied db @ [mf_path f]"
  by (auto elim: apply_file_cases)

text \<open>Whatever happens, a prefix of the files has been applied, in order; all of them on success.\<close>

lemma apply_files_prefix:
  assumes "apply_files env t vs fs version db = (e, version', db')"
  shows "\<exists>ds todo. fs = ds @ todo \<and> applied db' = applied db @ map mf_path ds \<and>
     (e = None \<longrightarrow> todo = [] \<and> version' = (if fs = [] then version else mf_version (last fs))) \<and>
     version' \<in> insert version (mf_version ` set ds)"
  using assms
proof (induction fs arbitrary: version db)
  case (Cons f fs)
  from Cons.prems show ?case
  proof (cases rule: apply_files_SomeE)
    case (stop err)
    from stop(2) show ?thesis
    proof (cases rule: apply_file_cases)
      case not_recorded
      then show ?thesis using stop(1) by (intro exI [of _ "[f]"] exI [of _ fs]) auto
    qed (use stop(1) in \<open>auto intro!: exI [of _ "[]"] exI [of _ "f # fs"]\<close>)
  next
    case (step v1 db1)
    obtain ds todo where ih: "fs = ds @ todo" "applied db' = applied db1 @ map mf_path ds"
      "e = None \<longrightarrow> todo = [] \<and> version' = (if fs = [] then v1 else mf_version (last fs))"
      "version' \<in> insert v1 (mf_version ` set ds)"
      using Cons.IH [OF step(2)] by blast
    with apply_file_version [OF step(1)] show ?thesis
      by (intro exI [of _ "f # ds"] exI [of _ todo]) auto
  qed
qed simp

section \<open>Scripts and the version row\<close>

text \<open>
  A script may leave the version row alone, or write at most its own version into it when
  it succeeds and nothing when it fails. The scripts of a folder are orderly when each does
  one or the other, and one that writes the row is the only file of its version.
\<close>

definition leaves_row :: "mig_env \<Rightarrow> script_db \<Rightarrow> int \<Rightarrow> string \<Rightarrow> bool" where
  "leaves_row env t vs p \<longleftrightarrow>
     (\<forall>db ok row. script_row env t vs p db = Some (ok, row) \<longrightarrow> row = recorded db)"

definition writes_own :: "mig_env \<Rightarrow> script_db \<Rightarrow> int \<Rightarrow> string \<Rightarrow> string \<Rightarrow> bool" where
  "writes_own env t vs p v \<longleftrightarrow>
     (\<forall>db ok row. script_row env t vs p db = Some (ok, row) \<longrightarrow>
        row = recorded db \<or> ok \<and> compareVersions row v \<le> 0)"

definition orderly_scripts :: "mig_env \<Rightarrow> script_db \<Rightarrow> int \<Rightarrow> string \<Rightarrow> walk_event list \<Rightarrow> bool" where
  "orderly_scripts env t vs root es \<longleftrightarrow> distinct (walk_files es) \<and>
     (\<forall>p \<in> set (walk_files es). leaves_row env t vs p \<or>
        writes_own env t vs p (path_version root p) \<and>
        (\<forall>q \<in> set (walk_files es).
           compareVersions (path_version root q) (path_version root p) = 0 \<longrightarrow> q = p))"

text \<open>
  The invariant for such scripts, beside \<open>loop_inv\<close>: the recorded version is strictly
  older than every file still to do, and a file whose version is already in the variable
  leaves the row alone.
\<close>

definition orderly_files :: "mig_env \<Rightarrow> script_db \<Rightarrow> int \<Rightarrow> mig_file list \<Rightarrow> bool" where
  "orderly_files env t vs fs \<longleftrightarrow> distinct (map mf_path fs) \<and>
     (\<forall>f \<in> set fs. leaves_row env t vs (mf_path f) \<or>
        writes_own env t vs (mf_path f) (mf_version f) \<and>
        (\<forall>g \<in> set fs. compareVersions (mf_version g) (mf_version f) = 0 \<longrightarrow> mf_path g = mf_path f))"

definition row_inv :: "mig_env \<Rightarrow> script_db \<Rightarrow> int \<Rightarrow> string \<Rightarrow> mig_db \<Rightarrow> mig_file list \<Rightarrow> bool" where
  "row_inv env t vs version db fs \<longleftrightarrow> orderly_files env t vs fs \<and>
     (\<forall>f \<in> set fs. compareVersions (recorded db) (mf_version f) < 0) \<and>
     (\<forall>f \<in> set fs. version = mf_version f \<longrightarrow> leaves_row env t vs (mf_path f))"

lemma orderly_files_tl: "orderly_files env t vs (f # fs) \<Longrightarrow> orderly_files env t vs fs"
  by (auto simp: orderly_files_def)

lemma script_row_failed:
  assumes "orderly_files env t vs (f # fs)" and "script_row env t vs (mf_path f) db = Some (False, row)"
  shows "row = recorded db"
proof -
  have "leaves_row env t vs (mf_path f) \<or> writes_own env t vs (mf_path f) (mf_version f)"
    using assms(1) by (auto simp: orderly_files_def)
  then show ?thesis using assms(2) by (auto simp: leaves_row_def writes_own_def)
qed

lemma orderly_files_Cons:
  assumes "orderly_files env t vs (f # fs)" and "g \<in> set fs" and "compareVersions (mf_version g) (mf_version f) = 0"
  shows "leaves_row env t vs (mf_path f)" and "leaves_row env t vs (mf_path g)"
proof -
  have "mf_path g \<noteq> mf_path f"
    using assms(1,2) by (simp add: orderly_files_def) (metis image_eqI)
  moreover have "compareVersions (mf_version f) (mf_version g) = 0"
    using assms(3) compareVersions_antisym [of "mf_version f" "mf_version g"] by simp
  ultimately show "leaves_row env t vs (mf_path f)" "leaves_row env t vs (mf_path g)"
    using assms unfolding orderly_files_def by (metis list.set_intros)+
qed

lemma script_row_behind:
  assumes inv: "loop_inv version (f # fs)" "row_inv env t vs version db (f # fs)"
    and row: "script_row env t vs (mf_path f) db = Some (True, row)" and g: "g \<in> set fs"
  shows "compareVersions row (mf_version g) < 0"
proof (cases "row = recorded db")
  case True
  then show ?thesis using inv(2) g by (simp add: row_inv_def)
next
  case False
  then have writes: "\<not> leaves_row env t vs (mf_path f)" using row by (auto simp: leaves_row_def)
  then have own: "writes_own env t vs (mf_path f) (mf_version f)"
    using inv(2) by (auto simp: row_inv_def orderly_files_def)
  have only: "compareVersions (mf_version g) (mf_version f) \<noteq> 0"
    using writes inv(2) g orderly_files_Cons(1) by (auto simp: row_inv_def)
  from own have "compareVersions row (mf_version f) \<le> 0"
    using row False by (auto simp: writes_own_def)
  moreover have "compareVersions (mf_version f) (mf_version g) < 0"
    using loop_inv_later [OF inv(1) g] only compareVersions_antisym [of "mf_version g" "mf_version f"]
    by auto
  ultimately show ?thesis by (rule version_cmp.trans_less')
qed

lemma row_inv_version:
  assumes "row_inv env t vs version db (f # fs)" and "g \<in> set fs" and "mf_version f = mf_version g"
  shows "leaves_row env t vs (mf_path g)"
  using assms orderly_files_Cons(2) by (auto simp: row_inv_def)

lemma row_inv_step:
  assumes inv: "loop_inv version (f # fs)" "row_inv env t vs version db (f # fs)"
    and step: "apply_file env t vs f version db = (None, version', db')"
  shows "row_inv env t vs version' db' fs"
proof -
  have "compareVersions (recorded db') (mf_version g) < 0" if g: "g \<in> set fs" for g
    using step
  proof (cases rule: apply_file_cases)
    case recorded
    then show ?thesis
      using version_cmp.trans_less [OF loop_inv_less [OF inv(1)] loop_inv_later [OF inv(1) g]] by simp
  next
    case same
    then show ?thesis using script_row_behind [OF inv same(4) g] by simp
  qed auto
  then show ?thesis
    using inv(2) row_inv_version [OF inv(2)] apply_file_version [OF step]
    by (auto simp: row_inv_def intro: orderly_files_tl)
qed

text \<open>
  Progress: whatever happens, a prefix of the files has been applied, in order, and the
  recorded version stays strictly below every file that has not.
\<close>

lemma apply_files_behind:
  assumes "loop_inv version fs" and "row_inv env t vs version db fs"
    and "apply_files env t vs fs version db = (e, version', db')"
  shows "\<exists>ds todo. fs = ds @ todo \<and> applied db' = applied db @ map mf_path ds \<and>
     (\<forall>f \<in> set todo. compareVersions (recorded db') (mf_version f) < 0)"
  using assms
proof (induction fs arbitrary: version db)
  case (Cons f fs)
  from Cons.prems(3) show ?case
  proof (cases rule: apply_files_SomeE)
    case (stop err)
    have behind: "compareVersions (recorded db) (mf_version g) < 0" if "g \<in> set (f # fs)" for g
      using Cons.prems(2) that by (auto simp: row_inv_def)
    from stop(2) show ?thesis
    proof (cases rule: apply_file_cases)
      case not_run
      then show ?thesis using behind by (intro exI [of _ "[]"] exI [of _ "f # fs"]) auto
    next
      case (failed row)
      have "row = recorded db"
        using script_row_failed failed(3) Cons.prems(2) by (auto simp: row_inv_def)
      then show ?thesis using behind failed by (intro exI [of _ "[]"] exI [of _ "f # fs"]) auto
    next
      case not_recorded
      then show ?thesis using script_row_behind [OF Cons.prems(1,2)]
        by (intro exI [of _ "[f]"] exI [of _ fs]) auto
    qed auto
  next
    case (step v1 db1)
    have "loop_inv v1 fs"
      using loop_inv_step [OF Cons.prems(1)] apply_file_version [OF step(1)] by simp
    from Cons.IH [OF this row_inv_step [OF Cons.prems(1,2) step(1)] step(2)]
    obtain ds todo where "fs = ds @ todo" "applied db' = applied db1 @ map mf_path ds"
      "\<forall>f \<in> set todo. compareVersions (recorded db') (mf_version f) < 0" by blast
    then show ?thesis
      using apply_file_version [OF step(1)] by (intro exI [of _ "f # ds"] exI [of _ todo]) auto
  qed
qed simp

text \<open>Once a file is done, the recorded version is strictly behind the variable.\<close>

lemma apply_file_lag:
  assumes "loop_inv version (f # fs)" and inv: "row_inv env t vs version db (f # fs)"
    and "apply_file env t vs f version db = (None, version', db')"
  shows "compareVersions (recorded db') version' < 0"
  using assms(3)
proof (cases rule: apply_file_cases)
  case recorded
  then show ?thesis using loop_inv_less [OF assms(1)] by simp
next
  case (same row)
  then have "row = recorded db" using inv unfolding row_inv_def leaves_row_def by fastforce
  then show ?thesis using inv same by (simp add: row_inv_def)
qed auto

lemma apply_files_lag:
  assumes "loop_inv version fs" and "row_inv env t vs version db fs"
    and "apply_files env t vs fs version db = (e, version', db')" and "e \<noteq> Some UpdateError"
    and "compareVersions (recorded db) version < 0"
  shows "compareVersions (recorded db') version' < 0"
  using assms
proof (induction fs arbitrary: version db)
  case (Cons f fs)
  from Cons.prems(3) show ?case
  proof (cases rule: apply_files_SomeE)
    case (stop err)
    from stop(2) show ?thesis
    proof (cases rule: apply_file_cases)
      case (failed row)
      have "row = recorded db"
        using script_row_failed failed(3) Cons.prems(2) by (auto simp: row_inv_def)
      then show ?thesis using failed Cons.prems(5) by simp
    qed (use Cons.prems(4,5) stop(1) in auto)
  next
    case (step v1 db1)
    have "loop_inv v1 fs"
      using loop_inv_step [OF Cons.prems(1)] apply_file_version [OF step(1)] by simp
    then show ?thesis
      using Cons.IH [OF _ row_inv_step [OF Cons.prems(1,2) step(1)] step(2) Cons.prems(4)]
        apply_file_lag [OF Cons.prems(1,2) step(1)] by blast
  qed
qed simp

text \<open>A failing script leaves behind the row it wrote.\<close>

lemma apply_files_script_failed:
  assumes "apply_files env t vs fs version db = (Some (ApplyError p), version', db')"
  shows "\<exists>ds f todo db1. fs = ds @ f # todo \<and> p = mf_path f \<and>
     applied db' = applied db @ map mf_path ds \<and>
     script_row env t vs p db1 = Some (False, recorded db')"
  using assms
proof (induction fs arbitrary: version db)
  case (Cons f fs)
  from Cons.prems show ?case
  proof (cases rule: apply_files_SomeE)
    case (stop err)
    from stop(2) show ?thesis
    proof (cases rule: apply_file_cases)
      case (failed row)
      then show ?thesis using stop(1) by (intro exI [of _ "[]"] exI [of _ f] exI [of _ fs] exI [of _ db]) auto
    qed (use stop(1) in auto)
  next
    case (step v1 db1)
    obtain ds g todo db2 where "fs = ds @ g # todo" "p = mf_path g"
      "applied db' = applied db1 @ map mf_path ds" "script_row env t vs p db2 = Some (False, recorded db')"
      using Cons.IH [OF step(2)] by blast
    then show ?thesis
      using apply_file_version [OF step(1)]
      by (intro exI [of _ "f # ds"] exI [of _ g] exI [of _ todo] exI [of _ db2]) auto
  qed
qed simp

section \<open>Runs over a folder\<close>

text \<open>
  A run of the tool over a walk: the files selected for the recorded version, in order.
\<close>

definition migration_run ::
    "mig_env \<Rightarrow> script_db \<Rightarrow> int \<Rightarrow> string \<Rightarrow> string \<Rightarrow> walk_event list \<Rightarrow> mig_db \<Rightarrow> (mig_error option \<times> mig_db) option" where
  "migration_run env t vs fPath fVersion es db =
     map_option (\<lambda>fs. apply_migrations env t vs (sort_files fs) (recorded db) db)
       (collect_files fPath fVersion (recorded db) es)"

definition pending :: "string \<Rightarrow> string \<Rightarrow> walk_event list \<Rightarrow> mig_db \<Rightarrow> string set" where
  "pending fPath fVersion es db =
     set (filter (\<lambda>p. \<not> version_skipped (recorded db) fVersion (path_version fPath p)) (walk_files es))"

definition walk_versions :: "string \<Rightarrow> walk_event list \<Rightarrow> string set" where
  "walk_versions fPath es = set (map (path_version fPath) (walk_files es))"

lemma pending_collect:
  assumes "collect_files fPath fVersion (recorded db) es = Some fs"
  shows "pending fPath fVersion es db = mf_path ` set fs"
proof
  show "mf_path ` set fs \<subseteq> pending fPath fVersion es db"
    using collect_files_Some [OF assms] by (auto simp: pending_def)
  show "pending fPath fVersion es db \<subseteq> mf_path ` set fs"
  proof
    fix p assume "p \<in> pending fPath fVersion es db"
    then have "\<lparr>mf_path = p, mf_version = path_version fPath p\<rparr> \<in> set fs"
      using collect_files_Some [OF assms] by (simp add: pending_def)
    then show "p \<in> mf_path ` set fs" by (metis image_eqI mig_file.select_convs(1))
  qed
qed

lemma sort_files_ordered [simp]: "ordered_by file_cmp (sort_files fs)"
  by (simp add: sort_files_def file_order.ordered_sort_by)

lemma set_sort_files [simp]: "set (sort_files fs) = set fs"
  by (simp add: sort_files_def)

lemma last_sort_files: "sort_files fs \<noteq> [] \<Longrightarrow> last (sort_files fs) \<in> set fs"
  by (metis last_in_set set_sort_files)

lemma collect_files_newer:
  assumes "collect_files fPath fVersion version es = Some fs" and "f \<in> set fs"
  shows "compareVersions version (mf_version f) < 0"
proof -
  have "\<not> version_skipped version fVersion (mf_version f)"
    using collect_files_Some [OF assms(1)] assms(2) by metis
  then show ?thesis by (auto simp: version_skipped_def)
qed

lemma collect_files_distinct:
  "collect_files fPath fVersion version es = Some fs \<Longrightarrow> distinct (walk_files es) \<Longrightarrow> distinct (map mf_path fs)"
proof (induction fPath fVersion version es arbitrary: fs rule: collect_files.induct)
  case (4 fPath fVersion version p es)
  then obtain gs where gs: "collect_files fPath fVersion version es = Some gs" "distinct (map mf_path gs)"
    "fs = gs \<or> fs = \<lparr>mf_path = p, mf_version = path_version fPath p\<rparr> # gs"
    by (auto simp: Let_def split: if_splits)
  moreover have "p \<notin> mf_path ` set gs"
    using collect_files_Some [OF gs(1)] "4.prems"(2) by auto
  ultimately show ?case by auto
qed auto

lemma loop_inv_start:
  assumes "collect_files fPath fVersion (recorded db) es = Some fs"
    and "canonical_versions (insert (recorded db) (walk_versions fPath es))"
  shows "loop_inv (recorded db) (sort_files fs)"
proof -
  have "canonical_versions (insert (recorded db) (mf_version ` set fs))"
    using collect_files_Some [OF assms(1)]
    by (intro canonical_versions_mono [OF assms(2)]) (auto simp: walk_versions_def)
  then show ?thesis
    using collect_files_newer [OF assms(1)] by (auto simp: loop_inv_def order_le_less)
qed

lemma distinct_sort_files: "distinct (map mf_path fs) \<Longrightarrow> distinct (map mf_path (sort_files fs))"
  by (simp add: sort_files_def distinct_map)

lemma row_inv_start:
  assumes fs: "collect_files fPath fVersion (recorded db) es = Some fs"
    and orderly: "orderly_scripts env t vs fPath es"
  shows "row_inv env t vs (recorded db) db (sort_files fs)"
proof -
  have walk: "mf_path f \<in> set (walk_files es) \<and> mf_version f = path_version fPath (mf_path f)"
    if "f \<in> set fs" for f
    using collect_files_Some [OF fs] that by simp
  have "orderly_files env t vs (sort_files fs)"
    using orderly walk collect_files_distinct [OF fs]
    unfolding orderly_files_def orderly_scripts_def by (fastforce intro: distinct_sort_files)
  moreover have "recorded db \<noteq> mf_version f" if "f \<in> set fs" for f
    using collect_files_newer [OF fs that] by auto
  ultimately show ?thesis
    using collect_files_newer [OF fs] by (auto simp: row_inv_def)
qed

lemma apply_migrations_progress:
  assumes run: "apply_migrations env t vs fs version db = (e, db')"
  obtains ds todo where "fs = ds @ todo" "applied db' = applied db @ map mf_path ds"
    "e = None \<Longrightarrow> todo = [] \<and> recorded db' = (if fs = [] then version else mf_version (last fs))"
proof -
  obtain e1 v1 db1 where loop: "apply_files env t vs fs version db = (e1, v1, db1)"
    by (metis prod_cases3)
  obtain ds todo where p: "fs = ds @ todo" "applied db1 = applied db @ map mf_path ds"
    "e1 = None \<longrightarrow> todo = [] \<and> v1 = (if fs = [] then version else mf_version (last fs))"
    using apply_files_prefix [OF loop] by blast
  show ?thesis
    by (rule that [of ds todo])
      (use p run loop in \<open>auto simp: apply_migrations_def finish_version_def split: option.splits if_splits\<close>)
qed

lemma migration_run_SomeE:
  assumes "migration_run env t vs fPath fVersion es db = Some (e, db')"
  obtains fs where "collect_files fPath fVersion (recorded db) es = Some fs"
    "apply_migrations env t vs (sort_files fs) (recorded db) db = (e, db')"
  using assms by (auto simp: migration_run_def)

text \<open>Two runs in a row: what was pending before the first is done or pending again.\<close>

lemma run_keeps_pending:
  assumes canon: "canonical_versions (insert (recorded db) (walk_versions fPath es))"
    and orderly: "orderly_scripts env t vs fPath es"
    and run: "migration_run env t vs fPath fVersion es db = Some (e, db')"
    and p: "p \<in> pending fPath fVersion es db"
  shows "p \<in> set (applied db') \<or> e \<noteq> None \<and> p \<in> pending fPath fVersion es db'"
proof -
  obtain fs where fs: "collect_files fPath fVersion (recorded db) es = Some fs"
    and ap: "apply_migrations env t vs (sort_files fs) (recorded db) db = (e, db')"
    using run by (rule migration_run_SomeE)
  obtain f where f: "f \<in> set fs" "p = mf_path f"
    using p pending_collect [OF fs] by auto
  obtain e1 v1 db1 where loop: "apply_files env t vs (sort_files fs) (recorded db) db = (e1, v1, db1)"
    by (metis prod_cases3)
  show ?thesis
  proof (cases e)
    case None
    then show ?thesis
      using apply_migrations_progress [OF ap] f
      by (metis UnCI append.right_neutral list.set_map image_eqI set_append set_sort_files)
  next
    case (Some err)
    have db': "applied db' = applied db1 \<and> recorded db' = recorded db1"
      using ap loop Some by (auto simp: apply_migrations_def finish_version_def split: option.splits if_splits)
    obtain ds todo where d: "sort_files fs = ds @ todo" "applied db1 = applied db @ map mf_path ds"
      "\<forall>g \<in> set todo. compareVersions (recorded db1) (mf_version g) < 0"
      using apply_files_behind [OF loop_inv_start [OF fs canon] row_inv_start [OF fs orderly] loop] by blast
    have "f \<in> set (ds @ todo)" using f d(1) by (metis set_sort_files)
    moreover have "p \<in> pending fPath fVersion es db'" if "f \<in> set todo"
    proof -
      have "WalkFile p \<in> set es" "mf_version f = path_version fPath p"
        "\<not> version_skipped (recorded db) fVersion (mf_version f)"
        using f collect_files_Some [OF fs] by auto
      moreover have "compareVersions (recorded db') (mf_version f) < 0" using d(3) that db' by simp
      ultimately show ?thesis by (auto simp: pending_def version_skipped_def)
    qed
    ultimately show ?thesis using d db' f(2) Some by auto
  qed
qed

lemma ordered_last_max:
  assumes "ordered_by file_cmp fs" and "f \<in> set fs"
  shows "compareVersions (mf_version f) (mf_version (last fs)) \<le> 0"
proof (cases fs rule: rev_cases)
  case Nil
  then show ?thesis using assms(2) by simp
next
  case (snoc ys y)
  then show ?thesis
    using assms by (auto simp: ordered_by_def sorted_wrt_append intro: file_cmp_version)
qed

lemma run_success:
  assumes canon: "canonical_versions (insert (recorded db) (walk_versions fPath es))"
    and run: "migration_run env t vs fPath fVersion es db = Some (None, db')"
  shows "\<exists>ps. applied db' = applied db @ ps \<and> set ps = pending fPath fVersion es db \<and>
      sorted_wrt (\<lambda>p q. compareVersions (path_version fPath p) (path_version fPath q) \<le> 0) ps"
    and "pending fPath fVersion es db' = {}"
proof -
  obtain fs where fs: "collect_files fPath fVersion (recorded db) es = Some fs"
    and ap: "apply_migrations env t vs (sort_files fs) (recorded db) db = (None, db')"
    using run by (rule migration_run_SomeE)
  let ?s = "sort_files fs"
  obtain ds todo where d: "?s = ds @ todo" "applied db' = applied db @ map mf_path ds"
    "todo = []" "recorded db' = (if ?s = [] then recorded db else mf_version (last ?s))"
    using apply_migrations_progress [OF ap] by metis
  have ver: "mf_version f = path_version fPath (mf_path f)" if "f \<in> set fs" for f
    using collect_files_Some [OF fs] that by metis
  have "sorted_wrt (\<lambda>f g. compareVersions (mf_version f) (mf_version g) \<le> 0) ?s"
    using sort_files_ordered [of fs] unfolding ordered_by_def
    by (rule sorted_wrt_mono_rel [rotated]) (auto intro: file_cmp_version)
  then have "sorted_wrt (\<lambda>f g. compareVersions (path_version fPath (mf_path f)) (path_version fPath (mf_path g)) \<le> 0) ?s"
    by (rule sorted_wrt_mono_rel [rotated]) (auto simp: ver)
  then show "\<exists>ps. applied db' = applied db @ ps \<and> set ps = pending fPath fVersion es db \<and>
      sorted_wrt (\<lambda>p q. compareVersions (path_version fPath p) (path_version fPath q) \<le> 0) ps"
    using d(1,2,3) pending_collect [OF fs] set_sort_files [of fs]
    by (intro exI [of _ "map mf_path ?s"]) (simp add: sorted_wrt_map)
  show "pending fPath fVersion es db' = {}"
  proof (rule ccontr)
    assume "pending fPath fVersion es db' \<noteq> {}"
    then obtain p where p: "WalkFile p \<in> set es"
      "\<not> version_skipped (recorded db') fVersion (path_version fPath p)"
      by (auto simp: pending_def)
    have le: "compareVersions (recorded db) (recorded db') \<le> 0"
    proof (cases "?s = []")
      case False
      then have "last ?s \<in> set ?s" using last_sort_files by simp
      then show ?thesis
        using loop_inv_start [OF fs canon] False d(4) by (auto simp: loop_inv_def)
    qed (use d(4) in simp)
    then have "\<not> version_skipped (recorded db) fVersion (path_version fPath p)"
      using p(2) version_cmp.trans_less' [OF le] by (auto simp: version_skipped_def not_le)
    then have f: "\<lparr>mf_path = p, mf_version = path_version fPath p\<rparr> \<in> set ?s" (is "?f \<in> _")
      using collect_files_Some [OF fs] p(1) by simp
    then have "?s \<noteq> []" by (metis empty_iff empty_set)
    then have "compareVersions (path_version fPath p) (recorded db') \<le> 0"
      using ordered_last_max [OF sort_files_ordered f] d(4) by simp
    then show False
      using p(2) compareVersions_antisym [of "recorded db'" "path_version fPath p"]
      by (auto simp: version_skipped_def)
  qed
qed

lemma run_errorE:
  assumes "migration_run env t vs fPath fVersion es db = Some (Some err, db')" and "err \<noteq> UpdateError"
  obtains fs v where "collect_files fPath fVersion (recorded db) es = Some fs"
    "apply_files env t vs (sort_files fs) (recorded db) db = (Some err, v, db')"
proof -
  obtain fs where fs: "collect_files fPath fVersion (recorded db) es = Some fs"
    and ap: "apply_migrations env t vs (sort_files fs) (recorded db) db = (Some err, db')"
    using assms(1) by (rule migration_run_SomeE)
  obtain e v db1 where loop: "apply_files env t vs (sort_files fs) (recorded db) db = (e, v, db1)"
    by (metis prod_cases3)
  then have "e = Some err \<and> db1 = db'"
    using ap assms(2) by (auto simp: apply_migrations_def finish_version_def split: option.splits if_splits)
  then show ?thesis using that [OF fs] loop by simp
qed

text \<open>
  The recorded version lags: after a run that failed at a script, the files of the newest
  version it applied are pending again, although they were applied.
\<close>

lemma run_replays:
  assumes canon: "canonical_versions (insert (recorded db) (walk_versions fPath es))"
    and orderly: "orderly_scripts env t vs fPath es"
    and run: "migration_run env t vs fPath fVersion es db = Some (Some err, db')"
    and err: "err \<noteq> UpdateError"
    and fresh: "applied db = []"
    and p: "p \<in> set (applied db')"
    and newest: "\<forall>q \<in> set (applied db'). compareVersions (path_version fPath q) (path_version fPath p) \<le> 0"
  shows "p \<in> pending fPath fVersion es db'"
proof -
  obtain fs v where fs: "collect_files fPath fVersion (recorded db) es = Some fs"
    and loop: "apply_files env t vs (sort_files fs) (recorded db) db = (Some err, v, db')"
    using run err by (rule run_errorE)
  note inv = loop_inv_start [OF fs canon] row_inv_start [OF fs orderly]
  obtain ds todo where d: "sort_files fs = ds @ todo" "applied db' = map mf_path ds"
    "v \<in> insert (recorded db) (mf_version ` set ds)"
    using apply_files_prefix [OF loop] fresh by auto
  obtain f where f: "f \<in> set ds" "p = mf_path f" using p d(2) by auto
  have in_fs: "g \<in> set fs" if "g \<in> set ds" for g
    using that d(1) by (metis Un_iff set_append set_sort_files)
  have ver: "mf_version g = path_version fPath (mf_path g)" if "g \<in> set ds" for g
    using collect_files_Some [OF fs] in_fs [OF that] by metis
  have v_le: "compareVersions v (mf_version f) \<le> 0"
    using d(2,3) newest f ver collect_files_newer [OF fs in_fs [OF f(1)]] by auto
  have "compareVersions (recorded db') (mf_version f) < 0"
  proof (cases "sort_files fs")
    case (Cons g gs)
    note loop' = loop [unfolded Cons] and inv' = inv [unfolded Cons]
    from loop' show ?thesis
    proof (cases rule: apply_files_SomeE)
      case (stop e)
      have "recorded db' = recorded db"
        using stop(2) inv'(2) stop(1) err script_row_failed
        by (cases rule: apply_file_cases) (auto simp: row_inv_def)
      then show ?thesis using collect_files_newer [OF fs in_fs [OF f(1)]] by simp
    next
      case (step v1 db1)
      have "loop_inv v1 gs" using loop_inv_step [OF inv'(1)] apply_file_version [OF step(1)] by simp
      then have "compareVersions (recorded db') v < 0"
        using apply_files_lag [OF _ row_inv_step [OF inv' step(1)] step(2)]
          apply_file_lag [OF inv' step(1)] err by simp
      then show ?thesis using v_le by (rule version_cmp.trans_less)
    qed
  qed (use d(1) f(1) in simp)
  then show ?thesis
    using collect_files_Some [OF fs, of f] in_fs [OF f(1)] f(2)
    by (auto simp: pending_def version_skipped_def)
qed

text \<open>
  A script that fails after it has written its own version, or a newer one, into the row:
  its file is not applied, and no later run selects it.
\<close>

lemma run_loses_file:
  assumes walk: "distinct (walk_files es)" and fresh: "applied db = []"
    and run: "migration_run env t vs fPath fVersion es db = Some (Some (ApplyError p), db')"
    and writes: "\<forall>d row. script_row env t vs p d = Some (False, row) \<longrightarrow> compareVersions row (path_version fPath p) \<ge> 0"
  shows "p \<in> pending fPath fVersion es db" and "p \<notin> set (applied db')"
    and "p \<notin> pending fPath fVersion es db'"
proof -
  have "ApplyError p \<noteq> UpdateError" by simp
  from run this obtain fs v where fs: "collect_files fPath fVersion (recorded db) es = Some fs"
    and loop: "apply_files env t vs (sort_files fs) (recorded db) db = (Some (ApplyError p), v, db')"
    by (rule run_errorE)
  obtain ds f todo d where p: "sort_files fs = ds @ f # todo" "p = mf_path f"
    "applied db' = map mf_path ds" "script_row env t vs p d = Some (False, recorded db')"
    using apply_files_script_failed [OF loop] fresh by auto
  have "f \<in> set (sort_files fs)" using p(1) by simp
  then show "p \<in> pending fPath fVersion es db"
    using pending_collect [OF fs] p(2) by auto
  have "distinct (map mf_path (sort_files fs))"
    using collect_files_distinct [OF fs walk] by (rule distinct_sort_files)
  then show "p \<notin> set (applied db')" using p(1,2,3) by simp
  show "p \<notin> pending fPath fVersion es db'"
    using writes p(4) by (auto simp: pending_def version_skipped_def)
qed

section \<open>The database checks and the program\<close>

text \<open>What \<^verbatim>\<open>Ping\<close> and \<^verbatim>\<open>os.Stat\<close> can answer.\<close>

datatype ping_result = PingOk | PingPgError string | PingError
datatype stat_result = StatOk | StatNotExist | StatError

record dsn =
  dsn_db_name :: string
  dsn_other :: string

text \<open>
  The database side of the environment: opening a driver, pinging, looking at a file,
  executing a statement on a connection string, and the query engine's
  \<^verbatim>\<open>sources.ParseDSN\<close> with its \<^verbatim>\<open>String\<close> method and schema template.
\<close>

record db_env =
  open_ok :: "string \<Rightarrow> string \<Rightarrow> bool"
  ping :: "string \<Rightarrow> string \<Rightarrow> ping_result"
  stat :: "string \<Rightarrow> stat_result"
  exec_stmt :: "string \<Rightarrow> string \<Rightarrow> string \<Rightarrow> bool"
  parse_dsn :: "string \<Rightarrow> dsn option"
  dsn_string :: "dsn \<Rightarrow> string"
  init_script :: "script_db \<Rightarrow> int \<Rightarrow> string option"

definition db_type_of :: "string \<Rightarrow> script_db" where
  "db_type_of fCoreDB = (if has_prefix fCoreDB ''postgres://'' then SDBPostgres else SDBDuckDB)"

text \<open>\<open>None\<close> is an error return; otherwise whether the database exists.\<close>

definition checkDBExists :: "db_env \<Rightarrow> script_db \<Rightarrow> string \<Rightarrow> bool option" where
  "checkDBExists env t dbPath =
     (case t of
        SDBPostgres \<Rightarrow>
          if \<not> open_ok env ''pgx'' dbPath then None
          else (case ping env ''pgx'' dbPath of
                  PingPgError code \<Rightarrow> if code = ''3D000'' then Some False else None
                | PingError \<Rightarrow> None
                | PingOk \<Rightarrow> Some True)
      | SDBDuckDB \<Rightarrow>
          if has_prefix dbPath ''s3://'' then None
          else (case stat env dbPath of
                  StatNotExist \<Rightarrow> Some False
                | StatError \<Rightarrow> None
                | StatOk \<Rightarrow>
                    if \<not> open_ok env ''duckdb'' dbPath then None
                    else if ping env ''duckdb'' dbPath \<noteq> PingOk then None
                    else Some True)
      | OtherDBType \<Rightarrow> Some False)"

definition openDB :: "db_env \<Rightarrow> script_db \<Rightarrow> string \<Rightarrow> bool" where
  "openDB env t dbPath =
     (case t of
        SDBPostgres \<Rightarrow> open_ok env ''pgx'' dbPath
      | SDBDuckDB \<Rightarrow> \<not> has_prefix dbPath ''s3://'' \<and> open_ok env ''duckdb'' dbPath
      | OtherDBType \<Rightarrow> False)"

text \<open>
  \<^verbatim>\<open>initDB\<close>: whether it returned nil or an error or panicked, and the statements it
  executed, each with its connection string. In the Postgres case the second
  \<^verbatim>\<open>sql.Open\<close> assigns the \<^verbatim>\<open>err\<close> declared inside the case, so that the check after
  the switch reads the outer one, which is nil: with \<^verbatim>\<open>d\<close> nil the function panics, in
  \<^verbatim>\<open>d.Exec\<close> or, when the template fails, in the deferred \<^verbatim>\<open>d.Close\<close>.
  \<open>init_schema\<close> is what follows the switch on an open database.
\<close>

datatype init_result = InitOk | InitFailed | InitPanics

definition init_schema :: "db_env \<Rightarrow> script_db \<Rightarrow> int \<Rightarrow> string \<Rightarrow> string \<Rightarrow> init_result \<times> (string \<times> string) list" where
  "init_schema env t vs driver dbPath =
     (case init_script env t vs of
        None \<Rightarrow> (InitFailed, [])
      | Some sql \<Rightarrow> (if exec_stmt env driver dbPath sql then InitOk else InitFailed, [(dbPath, sql)]))"

definition initDB :: "db_env \<Rightarrow> script_db \<Rightarrow> int \<Rightarrow> string \<Rightarrow> init_result \<times> (string \<times> string) list" where
  "initDB env t vs dbPath =
     (case t of
        SDBPostgres \<Rightarrow>
          (case parse_dsn env dbPath of
             None \<Rightarrow> (InitFailed, [])
           | Some dbDSN \<Rightarrow>
               let admin = dsn_string env (dbDSN\<lparr>dsn_db_name := ''postgres''\<rparr>);
                   create = ''CREATE DATABASE '' @ [CHR 0x22] @ dsn_db_name dbDSN @ [CHR 0x22] @ '';''
               in if \<not> open_ok env ''pgx'' admin then (InitFailed, [])
                  else if \<not> exec_stmt env ''pgx'' admin create then (InitFailed, [(admin, create)])
                  else if \<not> open_ok env ''pgx'' dbPath then (InitPanics, [(admin, create)])
                  else map_prod id ((#) (admin, create)) (init_schema env t vs ''pgx'' dbPath))
      | SDBDuckDB \<Rightarrow>
          if has_prefix dbPath ''s3://'' then (InitFailed, [])
          else if \<not> open_ok env ''duckdb'' dbPath then (InitFailed, [])
          else init_schema env t vs ''duckdb'' dbPath
      | OtherDBType \<Rightarrow> (InitFailed, []))"

text \<open>The flags, and the points where \<^verbatim>\<open>main\<close> ends; a panic ends a Go program with code 2.\<close>

record mig_flags =
  fCoreDB :: string
  fPath :: string
  fVersion :: string
  fVerbose :: bool
  fVectorSize :: int

datatype mig_exit =
    NoPath | CheckFailed | CreateFailed | CreatePanics | Created | OpenFailed | VersionFailed | TablesFailed
  | WalkFailed | MigrationFailed mig_error | FinishFailed | ShrinkFailed | Migrated

definition exit_code :: "mig_exit \<Rightarrow> nat" where
  "exit_code x = (if x = Created \<or> x = Migrated then 0 else if x = CreatePanics then 2 else 1)"

text \<open>
  \<^verbatim>\<open>main\<close>: \<open>row\<close> is the result of reading the version row, \<open>tables\<close> whether the
  verbose listing succeeds, \<open>root\<close> the tree under the migrations folder (\<open>None\<close> when
  it cannot be read) and \<open>shrink\<close> whether the final checkpoint succeeds.
\<close>

definition migrate_main ::
    "mig_flags \<Rightarrow> db_env \<Rightarrow> mig_env \<Rightarrow> string option \<Rightarrow> bool \<Rightarrow> fs_node option \<Rightarrow> bool \<Rightarrow> mig_db \<Rightarrow> mig_exit \<times> mig_db" where
  "migrate_main fl denv env row tables root shrink db =
     (if fPath fl = [] then (NoPath, db)
      else let t = db_type_of (fCoreDB fl) in
      case checkDBExists denv t (fCoreDB fl) of
        None \<Rightarrow> (CheckFailed, db)
      | Some False \<Rightarrow> (case fst (initDB denv t (fVectorSize fl) (fCoreDB fl)) of
            InitOk \<Rightarrow> Created | InitFailed \<Rightarrow> CreateFailed | InitPanics \<Rightarrow> CreatePanics, db)
      | Some True \<Rightarrow>
      if \<not> openDB denv t (fCoreDB fl) then (OpenFailed, db)
      else case row of None \<Rightarrow> (VersionFailed, db) | Some version \<Rightarrow>
      if fVerbose fl \<and> t \<noteq> SDBPostgres \<and> \<not> tables then (TablesFailed, db)
      else let es = (case root of None \<Rightarrow> [WalkError (fPath fl)] | Some n \<Rightarrow> walk_dir (fPath fl) n) in
      case collect_files (fPath fl) (fVersion fl) version es of None \<Rightarrow> (WalkFailed, db) | Some files \<Rightarrow>
      case apply_files env t (fVectorSize fl) (sort_files files) version db of
        (Some e, _, db') \<Rightarrow> (MigrationFailed e, db')
      | (None, version', db') \<Rightarrow>
          (case finish_version env version' db' of
             (Some _, db'') \<Rightarrow> (FinishFailed, db'')
           | (None, db'') \<Rightarrow>
               if \<not> has_prefix (fCoreDB fl) ''postgres://'' \<and> \<not> shrink then (ShrinkFailed, db'')
               else (Migrated, db'')))"

text \<open>When the program reports success, a run of the loop over the walk has succeeded.\<close>

lemma migrate_main_Migrated:
  assumes "migrate_main fl denv env (Some (recorded db)) tables (Some n) shrink db = (Migrated, db')"
  shows "migration_run env (db_type_of (fCoreDB fl)) (fVectorSize fl) (fPath fl) (fVersion fl)
           (walk_dir (fPath fl) n) db = Some (None, db')"
  using assms
  by (auto simp: migrate_main_def migration_run_def apply_migrations_def finish_version_def Let_def
      split: if_splits option.splits bool.splits prod.splits init_result.splits)

text \<open>An S3 path is never opened, created or migrated.\<close>

lemma migrate_main_s3:
  assumes "has_prefix (fCoreDB fl) ''s3://''" and "fPath fl \<noteq> []"
  shows "migrate_main fl denv env row tables root shrink db = (CheckFailed, db)"
proof -
  have "db_type_of (fCoreDB fl) = SDBDuckDB"
    using assms(1) by (auto simp: db_type_of_def has_prefix_iff)
  then show ?thesis using assms by (simp add: migrate_main_def checkDBExists_def Let_def)
qed

end
