(* ===== verification/Migrate_Correct.thy ===== *)
theory Migrate_Correct
  imports Migrate
begin

text \<open>
  What makes \<^verbatim>\<open>cmd/migrate\<close> correct: the version order, the order of the files, what
  a run leaves pending, and when \<^verbatim>\<open>main\<close> may report success. Every property with a
  hypothesis is applied to a concrete folder of migrations.
\<close>

section \<open>A concrete folder\<close>

definition example_tree :: fs_node where
  "example_tree = FsDir
     [(''0.0.10'', FsDir [(''1-tokens.sql'', FsFile)]),
      (''0.0.9'', FsDir [(''1-roles.sql'', FsFile), (''2-keys.sql'', FsFile)])]"

definition example_walk :: "walk_event list" where
  "example_walk = walk_dir ''/m'' example_tree"

text \<open>The script of \<^verbatim>\<open>0.0.10\<close> writes its version into the row, as \<^verbatim>\<open>0.0.11\<close> and later do.\<close>

definition example_env :: mig_env where
  "example_env = \<lparr>read_file = Some, parse_script = (\<lambda>_ s _. Some s),
     exec_script = (\<lambda>s db. (True, if s = ''/m/0.0.10/1-tokens.sql'' then ''0.0.10'' else recorded db)),
     update_ok = (\<lambda>_ _. True)\<rparr>"

text \<open>
  The same, on a database that refuses the last script: at its first statement, or at a
  statement after the update of the version row it begins with.
\<close>

definition failing_env :: mig_env where
  "failing_env = example_env\<lparr>exec_script := \<lambda>s db. (s \<noteq> ''/m/0.0.10/1-tokens.sql'', recorded db)\<rparr>"

definition late_failing_env :: mig_env where
  "late_failing_env = example_env\<lparr>exec_script :=
     \<lambda>s db. if s = ''/m/0.0.10/1-tokens.sql'' then (False, ''0.0.10'') else (True, recorded db)\<rparr>"

definition example_db :: mig_db where
  "example_db = \<lparr>recorded = ''0.0.8'', applied = [], dirty = None\<rparr>"

named_theorems migrate_eval \<open>definitions of the concrete folder and of the loop\<close>

lemmas [migrate_eval] = example_tree_def example_env_def failing_env_def late_failing_env_def example_db_def

lemma example_walk_eval [migrate_eval]:
  "example_walk = [WalkDirEntry ''/m'', WalkDirEntry ''/m/0.0.10'', WalkFile ''/m/0.0.10/1-tokens.sql'',
     WalkDirEntry ''/m/0.0.9'', WalkFile ''/m/0.0.9/1-roles.sql'', WalkFile ''/m/0.0.9/2-keys.sql'']"
  unfolding example_walk_def example_tree_def by code_simp

lemma example_versions:
  "walk_versions ''/m'' example_walk = {''0.0.10'', ''0.0.9''}"
  unfolding example_walk_eval by code_simp

lemma example_canonical:
  "canonical_versions (insert (recorded example_db) (walk_versions ''/m'' example_walk))"
proof -
  have "compareVersions ''0.0.8'' ''0.0.9'' = -1" "compareVersions ''0.0.8'' ''0.0.10'' = -1"
    "compareVersions ''0.0.9'' ''0.0.10'' = -1" "compareVersions ''0.0.9'' ''0.0.8'' = 1"
    "compareVersions ''0.0.10'' ''0.0.8'' = 1" "compareVersions ''0.0.10'' ''0.0.9'' = 1"
    by code_simp+
  then show ?thesis
    unfolding example_versions canonical_versions_def by (simp add: example_db_def)
qed

definition example_done :: mig_db where
  "example_done = \<lparr>recorded = ''0.0.10'',
     applied = [''/m/0.0.9/1-roles.sql'', ''/m/0.0.9/2-keys.sql'', ''/m/0.0.10/1-tokens.sql''],
     dirty = None\<rparr>"

definition example_half :: mig_db where
  "example_half = \<lparr>recorded = ''0.0.8'',
     applied = [''/m/0.0.9/1-roles.sql'', ''/m/0.0.9/2-keys.sql''],
     dirty = Some ''/m/0.0.10/1-tokens.sql''\<rparr>"

definition example_lost :: mig_db where
  "example_lost = example_half\<lparr>recorded := ''0.0.10''\<rparr>"

lemma example_run:
  "migration_run example_env SDBDuckDB 768 ''/m'' [] example_walk example_db = Some (None, example_done)"
  unfolding migrate_eval example_done_def by code_simp

lemma failing_run:
  "migration_run failing_env SDBDuckDB 768 ''/m'' [] example_walk example_db =
     Some (Some (ApplyError ''/m/0.0.10/1-tokens.sql''), example_half)"
  unfolding migrate_eval example_half_def by code_simp

lemma late_failing_run:
  "migration_run late_failing_env SDBDuckDB 768 ''/m'' [] example_walk example_db =
     Some (Some (ApplyError ''/m/0.0.10/1-tokens.sql''), example_lost)"
  unfolding migrate_eval example_lost_def example_half_def by code_simp

lemma example_script_row:
  "script_row example_env t vs p db =
     Some (True, if p = ''/m/0.0.10/1-tokens.sql'' then ''0.0.10'' else recorded db)"
  "script_row failing_env t vs p db = Some (p \<noteq> ''/m/0.0.10/1-tokens.sql'', recorded db)"
  "script_row late_failing_env t vs p db =
     Some (if p = ''/m/0.0.10/1-tokens.sql'' then (False, ''0.0.10'') else (True, recorded db))"
  by (simp_all add: script_row_def example_env_def failing_env_def late_failing_env_def)

lemma example_orderly:
  "orderly_scripts failing_env SDBDuckDB 768 ''/m'' example_walk"
  "orderly_scripts example_env SDBDuckDB 768 ''/m'' example_walk"
proof -
  have "writes_own example_env SDBDuckDB 768 ''/m/0.0.10/1-tokens.sql'' ''0.0.10''"
    by (auto simp: writes_own_def example_script_row)
  moreover have "leaves_row example_env SDBDuckDB 768 p" if "p \<noteq> ''/m/0.0.10/1-tokens.sql''" for p
    using that by (simp add: leaves_row_def example_script_row)
  moreover have "path_version ''/m'' ''/m/0.0.10/1-tokens.sql'' = ''0.0.10''"
    "path_version ''/m'' ''/m/0.0.9/1-roles.sql'' = ''0.0.9''"
    "path_version ''/m'' ''/m/0.0.9/2-keys.sql'' = ''0.0.9''"
    "compareVersions ''0.0.9'' ''0.0.10'' \<noteq> 0" by code_simp+
  ultimately show "orderly_scripts example_env SDBDuckDB 768 ''/m'' example_walk"
    by (simp add: orderly_scripts_def example_walk_eval)
  have "leaves_row failing_env SDBDuckDB 768 p" for p
    by (simp add: leaves_row_def example_script_row)
  then show "orderly_scripts failing_env SDBDuckDB 768 ''/m'' example_walk"
    by (simp add: orderly_scripts_def example_walk_eval)
qed

lemma example_pending:
  "''/m/0.0.10/1-tokens.sql'' \<in> pending ''/m'' [] example_walk example_db"
  unfolding migrate_eval by code_simp

section \<open>The version order\<close>

definition dotted :: "int list \<Rightarrow> string" where
  "dotted ns = join ''.'' (map itoa ns)"

lemma dot_not_in_itoa: "CHR ''.'' \<notin> set (itoa n)"
proof -
  have "\<not> is_digit CHR ''.''" by (simp add: is_digit_def byte_ord_def)
  then have "CHR ''.'' \<notin> set (digits_of k)" for k
    using digits_of_digits [of k] by (auto simp: list_all_iff)
  then show ?thesis by (simp add: itoa_def)
qed

lemma split_dotted: "ns \<noteq> [] \<Longrightarrow> split CHR ''.'' (dotted ns) = map itoa ns"
  unfolding dotted_def by (rule split_join) (use dot_not_in_itoa in auto)

lemma version_key_dotted:
  assumes "ns \<noteq> []" and "\<forall>n \<in> set ns. clamp_int64 n = n"
  shows "version_key w (dotted ns) = map (\<lambda>i. if i < length ns then ns ! i else 0) [0..<w]"
  using assms by (auto simp: version_key_def version_part_def split_dotted atoi_itoa)

lemma version_len_dotted: "ns \<noteq> [] \<Longrightarrow> version_len (dotted ns) = length ns"
  by (simp add: version_len_def split_dotted)

lemma lex_sign_less: "length xs = length ys \<Longrightarrow> lex_sign xs ys = (if xs < ys then -1 else if ys < xs then 1 else 0)"
  by (induction xs ys rule: list_induct2) auto

text \<open>C35: on versions written as dot-separated numbers of 64 bits, \<open>compareVersions\<close> is
  the lexicographic order of the number lists, the shorter one padded with zeros: -1, 0 or 1 as
  the first is less, equal or greater.\<close>

theorem compareVersions_numeric:
  assumes "ms \<noteq> []" and "ns \<noteq> []"
    and "\<forall>n \<in> set ms \<union> set ns. clamp_int64 n = n"
  shows "compareVersions (dotted ms) (dotted ns) =
     (let w = max (length ms) (length ns);
          pad = (\<lambda>ks. map (\<lambda>i. if i < length ks then ks ! i else 0) [0..<w])
      in if pad ms < pad ns then -1 else if pad ns < pad ms then 1 else (0 :: int))"
proof -
  have "compareVersions (dotted ms) (dotted ns) =
      lex_sign (version_key (max (length ms) (length ns)) (dotted ms)) (version_key (max (length ms) (length ns)) (dotted ns))"
    using assms by (intro compareVersions_key) (simp_all add: version_len_dotted)
  then show ?thesis
    using assms version_key_dotted [OF assms(1)] version_key_dotted [OF assms(2)]
    by (simp add: lex_sign_less Let_def)
qed

theorem compareVersions_numeric_witness: "compareVersions (dotted [0, 0, 9]) (dotted [0, 0, 10, 2]) = -1"
  using compareVersions_numeric [of "[0, 0, 9]" "[0, 0, 10, 2]"]
  by (simp add: clamp_int64_def max_int64_def min_int64_def upt_rec)

text \<open>\<open>compareVersions\<close> is a total preorder with results -1, 0 and 1 on all strings,
  malformed ones included, as \<^verbatim>\<open>slices.SortFunc\<close> requires of its comparison.\<close>

theorem compareVersions_total_preorder:
  "compareVersions a b \<in> {-1, 0, 1} \<and> compareVersions b a = - compareVersions a b \<and>
   (compareVersions a b \<le> 0 \<and> compareVersions b c \<le> 0 \<longrightarrow> compareVersions a c \<le> 0)"
  using compareVersions_range compareVersions_antisym [of b a] compareVersions_trans by blast

theorem compareVersions_total_preorder_witness:
  "compareVersions ''1.x'' ''1.0.1'' \<le> 0"
proof -
  have "compareVersions ''1.x'' ''1'' \<le> 0" "compareVersions ''1'' ''1.0.1'' \<le> 0" by code_simp+
  then show ?thesis using compareVersions_total_preorder [of "''1.x''" "''1''" "''1.0.1''"] by blast
qed

section \<open>The order of the files\<close>

text \<open>The files are applied by version and then by path: \<open>sort_files\<close> permutes the
  selected files into that order, and it is the only list that does, so the unstable
  \<^verbatim>\<open>slices.SortFunc\<close> cannot give another one.\<close>

theorem sort_files_unique:
  assumes "distinct (map mf_path fs)"
  shows "mset gs = mset fs \<and> ordered_by file_cmp gs \<longleftrightarrow> gs = sort_files fs"
proof
  assume gs: "mset gs = mset fs \<and> ordered_by file_cmp gs"
  have "a = b" if "a \<in> set fs" "b \<in> set fs" "file_cmp a b = 0" for a b
  proof -
    have "mf_path a = mf_path b" using that(3) by (auto simp: file_cmp_def Let_def split: if_splits)
    then show ?thesis using assms that by (simp add: distinct_map inj_on_def)
  qed
  then show "gs = sort_files fs"
    unfolding sort_files_def using file_order.sort_by_unique gs by blast
qed (simp add: sort_files_def file_order.ordered_sort_by)

theorem sort_files_unique_witness:
  "let f = (\<lambda>v p. \<lparr>mf_path = p, mf_version = v\<rparr>) in
     sort_files [f ''0.0.10'' ''b'', f ''0.0.9'' ''d'', f ''0.0.9'' ''c''] =
       [f ''0.0.9'' ''c'', f ''0.0.9'' ''d'', f ''0.0.10'' ''b'']"
proof -
  let ?f = "\<lambda>v p. \<lparr>mf_path = p, mf_version = v\<rparr>"
  let ?fs = "[?f ''0.0.10'' ''b'', ?f ''0.0.9'' ''d'', ?f ''0.0.9'' ''c'']"
  let ?gs = "[?f ''0.0.9'' ''c'', ?f ''0.0.9'' ''d'', ?f ''0.0.10'' ''b'']"
  have "ordered_by file_cmp ?gs" by code_simp
  then have "?gs = sort_files ?fs" using sort_files_unique [of ?fs ?gs] by simp
  then show ?thesis by simp
qed

section \<open>What a run leaves behind\<close>

text \<open>C8: no migration is lost by a run over orderly scripts. Whatever fails, a file that was
  pending before the run has been applied by it or is pending for the next one, provided that
  versions that compare as equal are written alike, that a failing script leaves the version row
  as it was, and that a succeeding one leaves it too or, being the only file of its version,
  writes at most that version (\<open>orderly_scripts\<close>). Both conditions are needed:
  \<open>script_update_loses_file\<close> and \<open>equal_versions_lose_file\<close>.\<close>

theorem migration_never_lost:
  assumes "canonical_versions (insert (recorded db) (walk_versions root es))"
    and "orderly_scripts env t vs root es"
    and "migration_run env t vs root tov es db = Some (e, db')"
    and "p \<in> pending root tov es db"
  shows "p \<in> set (applied db') \<or> e \<noteq> None \<and> p \<in> pending root tov es db'"
  using run_keeps_pending [OF assms] .

theorem migration_never_lost_witness:
  "''/m/0.0.10/1-tokens.sql'' \<in> pending ''/m'' [] example_walk example_half"
  using migration_never_lost [OF example_canonical example_orderly(1) failing_run example_pending]
  by (simp add: example_half_def)

text \<open>A script that writes its own version, or a newer one, into the version row and then fails
  (\<^verbatim>\<open>src/migrations/0.0.15\<close> begins with the update) is lost: it was pending, it is not
  applied, and no later run selects it.\<close>

theorem script_update_loses_file:
  assumes "distinct (walk_files es)" and "applied db = []"
    and "migration_run env t vs root tov es db = Some (Some (ApplyError p), db')"
    and "\<forall>d row. script_row env t vs p d = Some (False, row) \<longrightarrow> compareVersions row (path_version root p) \<ge> 0"
  shows "p \<in> pending root tov es db \<and> p \<notin> set (applied db') \<and> p \<notin> pending root tov es db'"
  using run_loses_file [OF assms] by blast

theorem script_update_loses_file_witness:
  "''/m/0.0.10/1-tokens.sql'' \<notin> pending ''/m'' [] example_walk example_lost"
proof -
  have "path_version ''/m'' ''/m/0.0.10/1-tokens.sql'' = ''0.0.10''" by code_simp
  then show ?thesis
    using script_update_loses_file [OF _ _ late_failing_run]
    by (simp add: example_walk_eval example_script_row example_db_def)
qed

text \<open>Versions written differently that compare as equal lose a file too: the folder \<open>1.0.0\<close>
  comes first, the first file of \<open>1.0\<close> records it, and when the second file of \<open>1.0\<close> fails it
  is behind the recorded version.\<close>

definition unequal_tree :: fs_node where
  "unequal_tree = FsDir [(''1.0'', FsDir [(''1-a.sql'', FsFile), (''2-b.sql'', FsFile)]),
     (''1.0.0'', FsDir [(''1-a.sql'', FsFile)])]"

definition unequal_env :: mig_env where
  "unequal_env = example_env\<lparr>exec_script := \<lambda>s db. (s \<noteq> ''/m/1.0/2-b.sql'', recorded db)\<rparr>"

theorem equal_versions_lose_file:
  "(case migration_run unequal_env SDBDuckDB 768 ''/m'' [] (walk_dir ''/m'' unequal_tree) example_db of
      Some (e, db') \<Rightarrow> e = Some (ApplyError ''/m/1.0/2-b.sql'') \<and>
        pending ''/m'' [] (walk_dir ''/m'' unequal_tree) db' = {}
    | None \<Rightarrow> False)"
  unfolding unequal_env_def unequal_tree_def example_env_def example_db_def by code_simp

text \<open>C9: a run that reports no error has applied exactly the pending files, once each in the
  walk, in version order, and leaves nothing pending: a second run selects no file.\<close>

theorem migration_success:
  assumes "canonical_versions (insert (recorded db) (walk_versions root es))"
    and "migration_run env t vs root tov es db = Some (None, db')"
  shows "(\<exists>ps. applied db' = applied db @ ps \<and> set ps = pending root tov es db \<and>
            sorted_wrt (\<lambda>p q. compareVersions (path_version root p) (path_version root q) \<le> 0) ps) \<and>
         pending root tov es db' = {}"
  using run_success [OF assms] by blast

theorem migration_success_witness:
  "pending ''/m'' [] example_walk example_done = {}"
  using migration_success [OF example_canonical example_run] by blast

text \<open>C38: the recorded version lags one version behind. After a run that stopped at a file
  (it could not be read, expanded or executed; not at a failed update of the version row), the
  files of the newest version it applied are pending again although they were applied: the update
  inside the loop writes the version before the assignment. The scripts may write their own
  version into the row when they succeed (\<open>orderly_scripts\<close>): the loop overwrites it with the
  older one.\<close>

theorem failed_run_replays:
  assumes "canonical_versions (insert (recorded db) (walk_versions root es))"
    and "orderly_scripts env t vs root es"
    and "migration_run env t vs root tov es db = Some (Some err, db')"
    and "err \<noteq> UpdateError"
    and "applied db = []"
    and "p \<in> set (applied db')"
    and "\<forall>q \<in> set (applied db'). compareVersions (path_version root q) (path_version root p) \<le> 0"
  shows "p \<in> pending root tov es db'"
  using run_replays [OF assms] .

theorem failed_run_replays_witness:
  "''/m/0.0.9/2-keys.sql'' \<in> pending ''/m'' [] example_walk example_half"
proof (rule failed_run_replays [OF example_canonical example_orderly(1) failing_run])
  show "\<forall>q \<in> set (applied example_half).
      compareVersions (path_version ''/m'' q) (path_version ''/m'' ''/m/0.0.9/2-keys.sql'') \<le> 0"
    unfolding example_half_def by code_simp
qed (simp_all add: example_half_def example_db_def)

text \<open>Below a migrations folder written \<open>./d\<close> every file has the version of the folder's own
  name, since the walk drops the \<open>./\<close> and the prefix is not trimmed: all files are pending or
  none is, as that name compares.\<close>

theorem dot_folder_all_or_none:
  assumes "plain_part d" and "plain_tree (FsDir ns)"
  shows "pending (''./'' @ d) tov (walk_dir (''./'' @ d) (FsDir ns)) db =
     (if version_skipped (recorded db) tov (trim_right d ''.sql'') then {}
      else set (walk_files (walk_dir (''./'' @ d) (FsDir ns))))"
  using walk_version_dot [OF assms] by (auto simp: pending_def)

theorem dot_folder_all_or_none_witness:
  "pending ''./9'' [] (walk_dir ''./9'' (FsDir [(''0.0.3'', FsDir [(''1-a.sql'', FsFile)])])) example_db \<noteq> {}"
proof -
  have "\<not> version_skipped (recorded example_db) [] (trim_right ''9'' ''.sql'')"
    unfolding example_db_def by code_simp
  then show ?thesis
    using dot_folder_all_or_none [of "''9''" "[(''0.0.3'', FsDir [(''1-a.sql'', FsFile)])]" "[]" example_db]
    by (simp add: plain_part_def)
qed

text \<open>A name without a digit compares as version zero, which is older than every recorded one.\<close>

lemma set_split_subset: "x \<in> set (split c s) \<Longrightarrow> set x \<subseteq> set s"
  by (induction c s arbitrary: x rule: split.induct) (fastforce split: if_splits list.splits)+

lemma set_trim_right_subset: "set (trim_right s cs) \<subseteq> set s"
  using set_dropWhileD by (fastforce simp: trim_right_def)

lemma version_part_no_digit:
  assumes "\<forall>c \<in> set s. \<not> is_digit c"
  shows "version_part (split CHR ''.'' s) i = 0"
proof -
  have "fst (atoi x) = 0" if "x \<in> set (split CHR ''.'' s)" for x
  proof -
    have "\<forall>c \<in> set x. \<not> is_digit c" using assms set_split_subset [OF that] by blast
    then have "\<forall>c \<in> set (snd (signed_digits x)). \<not> is_digit c"
      by (auto simp: signed_digits_def split: list.splits)
    then show ?thesis
      by (cases "snd (signed_digits x)") (auto simp: atoi_def case_prod_unfold)
  qed
  then show ?thesis by (simp add: version_part_def)
qed

lemma lex_sign_nonneg: "(\<forall>x \<in> set xs. 0 \<le> x) \<Longrightarrow> (\<forall>y \<in> set ys. y = 0) \<Longrightarrow> 0 \<le> lex_sign xs ys"
  by (induction xs ys rule: lex_sign.induct) auto

lemma no_digit_is_old:
  assumes "ks \<noteq> []" and "\<forall>k \<in> set ks. 0 \<le> k \<and> clamp_int64 k = k" and "\<forall>c \<in> set s. \<not> is_digit c"
  shows "0 \<le> compareVersions (dotted ks) s"
proof -
  let ?w = "max (length ks) (version_len s)"
  have "compareVersions (dotted ks) s = lex_sign (version_key ?w (dotted ks)) (version_key ?w s)"
    using assms(1) by (intro compareVersions_key) (simp_all add: version_len_dotted)
  moreover have "\<forall>y \<in> set (version_key ?w s). y = 0"
    using version_part_no_digit [OF assms(3)] by (auto simp: version_key_def)
  moreover have "\<forall>x \<in> set (version_key ?w (dotted ks)). 0 \<le> x"
    using assms(1,2) by (subst version_key_dotted) auto
  ultimately show ?thesis using lex_sign_nonneg by metis
qed

text \<open>C39: a migrations folder written \<open>./d\<close> hides every migration when its name \<open>d\<close> holds
  no digit, as \<open>./migrations\<close>: whatever the folder holds and whatever version of dot-separated
  numbers is recorded, no file is pending. (A name that compares as newer than the recorded
  version, such as \<open>./9\<close>, makes every file pending: \<open>dot_folder_all_or_none\<close>.)\<close>

theorem dot_folder_skips_all:
  assumes "plain_part d" and "plain_tree (FsDir ns)" and "\<forall>c \<in> set d. \<not> is_digit c"
    and "recorded db = dotted ks" and "ks \<noteq> []" and "\<forall>k \<in> set ks. 0 \<le> k \<and> clamp_int64 k = k"
  shows "pending (''./'' @ d) tov (walk_dir (''./'' @ d) (FsDir ns)) db = {}"
proof -
  have "\<forall>c \<in> set (trim_right d ''.sql''). \<not> is_digit c"
    using assms(3) set_trim_right_subset by blast
  then have "version_skipped (recorded db) tov (trim_right d ''.sql'')"
    using no_digit_is_old assms(4-6) by (simp add: version_skipped_def)
  then show ?thesis
    using walk_version_dot [OF assms(1,2)] by (auto simp: pending_def)
qed

theorem dot_folder_skips_all_witness:
  "pending ''./migrations'' [] (walk_dir ''./migrations''
     (FsDir [(''0.0.9'', FsDir [(''1-roles.sql'', FsFile)])])) example_db = {}"
proof -
  have "recorded example_db = dotted [0, 0, 8]"
    unfolding example_db_def dotted_def by code_simp
  then show ?thesis
    using dot_folder_skips_all [of "''migrations''" "[(''0.0.9'', FsDir [(''1-roles.sql'', FsFile)])]" example_db "[0, 0, 8]" "[]"]
    by (simp add: plain_part_def is_digit_def byte_ord_def clamp_int64_def max_int64_def min_int64_def)
qed

section \<open>The program\<close>

definition example_flags :: "string \<Rightarrow> mig_flags" where
  "example_flags db = \<lparr>fCoreDB = db, fPath = ''/m'', fVersion = [], fVerbose = False, fVectorSize = 768\<rparr>"

definition example_db_env :: db_env where
  "example_db_env = \<lparr>open_ok = (\<lambda>_ _. True), ping = (\<lambda>_ _. PingOk), stat = (\<lambda>_. StatOk),
     exec_stmt = (\<lambda>_ _ _. True), parse_dsn = (\<lambda>_. None), dsn_string = dsn_db_name,
     init_script = (\<lambda>_ _. None)\<rparr>"

text \<open>C13: when \<^verbatim>\<open>main\<close> ends after its loop with exit code 0, every migration pending
  in the folder has been applied, in version order, and none is pending for a second run.\<close>

theorem migrate_main_success:
  assumes "migrate_main fl denv env (Some (recorded db)) tables (Some n) shrink db = (x, db')"
    and "exit_code x = 0" and "x \<noteq> Created"
    and "canonical_versions (insert (recorded db) (walk_versions (fPath fl) (walk_dir (fPath fl) n)))"
  shows "(\<exists>ps. applied db' = applied db @ ps \<and>
            set ps = pending (fPath fl) (fVersion fl) (walk_dir (fPath fl) n) db \<and>
            sorted_wrt (\<lambda>p q. compareVersions (path_version (fPath fl) p) (path_version (fPath fl) q) \<le> 0) ps) \<and>
         pending (fPath fl) (fVersion fl) (walk_dir (fPath fl) n) db' = {}"
proof -
  have "x = Migrated" using assms(2,3) by (simp add: exit_code_def split: if_splits)
  then have "migration_run env (db_type_of (fCoreDB fl)) (fVectorSize fl) (fPath fl) (fVersion fl)
      (walk_dir (fPath fl) n) db = Some (None, db')"
    using assms(1) migrate_main_Migrated by blast
  from run_success [OF assms(4) this] show ?thesis by blast
qed

theorem migrate_main_success_witness:
  "pending ''/m'' [] example_walk example_done = {}"
proof -
  have run: "migrate_main (example_flags ''core.db'') example_db_env example_env (Some (recorded example_db))
      True (Some example_tree) True example_db = (Migrated, example_done)"
    unfolding migrate_eval example_flags_def example_db_env_def example_done_def by code_simp
  have canon: "canonical_versions (insert (recorded example_db)
      (walk_versions (fPath (example_flags ''core.db'')) (walk_dir (fPath (example_flags ''core.db'')) example_tree)))"
    using example_canonical by (simp add: example_flags_def example_walk_def)
  show ?thesis
    using migrate_main_success [OF run _ _ canon]
    by (simp add: exit_code_def example_flags_def flip: example_walk_def)
qed

text \<open>An object-storage path (\<^verbatim>\<open>s3://\<close>) is read-only: \<^verbatim>\<open>main\<close> ends with exit
  code 1 at its first check, without creating, opening or changing a database.\<close>

theorem migrate_main_s3_refused:
  assumes "has_prefix (fCoreDB fl) ''s3://''" and "fPath fl \<noteq> []"
  shows "migrate_main fl denv env row tables root shrink db = (CheckFailed, db) \<and>
         exit_code CheckFailed = 1 \<and>
         \<not> openDB denv (db_type_of (fCoreDB fl)) (fCoreDB fl) \<and>
         initDB denv (db_type_of (fCoreDB fl)) vs (fCoreDB fl) = (InitFailed, [])"
proof -
  have "db_type_of (fCoreDB fl) = SDBDuckDB"
    using assms(1) by (auto simp: db_type_of_def has_prefix_iff)
  then show ?thesis
    using migrate_main_s3 [OF assms] assms(1) by (simp add: exit_code_def openDB_def initDB_def)
qed

theorem migrate_main_s3_refused_witness:
  "fst (migrate_main (example_flags ''s3://bucket/core.db'') example_db_env example_env None True None True example_db)
     = CheckFailed"
  using migrate_main_s3_refused [of "example_flags ''s3://bucket/core.db''" example_db_env example_env None True None True example_db]
  by (simp add: example_flags_def has_prefix_def)

text \<open>With an unreachable or missing database no migration script runs: \<^verbatim>\<open>main\<close>
  reaches the loop only when the check says the database exists and it opens; a missing one is
  only created from the built-in schema, and the version row and folder are not read.\<close>

theorem migrate_main_untouched:
  assumes "checkDBExists denv (db_type_of (fCoreDB fl)) (fCoreDB fl) \<noteq> Some True \<or>
           \<not> openDB denv (db_type_of (fCoreDB fl)) (fCoreDB fl)"
  shows "snd (migrate_main fl denv env row tables root shrink db) = db \<and>
         fst (migrate_main fl denv env row tables root shrink db) \<noteq> Migrated \<and>
         (fst (migrate_main fl denv env row tables root shrink db) = Created \<longleftrightarrow>
            fPath fl \<noteq> [] \<and> checkDBExists denv (db_type_of (fCoreDB fl)) (fCoreDB fl) = Some False \<and>
            fst (initDB denv (db_type_of (fCoreDB fl)) (fVectorSize fl) (fCoreDB fl)) = InitOk)"
  using assms by (auto simp: migrate_main_def Let_def split: option.splits bool.splits init_result.splits)

theorem migrate_main_untouched_witness:
  "fst (migrate_main (example_flags ''new.db'') (example_db_env\<lparr>stat := \<lambda>_. StatNotExist, init_script := \<lambda>_ _. Some ''schema''\<rparr>)
     example_env None True None True example_db) = Created"
proof -
  let ?env = "example_db_env\<lparr>stat := \<lambda>_. StatNotExist, init_script := \<lambda>_ _. Some ''schema''\<rparr>"
  have "checkDBExists ?env (db_type_of ''new.db'') ''new.db'' = Some False"
    and "fst (initDB ?env (db_type_of ''new.db'') 768 ''new.db'') = InitOk"
    unfolding example_db_env_def by code_simp+
  then show ?thesis
    using migrate_main_untouched [of ?env "example_flags ''new.db''" example_env None True None True example_db]
    by (simp add: example_flags_def)
qed

text \<open>Creating a Postgres database: when the database has been created and the second
  \<^verbatim>\<open>sql.Open\<close> fails, the error is lost to the inner \<^verbatim>\<open>err\<close> and \<^verbatim>\<open>main\<close> ends in a
  panic, with code 2, instead of reporting it; the DuckDB case reports it, with code 1.\<close>

theorem initDB_open_failure:
  assumes "\<not> open_ok denv (if t = SDBPostgres then ''pgx'' else ''duckdb'') dbPath"
    and "parse_dsn denv dbPath = Some d"
    and "\<And>q. q \<noteq> dbPath \<Longrightarrow> open_ok denv ''pgx'' q \<and> (\<forall>sql. exec_stmt denv ''pgx'' q sql)"
    and "dsn_string denv (d\<lparr>dsn_db_name := ''postgres''\<rparr>) \<noteq> dbPath"
  shows "fst (initDB denv t vs dbPath) = (if t = SDBPostgres then InitPanics else InitFailed)"
  using assms by (cases t) (auto simp: initDB_def Let_def)

theorem initDB_open_failure_witness:
  "fst (initDB (example_db_env\<lparr>parse_dsn := \<lambda>_. Some \<lparr>dsn_db_name = ''hugr'', dsn_other = []\<rparr>,
     open_ok := \<lambda>_ q. q \<noteq> ''postgres://db/hugr''\<rparr>) SDBPostgres 768 ''postgres://db/hugr'') = InitPanics"
  using initDB_open_failure [of "example_db_env\<lparr>parse_dsn := \<lambda>_. Some \<lparr>dsn_db_name = ''hugr'', dsn_other = []\<rparr>,
     open_ok := \<lambda>_ q. q \<noteq> ''postgres://db/hugr''\<rparr>" SDBPostgres "''postgres://db/hugr''"
     "\<lparr>dsn_db_name = ''hugr'', dsn_other = []\<rparr>" 768]
  by (simp add: example_db_env_def)

end
