(* ===== verification/Go_Encoding.thy ===== *)
theory Go_Encoding
  imports Go_Strings
begin

text \<open>
  The text encodings of the standard library the program uses:
  \<^verbatim>\<open>base64.RawURLEncoding\<close> (the URL-safe alphabet, no padding, not strict: carriage
  returns and line feeds in the input are skipped and unused trailing bits are ignored)
  and \<^verbatim>\<open>hex.EncodeToString\<close>. The contract of such a codec is the locale
  \<open>text_codec\<close>.
\<close>

section \<open>The contract of a codec\<close>

locale text_codec =
  fixes enc :: "bytes \<Rightarrow> string" and dec :: "string \<Rightarrow> bytes option"
  assumes dec_enc: "dec (enc bs) = Some bs"
begin

lemma enc_inject: "enc a = enc b \<longleftrightarrow> a = b"
  by (metis dec_enc option.inject)

lemma dec_enc_iff: "dec (enc a) = Some b \<longleftrightarrow> a = b"
  by (simp add: dec_enc)

end

section \<open>Base64, the URL alphabet\<close>

definition b64_char :: "nat \<Rightarrow> char" where
  "b64_char n = byte_chr
     (if n < 26 then n + 65 else if n < 52 then n + 71 else if n < 62 then n - 4
      else if n = 62 then 45 else 95)"

definition b64_alphabet :: string where
  "b64_alphabet = map b64_char [0..<64]"

text \<open>The value of a character of the alphabet; \<open>None\<close> for any other byte.\<close>

definition b64_val :: "char \<Rightarrow> nat option" where
  "b64_val c = (let n = byte_ord c in
     if 65 \<le> n \<and> n \<le> 90 then Some (n - 65)
     else if 97 \<le> n \<and> n \<le> 122 then Some (n - 71)
     else if 48 \<le> n \<and> n \<le> 57 then Some (n + 4)
     else if n = 45 then Some 62
     else if n = 95 then Some 63
     else None)"

text \<open>The six-bit digits of the bytes, most significant first.\<close>

fun b64_digits :: "bytes \<Rightarrow> nat list" where
  "b64_digits [] = []"
| "b64_digits [a] = (let n = unat a in [n div 4, n mod 4 * 16])"
| "b64_digits [a, b] =
     (let n = unat a * 256 + unat b in [n div 1024, n div 16 mod 64, n mod 16 * 4])"
| "b64_digits (a # b # c # bs) =
     (let n = unat a * 65536 + unat b * 256 + unat c
      in n div 262144 # n div 4096 mod 64 # n div 64 mod 64 # n mod 64 # b64_digits bs)"

definition b64_encode :: "bytes \<Rightarrow> string" where
  "b64_encode bs = map b64_char (b64_digits bs)"

text \<open>Decoding of the digit values; a single left-over digit is an error.\<close>

fun b64_groups :: "nat list \<Rightarrow> bytes option" where
  "b64_groups [] = Some []"
| "b64_groups [a] = None"
| "b64_groups [a, b] = Some [word_of_nat ((a * 64 + b) div 16)]"
| "b64_groups [a, b, c] =
     (let n = (a * 4096 + b * 64 + c) div 4
      in Some [word_of_nat (n div 256), word_of_nat (n mod 256)])"
| "b64_groups (a # b # c # d # ds) =
     (let n = a * 262144 + b * 4096 + c * 64 + d
      in map_option (\<lambda>bs. word_of_nat (n div 65536) # word_of_nat (n div 256 mod 256) #
                          word_of_nat (n mod 256) # bs) (b64_groups ds))"

definition b64_decode :: "string \<Rightarrow> bytes option" where
  "b64_decode s =
     Option.bind (all_some (map b64_val (filter (\<lambda>c. c \<noteq> CHR 0x0A \<and> c \<noteq> CHR 0x0D) s))) b64_groups"

lemma b64_alphabet_text:
  "b64_alphabet = ''ABCDEFGHIJKLMNOPQRSTUVWXYZabcdefghijklmnopqrstuvwxyz0123456789-_''"
  by code_simp

lemma b64_val_char [simp]: "n < 64 \<Longrightarrow> b64_val (b64_char n) = Some n"
  by (auto simp: b64_val_def b64_char_def Let_def)

lemma b64_char_plain [simp]: "n < 64 \<Longrightarrow> b64_char n \<noteq> CHR 0x0A" "n < 64 \<Longrightarrow> b64_char n \<noteq> CHR 0x0D"
  using b64_val_char [of n] by (auto simp: b64_val_def byte_ord_def Let_def)

lemma div_mod_add: "(r::nat) < k \<Longrightarrow> (x * k + r) div k = x" "(r::nat) < k \<Longrightarrow> (x * k + r) mod k = r"
  by simp_all

lemma b64_digits_less: "d \<in> set (b64_digits bs) \<Longrightarrow> d < 64"
proof (induction bs rule: b64_digits.induct)
  case (2 a)
  then show ?case using unat_byte_less [of a] by (auto simp: Let_def less_mult_imp_div_less)
next
  case (3 a b)
  have "unat a * 256 + unat b < 64 * 1024"
    using unat_byte_less [of a] unat_byte_less [of b] by linarith
  then show ?case using 3 by (auto simp: Let_def less_mult_imp_div_less)
next
  case (4 a b c bs)
  have "unat a * 65536 + unat b * 256 + unat c < 64 * 262144"
    using unat_byte_less [of a] unat_byte_less [of b] unat_byte_less [of c] by linarith
  then have "(unat a * 65536 + unat b * 256 + unat c) div 262144 < 64"
    by (rule less_mult_imp_div_less)
  then show ?case using 4 by (auto simp: Let_def)
qed simp

lemma b64_decode_encode_digits: "b64_decode (b64_encode bs) = b64_groups (b64_digits bs)"
proof -
  have "filter (\<lambda>c. c \<noteq> CHR 0x0A \<and> c \<noteq> CHR 0x0D) (b64_encode bs) = b64_encode bs"
    by (rule filter_True) (auto simp: b64_encode_def b64_digits_less)
  moreover have "map b64_val (b64_encode bs) = map (\<lambda>d. Some (id d)) (b64_digits bs)"
    by (simp add: b64_encode_def b64_digits_less)
  ultimately show ?thesis
    using all_some_map_Some [of id "b64_digits bs"] by (simp add: b64_decode_def)
qed

lemma regroup4:
  fixes n :: nat
  shows "n div 262144 * 262144 + n div 4096 mod 64 * 4096 + n div 64 mod 64 * 64 + n mod 64 = n"
proof -
  have "n mod (4096 * 64) = 4096 * (n div 4096 mod 64) + n mod 4096" by (rule mod_mult2_eq)
  moreover have "n mod (64 * 64) = 64 * (n div 64 mod 64) + n mod 64" by (rule mod_mult2_eq)
  moreover have "n div 262144 * 262144 + n mod 262144 = n" by (rule div_mult_mod_eq)
  ultimately show ?thesis by simp
qed

lemma regroup3:
  fixes n :: nat
  shows "n div 1024 * 4096 + n div 16 mod 64 * 64 + n mod 16 * 4 = n * 4"
proof -
  have "n mod (16 * 64) = 16 * (n div 16 mod 64) + n mod 16" by (rule mod_mult2_eq)
  moreover have "n div 1024 * 1024 + n mod 1024 = n" by (rule div_mult_mod_eq)
  ultimately show ?thesis by simp
qed

lemma b64_groups_digits: "b64_groups (b64_digits bs) = Some bs"
proof (induction bs rule: b64_digits.induct)
  case (2 a)
  have "unat a div 4 * 64 + unat a mod 4 * 16 = unat a * 16"
    using div_mult_mod_eq [of "unat a" 4] by linarith
  then show ?case by (simp add: Let_def)
next
  case (3 a b)
  show ?case by (simp add: Let_def regroup3 div_mod_add)
next
  case (4 a b c bs)
  let ?n = "unat a * 65536 + unat b * 256 + unat c"
  have "unat b * 256 + unat c < 65536"
    using unat_byte_less [of b] unat_byte_less [of c] by linarith
  then have "?n div 65536 = unat a"
    using div_mod_add(1) [of "unat b * 256 + unat c" 65536 "unat a"] by simp
  moreover have "?n div 256 = unat a * 256 + unat b"
    using div_mod_add(1) [of "unat c" 256 "unat a * 256 + unat b"] by simp
  moreover have "?n mod 256 = unat c"
  proof -
    have "?n = (unat a * 256 + unat b) * 256 + unat c" by simp
    then show ?thesis by (simp only: div_mod_add unat_byte_less)
  qed
  ultimately show ?case
    by (simp only: b64_digits.simps b64_groups.simps Let_def regroup4 "4.IH") (simp add: div_mod_add)
qed simp

interpretation b64: text_codec b64_encode b64_decode
  by unfold_locales (simp add: b64_decode_encode_digits b64_groups_digits)

lemma length_b64_encode: "length (b64_encode bs) = (4 * length bs + 2) div 3"
proof -
  have "length (b64_digits bs) = (4 * length bs + 2) div 3"
    by (induction bs rule: b64_digits.induct) (simp_all add: Let_def)
  then show ?thesis by (simp add: b64_encode_def)
qed

text \<open>No byte of an encoding needs escaping in a URL.\<close>

lemma b64_encode_safe: "c \<in> set (b64_encode bs) \<Longrightarrow> c \<in> set b64_alphabet"
  by (auto simp: b64_encode_def b64_alphabet_def b64_digits_less)

section \<open>Hexadecimal\<close>

definition hex_digit :: "nat \<Rightarrow> char" where
  "hex_digit n = (if n < 10 then byte_chr (48 + n) else byte_chr (87 + n))"

definition hex_encode :: "bytes \<Rightarrow> string" where
  "hex_encode bs = concat (map (\<lambda>b. [hex_digit (unat b div 16), hex_digit (unat b mod 16)]) bs)"

definition unhex :: "char \<Rightarrow> nat option" where
  "unhex c = (let n = byte_ord c in
     if 48 \<le> n \<and> n \<le> 57 then Some (n - 48)
     else if 97 \<le> n \<and> n \<le> 102 then Some (n - 87)
     else if 65 \<le> n \<and> n \<le> 70 then Some (n - 55)
     else None)"

fun hex_decode :: "string \<Rightarrow> bytes option" where
  "hex_decode [] = Some []"
| "hex_decode [a] = None"
| "hex_decode (a # b # s) =
     (case (unhex a, unhex b) of
        (Some x, Some y) \<Rightarrow> map_option ((#) (word_of_nat (16 * x + y))) (hex_decode s)
      | _ \<Rightarrow> None)"

lemma unhex_hex_digit [simp]: "n < 16 \<Longrightarrow> unhex (hex_digit n) = Some n"
  by (auto simp: hex_digit_def unhex_def Let_def)

interpretation hex: text_codec hex_encode hex_decode
proof
  fix bs show "hex_decode (hex_encode bs) = Some bs"
    by (induction bs) (simp_all add: hex_encode_def less_mult_imp_div_less)
qed

lemma length_hex_encode [simp]: "length (hex_encode bs) = 2 * length bs"
  by (induction bs) (auto simp: hex_encode_def)

end
