(* ===== verification/Go_Utf8.thy ===== *)
theory Go_Utf8
  imports Go_Encoding
begin

text \<open>
  Package \<^verbatim>\<open>unicode/utf8\<close>: the well-formed byte sequences, decoding, encoding, and
  the replacement of invalid bytes by U+FFFD that \<^verbatim>\<open>encoding/json\<close> applies. A byte
  string is cut into chunks, each a well-formed sequence or one invalid byte.
\<close>

definition in_range :: "nat \<Rightarrow> nat \<Rightarrow> char \<Rightarrow> bool" where
  "in_range lo hi c \<longleftrightarrow> lo \<le> byte_ord c \<and> byte_ord c \<le> hi"

text \<open>
  The second byte's bounds by the first byte (\<^verbatim>\<open>acceptRanges\<close> of the package): they
  exclude overlong forms, surrogates and values above U+10FFFF.
\<close>

definition lo_bound :: "nat \<Rightarrow> nat" where
  "lo_bound b = (if b = 224 then 160 else if b = 240 then 144 else 128)"

definition hi_bound :: "nat \<Rightarrow> nat" where
  "hi_bound b = (if b = 237 then 159 else if b = 244 then 143 else 191)"

text \<open>The well-formed sequence a string starts with, and the rest.\<close>

fun utf8_take :: "string \<Rightarrow> (string \<times> string) option" where
  "utf8_take [] = None"
| "utf8_take (a # s) =
     (let b = byte_ord a in
      if b < 128 then Some ([a], s)
      else if 194 \<le> b \<and> b \<le> 223 then
        (case s of
           c # s' \<Rightarrow> if in_range 128 191 c then Some ([a, c], s') else None
         | [] \<Rightarrow> None)
      else if 224 \<le> b \<and> b \<le> 239 then
        (case s of
           c # d # s' \<Rightarrow>
             if in_range (lo_bound b) (hi_bound b) c \<and> in_range 128 191 d
             then Some ([a, c, d], s') else None
         | _ \<Rightarrow> None)
      else if 240 \<le> b \<and> b \<le> 244 then
        (case s of
           c # d # e # s' \<Rightarrow>
             if in_range (lo_bound b) (hi_bound b) c \<and> in_range 128 191 d \<and> in_range 128 191 e
             then Some ([a, c, d, e], s') else None
         | _ \<Rightarrow> None)
      else None)"

declare utf8_take.simps(2) [simp del]

lemma utf8_take_split: "utf8_take s = Some (c, r) \<Longrightarrow> s = c @ r \<and> c \<noteq> []"
  by (cases s) (auto simp: utf8_take.simps(2) Let_def split: if_splits list.splits)

lemma utf8_take_length: "utf8_take s = Some (c, r) \<Longrightarrow> length r < length s"
  by (auto dest!: utf8_take_split)

lemma utf8_take_append: "utf8_take s = Some (c, r) \<Longrightarrow> utf8_take (c @ t) = Some (c, t)"
  by (cases s) (auto simp: utf8_take.simps(2) Let_def split: if_splits list.splits)

lemma utf8_take_ascii [simp]: "byte_ord a < 128 \<Longrightarrow> utf8_take (a # s) = Some ([a], s)"
  by (simp add: utf8_take.simps(2))

text \<open>The value of a well-formed sequence.\<close>

fun rune_of :: "string \<Rightarrow> nat" where
  "rune_of [a] = byte_ord a"
| "rune_of [a, b] = (byte_ord a - 192) * 64 + (byte_ord b - 128)"
| "rune_of [a, b, c] = (byte_ord a - 224) * 4096 + (byte_ord b - 128) * 64 + (byte_ord c - 128)"
| "rune_of [a, b, c, d] =
     (byte_ord a - 240) * 262144 + (byte_ord b - 128) * 4096 + (byte_ord c - 128) * 64 + (byte_ord d - 128)"
| "rune_of _ = 0"

definition rune_error :: string where
  "rune_error = [byte_chr 0xEF, byte_chr 0xBF, byte_chr 0xBD]"

text \<open>\<^verbatim>\<open>utf8.AppendRune\<close>: a surrogate or a value out of range becomes U+FFFD.\<close>

definition encode_rune :: "nat \<Rightarrow> string" where
  "encode_rune n =
     (if n < 128 then [byte_chr n]
      else if n < 2048 then [byte_chr (192 + n div 64), byte_chr (128 + n mod 64)]
      else if 0xD800 \<le> n \<and> n \<le> 0xDFFF \<or> 0x10FFFF < n then rune_error
      else if n < 65536
        then [byte_chr (224 + n div 4096), byte_chr (128 + n div 64 mod 64), byte_chr (128 + n mod 64)]
      else [byte_chr (240 + n div 262144), byte_chr (128 + n div 4096 mod 64),
            byte_chr (128 + n div 64 mod 64), byte_chr (128 + n mod 64)])"

text \<open>Chunks: \<open>Some\<close> of a well-formed sequence, \<open>None\<close> for an invalid byte.\<close>

function utf8_chunks :: "string \<Rightarrow> string option list" where
  "utf8_chunks s =
     (case s of
        [] \<Rightarrow> []
      | a # s' \<Rightarrow> (case utf8_take s of
                     Some (c, r) \<Rightarrow> Some c # utf8_chunks r
                   | None \<Rightarrow> None # utf8_chunks s'))"
  by pat_completeness auto
termination
  by (relation "measure length") (auto dest: utf8_take_length)

declare utf8_chunks.simps [simp del]

lemma utf8_chunks_Nil [simp]: "utf8_chunks [] = []"
  by (simp add: utf8_chunks.simps)

lemma utf8_chunks_take:
  assumes "utf8_take s = Some (c, r)"
  shows "utf8_chunks s = Some c # utf8_chunks r"
proof -
  have "s \<noteq> []" using utf8_take_split [OF assms] by simp
  then obtain a s' where s: "s = a # s'" by (cases s) simp_all
  show ?thesis using assms unfolding s by (subst utf8_chunks.simps) simp
qed

lemma utf8_chunks_invalid: "utf8_take (a # s) = None \<Longrightarrow> utf8_chunks (a # s) = None # utf8_chunks s"
  by (subst utf8_chunks.simps) simp

definition well_formed_chunk :: "string \<Rightarrow> bool" where
  "well_formed_chunk c \<longleftrightarrow> utf8_take c = Some (c, [])"

lemma well_formed_take: "utf8_take s = Some (c, r) \<Longrightarrow> well_formed_chunk c"
  using utf8_take_append [of s c r "[]"] by (simp add: well_formed_chunk_def)

lemma take_well_formed: "well_formed_chunk c \<Longrightarrow> utf8_take (c @ t) = Some (c, t)"
  using utf8_take_append [of c c "[]" t] by (simp add: well_formed_chunk_def)

lemma utf8_chunks_well_formed: "Some c \<in> set (utf8_chunks s) \<Longrightarrow> well_formed_chunk c"
proof (induction s rule: utf8_chunks.induct)
  case (1 s)
  show ?case
  proof (cases s)
    case Nil
    with "1.prems" show ?thesis by simp
  next
    case (Cons a s')
    show ?thesis
    proof (cases "utf8_take s")
      case None
      then show ?thesis using 1 Cons by (auto simp: utf8_chunks_invalid)
    next
      case (Some p)
      then obtain d r where "utf8_take s = Some (d, r)" by (cases p) auto
      then show ?thesis using 1 Cons by (auto simp: utf8_chunks_take intro: well_formed_take)
    qed
  qed
qed

text \<open>Replacing invalid bytes, and strings that need no replacement.\<close>

definition chunk_bytes :: "string option \<Rightarrow> string" where
  "chunk_bytes c = (case c of Some b \<Rightarrow> b | None \<Rightarrow> rune_error)"

definition to_valid_utf8 :: "string \<Rightarrow> string" where
  "to_valid_utf8 s = concat (map chunk_bytes (utf8_chunks s))"

definition valid_utf8 :: "string \<Rightarrow> bool" where
  "valid_utf8 s \<longleftrightarrow> None \<notin> set (utf8_chunks s)"

lemma valid_utf8_id: "valid_utf8 s \<Longrightarrow> to_valid_utf8 s = s"
proof (induction s rule: utf8_chunks.induct)
  case (1 s)
  show ?case
  proof (cases s)
    case Nil
    then show ?thesis by (simp add: to_valid_utf8_def)
  next
    case (Cons a s')
    show ?thesis
    proof (cases "utf8_take s")
      case None
      then show ?thesis using "1.prems" Cons by (simp add: valid_utf8_def utf8_chunks_invalid)
    next
      case (Some p)
      then obtain d r where d: "utf8_take s = Some (d, r)" by (cases p) auto
      then have "to_valid_utf8 r = r"
        using 1 Cons by (simp add: valid_utf8_def utf8_chunks_take)
      then show ?thesis
        using d utf8_take_split [OF d]
        by (simp add: to_valid_utf8_def utf8_chunks_take chunk_bytes_def)
    qed
  qed
qed

lemma rune_error_well_formed: "well_formed_chunk rune_error"
  by (simp add: well_formed_chunk_def rune_error_def utf8_take.simps(2) Let_def in_range_def
      lo_bound_def hi_bound_def)

lemma chunk_bytes_well_formed: "c \<in> set (utf8_chunks s) \<Longrightarrow> well_formed_chunk (chunk_bytes c)"
  by (cases c) (auto simp: chunk_bytes_def rune_error_well_formed utf8_chunks_well_formed)

lemma utf8_chunks_concat:
  "\<forall>b \<in> set bs. well_formed_chunk b \<Longrightarrow> utf8_chunks (concat bs) = map Some bs"
  by (induction bs) (auto simp: take_well_formed utf8_chunks_take)

lemma valid_to_valid [simp]: "valid_utf8 (to_valid_utf8 s)"
  using utf8_chunks_concat [of "map chunk_bytes (utf8_chunks s)"]
  by (auto simp: valid_utf8_def to_valid_utf8_def chunk_bytes_well_formed)

lemma to_valid_idem [simp]: "to_valid_utf8 (to_valid_utf8 s) = to_valid_utf8 s"
  by (simp add: valid_utf8_id)

lemma ascii_valid: "\<forall>c \<in> set s. byte_ord c < 128 \<Longrightarrow> valid_utf8 s"
  by (induction s) (auto simp: valid_utf8_def utf8_chunks_take)

lemma to_valid_ascii: "\<forall>c \<in> set s. byte_ord c < 128 \<Longrightarrow> to_valid_utf8 s = s"
  by (simp add: ascii_valid valid_utf8_id)

end
