(* ===== verification/Go_JsonString.thy ===== *)
theory Go_JsonString
  imports Go_Utf8
begin

text \<open>
  JSON string literals as \<^verbatim>\<open>encoding/json\<close> writes them (HTML-safe escaping, invalid
  UTF-8 replaced, U+2028 and U+2029 escaped) and reads them (escapes, surrogate pairs,
  control characters refused).
\<close>

section \<open>Writing\<close>

definition backslash :: char where "backslash = CHR 0x5C"
definition dquote :: char where "dquote = CHR 0x22"

text \<open>The ASCII bytes that are copied: \<^verbatim>\<open>htmlSafeSet\<close>.\<close>

definition html_safe :: "char \<Rightarrow> bool" where
  "html_safe c \<longleftrightarrow> 32 \<le> byte_ord c \<and> byte_ord c < 128 \<and> c \<noteq> dquote \<and> c \<noteq> backslash \<and>
     c \<noteq> CHR ''<'' \<and> c \<noteq> CHR ''>'' \<and> c \<noteq> CHR ''&''"

definition escape_ascii :: "char \<Rightarrow> string" where
  "escape_ascii c =
     (if html_safe c then [c]
      else if c = backslash \<or> c = dquote then [backslash, c]
      else if byte_ord c = 8 then [backslash, CHR ''b'']
      else if byte_ord c = 12 then [backslash, CHR ''f'']
      else if byte_ord c = 10 then [backslash, CHR ''n'']
      else if byte_ord c = 13 then [backslash, CHR ''r'']
      else if byte_ord c = 9 then [backslash, CHR ''t'']
      else [backslash, CHR ''u'', CHR ''0'', CHR ''0'', hex_digit (byte_ord c div 16), hex_digit (byte_ord c mod 16)])"

definition escape_chunk :: "string option \<Rightarrow> string" where
  "escape_chunk ch = (case ch of
       None \<Rightarrow> backslash # ''ufffd''
     | Some b \<Rightarrow>
         if length b = 1 then escape_ascii (hd b)
         else if rune_of b = 0x2028 then backslash # ''u2028''
         else if rune_of b = 0x2029 then backslash # ''u2029''
         else b)"

definition json_quote :: "string \<Rightarrow> string" where
  "json_quote s = dquote # concat (map escape_chunk (utf8_chunks s)) @ [dquote]"

section \<open>Reading\<close>

fun hex4 :: "string \<Rightarrow> (nat \<times> string) option" where
  "hex4 (a # b # c # d # s) =
     (case (unhex a, unhex b, unhex c, unhex d) of
        (Some i, Some j, Some k, Some l) \<Rightarrow> Some (((i * 16 + j) * 16 + k) * 16 + l, s)
      | _ \<Rightarrow> None)"
| "hex4 _ = None"

lemma hex4_length: "hex4 s = Some (n, r) \<Longrightarrow> length r < length s"
  by (induction s rule: hex4.induct) (auto split: option.splits)

definition is_surrogate :: "nat \<Rightarrow> bool" where
  "is_surrogate n \<longleftrightarrow> 0xD800 \<le> n \<and> n < 0xE000"

text \<open>\<^verbatim>\<open>utf16.DecodeRune\<close>: \<open>None\<close> where it returns the replacement character.\<close>

definition utf16_pair :: "nat \<Rightarrow> nat \<Rightarrow> nat option" where
  "utf16_pair r1 r2 =
     (if 0xD800 \<le> r1 \<and> r1 < 0xDC00 \<and> 0xDC00 \<le> r2 \<and> r2 < 0xE000
      then Some ((r1 - 0xD800) * 1024 + (r2 - 0xDC00) + 0x10000) else None)"

text \<open>The second half of a pair, \<^verbatim>\<open>getu4\<close> at the following escape.\<close>

definition next_u4 :: "string \<Rightarrow> (nat \<times> string) option" where
  "next_u4 s = (case s of
       b # u # r \<Rightarrow> if b = backslash \<and> u = CHR ''u'' then hex4 r else None
     | _ \<Rightarrow> None)"

text \<open>What follows \<^verbatim>\<open>\u\<close>: the bytes it stands for and the rest.\<close>

definition unquote_u :: "string \<Rightarrow> (string \<times> string) option" where
  "unquote_u s = (case hex4 s of
       None \<Rightarrow> None
     | Some (n, r) \<Rightarrow>
         if is_surrogate n then
           (case next_u4 r of
              None \<Rightarrow> Some (rune_error, r)
            | Some (m, r') \<Rightarrow> (case utf16_pair n m of
                                Some v \<Rightarrow> Some (encode_rune v, r')
                              | None \<Rightarrow> Some (rune_error, r)))
         else Some (encode_rune n, r))"

definition simple_escape :: "char \<Rightarrow> char option" where
  "simple_escape c =
     (if c = dquote \<or> c = backslash \<or> c = CHR ''/'' then Some c
      else if c = CHR ''b'' then Some (byte_chr 8)
      else if c = CHR ''f'' then Some (byte_chr 12)
      else if c = CHR ''n'' then Some (byte_chr 10)
      else if c = CHR ''r'' then Some (byte_chr 13)
      else if c = CHR ''t'' then Some (byte_chr 9)
      else None)"

text \<open>One unit of a literal after the opening quote: its bytes and the rest.\<close>

definition unquote_step :: "string \<Rightarrow> (string \<times> string) option" where
  "unquote_step s = (case s of
       [] \<Rightarrow> None
     | c # r \<Rightarrow>
         if c = backslash then
           (case r of
              [] \<Rightarrow> None
            | e # r' \<Rightarrow> if e = CHR ''u'' then unquote_u r'
                        else map_option (\<lambda>x. ([x], r')) (simple_escape e))
         else if byte_ord c < 32 then None
         else if byte_ord c < 128 then Some ([c], r)
         else (case utf8_take s of
                 Some (b, r') \<Rightarrow> Some (b, r')
               | None \<Rightarrow> Some (rune_error, r)))"

lemma next_u4_length: "next_u4 s = Some (n, r) \<Longrightarrow> length r < length s"
  by (auto simp: next_u4_def dest!: hex4_length split: list.splits if_splits)

lemma unquote_u_length: "unquote_u s = Some (b, r) \<Longrightarrow> length r < length s"
  by (auto simp: unquote_u_def dest!: hex4_length next_u4_length split: option.splits if_splits)

lemma unquote_step_length: "unquote_step s = Some (b, r) \<Longrightarrow> length r < length s"
  by (cases s) (auto simp: unquote_step_def dest!: unquote_u_length utf8_take_length
      split: list.splits if_splits option.splits)

text \<open>The whole literal after its opening quote, up to and with the closing one.\<close>

function unquote :: "string \<Rightarrow> (string \<times> string) option" where
  "unquote s =
     (if s \<noteq> [] \<and> hd s = dquote then Some ([], tl s)
      else case unquote_step s of
        None \<Rightarrow> None
      | Some (b, r) \<Rightarrow> map_option (\<lambda>(x, t). (b @ x, t)) (unquote r))"
  by pat_completeness auto
termination
  by (relation "measure length") (auto dest: unquote_step_length)

declare unquote.simps [simp del]

lemma unquote_end [simp]: "unquote (dquote # r) = Some ([], r)"
  by (simp add: unquote.simps)

lemma unquote_length: "unquote s = Some (x, r) \<Longrightarrow> length r < length s"
proof (induction s arbitrary: x r rule: unquote.induct)
  case (1 s)
  show ?case
  proof (cases "s \<noteq> [] \<and> hd s = dquote")
    case True
    then show ?thesis using "1.prems" by (cases s) (auto simp: unquote.simps)
  next
    case False
    with "1.prems" obtain b t y where t: "unquote_step s = Some (b, t)" "unquote t = Some (y, r)"
      by (subst (asm) unquote.simps) (auto split: option.splits if_splits)
    have "length r < length t" by (rule "1.IH" [OF False t(1) refl t(2)])
    then show ?thesis using unquote_step_length [OF t(1)] by simp
  qed
qed

section \<open>Round trip\<close>

lemma unquote_step_unquote:
  "unquote_step s = Some (b, r) \<Longrightarrow> s = [] \<or> hd s \<noteq> dquote \<Longrightarrow>
   unquote s = map_option (\<lambda>(x, t). (b @ x, t)) (unquote r)"
  by (subst unquote.simps) auto

lemma special_ord: "byte_ord backslash = 92" "byte_ord dquote = 34"
  by (simp_all add: backslash_def dquote_def byte_ord_def)

lemma escape_ascii_step:
  assumes "byte_ord c < 128"
  shows "unquote_step (escape_ascii c @ r) = Some ([c], r)" and "hd (escape_ascii c) \<noteq> dquote"
proof -
  have bd: "backslash \<noteq> dquote" by (simp add: backslash_def dquote_def)
  show "hd (escape_ascii c) \<noteq> dquote" using bd by (simp add: escape_ascii_def html_safe_def)
  have u: "unquote_u (CHR ''0'' # CHR ''0'' # hex_digit (byte_ord c div 16) # hex_digit (byte_ord c mod 16) # r)
      = Some ([c], r)"
  proof -
    have z: "unhex CHR ''0'' = Some 0" by (simp add: unhex_def)
    have "byte_ord c div 16 < 16" using assms by (simp add: less_mult_imp_div_less)
    then have "hex4 (CHR ''0'' # CHR ''0'' # hex_digit (byte_ord c div 16) # hex_digit (byte_ord c mod 16) # r)
        = Some (byte_ord c, r)"
      by (simp add: z)
    moreover have "\<not> is_surrogate (byte_ord c)" using assms by (simp add: is_surrogate_def)
    ultimately show ?thesis using assms by (simp add: unquote_u_def encode_rune_def)
  qed
  show "unquote_step (escape_ascii c @ r) = Some ([c], r)"
  proof (cases "html_safe c")
    case True
    then show ?thesis by (simp add: escape_ascii_def unquote_step_def html_safe_def)
  next
    case False
    have o: "byte_ord c = n \<Longrightarrow> byte_chr n = c" for n by (metis chr_ord)
    have "simple_escape CHR ''b'' = Some (byte_chr 8)" "simple_escape CHR ''f'' = Some (byte_chr 12)"
      "simple_escape CHR ''n'' = Some (byte_chr 10)" "simple_escape CHR ''r'' = Some (byte_chr 13)"
      "simple_escape CHR ''t'' = Some (byte_chr 9)"
      by (simp_all add: simple_escape_def backslash_def dquote_def)
    moreover have "simple_escape backslash = Some backslash" "simple_escape dquote = Some dquote"
      by (simp_all add: simple_escape_def)
    moreover have "dquote \<noteq> CHR ''u''" "backslash \<noteq> CHR ''u''"
      by (simp_all add: dquote_def backslash_def)
    ultimately show ?thesis using False u by (auto simp: escape_ascii_def unquote_step_def o)
  qed
qed

lemma well_formed_single: "well_formed_chunk b \<Longrightarrow> length b = 1 \<Longrightarrow> \<exists>c. b = [c] \<and> byte_ord c < 128"
  by (cases b) (auto simp: well_formed_chunk_def utf8_take.simps(2) Let_def split: if_splits)

lemma well_formed_multi:
  assumes "well_formed_chunk b" and "length b \<noteq> 1"
  shows "\<exists>c r. b = c # r \<and> 194 \<le> byte_ord c"
proof -
  obtain c r where b: "b = c # r"
    using assms(1) by (cases b) (auto simp: well_formed_chunk_def)
  have "194 \<le> byte_ord c"
    using assms by (auto simp: b well_formed_chunk_def utf8_take.simps(2) Let_def split: if_splits)
  with b show ?thesis by blast
qed

lemma escape_u_step:
  assumes "hex4 h = Some (n, [])" and "\<not> is_surrogate n"
  shows "unquote_step (backslash # CHR ''u'' # h @ r) = Some (encode_rune n, r)"
proof -
  have "hex4 (h @ r) = Some (n, r)"
    using assms(1) by (cases h rule: hex4.cases) (auto split: option.splits)
  then show ?thesis using assms(2) by (simp add: unquote_step_def unquote_u_def)
qed

text \<open>The two line separators are the only three-byte sequences with their rune values.\<close>

lemma well_formed_rune3:
  assumes "well_formed_chunk b" and "rune_of b = 0x2028 \<or> rune_of b = 0x2029"
  shows "encode_rune (rune_of b) = b"
proof -
  have rng: "in_range lo hi c \<longleftrightarrow> lo \<le> byte_ord c \<and> byte_ord c \<le> hi" for lo hi c
    by (simp add: in_range_def)
  obtain x xs where b: "b = x # xs"
    using assms(1) by (cases b) (auto simp: well_formed_chunk_def)
  consider "xs = []" | y where "xs = [y]" | y z where "xs = [y, z]" | y z w where "xs = [y, z, w]"
    using assms(1) b by (auto simp: well_formed_chunk_def utf8_take.simps(2) Let_def
        split: if_splits list.splits)
  then show ?thesis
  proof cases
    case 1
    then show ?thesis using assms(2) b ord_less [of x] by simp
  next
    case (2 y)
    have "byte_ord x \<le> 223" "byte_ord y \<le> 191"
      using assms(1) b 2 by (auto simp: well_formed_chunk_def utf8_take.simps(2) Let_def rng split: if_splits)
    then have "(byte_ord x - 192) * 64 + (byte_ord y - 128) \<le> 2047" by arith
    then have "rune_of b \<le> 2047" using b 2 by simp
    then show ?thesis using assms(2) by linarith
  next
    case (3 y z)
    have r: "224 \<le> byte_ord x" "byte_ord x \<le> 239" "128 \<le> byte_ord y" "byte_ord y \<le> 191"
      "128 \<le> byte_ord z" "byte_ord z \<le> 191"
      using assms(1) b 3 by (auto simp: well_formed_chunk_def utf8_take.simps(2) Let_def rng
          lo_bound_def hi_bound_def split: if_splits)
    define i j k where "i = byte_ord x - 224" and "j = byte_ord y - 128" and "k = byte_ord z - 128"
    have lt: "j < 64" "k < 64" using r by (simp_all add: j_def k_def)
    have n: "rune_of b = i * 4096 + (j * 64 + k)" using b 3 by (simp add: i_def j_def k_def)
    have "j * 64 + k < 4096" using lt by linarith
    then have d1: "rune_of b div 4096 = i" unfolding n by (rule div_mod_add(1))
    have n': "rune_of b = (i * 64 + j) * 64 + k" using n by simp
    have d2: "rune_of b div 64 = i * 64 + j" "rune_of b mod 64 = k"
      unfolding n' using div_mod_add [OF lt(2)] by blast+
    have d3: "rune_of b div 64 mod 64 = j" using d2(1) div_mod_add(2) [OF lt(1)] by metis
    have "encode_rune (rune_of b) = [byte_chr (224 + i), byte_chr (128 + j), byte_chr (128 + k)]"
      using assms(2) unfolding encode_rune_def d1 d2(2) d3 by auto
    moreover have "224 + i = byte_ord x" "128 + j = byte_ord y" "128 + k = byte_ord z"
      using r by (simp_all add: i_def j_def k_def)
    ultimately show ?thesis using b 3 by simp
  next
    case (4 y z w)
    have r: "240 \<le> byte_ord x" "byte_ord x \<le> 244" "lo_bound (byte_ord x) \<le> byte_ord y"
      "128 \<le> byte_ord z" "128 \<le> byte_ord w"
      using assms(1) b 4 by (auto simp: well_formed_chunk_def utf8_take.simps(2) Let_def rng split: if_splits)
    have "65536 \<le> (byte_ord x - 240) * 262144 + (byte_ord y - 128) * 4096"
      using r by (cases "byte_ord x = 240") (auto simp: lo_bound_def)
    then have "65536 \<le> rune_of b" using b 4 by simp
    then show ?thesis using assms(2) by simp
  qed
qed

lemma escape_chunk_step:
  assumes "c = None \<or> (\<exists>b. c = Some b \<and> well_formed_chunk b)"
  shows "unquote_step (escape_chunk c @ r) = Some (chunk_bytes c, r)" (is ?step)
    and "escape_chunk c \<noteq> [] \<and> hd (escape_chunk c) \<noteq> dquote" (is ?hd)
proof -
  have bd: "backslash \<noteq> dquote" by (simp add: backslash_def dquote_def)
  have hex: "hex4 ''fffd'' = Some (0xFFFD, [])" "hex4 ''2028'' = Some (0x2028, [])" "hex4 ''2029'' = Some (0x2029, [])"
    by (simp_all add: unhex_def byte_ord_def)
  have "?step \<and> ?hd"
  proof (cases c)
    case None
    have "unquote_step (backslash # CHR ''u'' # ''fffd'' @ r) = Some (encode_rune 0xFFFD, r)"
      by (rule escape_u_step [OF hex(1)]) (simp add: is_surrogate_def)
    moreover have "encode_rune 0xFFFD = rune_error" by (simp add: encode_rune_def rune_error_def)
    ultimately show ?thesis using None bd by (simp add: escape_chunk_def chunk_bytes_def)
  next
    case (Some b)
    then have wf: "well_formed_chunk b" using assms by simp
    show ?thesis
    proof (cases "length b = 1")
      case True
      then obtain x where "b = [x]" "byte_ord x < 128" using well_formed_single wf by blast
      then show ?thesis
        using Some escape_ascii_step(1) [of x r] escape_ascii_step(2) [of x]
        by (auto simp: escape_chunk_def chunk_bytes_def escape_ascii_def)
    next
      case False
      obtain x xs where x: "b = x # xs" "194 \<le> byte_ord x" using well_formed_multi [OF wf False] by blast
      have copy: "unquote_step (b @ r) = Some (b, r)"
        using x take_well_formed [OF wf, of r] special_ord
        by (auto simp: unquote_step_def)
      have u: "unquote_step (backslash # CHR ''u'' # ''2028'' @ r) = Some (encode_rune 0x2028, r)"
        "unquote_step (backslash # CHR ''u'' # ''2029'' @ r) = Some (encode_rune 0x2029, r)"
        by (rule escape_u_step [OF hex(2)], simp add: is_surrogate_def)
          (rule escape_u_step [OF hex(3)], simp add: is_surrogate_def)
      have "x \<noteq> dquote" using x(2) special_ord by auto
      then show ?thesis
        using Some False copy u bd x(1) well_formed_rune3 [OF wf]
        by (auto simp: escape_chunk_def chunk_bytes_def)
    qed
  qed
  then show ?step ?hd by simp_all
qed

lemma unquote_chunks:
  "\<forall>c \<in> set cs. c = None \<or> (\<exists>b. c = Some b \<and> well_formed_chunk b) \<Longrightarrow>
   unquote (concat (map escape_chunk cs) @ dquote # r) = Some (concat (map chunk_bytes cs), r)"
proof (induction cs)
  case (Cons c cs)
  have c: "c = None \<or> (\<exists>b. c = Some b \<and> well_formed_chunk b)" using Cons.prems by simp
  let ?t = "concat (map escape_chunk cs) @ dquote # r"
  have "unquote (escape_chunk c @ ?t) = map_option (\<lambda>(x, t). (chunk_bytes c @ x, t)) (unquote ?t)"
    by (rule unquote_step_unquote [OF escape_chunk_step(1) [OF c]])
      (use escape_chunk_step(2) [OF c] in auto)
  then show ?case using Cons by simp
qed simp

text \<open>Reading back what was written gives the string with its invalid bytes replaced.\<close>

lemma unquote_json_quote: "unquote (tl (json_quote s) @ r) = Some (to_valid_utf8 s, r)"
  using unquote_chunks [of "utf8_chunks s" r] utf8_chunks_well_formed
  by (auto simp: json_quote_def to_valid_utf8_def) (metis not_Some_eq)

lemma json_quote_Cons: "json_quote s = dquote # tl (json_quote s)"
  by (simp add: json_quote_def)

end
