(* ===== verification/Go_Json.thy ===== *)
theory Go_Json
  imports Go_JsonString
begin

text \<open>
  \<^verbatim>\<open>encoding/json\<close>: JSON values, their compact text (\<^verbatim>\<open>json.Marshal\<close>,
  \<^verbatim>\<open>Encoder.Encode\<close>), the parser behind \<^verbatim>\<open>Unmarshal\<close> and \<^verbatim>\<open>Decoder.Decode\<close>
  with its nesting limit, and the way object members reach the fields of a struct:
  exact name first, then a case-insensitive match, the last member winning, \<^verbatim>\<open>null\<close>
  leaving the field alone, any type mismatch making the whole call fail.
\<close>

datatype json =
    JNull
  | JBool bool
  | JNum string \<comment> \<open>the literal as written\<close>
  | JStr string
  | JArr "json list"
  | JObj "(string \<times> json) list"

section \<open>Text\<close>

fun json_text :: "json \<Rightarrow> string" where
  "json_text JNull = ''null''"
| "json_text (JBool b) = (if b then ''true'' else ''false'')"
| "json_text (JNum lit) = lit"
| "json_text (JStr s) = json_quote s"
| "json_text (JArr xs) = ''['' @ join '','' (map json_text xs) @ '']''"
| "json_text (JObj ms) = ''{'' @ join '','' (map (\<lambda>(k, v). json_quote k @ '':'' @ json_text v) ms) @ ''}''"

definition JInt :: "int \<Rightarrow> json" where
  "JInt n = JNum (itoa n)"

text \<open>\<^verbatim>\<open>Encoder.Encode\<close> ends the text with a line feed.\<close>

definition json_line :: "json \<Rightarrow> string" where
  "json_line j = json_text j @ [CHR 0x0A]"

section \<open>Parsing\<close>

definition is_space :: "char \<Rightarrow> bool" where
  "is_space c \<longleftrightarrow> byte_ord c \<in> {32, 9, 10, 13}"

definition skip_ws :: "string \<Rightarrow> string" where
  "skip_ws s = dropWhile is_space s"

lemma skip_ws_length: "length (skip_ws s) \<le> length s"
  by (simp add: skip_ws_def length_dropWhile_le)

definition take_digits :: "string \<Rightarrow> string \<times> string" where
  "take_digits s = (takeWhile is_digit s, dropWhile is_digit s)"

text \<open>The number grammar: sign, integer part without leading zeros, fraction, exponent.\<close>

definition take_int :: "string \<Rightarrow> (string \<times> string) option" where
  "take_int s = (case s of
       [] \<Rightarrow> None
     | c # r \<Rightarrow> if c = CHR ''0'' then Some ([c], r)
                else if is_digit c then Some (take_digits s) else None)"

definition take_frac :: "string \<Rightarrow> (string \<times> string) option" where
  "take_frac s = (case s of
       c # r \<Rightarrow> if c = CHR ''.'' then
                  (let (d, r') = take_digits r in if d = [] then None else Some (c # d, r'))
                else Some ([], s)
     | [] \<Rightarrow> Some ([], []))"

definition take_exp :: "string \<Rightarrow> (string \<times> string) option" where
  "take_exp s = (case s of
       c # r \<Rightarrow> if c = CHR ''e'' \<or> c = CHR ''E'' then
                  (let (sg, r1) = (case r of x # y \<Rightarrow> if x = CHR ''+'' \<or> x = CHR ''-'' then ([x], y) else ([], r) | [] \<Rightarrow> ([], r));
                       (d, r2) = take_digits r1
                   in if d = [] then None else Some (c # sg @ d, r2))
                else Some ([], s)
     | [] \<Rightarrow> Some ([], []))"

definition parse_number :: "string \<Rightarrow> (string \<times> string) option" where
  "parse_number s =
     (let (sg, s1) = (case s of c # r \<Rightarrow> if c = CHR ''-'' then ([c], r) else ([], s) | [] \<Rightarrow> ([], s)) in
      case take_int s1 of None \<Rightarrow> None | Some (i, s2) \<Rightarrow>
      case take_frac s2 of None \<Rightarrow> None | Some (f, s3) \<Rightarrow>
      case take_exp s3 of None \<Rightarrow> None | Some (e, s4) \<Rightarrow> Some (sg @ i @ f @ e, s4))"

lemma take_digits_append: "take_digits s = (a, b) \<Longrightarrow> s = a @ b"
  by (auto simp: take_digits_def)

lemma take_int_append: "take_int s = Some (a, b) \<Longrightarrow> s = a @ b \<and> a \<noteq> []"
  by (auto simp: take_int_def take_digits_def split: list.splits if_splits)

lemma take_frac_append: "take_frac s = Some (a, b) \<Longrightarrow> s = a @ b"
  by (auto simp: take_frac_def dest!: take_digits_append split: list.splits if_splits prod.splits)

lemma take_exp_append: "take_exp s = Some (a, b) \<Longrightarrow> s = a @ b"
  by (auto simp: take_exp_def Let_def dest!: take_digits_append split: list.splits if_splits prod.splits)

lemma parse_number_append: "parse_number s = Some (a, b) \<Longrightarrow> s = a @ b \<and> a \<noteq> []"
  by (auto simp: parse_number_def Let_def dest!: take_int_append take_frac_append take_exp_append
      split: list.splits if_splits prod.splits option.splits)

lemma parse_number_length: "parse_number s = Some (a, b) \<Longrightarrow> length b < length s"
  by (auto dest!: parse_number_append)

definition max_nesting :: nat where "max_nesting = 10000"

text \<open>
  The recursive descent. \<open>d\<close> is the nesting depth. The length checks before the
  recursive calls only make termination evident: a parser that succeeds has consumed
  input (\<open>parse_shorter\<close> below), so they never fail.
\<close>

function parse_value :: "nat \<Rightarrow> string \<Rightarrow> (json \<times> string) option"
  and parse_elems :: "nat \<Rightarrow> string \<Rightarrow> (json list \<times> string) option"
  and parse_members :: "nat \<Rightarrow> string \<Rightarrow> ((string \<times> json) list \<times> string) option" where
  "parse_value d s =
     (case skip_ws s of
        [] \<Rightarrow> None
      | c # r \<Rightarrow>
          if c = CHR ''{'' then
            (if max_nesting \<le> d then None
             else case skip_ws r of
               [] \<Rightarrow> None
             | e # r' \<Rightarrow> if e = CHR ''}'' then Some (JObj [], r')
                         else map_option (map_prod JObj id) (parse_members (Suc d) r))
          else if c = CHR ''['' then
            (if max_nesting \<le> d then None
             else case skip_ws r of
               [] \<Rightarrow> None
             | e # r' \<Rightarrow> if e = CHR '']'' then Some (JArr [], r')
                         else map_option (map_prod JArr id) (parse_elems (Suc d) r))
          else if c = dquote then map_option (map_prod JStr id) (unquote r)
          else (case cut_prefix (c # r) ''null'' of Some r' \<Rightarrow> Some (JNull, r') | None \<Rightarrow>
                case cut_prefix (c # r) ''true'' of Some r' \<Rightarrow> Some (JBool True, r') | None \<Rightarrow>
                case cut_prefix (c # r) ''false'' of Some r' \<Rightarrow> Some (JBool False, r') | None \<Rightarrow>
                map_option (map_prod JNum id) (parse_number (c # r))))"
| "parse_elems d s =
     (case parse_value d s of
        None \<Rightarrow> None
      | Some (v, r) \<Rightarrow>
          (case skip_ws r of
             [] \<Rightarrow> None
           | c # r' \<Rightarrow>
               if c = CHR '']'' then Some ([v], r')
               else if c = CHR '','' \<and> length r' < length s
               then map_option (map_prod ((#) v) id) (parse_elems d r')
               else None))"
| "parse_members d s =
     (case skip_ws s of
        [] \<Rightarrow> None
      | q # r \<Rightarrow>
          if q \<noteq> dquote then None
          else case unquote r of
            None \<Rightarrow> None
          | Some (k, r1) \<Rightarrow>
              (case skip_ws r1 of
                 [] \<Rightarrow> None
               | c # r2 \<Rightarrow>
                   if c \<noteq> CHR '':'' \<or> \<not> length r2 < length s then None
                   else case parse_value d r2 of
                     None \<Rightarrow> None
                   | Some (v, r3) \<Rightarrow>
                       (case skip_ws r3 of
                          [] \<Rightarrow> None
                        | e # r4 \<Rightarrow>
                            if e = CHR ''}'' then Some ([(k, v)], r4)
                            else if e = CHR '','' \<and> length r4 < length s
                            then map_option (map_prod ((#) (k, v)) id) (parse_members d r4)
                            else None)))"
  by pat_completeness auto
termination
proof (relation "measures [\<lambda>x. case x of Inl (d, s) \<Rightarrow> length s | Inr (Inl (d, s)) \<Rightarrow> length s | Inr (Inr (d, s)) \<Rightarrow> length s,
    \<lambda>x. case x of Inl _ \<Rightarrow> 0 | _ \<Rightarrow> 1]", goal_cases)
  case (2 d s c r x y)
  then show ?case using skip_ws_length [of s] by simp
next
  case (3 d s c r x y)
  then show ?case using skip_ws_length [of s] by simp
qed auto

declare parse_value.simps [simp del] parse_elems.simps [simp del] parse_members.simps [simp del]

text \<open>\<^verbatim>\<open>json.Unmarshal\<close> wants one value and white space; \<^verbatim>\<open>Decode\<close> leaves the rest.\<close>

definition json_parse :: "string \<Rightarrow> json option" where
  "json_parse s = (case parse_value 0 s of
       Some (j, r) \<Rightarrow> if skip_ws r = [] then Some j else None
     | None \<Rightarrow> None)"

definition json_decode :: "string \<Rightarrow> json option" where
  "json_decode s = map_option fst (parse_value 0 s)"

section \<open>The parser consumes input\<close>

text \<open>One equation per kind of value, by its first character.\<close>

definition parse_literal :: "string \<Rightarrow> (json \<times> string) option" where
  "parse_literal s =
     (case cut_prefix s ''null'' of Some r' \<Rightarrow> Some (JNull, r') | None \<Rightarrow>
      case cut_prefix s ''true'' of Some r' \<Rightarrow> Some (JBool True, r') | None \<Rightarrow>
      case cut_prefix s ''false'' of Some r' \<Rightarrow> Some (JBool False, r') | None \<Rightarrow>
      map_option (map_prod JNum id) (parse_number s))"

lemma parse_value_object:
  "skip_ws s = CHR ''{'' # r \<Longrightarrow> parse_value d s =
     (if max_nesting \<le> d then None
      else case skip_ws r of [] \<Rightarrow> None
      | e # r' \<Rightarrow> if e = CHR ''}'' then Some (JObj [], r')
                  else map_option (map_prod JObj id) (parse_members (Suc d) r))"
  by (subst parse_value.simps) simp

lemma parse_value_array:
  "skip_ws s = CHR ''['' # r \<Longrightarrow> parse_value d s =
     (if max_nesting \<le> d then None
      else case skip_ws r of [] \<Rightarrow> None
      | e # r' \<Rightarrow> if e = CHR '']'' then Some (JArr [], r')
                  else map_option (map_prod JArr id) (parse_elems (Suc d) r))"
  by (subst parse_value.simps) simp

lemma parse_value_string:
  "skip_ws s = dquote # r \<Longrightarrow> parse_value d s = map_option (map_prod JStr id) (unquote r)"
  by (subst parse_value.simps) (simp add: dquote_def)

lemma parse_value_literal:
  "skip_ws s = c # r \<Longrightarrow> c \<noteq> CHR ''{'' \<Longrightarrow> c \<noteq> CHR ''['' \<Longrightarrow> c \<noteq> dquote \<Longrightarrow>
   parse_value d s = parse_literal (c # r)"
  by (subst parse_value.simps) (simp add: parse_literal_def)

lemma cut_prefix_length: "p \<noteq> [] \<Longrightarrow> cut_prefix s p = Some r \<Longrightarrow> length r < length s"
  by (auto simp: cut_prefix_iff)

lemma skip_ws_Cons_length: "skip_ws s = c # r \<Longrightarrow> length r < length s"
  using skip_ws_length [of s] by simp

lemma parse_literal_length: "parse_literal s = Some (v, r) \<Longrightarrow> length r < length s"
  by (auto simp: parse_literal_def split: option.splits
      dest: parse_number_length cut_prefix_length [rotated])

lemma parse_shorter:
  "\<And>v r. parse_value d s = Some (v, r) \<Longrightarrow> length r < length s"
  "\<And>vs r. parse_elems d s' = Some (vs, r) \<Longrightarrow> length r < length s'"
  "\<And>ms r. parse_members d s'' = Some (ms, r) \<Longrightarrow> length r < length s''"
proof (induction d s and d s' and d s'' rule: parse_value_parse_elems_parse_members.induct)
  case (1 d s)
  from "1.prems" obtain c t where c: "skip_ws s = c # t"
    by (subst (asm) parse_value.simps) (auto split: list.splits)
  consider "c = CHR ''{''" | "c = CHR ''[''" | "c = dquote" | "c \<noteq> CHR ''{''" "c \<noteq> CHR ''[''" "c \<noteq> dquote"
    by blast
  then have "length r < length (c # t)"
  proof cases
    case 1
    then show ?thesis
      using "1.prems" c "1.IH"(1) [OF c] parse_value_object [of s t d]
      by (fastforce split: list.splits if_splits dest: skip_ws_Cons_length)
  next
    case 2
    then show ?thesis
      using "1.prems" c "1.IH"(2) [OF c] parse_value_array [of s t d]
      by (fastforce split: list.splits if_splits dest: skip_ws_Cons_length)
  next
    case 3
    then show ?thesis
      using "1.prems" c parse_value_string [of s t d] by (auto dest: unquote_length)
  next
    case 4
    then have "parse_literal (c # t) = Some (v, r)" using "1.prems" c parse_value_literal by simp
    then show ?thesis by (rule parse_literal_length)
  qed
  then show ?case using skip_ws_length [of s] c by simp
next
  case (2 d s)
  from "2.prems" obtain v t where v: "parse_value d s = Some (v, t)"
    by (subst (asm) parse_elems.simps) (auto split: option.splits)
  then have t: "length t < length s" by (rule "2.IH"(1))
  from "2.prems" v obtain c t' where c: "skip_ws t = c # t'"
    by (subst (asm) parse_elems.simps) (auto split: list.splits)
  have "length t' < length s" using skip_ws_Cons_length [OF c] t by simp
  then show ?case
    using "2.prems" v c "2.IH"(2) [OF v refl c]
    by (subst (asm) parse_elems.simps) (force split: if_splits)
next
  case (3 d s)
  from "3.prems" obtain q t where q: "skip_ws s = q # t" "q = dquote"
    by (subst (asm) parse_members.simps) (auto split: list.splits if_splits)
  from "3.prems" q obtain k t1 where k: "unquote t = Some (k, t1)"
    by (subst (asm) parse_members.simps) (auto split: option.splits)
  from "3.prems" q k obtain c t2 where c: "skip_ws t1 = c # t2" "c = CHR '':''" "length t2 < length s"
    by (subst (asm) parse_members.simps) (auto split: list.splits if_splits)
  from "3.prems" q k c obtain v t3 where v: "parse_value d t2 = Some (v, t3)"
    by (subst (asm) parse_members.simps) (auto split: option.splits)
  from "3.prems" q k c v obtain e t4 where e: "skip_ws t3 = e # t4"
    by (subst (asm) parse_members.simps) (auto split: list.splits)
  have "length t3 < length t2" using "3.IH"(1) q k c v by auto
  then have "length t4 < length s" using skip_ws_Cons_length [OF e] c(3) by simp
  then show ?case
    using "3.prems" q k c v e "3.IH"(2)
    by (subst (asm) parse_members.simps) (force split: if_splits)
qed

section \<open>Round trip\<close>

text \<open>
  What is read back: strings with invalid UTF-8 replaced. A value can be read back when
  its literals are numbers and it is not nested too deeply.
\<close>

fun json_clean :: "json \<Rightarrow> json" where
  "json_clean (JStr s) = JStr (to_valid_utf8 s)"
| "json_clean (JArr xs) = JArr (map json_clean xs)"
| "json_clean (JObj ms) = JObj (map (\<lambda>(k, v). (to_valid_utf8 k, json_clean v)) ms)"
| "json_clean j = j"

fun json_ok :: "nat \<Rightarrow> json \<Rightarrow> bool" where
  "json_ok d (JNum lit) = (parse_number lit = Some (lit, []))"
| "json_ok d (JArr xs) = (d < max_nesting \<and> (\<forall>x \<in> set xs. json_ok (Suc d) x))"
| "json_ok d (JObj ms) = (d < max_nesting \<and> (\<forall>(k, v) \<in> set ms. json_ok (Suc d) v))"
| "json_ok d _ = True"

text \<open>A text after which a number literal ends.\<close>

definition number_stop :: "string \<Rightarrow> bool" where
  "number_stop s = (case s of [] \<Rightarrow> True
     | c # _ \<Rightarrow> \<not> is_digit c \<and> c \<noteq> CHR ''.'' \<and> c \<noteq> CHR ''e'' \<and> c \<noteq> CHR ''E'')"

lemma takeWhile_append_stop:
  "t = [] \<or> \<not> P (hd t) \<Longrightarrow> takeWhile P (s @ t) = takeWhile P s"
  "t = [] \<or> \<not> P (hd t) \<Longrightarrow> dropWhile P (s @ t) = dropWhile P s @ t"
  by (induction s) (cases t; auto)+

lemma number_stop_digit: "number_stop t \<Longrightarrow> t = [] \<or> \<not> is_digit (hd t)"
  by (auto simp: number_stop_def split: list.splits)

lemma take_digits_stop:
  "number_stop t \<Longrightarrow> take_digits (s @ t) = (fst (take_digits s), snd (take_digits s) @ t)"
  by (simp add: take_digits_def takeWhile_append_stop number_stop_digit)

lemma take_int_stop: "number_stop t \<Longrightarrow> take_int s = Some (a, b) \<Longrightarrow> take_int (s @ t) = Some (a, b @ t)"
  using take_digits_stop [of t s] by (auto simp: take_int_def split: list.splits if_splits)

lemma take_frac_stop:
  assumes "number_stop t" and "take_frac s = Some (a, b)"
  shows "take_frac (s @ t) = Some (a, b @ t)"
proof (cases s)
  case Nil
  then show ?thesis using assms by (auto simp: take_frac_def number_stop_def split: list.splits)
next
  case (Cons c r)
  then show ?thesis
    using assms take_digits_stop [OF assms(1), of r]
    by (auto simp: take_frac_def split: if_splits prod.splits)
qed

lemma take_exp_stop:
  assumes "number_stop t" and "take_exp s = Some (a, b)"
  shows "take_exp (s @ t) = Some (a, b @ t)"
proof (cases s)
  case Nil
  then show ?thesis using assms by (auto simp: take_exp_def number_stop_def split: list.splits)
next
  case (Cons c r)
  show ?thesis
  proof (cases r)
    case Nil
    then show ?thesis using assms Cons
      by (auto simp: take_exp_def take_digits_def split: if_splits)
  next
    case (Cons x y)
    then show ?thesis
      using assms \<open>s = c # r\<close> take_digits_stop [OF assms(1), of y] take_digits_stop [OF assms(1), of r]
      by (auto simp: take_exp_def Let_def split: if_splits prod.splits)
  qed
qed

lemma parse_number_stop:
  assumes "number_stop t" and "parse_number s = Some (a, b)"
  shows "parse_number (s @ t) = Some (a, b @ t)"
proof -
  obtain sg s1 where sg: "(case s of c # r \<Rightarrow> if c = CHR ''-'' then ([c], r) else ([], s) | [] \<Rightarrow> ([], s)) = (sg, s1)"
    by fastforce
  obtain i s2 where i: "take_int s1 = Some (i, s2)"
    using assms(2) sg by (auto simp: parse_number_def split: option.splits)
  obtain f s3 where f: "take_frac s2 = Some (f, s3)"
    using assms(2) sg i by (auto simp: parse_number_def split: option.splits)
  obtain e s4 where e: "take_exp s3 = Some (e, s4)" "a = sg @ i @ f @ e" "b = s4"
    using assms(2) sg i f by (auto simp: parse_number_def split: option.splits)
  have "s \<noteq> []" using parse_number_append [OF assms(2)] by auto
  then have "(case s @ t of c # r \<Rightarrow> if c = CHR ''-'' then ([c], r) else ([], s @ t) | [] \<Rightarrow> ([], s @ t)) = (sg, s1 @ t)"
    using sg by (cases s) (auto split: if_splits)
  then show ?thesis
    using take_int_stop [OF assms(1) i] take_frac_stop [OF assms(1) f] take_exp_stop [OF assms(1) e(1)] e
    by (simp add: parse_number_def)
qed

text \<open>A number starts with a digit or a minus sign.\<close>

lemma parse_number_hd:
  assumes "parse_number s = Some (a, b)"
  shows "\<exists>c r. s = c # r \<and> (is_digit c \<or> c = CHR ''-'')"
  using assms by (cases s) (auto simp: parse_number_def take_int_def is_digit_def split: if_splits option.splits)

lemma digit_not_special:
  "is_digit c \<or> c = CHR ''-'' \<Longrightarrow> \<not> is_space c \<and> c \<noteq> CHR ''{'' \<and> c \<noteq> CHR ''['' \<and> c \<noteq> dquote \<and>
     c \<noteq> CHR ''n'' \<and> c \<noteq> CHR ''t'' \<and> c \<noteq> CHR ''f''"
  by (auto simp: is_digit_def is_space_def dquote_def byte_ord_def)

lemma parse_value_number:
  assumes "parse_number lit = Some (lit, [])" and "number_stop r"
  shows "parse_value d (lit @ r) = Some (JNum lit, r)"
proof -
  obtain c t where c: "lit = c # t" "is_digit c \<or> c = CHR ''-''"
    using parse_number_hd [OF assms(1)] by blast
  note n = digit_not_special [OF c(2)]
  have "skip_ws (lit @ r) = c # t @ r" using c n by (simp add: skip_ws_def)
  moreover have "parse_literal (c # t @ r) = Some (JNum lit, r)"
    using n parse_number_stop [OF assms(2,1)] c by (simp add: parse_literal_def)
  ultimately show ?thesis using n by (simp add: parse_value_literal)
qed

text \<open>No compact text starts with white space or a closing bracket.\<close>

lemma json_text_hd:
  assumes "json_ok d j"
  shows "\<exists>c r. json_text j = c # r \<and> \<not> is_space c \<and> c \<noteq> CHR '']''"
proof (cases j)
  case (JNum lit)
  then obtain c r where "lit = c # r" "is_digit c \<or> c = CHR ''-''"
    using assms parse_number_hd [of lit] by auto
  then show ?thesis using JNum digit_not_special [of c] by (auto simp: is_digit_def byte_ord_def)
qed (simp_all add: json_quote_def is_space_def dquote_def byte_ord_def)

lemma json_text_skip: "json_ok d j \<Longrightarrow> skip_ws (json_text j @ r) = json_text j @ r"
  using json_text_hd [of d j] by (auto simp: skip_ws_def)

lemma parse_value_quote: "parse_value d (json_quote s @ r) = Some (JStr (to_valid_utf8 s), r)"
proof -
  have "skip_ws (json_quote s @ r) = dquote # tl (json_quote s) @ r"
    by (subst json_quote_Cons) (simp add: skip_ws_def is_space_def dquote_def byte_ord_def)
  then show ?thesis using unquote_json_quote [of s r] by (simp add: parse_value_string)
qed

lemma stop_close [simp]: "number_stop (CHR '']'' # r)" "number_stop (CHR ''}'' # r)" "number_stop (CHR '','' # r)"
  by (simp_all add: number_stop_def is_digit_def byte_ord_def)

lemma skip_close [simp]: "skip_ws (CHR '']'' # r) = CHR '']'' # r" "skip_ws (CHR ''}'' # r) = CHR ''}'' # r"
  "skip_ws (CHR '','' # r) = CHR '','' # r" "skip_ws (CHR '':'' # r) = CHR '':'' # r"
  by (simp_all add: skip_ws_def is_space_def byte_ord_def)

definition reads_back :: "nat \<Rightarrow> json \<Rightarrow> bool" where
  "reads_back d j \<longleftrightarrow> (\<forall>r. number_stop r \<longrightarrow> parse_value d (json_text j @ r) = Some (json_clean j, r))"

lemma parse_elems_texts:
  "xs \<noteq> [] \<Longrightarrow> \<forall>x \<in> set xs. reads_back d x \<Longrightarrow>
   parse_elems d (join '','' (map json_text xs) @ CHR '']'' # r) = Some (map json_clean xs, r)"
proof (induction xs)
  case (Cons x xs)
  then have x: "number_stop t \<Longrightarrow> parse_value d (json_text x @ t) = Some (json_clean x, t)" for t
    by (simp add: reads_back_def)
  show ?case
  proof (cases xs)
    case Nil
    then show ?thesis using x by (subst parse_elems.simps) simp
  next
    case (Cons y ys)
    let ?t = "join '','' (map json_text xs) @ CHR '']'' # r"
    have "parse_elems d ?t = Some (map json_clean xs, r)" using Cons.IH Cons.prems Cons by simp
    moreover have "parse_value d (json_text x @ CHR '','' # ?t) = Some (json_clean x, CHR '','' # ?t)"
      using x by simp
    ultimately show ?thesis
      using Cons by (subst parse_elems.simps) simp
  qed
qed simp

definition member_text :: "string \<times> json \<Rightarrow> string" where
  "member_text m = json_quote (fst m) @ '':'' @ json_text (snd m)"

definition member_clean :: "string \<times> json \<Rightarrow> string \<times> json" where
  "member_clean m = (to_valid_utf8 (fst m), json_clean (snd m))"

lemma json_text_JObj: "json_text (JObj ms) = ''{'' @ join '','' (map member_text ms) @ ''}''"
  by (simp add: member_text_def [abs_def] case_prod_unfold)

lemma json_clean_JObj: "json_clean (JObj ms) = JObj (map member_clean ms)"
  by (simp add: member_clean_def [abs_def] case_prod_unfold)

lemma quote_skip: "skip_ws (json_quote k @ t) = dquote # tl (json_quote k) @ t"
  by (subst json_quote_Cons) (simp add: skip_ws_def is_space_def dquote_def byte_ord_def)

text \<open>One member followed by \<open>t\<close>, as far as the parser's last case distinction.\<close>

lemma parse_member_step:
  assumes "reads_back d v" and "number_stop t"
  shows "parse_members d (member_text (k, v) @ t) =
     (case skip_ws t of [] \<Rightarrow> None
      | e # r4 \<Rightarrow>
          if e = CHR ''}'' then Some ([member_clean (k, v)], r4)
          else if e = CHR '','' \<and> length r4 < length (member_text (k, v) @ t)
          then map_option (map_prod ((#) (member_clean (k, v))) id) (parse_members d r4)
          else None)"
proof -
  have v: "parse_value d (json_text v @ t) = Some (json_clean v, t)"
    using assms by (simp add: reads_back_def)
  have u: "unquote (tl (json_quote k) @ CHR '':'' # json_text v @ t) = Some (to_valid_utf8 k, CHR '':'' # json_text v @ t)"
    by (rule unquote_json_quote)
  have q: "skip_ws (json_quote k @ CHR '':'' # json_text v @ t) = dquote # tl (json_quote k) @ CHR '':'' # json_text v @ t"
    by (rule quote_skip)
  have mc: "member_clean (k, v) = (to_valid_utf8 k, json_clean v)" by (simp add: member_clean_def)
  show ?thesis
    unfolding mc by (subst parse_members.simps) (simp add: member_text_def q u v)
qed

lemma parse_members_texts:
  "ms \<noteq> [] \<Longrightarrow> \<forall>m \<in> set ms. reads_back d (snd m) \<Longrightarrow>
   parse_members d (join '','' (map member_text ms) @ CHR ''}'' # r) = Some (map member_clean ms, r)"
proof (induction ms)
  case (Cons m ms)
  obtain k v where m: "m = (k, v)" by (cases m)
  have v: "reads_back d v" using Cons.prems m by simp
  show ?case
  proof (cases ms)
    case Nil
    then show ?thesis using parse_member_step [OF v, of "CHR ''}'' # r" k] m by simp
  next
    case (Cons y ys)
    let ?t = "join '','' (map member_text ms) @ CHR ''}'' # r"
    have "parse_members d ?t = Some (map member_clean ms, r)" using Cons.IH Cons.prems Cons by simp
    then show ?thesis
      using parse_member_step [OF v, of "CHR '','' # ?t" k] m Cons by simp
  qed
qed simp

lemma reads_back_array:
  assumes "d < max_nesting" and "\<forall>x \<in> set xs. json_ok (Suc d) x" and "\<forall>x \<in> set xs. reads_back (Suc d) x"
  shows "reads_back d (JArr xs)"
  unfolding reads_back_def
proof (intro allI impI)
  fix r :: string assume "number_stop r"
  let ?b = "join '','' (map json_text xs) @ CHR '']'' # r"
  have s: "skip_ws (json_text (JArr xs) @ r) = CHR ''['' # ?b"
    by (simp add: skip_ws_def is_space_def byte_ord_def)
  show "parse_value d (json_text (JArr xs) @ r) = Some (json_clean (JArr xs), r)"
  proof (cases xs)
    case Nil
    then show ?thesis using parse_value_array [OF s, of d] assms(1) by simp
  next
    case (Cons x ys)
    then obtain c t where c: "json_text x = c # t" "\<not> is_space c" "c \<noteq> CHR '']''"
      using json_text_hd [of "Suc d" x] assms(2) by auto
    have "\<exists>u. ?b = c # u" using c(1) Cons by (cases ys) auto
    then obtain u where "skip_ws ?b = c # u" using c(2) by (auto simp: skip_ws_def)
    then show ?thesis
      using parse_value_array [OF s, of d] parse_elems_texts [of xs "Suc d" r] assms c(3) Cons by simp
  qed
qed

lemma reads_back_object:
  assumes "d < max_nesting" and "\<forall>m \<in> set ms. reads_back (Suc d) (snd m)"
  shows "reads_back d (JObj ms)"
  unfolding reads_back_def
proof (intro allI impI)
  fix r :: string assume "number_stop r"
  let ?b = "join '','' (map member_text ms) @ CHR ''}'' # r"
  have s: "skip_ws (json_text (JObj ms) @ r) = CHR ''{'' # ?b"
    unfolding json_text_JObj by (simp add: skip_ws_def is_space_def byte_ord_def)
  show "parse_value d (json_text (JObj ms) @ r) = Some (json_clean (JObj ms), r)"
  proof (cases ms)
    case Nil
    then show ?thesis using parse_value_object [OF s, of d] assms(1) by simp
  next
    case (Cons m ns)
    have "\<exists>u. ?b = json_quote (fst m) @ u" using Cons by (cases ns) (auto simp: member_text_def)
    then obtain u where "skip_ws ?b = dquote # u" using quote_skip by metis
    moreover have "dquote \<noteq> CHR ''}''" by (simp add: dquote_def)
    ultimately show ?thesis
      using parse_value_object [OF s, of d] parse_members_texts [of ms "Suc d" r] assms Cons
      by (simp add: json_clean_JObj del: json_clean.simps)
  qed
qed

lemma skip_letter [simp]:
  "skip_ws (CHR ''n'' # r) = CHR ''n'' # r" "skip_ws (CHR ''t'' # r) = CHR ''t'' # r"
  "skip_ws (CHR ''f'' # r) = CHR ''f'' # r"
  by (simp_all add: skip_ws_def is_space_def byte_ord_def)

lemma json_ok_reads_back: "json_ok d j \<Longrightarrow> reads_back d j"
proof (induction j arbitrary: d rule: json_text.induct)
  case (5 xs)
  then show ?case by (intro reads_back_array) auto
next
  case (6 ms)
  have "reads_back (Suc d) (snd m)" if "m \<in> set ms" for m
    using 6(1) [of m "fst m" "snd m" "Suc d"] 6(2) that by (cases m) auto
  then show ?case using 6(2) by (intro reads_back_object) auto
qed (auto simp: reads_back_def parse_value_quote parse_value_number parse_value_literal
    parse_literal_def dquote_def)

text \<open>Reading a value back, with anything after it that ends a number.\<close>

lemma parse_value_text:
  "json_ok d j \<Longrightarrow> number_stop r \<Longrightarrow> parse_value d (json_text j @ r) = Some (json_clean j, r)"
  using json_ok_reads_back by (auto simp: reads_back_def)

theorem json_parse_text: "json_ok 0 j \<Longrightarrow> json_parse (json_text j) = Some (json_clean j)"
  using parse_value_text [of 0 j "[]"]
  by (simp add: json_parse_def number_stop_def skip_ws_def)

theorem json_decode_line: "json_ok 0 j \<Longrightarrow> json_decode (json_line j) = Some (json_clean j)"
  using parse_value_text [of 0 j "[CHR 0x0A]"]
  by (auto simp: json_decode_def json_line_def number_stop_def is_digit_def byte_ord_def)

end
