(* ===== verification/Go_JsonStruct.thy ===== *)
theory Go_JsonStruct
  imports Go_Json
begin

text \<open>
  \<^verbatim>\<open>json.Unmarshal\<close> and \<^verbatim>\<open>Decoder.Decode\<close> into a struct: members are matched
  to fields by their exact name and then case-insensitively, unknown members are skipped,
  \<^verbatim>\<open>null\<close> leaves a field as it is, a later member overwrites an earlier one, and a
  value of the wrong type is an error. A struct is a record of HOL; its fields are a list
  of JSON names with decoders.
\<close>

section \<open>Field names\<close>

text \<open>
  \<^verbatim>\<open>foldName\<close> on the names that can equal an ASCII name: letters in upper case, and the
  two runes outside ASCII that fold into it, U+017F (long s) and U+212A (Kelvin sign).
\<close>

definition upper_char :: "char \<Rightarrow> char" where
  "upper_char c = (if 97 \<le> byte_ord c \<and> byte_ord c \<le> 122 then byte_chr (byte_ord c - 32) else c)"

fun fold_name :: "string \<Rightarrow> string" where
  "fold_name [] = []"
| "fold_name (a # r) =
     (case r of
        [] \<Rightarrow> [upper_char a]
      | b # r2 \<Rightarrow>
          if a = CHR 0xC5 \<and> b = CHR 0xBF then CHR ''S'' # fold_name r2
          else (case r2 of
                  [] \<Rightarrow> upper_char a # fold_name r
                | c # r3 \<Rightarrow>
                    if a = CHR 0xE2 \<and> b = CHR 0x84 \<and> c = CHR 0xAA then CHR ''K'' # fold_name r3
                    else upper_char a # fold_name r))"

type_synonym 'r json_fields = "(string \<times> (json \<Rightarrow> 'r \<Rightarrow> 'r option)) list"

definition field_for :: "'r json_fields \<Rightarrow> string \<Rightarrow> (json \<Rightarrow> 'r \<Rightarrow> 'r option) option" where
  "field_for fds key =
     (case map_of fds key of
        Some d \<Rightarrow> Some d
      | None \<Rightarrow> map_of (map (apfst fold_name) fds) (fold_name key))"

section \<open>Decoders of the field types\<close>

definition string_field :: "((string \<Rightarrow> string) \<Rightarrow> 'r \<Rightarrow> 'r) \<Rightarrow> json \<Rightarrow> 'r \<Rightarrow> 'r option" where
  "string_field upd j r =
     (case j of JStr s \<Rightarrow> Some (upd (\<lambda>_. s) r) | JNull \<Rightarrow> Some r | _ \<Rightarrow> None)"

definition bool_field :: "((bool \<Rightarrow> bool) \<Rightarrow> 'r \<Rightarrow> 'r) \<Rightarrow> json \<Rightarrow> 'r \<Rightarrow> 'r option" where
  "bool_field upd j r =
     (case j of JBool b \<Rightarrow> Some (upd (\<lambda>_. b) r) | JNull \<Rightarrow> Some r | _ \<Rightarrow> None)"

text \<open>\<^verbatim>\<open>strconv.ParseInt(lit, 10, 64)\<close>: a fraction, an exponent or an overflow is an error.\<close>

definition int64_field :: "((int \<Rightarrow> int) \<Rightarrow> 'r \<Rightarrow> 'r) \<Rightarrow> json \<Rightarrow> 'r \<Rightarrow> 'r option" where
  "int64_field upd j r =
     (case j of
        JNum lit \<Rightarrow> (case atoi lit of (n, ok) \<Rightarrow> if ok then Some (upd (\<lambda>_. n) r) else None)
      | JNull \<Rightarrow> Some r
      | _ \<Rightarrow> None)"

text \<open>
  A slice of strings is its elements and the spare elements of its backing array: an array
  decoded into it reuses the elements already there, and a \<^verbatim>\<open>null\<close> element keeps what
  it finds. \<^verbatim>\<open>null\<close> for the slice and the empty array drop the backing array.
\<close>

record string_slice =
  elems :: "string list"
  spare :: "string list"

definition no_slice :: string_slice where
  "no_slice = \<lparr>elems = [], spare = []\<rparr>"

fun decode_elems :: "string list \<Rightarrow> json list \<Rightarrow> string_slice option" where
  "decode_elems old [] = Some \<lparr>elems = [], spare = old\<rparr>"
| "decode_elems old (j # js) =
     (case (case j of
              JStr s \<Rightarrow> Some s
            | JNull \<Rightarrow> Some (case old of [] \<Rightarrow> [] | s # _ \<Rightarrow> s)
            | _ \<Rightarrow> None) of
        None \<Rightarrow> None
      | Some s \<Rightarrow> map_option (elems_update ((#) s)) (decode_elems (drop 1 old) js))"

definition slice_field ::
    "('r \<Rightarrow> string_slice) \<Rightarrow> ((string_slice \<Rightarrow> string_slice) \<Rightarrow> 'r \<Rightarrow> 'r) \<Rightarrow> json \<Rightarrow> 'r \<Rightarrow> 'r option" where
  "slice_field get upd j r =
     (case j of
        JArr [] \<Rightarrow> Some (upd (\<lambda>_. no_slice) r)
      | JArr js \<Rightarrow> map_option (\<lambda>sl. upd (\<lambda>_. sl) r) (decode_elems (elems (get r) @ spare (get r)) js)
      | JNull \<Rightarrow> Some (upd (\<lambda>_. no_slice) r)
      | _ \<Rightarrow> None)"

section \<open>Decoding an object\<close>

fun decode_members :: "'r json_fields \<Rightarrow> (string \<times> json) list \<Rightarrow> 'r \<Rightarrow> 'r option" where
  "decode_members fds [] r = Some r"
| "decode_members fds ((k, j) # ms) r =
     (case field_for fds k of
        None \<Rightarrow> decode_members fds ms r
      | Some d \<Rightarrow> (case d j r of None \<Rightarrow> None | Some r' \<Rightarrow> decode_members fds ms r'))"

definition decode_struct :: "'r json_fields \<Rightarrow> json \<Rightarrow> 'r \<Rightarrow> 'r option" where
  "decode_struct fds j r =
     (case j of JObj ms \<Rightarrow> decode_members fds ms r | JNull \<Rightarrow> Some r | _ \<Rightarrow> None)"

section \<open>Facts the components use\<close>

lemma field_for_exact: "map_of fds k = Some d \<Longrightarrow> field_for fds k = Some d"
  by (simp add: field_for_def)

lemma decode_members_known:
  "map_of fds k = Some d \<Longrightarrow> d j r = Some r' \<Longrightarrow>
   decode_members fds ((k, j) # ms) r = decode_members fds ms r'"
  by (simp add: field_for_exact)

lemma decode_members_append:
  "decode_members fds (ms @ ns) r =
     (case decode_members fds ms r of None \<Rightarrow> None | Some r' \<Rightarrow> decode_members fds ns r')"
  by (induction fds ms r rule: decode_members.induct) (auto split: option.splits)

text \<open>A property every field decoder keeps is kept, and one bad member makes it fail.\<close>

lemma field_for_member: "field_for fds k = Some d \<Longrightarrow> d \<in> snd ` set fds"
  by (force simp: field_for_def split: option.splits dest: map_of_SomeD)

lemma decode_members_keep:
  assumes keep: "\<And>d j r r'. d \<in> snd ` set fds \<Longrightarrow> P r \<Longrightarrow> d j r = Some r' \<Longrightarrow> P r'"
  shows "decode_members fds ms r = Some r' \<Longrightarrow> P r \<Longrightarrow> P r'"
proof (induction ms arbitrary: r)
  case (Cons m ms)
  obtain k j where m: "m = (k, j)" by (cases m)
  show ?case
  proof (cases "field_for fds k")
    case None
    then show ?thesis using Cons m by simp
  next
    case (Some d)
    then obtain r1 where r1: "d j r = Some r1" "decode_members fds ms r1 = Some r'"
      using Cons.prems m by (auto split: option.splits)
    have "P r1" using keep [OF field_for_member [OF Some] Cons.prems(2) r1(1)] .
    then show ?thesis using Cons.IH r1(2) by blast
  qed
qed simp

lemma decode_members_bad:
  "(k, j) \<in> set ms \<Longrightarrow> map_of fds k = Some d \<Longrightarrow> (\<And>r. d j r = None) \<Longrightarrow> decode_members fds ms r = None"
proof (induction ms arbitrary: r)
  case (Cons m ms)
  then show ?case by (cases m) (auto simp: field_for_exact split: option.splits)
qed simp

lemma string_field_JStr [simp]: "string_field upd (JStr s) r = Some (upd (\<lambda>_. s) r)"
  by (simp add: string_field_def)

lemma int64_field_JInt [simp]: "clamp_int64 n = n \<Longrightarrow> int64_field upd (JInt n) r = Some (upd (\<lambda>_. n) r)"
  by (simp add: int64_field_def JInt_def atoi_itoa)

lemma decode_struct_JObj [simp]: "decode_struct fds (JObj ms) r = decode_members fds ms r"
  by (simp add: decode_struct_def)

text \<open>On a fresh slice the elements are the strings of the array.\<close>

lemma decode_elems_fresh [simp]: "decode_elems [] (map JStr ss) = Some \<lparr>elems = ss, spare = []\<rparr>"
  by (induction ss) auto

lemma slice_field_fresh [simp]:
  "elems (get r) = [] \<Longrightarrow> spare (get r) = [] \<Longrightarrow>
   slice_field get upd (JArr (map JStr ss)) r = Some (upd (\<lambda>_. \<lparr>elems = ss, spare = []\<rparr>) r)"
  by (cases ss) (simp_all add: slice_field_def no_slice_def decode_elems_fresh [of "_ # _", simplified])

section \<open>Numbers written by the program\<close>

lemma digits_of_no_leading_zero: "n \<noteq> 0 \<Longrightarrow> hd (digits_of n) \<noteq> CHR ''0''"
proof (induction n rule: digits_of.induct)
  case (1 n)
  show ?case
  proof (cases "n < 10")
    case True
    then have "byte_ord (byte_chr (48 + n)) \<noteq> byte_ord CHR ''0''" using "1.prems" by simp
    then have "byte_chr (48 + n) \<noteq> CHR ''0''" by metis
    then show ?thesis using True by (subst digits_of.simps) simp
  next
    case False
    then show ?thesis using 1 by (subst digits_of.simps) simp
  qed
qed

lemma take_int_digits_of: "take_int (digits_of n) = Some (digits_of n, [])"
proof (cases "n = 0")
  case True
  have "byte_chr 48 = CHR ''0''" using chr_ord [of "CHR ''0''"] by simp
  then show ?thesis using True by (subst (1 2) digits_of.simps) (simp add: take_int_def)
next
  case False
  obtain c cs where c: "digits_of n = c # cs" "is_digit c" using digits_of_hd by blast
  have "list_all is_digit (c # cs)" using digits_of_digits [of n] c(1) by simp
  then show ?thesis
    using digits_of_no_leading_zero [OF False] c
    by (simp add: take_int_def take_digits_def list_all_iff takeWhile_eq_all_conv)
qed

lemma parse_number_itoa [simp]: "parse_number (itoa n) = Some (itoa n, [])"
proof -
  obtain c cs where c: "digits_of (nat n) = c # cs" "is_digit c" using digits_of_hd by blast
  have "c \<noteq> CHR ''-''" using c(2) is_digit_sign by metis
  then show ?thesis
    using take_int_digits_of [of "nat n"] take_int_digits_of [of "nat (- n)"] c(1)
    by (simp add: parse_number_def itoa_def take_frac_def take_exp_def)
qed

lemma json_ok_JInt [simp]: "json_ok d (JInt n)"
  by (simp add: JInt_def)

lemma json_clean_JInt [simp]: "json_clean (JInt n) = JInt n"
  by (simp add: JInt_def)

section \<open>Raw messages\<close>

text \<open>\<^verbatim>\<open>Decoder.Decode\<close> into a \<^verbatim>\<open>json.RawMessage\<close>: the text of the first value.\<close>

definition json_decode_raw :: "string \<Rightarrow> string option" where
  "json_decode_raw s =
     (case parse_value 0 s of
        None \<Rightarrow> None
      | Some (_, r) \<Rightarrow> (let v = skip_ws s in Some (take (length v - length r) v)))"

text \<open>
  Its encoding is compacted: space outside strings goes, and the characters the encoder
  escapes in strings are escaped. The flags say whether the position is inside a string and
  behind a backslash.
\<close>

fun json_compact :: "bool \<Rightarrow> bool \<Rightarrow> string \<Rightarrow> string" where
  "json_compact str esc [] = []"
| "json_compact str esc (c # r) =
     (if c = CHR ''<'' then backslash # ''u003c'' @ json_compact str False r
      else if c = CHR ''>'' then backslash # ''u003e'' @ json_compact str False r
      else if c = CHR ''&'' then backslash # ''u0026'' @ json_compact str False r
      else if c = CHR 0xE2 \<and> take 2 r = [CHR 0x80, CHR 0xA8] then backslash # ''u2028'' @ json_compact str False (drop 2 r)
      else if c = CHR 0xE2 \<and> take 2 r = [CHR 0x80, CHR 0xA9] then backslash # ''u2029'' @ json_compact str False (drop 2 r)
      else if \<not> str then (if is_space c then json_compact str False r else c # json_compact (c = dquote) False r)
      else if esc then c # json_compact True False r
      else if c = backslash then c # json_compact True True r
      else c # json_compact (c \<noteq> dquote) False r)"

definition json_raw_line :: "string \<Rightarrow> string" where
  "json_raw_line raw = json_compact False False raw @ [CHR 0x0A]"

end
