(* ===== verification/Go_Sha256.thy ===== *)
theory Go_Sha256
  imports Go_Prelude
begin

text \<open>
  \<^verbatim>\<open>crypto/sha256.Sum256\<close> as FIPS 180-4 defines it, on 32-bit words: padding, the
  message schedule, the 64 rounds of the compression function. It is executable.
\<close>

unbundle bit_operations_syntax

type_synonym u32 = "32 word"

definition rotr32 :: "nat \<Rightarrow> u32 \<Rightarrow> u32" where
  "rotr32 n x = (drop_bit n x) OR (push_bit (32 - n) x)"

definition sha_ch :: "u32 \<Rightarrow> u32 \<Rightarrow> u32 \<Rightarrow> u32" where
  "sha_ch x y z = (x AND y) XOR (NOT x AND z)"

definition sha_maj :: "u32 \<Rightarrow> u32 \<Rightarrow> u32 \<Rightarrow> u32" where
  "sha_maj x y z = (x AND y) XOR (x AND z) XOR (y AND z)"

definition big_sigma0 :: "u32 \<Rightarrow> u32" where
  "big_sigma0 x = rotr32 2 x XOR rotr32 13 x XOR rotr32 22 x"

definition big_sigma1 :: "u32 \<Rightarrow> u32" where
  "big_sigma1 x = rotr32 6 x XOR rotr32 11 x XOR rotr32 25 x"

definition small_sigma0 :: "u32 \<Rightarrow> u32" where
  "small_sigma0 x = rotr32 7 x XOR rotr32 18 x XOR drop_bit 3 x"

definition small_sigma1 :: "u32 \<Rightarrow> u32" where
  "small_sigma1 x = rotr32 17 x XOR rotr32 19 x XOR drop_bit 10 x"

definition sha_k :: "u32 list" where
  "sha_k = [
    1116352408, 1899447441, 3049323471, 3921009573, 961987163, 1508970993, 2453635748, 2870763221,
    3624381080, 310598401, 607225278, 1426881987, 1925078388, 2162078206, 2614888103, 3248222580,
    3835390401, 4022224774, 264347078, 604807628, 770255983, 1249150122, 1555081692, 1996064986,
    2554220882, 2821834349, 2952996808, 3210313671, 3336571891, 3584528711, 113926993, 338241895,
    666307205, 773529912, 1294757372, 1396182291, 1695183700, 1986661051, 2177026350, 2456956037,
    2730485921, 2820302411, 3259730800, 3345764771, 3516065817, 3600352804, 4094571909, 275423344,
    430227734, 506948616, 659060556, 883997877, 958139571, 1322822218, 1537002063, 1747873779,
    1955562222, 2024104815, 2227730452, 2361852424, 2428436474, 2756734187, 3204031479, 3329325298]"

definition sha_h0 :: "u32 list" where
  "sha_h0 = [1779033703, 3144134277, 1013904242, 2773480762, 1359893119, 2600822924, 528734635, 1541459225]"

text \<open>Four bytes, big endian, as a word and back.\<close>

definition be32 :: "byte \<Rightarrow> byte \<Rightarrow> byte \<Rightarrow> byte \<Rightarrow> u32" where
  "be32 a b c d =
     push_bit 24 (ucast a) OR push_bit 16 (ucast b) OR push_bit 8 (ucast c) OR ucast d"

definition bytes_be32 :: "u32 \<Rightarrow> bytes" where
  "bytes_be32 w = [ucast (drop_bit 24 w), ucast (drop_bit 16 w), ucast (drop_bit 8 w), ucast w]"

fun words_be :: "bytes \<Rightarrow> u32 list" where
  "words_be (a # b # c # d # bs) = be32 a b c d # words_be bs"
| "words_be _ = []"

definition bytes_be64 :: "nat \<Rightarrow> bytes" where
  "bytes_be64 n = map (\<lambda>i. word_of_nat (n div 256 ^ i mod 256)) [7, 6, 5, 4, 3, 2, 1, 0]"

text \<open>The padded message: a one bit, zeros, and the length in bits, a multiple of 64 bytes.\<close>

definition sha_pad :: "bytes \<Rightarrow> bytes" where
  "sha_pad m = m @ [0x80] @ replicate ((119 - length m mod 64) mod 64) 0 @ bytes_be64 (8 * length m)"

text \<open>The message schedule, extended by one word at a time; the newest word is first.\<close>

definition sha_next :: "u32 list \<Rightarrow> u32" where
  "sha_next ws = small_sigma1 (ws ! 1) + ws ! 6 + small_sigma0 (ws ! 14) + ws ! 15"

definition sha_schedule :: "u32 list \<Rightarrow> u32 list" where
  "sha_schedule block = rev (((\<lambda>ws. sha_next ws # ws) ^^ 48) (rev block))"

type_synonym sha_state = "u32 \<times> u32 \<times> u32 \<times> u32 \<times> u32 \<times> u32 \<times> u32 \<times> u32"

fun sha_round :: "sha_state \<Rightarrow> u32 \<times> u32 \<Rightarrow> sha_state" where
  "sha_round (a, b, c, d, e, f, g, h) (k, w) =
     (let t1 = h + big_sigma1 e + sha_ch e f g + k + w;
          t2 = big_sigma0 a + sha_maj a b c
      in (t1 + t2, a, b, c, d + t1, e, f, g))"

fun sha_list :: "sha_state \<Rightarrow> u32 list" where
  "sha_list (a, b, c, d, e, f, g, h) = [a, b, c, d, e, f, g, h]"

definition sha_tuple :: "u32 list \<Rightarrow> sha_state" where
  "sha_tuple hs = (hs ! 0, hs ! 1, hs ! 2, hs ! 3, hs ! 4, hs ! 5, hs ! 6, hs ! 7)"

definition sha_compress :: "u32 list \<Rightarrow> u32 list \<Rightarrow> u32 list" where
  "sha_compress hs block =
     map2 (+) hs (sha_list (foldl sha_round (sha_tuple hs) (zip sha_k (sha_schedule block))))"

fun sha_blocks :: "nat \<Rightarrow> u32 list \<Rightarrow> u32 list \<Rightarrow> u32 list" where
  "sha_blocks 0 hs ws = hs"
| "sha_blocks (Suc n) hs ws = sha_blocks n (sha_compress hs (take 16 ws)) (drop 16 ws)"

definition sha256 :: "bytes \<Rightarrow> bytes" where
  "sha256 m =
     (let p = sha_pad m
      in concat (map bytes_be32 (sha_blocks (length p div 64) sha_h0 (words_be p))))"

lemma length_sha_pad: "length (sha_pad m) mod 64 = 0"
proof -
  define r where "r = length m mod 64"
  have r: "r < 64" by (simp add: r_def)
  have pad: "(119 - r) mod 64 = (if r < 56 then 55 - r else 119 - r)"
  proof (cases "r < 56")
    case True
    then have "119 - r = (55 - r) + 64" by arith
    then have "(119 - r) mod 64 = (55 - r) mod 64" by (simp only: mod_add_self2)
    then show ?thesis using True by simp
  qed (use r in simp)
  have "length (sha_pad m) = length m + 1 + (119 - r) mod 64 + 8"
    by (simp add: sha_pad_def bytes_be64_def r_def)
  also have "\<dots> = 64 * (length m div 64) + r + 1 + (119 - r) mod 64 + 8" by (simp add: r_def)
  also have "\<dots> = 64 * (length m div 64 + (if r < 56 then 1 else 2))"
    using pad r by (cases "r < 56") simp_all
  finally show ?thesis by simp
qed

lemma length_sha_list [simp]: "length (sha_list s) = 8"
  by (cases s rule: sha_list.cases) simp

lemma length_sha_blocks: "length hs = 8 \<Longrightarrow> length (sha_blocks n hs ws) = 8"
  by (induction n arbitrary: hs ws) (simp_all add: sha_compress_def)

text \<open>The digest has 32 bytes, so it is an AES-256 key.\<close>

lemma length_sha256 [simp]: "length (sha256 m) = 32"
proof -
  have "length (concat (map bytes_be32 ws)) = 4 * length ws" for ws
    by (induction ws) (simp_all add: bytes_be32_def)
  then show ?thesis by (simp add: sha256_def Let_def length_sha_blocks sha_h0_def)
qed

end
