(* ===== verification/Go_AesGcm.thy ===== *)
theory Go_AesGcm
  imports Go_Sha256
begin

text \<open>
  \<^verbatim>\<open>crypto/aes\<close> and \<^verbatim>\<open>cipher.NewGCM\<close>: the AES block cipher of FIPS 197 for 16, 24
  and 32 byte keys, and Galois/Counter mode of NIST SP 800-38D with a 12-byte nonce, a
  16-byte tag and no additional data, the way \<^verbatim>\<open>encrypt\<close> and \<^verbatim>\<open>decrypt\<close> use it.
  The interface the program relies on is the locale \<open>aead\<close>.
\<close>

unbundle bit_operations_syntax

section \<open>The contract of an authenticated cipher\<close>

locale aead =
  fixes seal :: "bytes \<Rightarrow> bytes \<Rightarrow> bytes \<Rightarrow> bytes"
    and open_sealed :: "bytes \<Rightarrow> bytes \<Rightarrow> bytes \<Rightarrow> bytes option"
    and overhead :: nat
  assumes open_seal: "open_sealed key nonce (seal key nonce pt) = Some pt"
    and length_seal: "length (seal key nonce pt) = length pt + overhead"
    and open_sealed_seal: "open_sealed key nonce ct = Some pt \<Longrightarrow> ct = seal key nonce pt"
begin

text \<open>Under one key and nonce, opening is exactly the inverse of sealing.\<close>

lemma open_iff: "open_sealed key nonce ct = Some pt \<longleftrightarrow> ct = seal key nonce pt"
  using open_seal open_sealed_seal by blast

lemma seal_inject: "seal key nonce a = seal key nonce b \<longleftrightarrow> a = b"
  by (metis open_seal option.inject)

lemma open_short: "length ct < overhead \<Longrightarrow> open_sealed key nonce ct = None"
  by (metis add.commute length_seal not_add_less1 not_None_eq open_sealed_seal)

end

section \<open>The AES block cipher\<close>

definition aes_sbox :: "byte list" where
  "aes_sbox = [
    0x63, 0x7c, 0x77, 0x7b, 0xf2, 0x6b, 0x6f, 0xc5, 0x30, 0x01, 0x67, 0x2b, 0xfe, 0xd7, 0xab, 0x76,
    0xca, 0x82, 0xc9, 0x7d, 0xfa, 0x59, 0x47, 0xf0, 0xad, 0xd4, 0xa2, 0xaf, 0x9c, 0xa4, 0x72, 0xc0,
    0xb7, 0xfd, 0x93, 0x26, 0x36, 0x3f, 0xf7, 0xcc, 0x34, 0xa5, 0xe5, 0xf1, 0x71, 0xd8, 0x31, 0x15,
    0x04, 0xc7, 0x23, 0xc3, 0x18, 0x96, 0x05, 0x9a, 0x07, 0x12, 0x80, 0xe2, 0xeb, 0x27, 0xb2, 0x75,
    0x09, 0x83, 0x2c, 0x1a, 0x1b, 0x6e, 0x5a, 0xa0, 0x52, 0x3b, 0xd6, 0xb3, 0x29, 0xe3, 0x2f, 0x84,
    0x53, 0xd1, 0x00, 0xed, 0x20, 0xfc, 0xb1, 0x5b, 0x6a, 0xcb, 0xbe, 0x39, 0x4a, 0x4c, 0x58, 0xcf,
    0xd0, 0xef, 0xaa, 0xfb, 0x43, 0x4d, 0x33, 0x85, 0x45, 0xf9, 0x02, 0x7f, 0x50, 0x3c, 0x9f, 0xa8,
    0x51, 0xa3, 0x40, 0x8f, 0x92, 0x9d, 0x38, 0xf5, 0xbc, 0xb6, 0xda, 0x21, 0x10, 0xff, 0xf3, 0xd2,
    0xcd, 0x0c, 0x13, 0xec, 0x5f, 0x97, 0x44, 0x17, 0xc4, 0xa7, 0x7e, 0x3d, 0x64, 0x5d, 0x19, 0x73,
    0x60, 0x81, 0x4f, 0xdc, 0x22, 0x2a, 0x90, 0x88, 0x46, 0xee, 0xb8, 0x14, 0xde, 0x5e, 0x0b, 0xdb,
    0xe0, 0x32, 0x3a, 0x0a, 0x49, 0x06, 0x24, 0x5c, 0xc2, 0xd3, 0xac, 0x62, 0x91, 0x95, 0xe4, 0x79,
    0xe7, 0xc8, 0x37, 0x6d, 0x8d, 0xd5, 0x4e, 0xa9, 0x6c, 0x56, 0xf4, 0xea, 0x65, 0x7a, 0xae, 0x08,
    0xba, 0x78, 0x25, 0x2e, 0x1c, 0xa6, 0xb4, 0xc6, 0xe8, 0xdd, 0x74, 0x1f, 0x4b, 0xbd, 0x8b, 0x8a,
    0x70, 0x3e, 0xb5, 0x66, 0x48, 0x03, 0xf6, 0x0e, 0x61, 0x35, 0x57, 0xb9, 0x86, 0xc1, 0x1d, 0x9e,
    0xe1, 0xf8, 0x98, 0x11, 0x69, 0xd9, 0x8e, 0x94, 0x9b, 0x1e, 0x87, 0xe9, 0xce, 0x55, 0x28, 0xdf,
    0x8c, 0xa1, 0x89, 0x0d, 0xbf, 0xe6, 0x42, 0x68, 0x41, 0x99, 0x2d, 0x0f, 0xb0, 0x54, 0xbb, 0x16]"

definition sub_byte :: "byte \<Rightarrow> byte" where
  "sub_byte b = aes_sbox ! unat b"

text \<open>Multiplication by \<open>x\<close> in the field of the cipher.\<close>

definition xtime :: "byte \<Rightarrow> byte" where
  "xtime b = (if unat b < 128 then push_bit 1 b else push_bit 1 b XOR 0x1b)"

definition xor_bytes :: "bytes \<Rightarrow> bytes \<Rightarrow> bytes" where
  "xor_bytes a b = map2 (XOR) a b"

definition shift_rows :: "bytes \<Rightarrow> bytes" where
  "shift_rows s = map (\<lambda>i. s ! i) [0, 5, 10, 15, 4, 9, 14, 3, 8, 13, 2, 7, 12, 1, 6, 11]"

definition mix_column :: "byte \<Rightarrow> byte \<Rightarrow> byte \<Rightarrow> byte \<Rightarrow> bytes" where
  "mix_column a b c d = (let t = a XOR b XOR c XOR d in
     [a XOR t XOR xtime (a XOR b), b XOR t XOR xtime (b XOR c),
      c XOR t XOR xtime (c XOR d), d XOR t XOR xtime (d XOR a)])"

fun mix_columns :: "bytes \<Rightarrow> bytes" where
  "mix_columns (a # b # c # d # s) = mix_column a b c d @ mix_columns s"
| "mix_columns _ = []"

text \<open>Key expansion to words of four bytes; \<open>Nk\<close> words of key, \<open>Nk + 6\<close> rounds.\<close>

fun group4 :: "bytes \<Rightarrow> bytes list" where
  "group4 (a # b # c # d # s) = [a, b, c, d] # group4 s"
| "group4 _ = []"

definition expand_word :: "nat \<Rightarrow> byte \<Rightarrow> bytes list \<Rightarrow> nat \<Rightarrow> bytes" where
  "expand_word nk rcon ws i =
     (let prev = ws ! (i - 1);
          t = (if i mod nk = 0 then xor_bytes (map sub_byte (rotate1 prev)) [rcon, 0, 0, 0]
               else if 6 < nk \<and> i mod nk = 4 then map sub_byte prev
               else prev)
      in xor_bytes (ws ! (i - nk)) t)"

fun expand_loop :: "nat \<Rightarrow> byte \<Rightarrow> nat list \<Rightarrow> bytes list \<Rightarrow> bytes list" where
  "expand_loop nk rcon [] ws = ws"
| "expand_loop nk rcon (i # is) ws =
     expand_loop nk (if i mod nk = 0 then xtime rcon else rcon) is (ws @ [expand_word nk rcon ws i])"

definition key_expansion :: "bytes \<Rightarrow> bytes list" where
  "key_expansion key =
     (let nk = length key div 4 in expand_loop nk 1 [nk..<4 * (nk + 7)] (group4 key))"

definition round_key :: "bytes list \<Rightarrow> nat \<Rightarrow> bytes" where
  "round_key ws r = concat (take 4 (drop (4 * r) ws))"

definition aes_round :: "bytes list \<Rightarrow> bytes \<Rightarrow> nat \<Rightarrow> bytes" where
  "aes_round ws s r = xor_bytes (mix_columns (shift_rows (map sub_byte s))) (round_key ws r)"

text \<open>The encryption of one block, exactly 16 bytes.\<close>

definition aes_encrypt :: "bytes list \<Rightarrow> bytes \<Rightarrow> bytes" where
  "aes_encrypt ws block =
     (let nr = length ws div 4 - 1;
          s = foldl (aes_round ws) (xor_bytes block (round_key ws 0)) [1..<nr];
          out = xor_bytes (shift_rows (map sub_byte s)) (round_key ws nr)
      in take 16 (out @ replicate 16 0))"

lemma length_take_pad: "length (take n (xs @ replicate n x)) = n"
  by simp

lemma length_aes_encrypt [simp]: "length (aes_encrypt ws b) = 16"
  unfolding aes_encrypt_def Let_def by (rule length_take_pad)

section \<open>Galois/Counter mode\<close>

type_synonym u128 = "128 word"

definition u128_of_bytes :: "bytes \<Rightarrow> u128" where
  "u128_of_bytes bs = foldl (\<lambda>w b. push_bit 8 w OR ucast b) 0 (take 16 (bs @ replicate 16 0))"

definition bytes_of_u128 :: "u128 \<Rightarrow> bytes" where
  "bytes_of_u128 w = map (\<lambda>i. ucast (drop_bit (8 * i) w)) (rev [0..<16])"

text \<open>Multiplication in GF(2^128), bit 0 being the most significant one.\<close>

fun gf_loop :: "u128 \<Rightarrow> nat list \<Rightarrow> u128 \<Rightarrow> u128 \<Rightarrow> u128" where
  "gf_loop x [] z v = z"
| "gf_loop x (i # is) z v =
     gf_loop x is (if bit x i then z XOR v else z)
       (if bit v 0 then drop_bit 1 v XOR push_bit 120 0xe1 else drop_bit 1 v)"

definition gf_mult :: "u128 \<Rightarrow> u128 \<Rightarrow> u128" where
  "gf_mult x y = gf_loop x (rev [0..<128]) 0 y"

fun ghash_loop :: "nat \<Rightarrow> u128 \<Rightarrow> u128 \<Rightarrow> bytes \<Rightarrow> u128" where
  "ghash_loop 0 h y bs = y"
| "ghash_loop (Suc n) h y bs = ghash_loop n h (gf_mult (y XOR u128_of_bytes (take 16 bs)) h) (drop 16 bs)"

definition blocks16 :: "nat \<Rightarrow> nat" where
  "blocks16 n = (n + 15) div 16"

text \<open>The hash of the ciphertext and the length block; there is no additional data.\<close>

definition ghash :: "u128 \<Rightarrow> bytes \<Rightarrow> u128" where
  "ghash h ct =
     gf_mult (ghash_loop (blocks16 (length ct)) h 0 ct XOR word_of_nat (8 * length ct)) h"

definition ctr_block :: "bytes \<Rightarrow> nat \<Rightarrow> bytes" where
  "ctr_block nonce i = nonce @ bytes_be32 (word_of_nat i)"

text \<open>The key stream for \<open>n\<close> bytes: the counter starts at 2 for the data, 1 masks the tag.\<close>

definition key_stream :: "bytes list \<Rightarrow> bytes \<Rightarrow> nat \<Rightarrow> bytes" where
  "key_stream ws nonce n =
     take n (concat (map (\<lambda>i. aes_encrypt ws (ctr_block nonce (i + 2))) [0..<blocks16 n]))"

definition gcm_tag :: "bytes list \<Rightarrow> bytes \<Rightarrow> bytes \<Rightarrow> bytes" where
  "gcm_tag ws nonce ct =
     xor_bytes (bytes_of_u128 (ghash (u128_of_bytes (aes_encrypt ws (replicate 16 0))) ct))
       (aes_encrypt ws (ctr_block nonce 1))"

definition gcm_seal :: "bytes \<Rightarrow> bytes \<Rightarrow> bytes \<Rightarrow> bytes" where
  "gcm_seal key nonce pt =
     (let ws = key_expansion key;
          ct = xor_bytes pt (key_stream ws nonce (length pt))
      in ct @ gcm_tag ws nonce ct)"

definition gcm_open :: "bytes \<Rightarrow> bytes \<Rightarrow> bytes \<Rightarrow> bytes option" where
  "gcm_open key nonce sealed =
     (if length sealed < 16 then None
      else let ws = key_expansion key;
               ct = take (length sealed - 16) sealed;
               tag = drop (length sealed - 16) sealed
           in if tag = gcm_tag ws nonce ct
              then Some (xor_bytes ct (key_stream ws nonce (length ct)))
              else None)"

lemma length_xor_bytes [simp]: "length (xor_bytes a b) = min (length a) (length b)"
  by (simp add: xor_bytes_def)

lemma xor_bytes_twice: "length a \<le> length k \<Longrightarrow> xor_bytes (xor_bytes a k) k = a"
  unfolding xor_bytes_def
  by (induction a k rule: list_induct2') (auto simp: xor.assoc)

lemma length_concat_const: "\<forall>x \<in> set xs. length (f x) = k \<Longrightarrow> length (concat (map f xs)) = k * length xs"
  by (induction xs) auto

lemma length_key_stream [simp]: "length (key_stream ws nonce n) = n"
proof -
  have "n \<le> 16 * blocks16 n" unfolding blocks16_def by presburger
  then show ?thesis by (simp add: key_stream_def length_concat_const [where k = 16] min_absorb2)
qed

lemma length_gcm_tag [simp]: "length (gcm_tag ws nonce ct) = 16"
  by (simp add: gcm_tag_def bytes_of_u128_def)

interpretation gcm: aead gcm_seal gcm_open 16
proof
  fix key nonce pt ct
  show "gcm_open key nonce (gcm_seal key nonce pt) = Some pt"
    by (simp add: gcm_open_def gcm_seal_def Let_def xor_bytes_twice)
  show "length (gcm_seal key nonce pt) = length pt + 16"
    by (simp add: gcm_seal_def Let_def)
  assume "gcm_open key nonce ct = Some pt"
  then show "ct = gcm_seal key nonce pt"
    by (auto simp: gcm_open_def gcm_seal_def Let_def xor_bytes_twice split: if_splits)
      (metis append_take_drop_id)
qed

end
