(* ===== verification/Go_Time.thy ===== *)
theory Go_Time
  imports Go_Strings
begin

text \<open>
  Go's \<^verbatim>\<open>time\<close>: an instant is its nanoseconds since the start of year 1, the zero
  \<^verbatim>\<open>time.Time\<close>, so \<^verbatim>\<open>sec\<close> and \<^verbatim>\<open>nsec\<close> of the source are the quotient and the
  remainder by a second; a \<^verbatim>\<open>Duration\<close> is its nanoseconds, kept in 64 bits.
\<close>

type_synonym gotime = int
type_synonym duration = int

definition second :: duration where "second = 10 ^ 9"

definition unix_to_internal :: int where "unix_to_internal = 62135596800"

definition wrap64 :: "int \<Rightarrow> int" where
  "wrap64 n = (n + 2 ^ 63) mod 2 ^ 64 - 2 ^ 63"

text \<open>\<^verbatim>\<open>time.Unix(s, 0)\<close> and \<^verbatim>\<open>t.Unix()\<close>: 64-bit additions of the offset.\<close>

definition time_Unix :: "int \<Rightarrow> gotime" where
  "time_Unix s = wrap64 (s + unix_to_internal) * second"

definition unix_seconds :: "gotime \<Rightarrow> int" where
  "unix_seconds t = wrap64 (t div second - unix_to_internal)"

text \<open>\<^verbatim>\<open>t.Sub(u)\<close> saturates; \<^verbatim>\<open>time.Since(u)\<close> is \<^verbatim>\<open>Now().Sub(u)\<close>.\<close>

definition time_sub :: "gotime \<Rightarrow> gotime \<Rightarrow> duration" where
  "time_sub t u = clamp_int64 (t - u)"

lemma wrap64_id: "min_int64 \<le> n \<Longrightarrow> n \<le> max_int64 \<Longrightarrow> wrap64 n = n"
  by (simp add: wrap64_def min_int64_def max_int64_def)

lemma wrap64_range: "min_int64 \<le> wrap64 n \<and> wrap64 n \<le> max_int64"
proof -
  have "0 \<le> (n + 2 ^ 63) mod 2 ^ 64" "(n + 2 ^ 63) mod 2 ^ 64 < 2 ^ 64" by simp_all
  then show ?thesis by (simp add: wrap64_def min_int64_def max_int64_def)
qed

lemma clamp_int64_id: "min_int64 \<le> n \<Longrightarrow> n \<le> max_int64 \<Longrightarrow> clamp_int64 n = n"
  by (simp add: clamp_int64_def)

lemma unix_seconds_int64 [simp]: "clamp_int64 (unix_seconds t) = unix_seconds t"
  using wrap64_range by (simp add: unix_seconds_def clamp_int64_id)

text \<open>The instants a wall clock shows: their seconds fit in 64 bits, before and after the offset.\<close>

definition clock_time :: "gotime \<Rightarrow> bool" where
  "clock_time t \<longleftrightarrow> 0 \<le> t \<and> t div second \<le> max_int64"

lemma time_Unix_unix_seconds: "clock_time t \<Longrightarrow> time_Unix (unix_seconds t) = t div second * second"
proof -
  assume *: "clock_time t"
  then have "0 \<le> t div second"
    by (simp add: clock_time_def second_def pos_imp_zdiv_nonneg_iff)
  then have "wrap64 (t div second - unix_to_internal) = t div second - unix_to_internal"
    using * by (intro wrap64_id) (simp_all add: clock_time_def min_int64_def max_int64_def unix_to_internal_def)
  moreover have "wrap64 (t div second) = t div second"
    using * \<open>0 \<le> t div second\<close> by (intro wrap64_id) (simp_all add: clock_time_def min_int64_def)
  ultimately show ?thesis by (simp add: time_Unix_def unix_seconds_def)
qed

section \<open>Duration.Seconds\<close>

text \<open>
  \<^verbatim>\<open>int64(d.Seconds())\<close>: the seconds and the nanoseconds of the duration, added as
  floating-point numbers of 53 bits and truncated. A non-negative float is kept here as a
  multiple of \<open>2^-82\<close>, which holds every value that occurs (the smallest fraction, a
  nanosecond, has 53 significant bits from \<open>2^-30\<close> down).
\<close>

fun bit_len :: "nat \<Rightarrow> nat" where
  "bit_len n = (if n = 0 then 0 else Suc (bit_len (n div 2)))"

declare bit_len.simps [simp del]

text \<open>Round to nearest, ties to even.\<close>

definition rne_div :: "nat \<Rightarrow> nat \<Rightarrow> nat" where
  "rne_div p q = (let k = p div q; r = 2 * (p mod q)
     in if r < q \<or> r = q \<and> even k then k else Suc k)"

definition round53 :: "nat \<Rightarrow> nat" where
  "round53 n = (let k = bit_len n - 53 in rne_div n (2 ^ k) * 2 ^ k)"

definition frac_units :: "nat \<Rightarrow> nat" where
  "frac_units ns = (let n = ns * 2 ^ 82; k = bit_len (n div 10 ^ 9) - 53
     in rne_div n (10 ^ 9 * 2 ^ k) * 2 ^ k)"

definition seconds_nat :: "nat \<Rightarrow> nat" where
  "seconds_nat d = round53 (d div 10 ^ 9 * 2 ^ 82 + frac_units (d mod 10 ^ 9)) div 2 ^ 82"

definition duration_seconds :: "duration \<Rightarrow> int" where
  "duration_seconds d = (if d < 0 then - int (seconds_nat (nat (- d))) else int (seconds_nat (nat d)))"

lemma bit_len_0 [simp]: "bit_len 0 = 0"
  by (subst bit_len.simps) simp

lemma seconds_nat_0: "seconds_nat 0 = 0"
  by (simp add: seconds_nat_def frac_units_def round53_def rne_div_def)

lemma duration_seconds_nonpos: "d \<le> 0 \<Longrightarrow> duration_seconds d \<le> 0"
  using seconds_nat_0 by (cases "d = 0") (simp_all add: duration_seconds_def)

text \<open>Rounding at most doubles a value, so the seconds of a 64-bit duration fit in 64 bits.\<close>

lemma bit_len_le: "0 < n \<Longrightarrow> 2 ^ (bit_len n - 1) \<le> n"
proof (induction n rule: bit_len.induct)
  case (1 n)
  show ?case
  proof (cases "n div 2 = 0")
    case True
    then have "bit_len n = 1" using 1(2) by (subst bit_len.simps) simp
    then show ?thesis using 1(2) by simp
  next
    case False
    then have "2 ^ (bit_len (n div 2) - 1) \<le> n div 2" using 1 by simp
    moreover have "bit_len (n div 2) \<noteq> 0" using False by (subst bit_len.simps) simp
    then have "(2::nat) ^ (bit_len n - 1) = 2 * 2 ^ (bit_len (n div 2) - 1)"
      using 1(2) by (subst bit_len.simps) (simp flip: power_Suc)
    ultimately show ?thesis by linarith
  qed
qed

lemma shift_le:
  assumes "0 < bit_len n - 53"
  shows "2 ^ (bit_len n - 53) \<le> n"
proof -
  have "0 < n" using assms by (cases "n = 0") auto
  have "(2::nat) ^ (bit_len n - 53) \<le> 2 ^ (bit_len n - 1)" by (rule power_increasing) auto
  then show ?thesis using bit_len_le [OF \<open>0 < n\<close>] by linarith
qed

lemma rne_div_le: "rne_div p q \<le> p div q + 1"
  by (simp add: rne_div_def Let_def)

lemma rne_div_1 [simp]: "rne_div n (Suc 0) = n"
  by (simp add: rne_div_def)

lemma rne_shift_le: "rne_div p (q * 2 ^ k) * 2 ^ k \<le> p div q + 2 ^ k"
proof -
  have "rne_div p (q * 2 ^ k) * 2 ^ k \<le> (p div q div 2 ^ k + 1) * 2 ^ k"
    using rne_div_le [of p "q * 2 ^ k"] by (simp only: div_mult2_eq mult_le_mono1)
  also have "\<dots> = p div q div 2 ^ k * 2 ^ k + 2 ^ k" by (simp only: add_mult_distrib mult_1)
  also have "\<dots> \<le> p div q + 2 ^ k" by (simp only: add_le_mono1 div_times_less_eq_dividend)
  finally show ?thesis .
qed

lemma round53_le: "round53 n \<le> 2 * n"
proof (cases "0 < bit_len n - 53")
  case True
  then show ?thesis
    using rne_shift_le [of n 1 "bit_len n - 53"] shift_le [OF True] by (simp add: round53_def Let_def)
next
  case False
  then show ?thesis by (simp add: round53_def)
qed

lemma frac_units_le: "frac_units ns \<le> 2 * (ns * 2 ^ 82 div 10 ^ 9) + 1"
proof -
  let ?L = "ns * 2 ^ 82 div 10 ^ 9"
  have "frac_units ns \<le> ?L + 2 ^ (bit_len ?L - 53)"
    unfolding frac_units_def Let_def by (rule rne_shift_le)
  then show ?thesis using shift_le [of ?L] by (cases "0 < bit_len ?L - 53") auto
qed

lemma seconds_nat_le: "seconds_nat d \<le> 2 * (d div 10 ^ 9) + 6"
proof -
  let ?ns = "d mod 10 ^ 9"
  have "?ns * 2 ^ 82 \<le> 10 ^ 9 * 2 ^ 82" by simp
  then have "?ns * 2 ^ 82 div 10 ^ 9 \<le> (10 ^ 9 * 2 ^ 82) div 10 ^ 9" by (rule div_le_mono)
  then have "?ns * 2 ^ 82 div 10 ^ 9 \<le> 2 ^ 82" by simp
  then have "frac_units ?ns \<le> 3 * 2 ^ 82" using frac_units_le [of ?ns] by simp
  then have "round53 (d div 10 ^ 9 * 2 ^ 82 + frac_units ?ns) \<le> (2 * (d div 10 ^ 9) + 6) * 2 ^ 82"
    using round53_le [of "d div 10 ^ 9 * 2 ^ 82 + frac_units ?ns"] by simp
  then have "seconds_nat d \<le> (2 * (d div 10 ^ 9) + 6) * 2 ^ 82 div 2 ^ 82"
    unfolding seconds_nat_def by (rule div_le_mono)
  then show ?thesis by simp
qed

lemma duration_seconds_int64 [simp]:
  "clamp_int64 (duration_seconds (time_sub t u)) = duration_seconds (time_sub t u)"
proof -
  have "seconds_nat n \<le> 2 ^ 62" if "n \<le> 2 ^ 63" for n
  proof -
    have "n div 10 ^ 9 \<le> 2 ^ 63 div 10 ^ 9" using that by (rule div_le_mono)
    then show ?thesis using seconds_nat_le [of n] by simp
  qed
  moreover have "nat \<bar>time_sub t u\<bar> \<le> 2 ^ 63"
    by (simp add: time_sub_def clamp_int64_def min_int64_def max_int64_def)
  ultimately have "seconds_nat (nat \<bar>time_sub t u\<bar>) \<le> 2 ^ 62" by blast
  then have "\<bar>duration_seconds (time_sub t u)\<bar> \<le> 2 ^ 62"
    by (auto simp: duration_seconds_def split: if_splits)
  then show ?thesis by (intro clamp_int64_id) (auto simp: min_int64_def max_int64_def)
qed

end
