(* ===== verification/OAuth_Crypto.thy ===== *)
theory OAuth_Crypto
  imports Go_JsonStruct Go_AesGcm Go_Encoding Go_Time
begin

text \<open>
  The sealed tokens of the OAuth proxy, \<^verbatim>\<open>pkg/auth/oauth/crypto.go\<close>, and the PKCE
  check of \<^verbatim>\<open>pkce.go\<close>. The state parameter and the authorization code are JSON texts
  sealed with AES-GCM under a key derived from the secret, in unpadded URL base64. The
  random bytes and the current time are arguments.
\<close>

section \<open>The payloads\<close>

record StatePayload =
  sp_RedirectURI :: string
  sp_CodeChallenge :: string
  sp_ClientID :: string
  sp_ClientState :: string
  sp_Timestamp :: int

record AuthCodePayload =
  ac_AccessToken :: string
  ac_IDToken :: string
  ac_RefreshToken :: string
  ac_TokenType :: string
  ac_ExpiresIn :: int
  ac_CodeChallenge :: string
  ac_ClientID :: string
  ac_RedirectURI :: string
  ac_Timestamp :: int

definition empty_state :: StatePayload where
  "empty_state = \<lparr>sp_RedirectURI = [], sp_CodeChallenge = [], sp_ClientID = [], sp_ClientState = [],
     sp_Timestamp = 0\<rparr>"

definition empty_auth_code :: AuthCodePayload where
  "empty_auth_code = \<lparr>ac_AccessToken = [], ac_IDToken = [], ac_RefreshToken = [], ac_TokenType = [],
     ac_ExpiresIn = 0, ac_CodeChallenge = [], ac_ClientID = [], ac_RedirectURI = [], ac_Timestamp = 0\<rparr>"

text \<open>The JSON form: the struct tags in order, \<^verbatim>\<open>omitempty\<close> fields left out when zero.\<close>

definition state_json :: "StatePayload \<Rightarrow> json" where
  "state_json s = JObj
     [(''redirect_uri'', JStr (sp_RedirectURI s)),
      (''code_challenge'', JStr (sp_CodeChallenge s)),
      (''client_id'', JStr (sp_ClientID s)),
      (''client_state'', JStr (sp_ClientState s)),
      (''timestamp'', JInt (sp_Timestamp s))]"

definition auth_code_json :: "AuthCodePayload \<Rightarrow> json" where
  "auth_code_json a = JObj
     ([(''access_token'', JStr (ac_AccessToken a))]
      @ (if ac_IDToken a = [] then [] else [(''id_token'', JStr (ac_IDToken a))])
      @ (if ac_RefreshToken a = [] then [] else [(''refresh_token'', JStr (ac_RefreshToken a))])
      @ [(''token_type'', JStr (ac_TokenType a))]
      @ (if ac_ExpiresIn a = 0 then [] else [(''expires_in'', JInt (ac_ExpiresIn a))])
      @ [(''code_challenge'', JStr (ac_CodeChallenge a)),
         (''client_id'', JStr (ac_ClientID a)),
         (''redirect_uri'', JStr (ac_RedirectURI a)),
         (''timestamp'', JInt (ac_Timestamp a))])"

definition state_fields :: "StatePayload json_fields" where
  "state_fields =
     [(''redirect_uri'', string_field sp_RedirectURI_update),
      (''code_challenge'', string_field sp_CodeChallenge_update),
      (''client_id'', string_field sp_ClientID_update),
      (''client_state'', string_field sp_ClientState_update),
      (''timestamp'', int64_field sp_Timestamp_update)]"

definition auth_code_fields :: "AuthCodePayload json_fields" where
  "auth_code_fields =
     [(''access_token'', string_field ac_AccessToken_update),
      (''id_token'', string_field ac_IDToken_update),
      (''refresh_token'', string_field ac_RefreshToken_update),
      (''token_type'', string_field ac_TokenType_update),
      (''expires_in'', int64_field ac_ExpiresIn_update),
      (''code_challenge'', string_field ac_CodeChallenge_update),
      (''client_id'', string_field ac_ClientID_update),
      (''redirect_uri'', string_field ac_RedirectURI_update),
      (''timestamp'', int64_field ac_Timestamp_update)]"

section \<open>Sealing and opening\<close>

datatype crypto_error =
    Base64Error | CipherKeyError | RandError | ShortCiphertext | OpenError | JsonError | ExpiredError

type_synonym 'a crypto = "crypto_error + 'a"

definition deriveKey :: "string \<Rightarrow> bytes" where
  "deriveKey secret = sha256 (bytes_of secret)"

text \<open>\<^verbatim>\<open>aes.NewCipher\<close> takes keys of three sizes; \<^verbatim>\<open>gcm.NonceSize()\<close> is 12.\<close>

definition aes_key_ok :: "bytes \<Rightarrow> bool" where
  "aes_key_ok key \<longleftrightarrow> length key \<in> {16, 24, 32}"

definition nonce_size :: nat where "nonce_size = 12"

text \<open>\<open>rnd\<close> is what \<^verbatim>\<open>rand.Read\<close> filled the nonce with, or its failure.\<close>

definition encrypt :: "bytes \<Rightarrow> bytes option \<Rightarrow> json \<Rightarrow> string crypto" where
  "encrypt key rnd v =
     (let plaintext = bytes_of (json_text v) in
      if \<not> aes_key_ok key then Inl CipherKeyError
      else case rnd of
        None \<Rightarrow> Inl RandError
      | Some nonce \<Rightarrow> Inr (b64_encode (nonce @ gcm_seal key nonce plaintext)))"

definition open_token :: "bytes \<Rightarrow> string \<Rightarrow> bytes crypto" where
  "open_token key encoded =
     (case b64_decode encoded of
        None \<Rightarrow> Inl Base64Error
      | Some ciphertext \<Rightarrow>
          if \<not> aes_key_ok key then Inl CipherKeyError
          else if length ciphertext < nonce_size then Inl ShortCiphertext
          else (case gcm_open key (take nonce_size ciphertext) (drop nonce_size ciphertext) of
                  None \<Rightarrow> Inl OpenError
                | Some plaintext \<Rightarrow> Inr plaintext))"

definition decrypt :: "bytes \<Rightarrow> string \<Rightarrow> 'r json_fields \<Rightarrow> 'r \<Rightarrow> 'r crypto" where
  "decrypt key encoded fds v =
     (case open_token key encoded of
        Inl e \<Rightarrow> Inl e
      | Inr plaintext \<Rightarrow>
          (case json_parse (string_of_bytes plaintext) of
             None \<Rightarrow> Inl JsonError
           | Some j \<Rightarrow> (case decode_struct fds j v of None \<Rightarrow> Inl JsonError | Some v' \<Rightarrow> Inr v')))"

definition token_expired :: "gotime \<Rightarrow> int \<Rightarrow> duration \<Rightarrow> bool" where
  "token_expired now timestamp ttl \<longleftrightarrow> time_sub now (time_Unix timestamp) > ttl"

definition encryptState :: "bytes \<Rightarrow> bytes option \<Rightarrow> gotime \<Rightarrow> StatePayload \<Rightarrow> string crypto" where
  "encryptState key rnd now s = encrypt key rnd (state_json (s\<lparr>sp_Timestamp := unix_seconds now\<rparr>))"

definition decryptState :: "bytes \<Rightarrow> string \<Rightarrow> duration \<Rightarrow> gotime \<Rightarrow> StatePayload crypto" where
  "decryptState key encoded ttl now =
     (case decrypt key encoded state_fields empty_state of
        Inl e \<Rightarrow> Inl e
      | Inr s \<Rightarrow> if token_expired now (sp_Timestamp s) ttl then Inl ExpiredError else Inr s)"

definition encryptAuthCode :: "bytes \<Rightarrow> bytes option \<Rightarrow> gotime \<Rightarrow> AuthCodePayload \<Rightarrow> string crypto" where
  "encryptAuthCode key rnd now a = encrypt key rnd (auth_code_json (a\<lparr>ac_Timestamp := unix_seconds now\<rparr>))"

definition decryptAuthCode :: "bytes \<Rightarrow> string \<Rightarrow> duration \<Rightarrow> gotime \<Rightarrow> AuthCodePayload crypto" where
  "decryptAuthCode key encoded ttl now =
     (case decrypt key encoded auth_code_fields empty_auth_code of
        Inl e \<Rightarrow> Inl e
      | Inr a \<Rightarrow> if token_expired now (ac_Timestamp a) ttl then Inl ExpiredError else Inr a)"

section \<open>PKCE\<close>

definition verifyCodeChallenge :: "string \<Rightarrow> string \<Rightarrow> bool" where
  "verifyCodeChallenge verifier challenge =
     (if verifier = [] \<or> challenge = [] then False
      else b64_encode (sha256 (bytes_of verifier)) = challenge)"

section \<open>The contract of a sealed token\<close>

text \<open>
  A token is the text encoding of a nonce followed by the sealed plaintext. What the proxy
  relies on: a token opens to what was sealed in it, and only such tokens open.
\<close>

locale sealed_text =
  aead seal open_sealed overhead + text_codec enc dec
  for seal open_sealed overhead enc dec +
  fixes nonce_len :: nat
begin

lemma sealed_opens:
  assumes "length nonce = nonce_len" and "dec (enc (nonce @ seal key nonce pt)) = Some ct"
  shows "nonce_len \<le> length ct \<and> open_sealed key (take nonce_len ct) (drop nonce_len ct) = Some pt"
  using assms by (auto simp: dec_enc open_seal)

lemma opened_was_sealed:
  assumes "nonce_len \<le> length ct" and "open_sealed key (take nonce_len ct) (drop nonce_len ct) = Some pt"
  shows "\<exists>nonce. length nonce = nonce_len \<and> ct = nonce @ seal key nonce pt"
  using assms open_sealed_seal by (intro exI [of _ "take nonce_len ct"]) (metis append_take_drop_id length_take min.absorb2)

lemma sealed_inject:
  assumes "length nonce = nonce_len" and "length nonce' = nonce_len"
  shows "enc (nonce @ seal key nonce pt) = enc (nonce' @ seal key nonce' pt') \<longleftrightarrow> nonce = nonce' \<and> pt = pt'"
  using assms by (auto simp: enc_inject seal_inject)

end

interpretation gcm_token: sealed_text gcm_seal gcm_open 16 b64_encode b64_decode nonce_size ..

lemma open_token_iff:
  assumes "aes_key_ok key"
  shows "open_token key tok = Inr pt \<longleftrightarrow>
    (\<exists>nonce. length nonce = nonce_size \<and> b64_decode tok = Some (nonce @ gcm_seal key nonce pt))"
proof
  assume "open_token key tok = Inr pt"
  then obtain ct where "b64_decode tok = Some ct" "nonce_size \<le> length ct"
    "gcm_open key (take nonce_size ct) (drop nonce_size ct) = Some pt"
    using assms by (auto simp: open_token_def split: option.splits if_splits)
  then show "\<exists>nonce. length nonce = nonce_size \<and> b64_decode tok = Some (nonce @ gcm_seal key nonce pt)"
    using gcm_token.opened_was_sealed by fastforce
next
  assume "\<exists>nonce. length nonce = nonce_size \<and> b64_decode tok = Some (nonce @ gcm_seal key nonce pt)"
  then show "open_token key tok = Inr pt"
    using assms by (auto simp: open_token_def gcm.open_seal)
qed

lemma open_token_encrypt:
  assumes "encrypt key (Some nonce) v = Inr tok" and "length nonce = nonce_size"
  shows "open_token key tok = Inr (bytes_of (json_text v))"
proof -
  have "aes_key_ok key" and "tok = b64_encode (nonce @ gcm_seal key nonce (bytes_of (json_text v)))"
    using assms(1) by (auto simp: encrypt_def Let_def split: if_splits)
  then show ?thesis using open_token_iff assms(2) b64.dec_enc by blast
qed

lemma decrypt_encrypt:
  assumes "encrypt key (Some nonce) v = Inr tok" and "length nonce = nonce_size" and "json_ok 0 v"
  shows "decrypt key tok fds r =
    (case decode_struct fds (json_clean v) r of None \<Rightarrow> Inl JsonError | Some r' \<Rightarrow> Inr r')"
  using open_token_encrypt [OF assms(1,2)] json_parse_text [OF assms(3)] by (simp add: decrypt_def)

lemma length_deriveKey [simp]: "length (deriveKey secret) = 32"
  by (simp add: deriveKey_def)

lemma deriveKey_ok [simp]: "aes_key_ok (deriveKey secret)"
  by (simp add: aes_key_ok_def)

section \<open>Decoding what was encoded\<close>

text \<open>Only what is not valid UTF-8 changes on the way through JSON.\<close>

definition clean_state :: "StatePayload \<Rightarrow> StatePayload" where
  "clean_state s = s\<lparr>sp_RedirectURI := to_valid_utf8 (sp_RedirectURI s),
     sp_CodeChallenge := to_valid_utf8 (sp_CodeChallenge s), sp_ClientID := to_valid_utf8 (sp_ClientID s),
     sp_ClientState := to_valid_utf8 (sp_ClientState s)\<rparr>"

definition clean_auth_code :: "AuthCodePayload \<Rightarrow> AuthCodePayload" where
  "clean_auth_code a = a\<lparr>ac_AccessToken := to_valid_utf8 (ac_AccessToken a),
     ac_IDToken := to_valid_utf8 (ac_IDToken a), ac_RefreshToken := to_valid_utf8 (ac_RefreshToken a),
     ac_TokenType := to_valid_utf8 (ac_TokenType a), ac_CodeChallenge := to_valid_utf8 (ac_CodeChallenge a),
     ac_ClientID := to_valid_utf8 (ac_ClientID a), ac_RedirectURI := to_valid_utf8 (ac_RedirectURI a)\<rparr>"

lemma json_key_ascii:
  "to_valid_utf8 ''redirect_uri'' = ''redirect_uri''" "to_valid_utf8 ''code_challenge'' = ''code_challenge''"
  "to_valid_utf8 ''client_id'' = ''client_id''" "to_valid_utf8 ''client_state'' = ''client_state''"
  "to_valid_utf8 ''timestamp'' = ''timestamp''" "to_valid_utf8 ''access_token'' = ''access_token''"
  "to_valid_utf8 ''id_token'' = ''id_token''" "to_valid_utf8 ''refresh_token'' = ''refresh_token''"
  "to_valid_utf8 ''token_type'' = ''token_type''" "to_valid_utf8 ''expires_in'' = ''expires_in''"
  by (rule to_valid_ascii; simp add: byte_ord_def)+

lemma decode_state_json:
  assumes "clamp_int64 (sp_Timestamp s) = sp_Timestamp s"
  shows "decode_struct state_fields (json_clean (state_json s)) empty_state = Some (clean_state s)"
  using assms
  by (simp add: state_json_def json_key_ascii state_fields_def field_for_exact empty_state_def clean_state_def)

lemma to_valid_Nil [simp]: "to_valid_utf8 [] = []"
  by (simp add: to_valid_ascii)

lemma decode_auth_code_json:
  assumes "clamp_int64 (ac_Timestamp a) = ac_Timestamp a" and "clamp_int64 (ac_ExpiresIn a) = ac_ExpiresIn a"
  shows "decode_struct auth_code_fields (json_clean (auth_code_json a)) empty_auth_code = Some (clean_auth_code a)"
  using assms
  by (simp add: auth_code_json_def json_key_ascii auth_code_fields_def field_for_exact empty_auth_code_def
      clean_auth_code_def)

text \<open>
  A state token read as an authorization code: the members the two payloads share are
  taken, \<^verbatim>\<open>client_state\<close> is skipped and the tokens stay empty.
\<close>

definition state_as_auth_code :: "StatePayload \<Rightarrow> AuthCodePayload" where
  "state_as_auth_code s = empty_auth_code\<lparr>ac_RedirectURI := sp_RedirectURI s,
     ac_CodeChallenge := sp_CodeChallenge s, ac_ClientID := sp_ClientID s, ac_Timestamp := sp_Timestamp s\<rparr>"

lemma fold_client_state: "field_for auth_code_fields ''client_state'' = None"
  unfolding field_for_def auth_code_fields_def by (simp add: upper_char_def byte_ord_def byte_chr_def)

lemma decode_state_as_auth_code:
  assumes "clamp_int64 (sp_Timestamp s) = sp_Timestamp s"
  shows "decode_struct auth_code_fields (json_clean (state_json s)) empty_auth_code =
    Some (state_as_auth_code (clean_state s))"
  using assms fold_client_state
  by (simp add: state_json_def json_key_ascii auth_code_fields_def field_for_exact empty_auth_code_def
      clean_state_def state_as_auth_code_def)

lemma json_ok_payloads [simp]: "json_ok 0 (state_json s)" "json_ok 0 (auth_code_json a)"
  by (simp_all add: state_json_def auth_code_json_def max_nesting_def)

end
