(* ===== verification/Go_Url.thy ===== *)
theory Go_Url
  imports Go_Encoding
begin

text \<open>
  \<^verbatim>\<open>net/url\<close> as the program uses it: escaping and unescaping in the modes of
  \<^verbatim>\<open>url.go\<close>, \<^verbatim>\<open>Parse\<close> with its checks on scheme, authority and path,
  \<^verbatim>\<open>URL.String\<close> and \<^verbatim>\<open>Hostname\<close>, and the query side: \<^verbatim>\<open>ParseQuery\<close>
  and \<^verbatim>\<open>Values\<close> with \<^verbatim>\<open>Get\<close>, \<^verbatim>\<open>Set\<close> and \<^verbatim>\<open>Encode\<close>.
\<close>

section \<open>Escaping\<close>

datatype url_mode = EncPath | EncUserPassword | EncHost | EncZone | EncQuery | EncFragment

definition is_alpha :: "char \<Rightarrow> bool" where
  "is_alpha c \<longleftrightarrow> (let n = byte_ord c in 65 \<le> n \<and> n \<le> 90 \<or> 97 \<le> n \<and> n \<le> 122)"

definition is_alnum :: "char \<Rightarrow> bool" where
  "is_alnum c \<longleftrightarrow> is_alpha c \<or> is_digit c"

definition should_escape :: "url_mode \<Rightarrow> char \<Rightarrow> bool" where
  "should_escape m c =
     (if is_alnum c then False
      else if (m = EncHost \<or> m = EncZone) \<and> c \<in> set ''!$&()*+,;=:[]<>'' \<union> {CHR 0x22, CHR 0x27} then False
      else if c \<in> set ''-_.~'' then False
      else if c \<in> set ''$&+,/:;=?@'' then
        (case m of
           EncPath \<Rightarrow> c = CHR ''?''
         | EncUserPassword \<Rightarrow> c \<in> set ''@/?:''
         | EncQuery \<Rightarrow> True
         | EncFragment \<Rightarrow> False
         | EncHost \<Rightarrow> True
         | EncZone \<Rightarrow> True)
      else if m = EncFragment \<and> c \<in> set ''!()*'' then False
      else True)"

definition upper_hex :: "nat \<Rightarrow> char" where
  "upper_hex n = (if n < 10 then byte_chr (48 + n) else byte_chr (55 + n))"

definition escape_char :: "url_mode \<Rightarrow> char \<Rightarrow> string" where
  "escape_char m c =
     (if c = CHR '' '' \<and> m = EncQuery then ''+''
      else if should_escape m c then [CHR 0x25, upper_hex (byte_ord c div 16), upper_hex (byte_ord c mod 16)]
      else [c])"

definition url_escape :: "url_mode \<Rightarrow> string \<Rightarrow> string" where
  "url_escape m s = concat (map (escape_char m) s)"

text \<open>The value of a percent escape, and whether the mode allows it.\<close>

definition escape_allowed :: "url_mode \<Rightarrow> nat \<Rightarrow> bool" where
  "escape_allowed m v =
     (if m = EncHost then v \<ge> 128 \<or> v = 37
      else if m = EncZone then v = 37 \<or> v = 32 \<or> \<not> should_escape EncHost (byte_chr v)
      else True)"

definition plain_allowed :: "url_mode \<Rightarrow> char \<Rightarrow> bool" where
  "plain_allowed m c = (\<not> ((m = EncHost \<or> m = EncZone) \<and> byte_ord c < 128 \<and> should_escape m c))"

fun url_unescape :: "url_mode \<Rightarrow> string \<Rightarrow> string option" where
  "url_unescape m [] = Some []"
| "url_unescape m (c # r) =
     (if c = CHR 0x25 then
        (case r of
           a # b # r' \<Rightarrow>
             (case (unhex a, unhex b) of
                (Some x, Some y) \<Rightarrow>
                  if escape_allowed m (16 * x + y)
                  then map_option ((#) (byte_chr (16 * x + y))) (url_unescape m r') else None
              | _ \<Rightarrow> None)
         | _ \<Rightarrow> None)
      else if c = CHR ''+'' \<and> m = EncQuery then map_option ((#) CHR '' '') (url_unescape m r)
      else if plain_allowed m c then map_option ((#) c) (url_unescape m r) else None)"

definition valid_encoded :: "url_mode \<Rightarrow> string \<Rightarrow> bool" where
  "valid_encoded m s = list_all (\<lambda>c. c \<in> set ''!$&()*+,;=:@[]%'' \<union> {CHR 0x27} \<or> \<not> should_escape m c) s"

section \<open>Hosts\<close>

text \<open>\<^verbatim>\<open>netip.ParseAddr\<close>, as far as it decides which bracketed hosts are IPv6 addresses.\<close>

definition ipv4_octet :: "string \<Rightarrow> bool" where
  "ipv4_octet s \<longleftrightarrow> s \<noteq> [] \<and> list_all is_digit s \<and> (hd s = CHR ''0'' \<longrightarrow> length s = 1) \<and> digits_val s \<le> 255"

definition ipv4_fields :: "string \<Rightarrow> bool" where
  "ipv4_fields s \<longleftrightarrow> (let ps = split CHR ''.'' s in length ps = 4 \<and> list_all ipv4_octet ps)"

definition is_hex :: "char \<Rightarrow> bool" where
  "is_hex c \<longleftrightarrow> unhex c \<noteq> None"

text \<open>The loop over the groups: \<open>i\<close> bytes are filled, \<open>ell\<close> says whether \<open>::\<close> was seen.\<close>

definition ipv6_done :: "nat \<Rightarrow> bool \<Rightarrow> string \<Rightarrow> bool" where
  "ipv6_done i ell s \<longleftrightarrow> s = [] \<and> (if i < 16 then ell else \<not> ell)"

function ipv6_groups :: "nat \<Rightarrow> bool \<Rightarrow> string \<Rightarrow> bool" where
  "ipv6_groups i ell s =
     (if \<not> i < 16 then ipv6_done i ell s
      else let g = takeWhile is_hex s; r = dropWhile is_hex s in
        if g = [] \<or> length g > 4 then False
        else case r of
          [] \<Rightarrow> ipv6_done (i + 2) ell []
        | c # r1 \<Rightarrow>
            if c = CHR ''.'' then (ell \<or> i = 12) \<and> i + 4 \<le> 16 \<and> ipv4_fields s \<and> ipv6_done (i + 4) ell []
            else if c \<noteq> CHR '':'' then False
            else (case r1 of
                    [] \<Rightarrow> False
                  | d # r2 \<Rightarrow>
                      if d = CHR '':'' then
                        (if ell then False
                         else if r2 = [] then ipv6_done (i + 2) True []
                         else ipv6_groups (i + 2) True r2)
                      else ipv6_groups (i + 2) ell r1))"
  by pat_completeness auto
termination by (relation "measure (\<lambda>(i, _, _). 16 - i)") auto

declare ipv6_groups.simps [simp del]

definition parse_ipv6 :: "string \<Rightarrow> bool" where
  "parse_ipv6 s0 =
     (let (s, zone, has_zone) = cut CHR 0x25 s0 in
      if has_zone \<and> zone = [] then False
      else case cut_prefix s ''::'' of
        Some r \<Rightarrow> r = [] \<or> ipv6_groups 0 True r
      | None \<Rightarrow> ipv6_groups 0 False s)"

text \<open>\<^verbatim>\<open>ParseAddr\<close> chooses by the first dot, colon or percent; IPv4 is refused in brackets.\<close>

definition ipv6_literal :: "string \<Rightarrow> bool" where
  "ipv6_literal s =
     (case dropWhile (\<lambda>c. c \<notin> set ''.:%'') s of
        [] \<Rightarrow> False
      | c # _ \<Rightarrow> c = CHR '':'' \<and> parse_ipv6 s)"

definition valid_optional_port :: "string \<Rightarrow> bool" where
  "valid_optional_port p = (case p of [] \<Rightarrow> True | c # r \<Rightarrow> c = CHR '':'' \<and> list_all is_digit r)"

text \<open>\<^verbatim>\<open>strings.Index\<close> for \<open>%25\<close>: the part before it and from it on.\<close>

fun cut_zone :: "string \<Rightarrow> (string \<times> string) option" where
  "cut_zone [] = None"
| "cut_zone (c # r) =
     (if has_prefix (c # r) ''%25'' then Some ([], c # r)
      else map_option (apfst ((#) c)) (cut_zone r))"

definition bracket_host :: "string \<Rightarrow> string option" where
  "bracket_host host =
     (case cut_last CHR '']'' host of
        None \<Rightarrow> None
      | Some (inside, after) \<Rightarrow>
          if \<not> valid_optional_port after then None
          else case url_unescape EncHost after of
            None \<Rightarrow> None
          | Some port \<Rightarrow>
              (case (case cut_zone (drop 1 inside) of
                       None \<Rightarrow> url_unescape EncHost (drop 1 inside)
                     | Some (h, z) \<Rightarrow>
                         (case (url_unescape EncHost h, url_unescape EncZone z) of
                            (Some h', Some z') \<Rightarrow> Some (h' @ z') | _ \<Rightarrow> None)) of
                 None \<Rightarrow> None
               | Some h \<Rightarrow> if ipv6_literal h then Some (''['' @ h @ '']'' @ port) else None))"

text \<open>
  A host without brackets has one colon, before its port, for the schemes
  \<^verbatim>\<open>http\<close> and \<^verbatim>\<open>https\<close>; other schemes may have more, and the last one counts.
\<close>

definition parse_host :: "string \<Rightarrow> string \<Rightarrow> string option" where
  "parse_host scheme host =
     (case host of
        [] \<Rightarrow> Some []
      | c # r \<Rightarrow>
          if CHR ''['' \<in> set r then None
          else if c = CHR ''['' then bracket_host host
          else if CHR '':'' \<notin> set host then url_unescape EncHost host
          else let port = (if scheme \<in> {''http'', ''https''} then dropWhile (\<lambda>x. x \<noteq> CHR '':'') host
                           else case cut_last CHR '':'' host of Some (_, p) \<Rightarrow> CHR '':'' # p | None \<Rightarrow> [])
               in if valid_optional_port port then url_unescape EncHost host else None)"

section \<open>URLs\<close>

record userinfo =
  ui_username :: string
  ui_password :: "string option"

record url =
  url_scheme :: string
  url_opaque :: string
  url_user :: "userinfo option"
  url_host :: string
  url_path :: string
  url_raw_path :: string
  url_omit_host :: bool
  url_force_query :: bool
  url_raw_query :: string
  url_fragment :: string
  url_raw_fragment :: string

definition empty_url :: url where
  "empty_url = \<lparr>url_scheme = [], url_opaque = [], url_user = None, url_host = [], url_path = [], url_raw_path = [],
     url_omit_host = False, url_force_query = False, url_raw_query = [], url_fragment = [], url_raw_fragment = []\<rparr>"

definition valid_userinfo :: "string \<Rightarrow> bool" where
  "valid_userinfo s = list_all (\<lambda>c. is_alnum c \<or> c \<in> set ''-._:~!$&()*+,;=%@'' \<union> {CHR 0x27}) s"

definition parse_userinfo :: "string \<Rightarrow> userinfo option" where
  "parse_userinfo s =
     (if \<not> valid_userinfo s then None
      else if CHR '':'' \<notin> set s then
        map_option (\<lambda>u. \<lparr>ui_username = u, ui_password = None\<rparr>) (url_unescape EncUserPassword s)
      else let (n, p, _) = cut CHR '':'' s in
        case (url_unescape EncUserPassword n, url_unescape EncUserPassword p) of
          (Some u, Some w) \<Rightarrow> Some \<lparr>ui_username = u, ui_password = Some w\<rparr>
        | _ \<Rightarrow> None)"

definition parse_authority :: "string \<Rightarrow> string \<Rightarrow> (userinfo option \<times> string) option" where
  "parse_authority scheme a =
     (case cut_last CHR ''@'' a of
        None \<Rightarrow> map_option (Pair None) (parse_host scheme a)
      | Some (user, host) \<Rightarrow>
          (case parse_host scheme host of
             None \<Rightarrow> None
           | Some h \<Rightarrow> map_option (\<lambda>u. (Some u, h)) (parse_userinfo user)))"

definition scheme_char :: "char \<Rightarrow> bool" where
  "scheme_char c \<longleftrightarrow> is_alnum c \<or> c \<in> set ''+-.''"

text \<open>\<^verbatim>\<open>getScheme\<close>: \<open>None\<close> for a missing scheme before a colon.\<close>

definition get_scheme :: "string \<Rightarrow> (string \<times> string) option" where
  "get_scheme s =
     (case dropWhile scheme_char s of
        c # r \<Rightarrow>
          if c = CHR '':'' then
            (if takeWhile scheme_char s = [] then None
             else if is_alpha (hd s) then Some (takeWhile scheme_char s, r) else Some ([], s))
          else Some ([], s)
      | [] \<Rightarrow> Some ([], s))"

definition lower_char :: "char \<Rightarrow> char" where
  "lower_char c = (if 65 \<le> byte_ord c \<and> byte_ord c \<le> 90 then byte_chr (byte_ord c + 32) else c)"

definition to_lower :: "string \<Rightarrow> string" where
  "to_lower s = map lower_char s"

definition set_path :: "string \<Rightarrow> url \<Rightarrow> url option" where
  "set_path p u =
     map_option (\<lambda>path. u\<lparr>url_path := path, url_raw_path := if url_escape EncPath path = p then [] else p\<rparr>)
       (url_unescape EncPath p)"

definition set_fragment :: "string \<Rightarrow> url \<Rightarrow> url option" where
  "set_fragment f u =
     map_option (\<lambda>frag. u\<lparr>url_fragment := frag, url_raw_fragment := if url_escape EncFragment frag = f then [] else f\<rparr>)
       (url_unescape EncFragment f)"

definition is_ctl :: "char \<Rightarrow> bool" where
  "is_ctl c \<longleftrightarrow> byte_ord c < 32 \<or> byte_ord c = 127"

text \<open>The query of the text after the scheme: rest, raw query, \<^verbatim>\<open>ForceQuery\<close>.\<close>

definition cut_query :: "string \<Rightarrow> string \<times> string \<times> bool" where
  "cut_query rest =
     (if has_suffix rest ''?'' \<and> length (filter (\<lambda>c. c = CHR ''?'') rest) = 1 then (butlast rest, [], True)
      else let (r, q, _) = cut CHR ''?'' rest in (r, q, False))"

definition parse_rest :: "string \<Rightarrow> url \<Rightarrow> url option" where
  "parse_rest rest u =
     (let scheme = url_scheme u in
      if \<not> has_prefix rest ''/'' \<and> scheme \<noteq> [] then Some (u\<lparr>url_opaque := rest\<rparr>)
      else if \<not> has_prefix rest ''/'' \<and> CHR '':'' \<in> set (fst (cut CHR ''/'' rest)) then None
      else if (scheme \<noteq> [] \<or> \<not> has_prefix rest ''///'') \<and> has_prefix rest ''//'' then
        (let (authority, path) = (takeWhile (\<lambda>c. c \<noteq> CHR ''/'') (drop 2 rest), dropWhile (\<lambda>c. c \<noteq> CHR ''/'') (drop 2 rest))
         in case parse_authority scheme authority of
              None \<Rightarrow> None
            | Some (user, host) \<Rightarrow> set_path path (u\<lparr>url_user := user, url_host := host\<rparr>))
      else set_path rest (u\<lparr>url_omit_host := scheme \<noteq> [] \<and> has_prefix rest ''/''\<rparr>))"

definition url_parse_main :: "string \<Rightarrow> url option" where
  "url_parse_main s =
     (if list_ex is_ctl s then None
      else if s = ''*'' then Some (empty_url\<lparr>url_path := ''*''\<rparr>)
      else case get_scheme s of
        None \<Rightarrow> None
      | Some (scheme, rest0) \<Rightarrow>
          (let (rest, query, force) = cut_query rest0
           in parse_rest rest (empty_url\<lparr>url_scheme := to_lower scheme, url_raw_query := query, url_force_query := force\<rparr>)))"

definition url_parse :: "string \<Rightarrow> url option" where
  "url_parse raw =
     (let (s, frag, _) = cut CHR ''#'' raw in
      case url_parse_main s of
        None \<Rightarrow> None
      | Some u \<Rightarrow> if frag = [] then Some u else set_fragment frag u)"

text \<open>\<^verbatim>\<open>u.Hostname()\<close>: without the port and without brackets.\<close>

definition strip_port :: "string \<Rightarrow> string" where
  "strip_port h = (case cut_last CHR '':'' h of
       Some (a, b) \<Rightarrow> if list_all is_digit b then a else h
     | None \<Rightarrow> h)"

definition url_hostname :: "url \<Rightarrow> string" where
  "url_hostname u = (let h = strip_port (url_host u) in
     if has_prefix h ''['' \<and> has_suffix h '']'' then butlast (drop 1 h) else h)"

section \<open>Writing a URL\<close>

definition escaped_path :: "url \<Rightarrow> string" where
  "escaped_path u =
     (if url_raw_path u \<noteq> [] \<and> valid_encoded EncPath (url_raw_path u) \<and>
         url_unescape EncPath (url_raw_path u) = Some (url_path u) then url_raw_path u
      else if url_path u = ''*'' then ''*''
      else url_escape EncPath (url_path u))"

definition escaped_fragment :: "url \<Rightarrow> string" where
  "escaped_fragment u =
     (if url_raw_fragment u \<noteq> [] \<and> valid_encoded EncFragment (url_raw_fragment u) \<and>
         url_unescape EncFragment (url_raw_fragment u) = Some (url_fragment u) then url_raw_fragment u
      else url_escape EncFragment (url_fragment u))"

definition userinfo_string :: "userinfo \<Rightarrow> string" where
  "userinfo_string i =
     (if ui_username i = [] \<and> ui_password i = None then []
      else url_escape EncUserPassword (ui_username i) @
        (case ui_password i of None \<Rightarrow> [] | Some p \<Rightarrow> CHR '':'' # url_escape EncUserPassword p))"

text \<open>Scheme and authority, the first part of \<^verbatim>\<open>u.String()\<close> when there is no opaque part.\<close>

definition authority_string :: "url \<Rightarrow> string" where
  "authority_string u =
     (if url_scheme u = [] \<and> url_host u = [] \<and> url_user u = None then []
      else if url_omit_host u \<and> url_host u = [] \<and> url_user u = None then []
      else (if url_host u \<noteq> [] \<or> url_path u \<noteq> [] \<or> url_user u \<noteq> None then ''//'' else [])
           @ (case url_user u of None \<Rightarrow> [] | Some i \<Rightarrow> userinfo_string i @ ''@'')
           @ url_escape EncHost (url_host u))"

definition path_string :: "string \<Rightarrow> url \<Rightarrow> string" where
  "path_string written u =
     (let path = escaped_path u in
      (if path \<noteq> [] \<and> hd path \<noteq> CHR ''/'' \<and> url_host u \<noteq> [] then ''/'' else [])
      @ (if written = [] \<and> \<not> (path \<noteq> [] \<and> hd path \<noteq> CHR ''/'' \<and> url_host u \<noteq> []) \<and>
            CHR '':'' \<in> set (fst (cut CHR ''/'' path)) then ''./'' else [])
      @ path)"

definition url_string :: "url \<Rightarrow> string" where
  "url_string u =
     (let scheme = (if url_scheme u = [] then [] else url_scheme u @ '':'');
          front = scheme @ authority_string u
      in (if url_opaque u \<noteq> [] then scheme @ url_opaque u else front @ path_string front u)
         @ (if url_force_query u \<or> url_raw_query u \<noteq> [] then CHR ''?'' # url_raw_query u else [])
         @ (if url_fragment u = [] then [] else CHR ''#'' # escaped_fragment u))"

section \<open>Escaping and reading back\<close>

lemma byte_ord_percent [simp]: "byte_ord CHR 0x25 = 37"
  by (simp add: byte_ord_def)

lemma unhex_upper_hex [simp]: "n < 16 \<Longrightarrow> unhex (upper_hex n) = Some n"
  by (simp add: unhex_def upper_hex_def Let_def)

lemma percent_escaped [simp]: "should_escape m CHR 0x25"
  by (cases m) (simp_all add: should_escape_def is_alnum_def is_alpha_def is_digit_def Let_def)

lemma space_escaped: "should_escape m CHR '' ''"
  by (cases m) (simp_all add: should_escape_def is_alnum_def is_alpha_def is_digit_def Let_def byte_ord_def)

lemma plus_escaped_query: "should_escape EncQuery CHR ''+''"
  by (simp add: should_escape_def is_alnum_def is_alpha_def is_digit_def Let_def byte_ord_def)

text \<open>Outside hosts, what is escaped reads back as it was.\<close>

lemma url_unescape_escape_char:
  assumes "m \<noteq> EncHost" "m \<noteq> EncZone"
  shows "url_unescape m (escape_char m c @ r) = map_option ((#) c) (url_unescape m r)"
proof (cases "c = CHR '' '' \<and> m = EncQuery")
  case True
  then show ?thesis by (simp add: escape_char_def)
next
  case False
  show ?thesis
  proof (cases "should_escape m c")
    case True
    have "byte_ord c div 16 < 16" "byte_ord c mod 16 < 16"
      using ord_less [of c] by (simp_all add: less_mult_imp_div_less)
    moreover have "16 * (byte_ord c div 16) + byte_ord c mod 16 = byte_ord c" by simp
    ultimately show ?thesis using False True assms by (auto simp: escape_char_def escape_allowed_def)
  next
    case esc: False
    then have "c \<noteq> CHR 0x25" "\<not> (c = CHR ''+'' \<and> m = EncQuery)"
      using percent_escaped plus_escaped_query by metis+
    then show ?thesis using False esc assms by (auto simp: escape_char_def plain_allowed_def)
  qed
qed

lemma url_unescape_escape:
  assumes "m \<noteq> EncHost" "m \<noteq> EncZone"
  shows "url_unescape m (url_escape m s) = Some s"
proof (induction s)
  case Nil
  show ?case by (simp add: url_escape_def)
next
  case (Cons c s)
  then show ?case using url_unescape_escape_char [OF assms, of c "url_escape m s"] by (simp add: url_escape_def)
qed

lemma upper_hex_plain: "n < 16 \<Longrightarrow> is_alnum (upper_hex n)"
  by (simp add: upper_hex_def is_alnum_def is_digit_def is_alpha_def Let_def)

lemma query_plain: "\<not> should_escape EncQuery c \<Longrightarrow> is_alnum c \<or> c \<in> set ''-_.~''"
  unfolding should_escape_def by (simp only: url_mode.distinct url_mode.case simp_thms split: if_splits)

definition query_safe :: "char \<Rightarrow> bool" where
  "query_safe c \<longleftrightarrow> is_alnum c \<or> c \<in> set ''-_.~+%''"

text \<open>An escaped query component holds only letters, digits and \<^verbatim>\<open>-_.~+%\<close>.\<close>

lemma escape_char_safe: "list_all query_safe (escape_char EncQuery c)"
proof (cases "c = CHR '' '' \<or> should_escape EncQuery c")
  case True
  have "byte_ord c div 16 < 16" "byte_ord c mod 16 < 16"
    using ord_less [of c] by (simp_all add: less_mult_imp_div_less)
  then show ?thesis
    using True upper_hex_plain by (auto simp: escape_char_def query_safe_def)
next
  case False
  then have "is_alnum c \<or> c \<in> set ''-_.~''" using query_plain by blast
  then have "query_safe c" unfolding query_safe_def by auto
  then show ?thesis using False by (simp add: escape_char_def)
qed

lemma url_escape_query_safe: "x \<in> set (url_escape EncQuery s) \<Longrightarrow> query_safe x"
  using escape_char_safe by (auto simp: url_escape_def list_all_iff)

section \<open>Schemes\<close>

text \<open>A scheme a parsed URL can have.\<close>

definition good_scheme :: "string \<Rightarrow> bool" where
  "good_scheme s \<longleftrightarrow> list_all scheme_char s \<and> s \<noteq> [] \<and> is_alpha (hd s)"

lemma parse_rest_keeps:
  assumes "parse_rest rest u = Some v"
  shows "url_scheme v = url_scheme u" "url_raw_query v = url_raw_query u"
  using assms by (auto simp: parse_rest_def set_path_def Let_def split: if_splits option.splits prod.splits)

lemma lower_char_class:
  "is_alpha (lower_char c) = is_alpha c" "scheme_char c \<Longrightarrow> scheme_char (lower_char c)"
  by (auto simp: lower_char_def is_alpha_def scheme_char_def is_alnum_def Let_def)

lemma to_lower_Nil [simp]: "to_lower s = [] \<longleftrightarrow> s = []"
  by (simp add: to_lower_def)

lemma good_scheme_lower: "good_scheme s \<Longrightarrow> good_scheme (to_lower s)"
  using lower_char_class by (cases s) (auto simp: good_scheme_def to_lower_def list_all_iff)

lemma get_scheme_good: "get_scheme s = Some (sch, r) \<Longrightarrow> sch \<noteq> [] \<Longrightarrow> good_scheme sch \<and> s = sch @ CHR '':'' # r"
proof -
  assume *: "get_scheme s = Some (sch, r)" "sch \<noteq> []"
  then obtain x where d: "dropWhile scheme_char s = x # r" and x: "x = CHR '':''"
    and sch: "sch = takeWhile scheme_char s" and hd: "is_alpha (hd s)"
    by (auto simp: get_scheme_def split: list.splits if_splits)
  have "s = takeWhile scheme_char s @ dropWhile scheme_char s" by simp
  then have s: "s = sch @ CHR '':'' # r" using d x sch by simp
  moreover have "hd s = hd sch" using s *(2) by simp
  moreover have "list_all scheme_char sch" using sch by (auto simp: list_all_iff dest: set_takeWhileD)
  ultimately show ?thesis using *(2) hd by (simp add: good_scheme_def)
qed

lemma colon_no_scheme_char [simp]: "\<not> scheme_char CHR '':''" "\<not> scheme_char CHR ''#''"
  by (simp_all add: scheme_char_def is_alnum_def is_alpha_def is_digit_def Let_def byte_ord_def)

lemma get_scheme_append: "good_scheme sch \<Longrightarrow> get_scheme (sch @ CHR '':'' # r) = Some (sch, r)"
  by (auto simp: get_scheme_def good_scheme_def list_all_iff takeWhile_append2 dropWhile_append2)

lemma url_parse_via_main:
  assumes "url_parse raw = Some u"
  obtains v where "url_parse_main (takeWhile (\<lambda>c. c \<noteq> CHR ''#'') raw) = Some v"
    "url_scheme u = url_scheme v" "url_raw_query u = url_raw_query v"
proof -
  obtain s frag b where s: "cut CHR ''#'' raw = (s, frag, b)" by (metis prod_cases3)
  then have "s = takeWhile (\<lambda>c. c \<noteq> CHR ''#'') raw" by (metis fst_conv fst_cut)
  then show ?thesis
    using that assms s by (auto simp: url_parse_def set_fragment_def split: option.splits if_splits)
qed

lemma url_parse_main_scheme:
  assumes "url_parse_main s = Some v" and "s \<noteq> ''*''"
  shows "\<exists>sch rest. get_scheme s = Some (sch, rest) \<and> url_scheme v = to_lower sch"
proof -
  obtain sch rest where g: "get_scheme s = Some (sch, rest)"
    using assms by (cases "get_scheme s") (auto simp: url_parse_main_def split: if_splits)
  obtain r q f where c: "cut_query rest = (r, q, f)" by (metis prod_cases3)
  have "parse_rest r (empty_url\<lparr>url_scheme := to_lower sch, url_raw_query := q, url_force_query := f\<rparr>) = Some v"
    using assms g c by (simp add: url_parse_main_def split: if_splits)
  then show ?thesis using g parse_rest_keeps(1) by fastforce
qed

lemma url_parse_scheme:
  assumes "url_parse raw = Some u" and "url_scheme u \<noteq> []"
  shows "good_scheme (url_scheme u)"
proof -
  obtain v where v: "url_parse_main (takeWhile (\<lambda>c. c \<noteq> CHR ''#'') raw) = Some v" "url_scheme u = url_scheme v"
    using assms(1) by (rule url_parse_via_main)
  have "takeWhile (\<lambda>c. c \<noteq> CHR ''#'') raw \<noteq> ''*''"
    using v assms(2) by (auto simp: url_parse_main_def empty_url_def split: if_splits)
  then obtain sch rest where "get_scheme (takeWhile (\<lambda>c. c \<noteq> CHR ''#'') raw) = Some (sch, rest)"
    "url_scheme v = to_lower sch"
    using url_parse_main_scheme v(1) by blast
  then show ?thesis
    using get_scheme_good good_scheme_lower v(2) assms(2) by (metis to_lower_Nil)
qed

text \<open>What starts with a scheme is an absolute URL, whether or not the rest parses.\<close>

lemma url_parse_absolute:
  assumes "good_scheme sch" and "url_parse (sch @ CHR '':'' # r) = Some u"
  shows "url_scheme u = to_lower sch"
proof -
  have no: "\<forall>x \<in> set sch. x \<noteq> CHR ''#''"
    using assms(1) colon_no_scheme_char(2) by (auto simp: good_scheme_def list_all_iff)
  obtain v where v: "url_parse_main (takeWhile (\<lambda>c. c \<noteq> CHR ''#'') (sch @ CHR '':'' # r)) = Some v"
    "url_scheme u = url_scheme v"
    using assms(2) by (rule url_parse_via_main)
  have s: "takeWhile (\<lambda>c. c \<noteq> CHR ''#'') (sch @ CHR '':'' # r) = sch @ CHR '':'' # takeWhile (\<lambda>c. c \<noteq> CHR ''#'') r"
    using no by (simp add: takeWhile_append2)
  have "sch @ CHR '':'' # takeWhile (\<lambda>c. c \<noteq> CHR ''#'') r \<noteq> ''*''"
    using assms(1) by (cases sch) (auto simp: good_scheme_def)
  then show ?thesis
    using url_parse_main_scheme [OF v(1) [unfolded s]] get_scheme_append [OF assms(1)] v(2) by auto
qed

lemma url_string_scheme: "url_scheme u \<noteq> [] \<Longrightarrow> \<exists>r. url_string u = url_scheme u @ CHR '':'' # r"
  by (simp add: url_string_def Let_def)

section \<open>Hosts of parsed URLs\<close>

text \<open>
  A host is empty, has no opening bracket, or is an IPv6 address in brackets with an
  optional port; so the host name of a parsed URL is never itself in brackets.
\<close>

definition host_form :: "string \<Rightarrow> bool" where
  "host_form h \<longleftrightarrow> CHR ''['' \<notin> set h \<or>
     (\<exists>x port. h = ''['' @ x @ '']'' @ port \<and> ipv6_literal x \<and> valid_optional_port port)"

lemma unescape_host_bracket:
  "url_unescape EncHost s = Some t \<Longrightarrow> CHR ''['' \<notin> set s \<Longrightarrow> CHR ''['' \<notin> set t"
proof (induction EncHost s arbitrary: t rule: url_unescape.induct)
  case (2 c r)
  have "CHR ''['' \<noteq> byte_chr v" if "escape_allowed EncHost v" "v < 256" for v
  proof
    assume "CHR ''['' = byte_chr v"
    then have "v = byte_ord CHR ''[''" using that(2) by simp
    then have "v = 91" by (simp add: byte_ord_def)
    then show False using that(1) by (simp add: escape_allowed_def)
  qed
  moreover have "16 * x + y < 256" if "unhex a = Some x" "unhex b = Some y" for a b x y
    using that by (auto simp: unhex_def Let_def split: if_splits)
  ultimately show ?case
    using 2 by (auto split: if_splits list.splits option.splits)
qed simp

lemma unescape_digits: "list_all is_digit s \<Longrightarrow> url_unescape EncHost s = Some s"
proof (induction s)
  case (Cons c s)
  then have "is_digit c" by simp
  moreover from this have "c \<noteq> CHR 0x25" by (auto simp: is_digit_def byte_ord_def)
  moreover from \<open>is_digit c\<close> have "plain_allowed EncHost c"
    by (simp add: plain_allowed_def should_escape_def is_alnum_def)
  ultimately show ?case using Cons by simp
qed simp

lemma unescape_port: "valid_optional_port p \<Longrightarrow> url_unescape EncHost p = Some p"
  by (cases p) (auto simp: valid_optional_port_def unescape_digits plain_allowed_def should_escape_def)

lemma bracket_host_form: "bracket_host host = Some h \<Longrightarrow> host_form h"
  by (auto simp: bracket_host_def host_form_def unescape_port split: option.splits if_splits prod.splits)

lemma parse_host_form:
  assumes "parse_host scheme host = Some h"
  shows "host_form h"
proof (cases host)
  case Nil
  then show ?thesis using assms by (simp add: parse_host_def host_form_def)
next
  case (Cons c r)
  show ?thesis
  proof (cases "c = CHR ''['' \<and> CHR ''['' \<notin> set r")
    case True
    then show ?thesis using assms Cons bracket_host_form by (simp add: parse_host_def)
  next
    case False
    then have "CHR ''['' \<notin> set host" using assms Cons by (auto simp: parse_host_def split: if_splits)
    moreover have "url_unescape EncHost host = Some h"
      using assms Cons False by (simp add: parse_host_def Let_def split: if_splits)
    ultimately show ?thesis using unescape_host_bracket by (auto simp: host_form_def)
  qed
qed

lemma parse_rest_host:
  assumes "parse_rest rest u = Some v" and "url_host u = []"
  shows "host_form (url_host v)"
proof -
  have set_path: "set_path q w = Some v' \<Longrightarrow> url_host v' = url_host w" for q w v'
    by (auto simp: set_path_def)
  have empty: "host_form []" by (simp add: host_form_def)
  have authority: "parse_authority sch a = Some (user, h) \<Longrightarrow> host_form h" for sch a user h
    by (auto simp: parse_authority_def split: option.splits prod.splits dest: parse_host_form)
  show ?thesis
    using assms empty by (auto simp: parse_rest_def Let_def dest!: set_path authority split: if_splits option.splits prod.splits)
qed

lemma url_parse_host_form:
  assumes "url_parse raw = Some u"
  shows "host_form (url_host u)"
proof -
  obtain s frag b where s: "cut CHR ''#'' raw = (s, frag, b)" by (metis prod_cases3)
  obtain v where v: "url_parse_main s = Some v" "url_host u = url_host v"
    using assms s by (auto simp: url_parse_def set_fragment_def split: option.splits if_splits)
  have "host_form (url_host v)"
  proof (cases "s = ''*''")
    case True
    then show ?thesis using v(1) by (auto simp: url_parse_main_def empty_url_def host_form_def split: if_splits)
  next
    case False
    obtain sch rest where g: "get_scheme s = Some (sch, rest)"
      using v(1) False by (cases "get_scheme s") (auto simp: url_parse_main_def split: if_splits)
    obtain r q f where c: "cut_query rest = (r, q, f)" by (metis prod_cases3)
    have "parse_rest r (empty_url\<lparr>url_scheme := to_lower sch, url_raw_query := q, url_force_query := f\<rparr>) = Some v"
      using v(1) False g c by (simp add: url_parse_main_def split: if_splits)
    then show ?thesis by (rule parse_rest_host) (simp add: empty_url_def)
  qed
  then show ?thesis using v(2) by simp
qed

lemma cut_last_append: "c \<notin> set b \<Longrightarrow> cut_last c (a @ c # b) = Some (a, b)"
  by (simp add: cut_last_def takeWhile_append2 dropWhile_append2)

lemma cut_last_SomeD: "cut_last c s = Some (a, b) \<Longrightarrow> s = a @ c # b"
proof -
  assume *: "cut_last c s = Some (a, b)"
  then have "c \<in> set (rev s)" by (auto simp: cut_last_def split: if_splits)
  then obtain x y where xy: "rev s = x @ c # y" "c \<notin> set x" by (meson split_list_first)
  then have "s = rev y @ c # rev x" by (metis append.assoc append_Cons append_Nil rev.simps(2) rev_append rev_rev_ident)
  then show ?thesis using * xy(2) cut_last_append [of c "rev x" "rev y"] by simp
qed

lemma strip_port_bracket:
  assumes "valid_optional_port port"
  shows "strip_port (''['' @ x @ '']'' @ port) = ''['' @ x @ '']''"
proof (cases port)
  case Nil
  show ?thesis
  proof (cases "cut_last CHR '':'' (''['' @ x @ '']'')")
    case None
    then show ?thesis using Nil by (simp add: strip_port_def)
  next
    case (Some ab)
    obtain a b where ab: "ab = (a, b)" by (cases ab)
    then have "''['' @ x @ '']'' = a @ CHR '':'' # b" using Some cut_last_SomeD by blast
    then have "b = [] \<or> last b = CHR '']''"
      by (metis append_Cons append_is_Nil_conv last.simps last_appendR list.distinct(1))
    moreover have "b \<noteq> []"
    proof
      assume "b = []"
      then have "last (''['' @ x @ '']'') = CHR '':''" using \<open>''['' @ x @ '']'' = a @ CHR '':'' # b\<close> by simp
      then show False by simp
    qed
    moreover have "\<not> is_digit CHR '']''" by (simp add: is_digit_def byte_ord_def)
    ultimately have "\<not> list_all is_digit b" by (metis last_in_set list_all_iff)
    then show ?thesis using Some ab Nil by (simp add: strip_port_def)
  qed
next
  case (Cons c ds)
  then have c: "c = CHR '':''" "list_all is_digit ds" using assms by (simp_all add: valid_optional_port_def)
  have "CHR '':'' \<notin> set ds" using c(2) by (auto simp: list_all_iff is_digit_def byte_ord_def)
  then have "cut_last CHR '':'' ((''['' @ x @ '']'') @ CHR '':'' # ds) = Some (''['' @ x @ '']'', ds)"
    by (rule cut_last_append)
  then show ?thesis using Cons c by (simp add: strip_port_def)
qed

lemma strip_port_subset: "set (strip_port h) \<subseteq> set h"
  by (auto simp: strip_port_def dest!: cut_last_SomeD split: option.splits if_splits)

lemma hostname_not_bracketed:
  assumes "url_parse raw = Some u"
  shows "url_hostname u \<noteq> ''[::1]''"
  using url_parse_host_form [OF assms] unfolding host_form_def
proof (elim disjE exE conjE)
  assume "CHR ''['' \<notin> set (url_host u)"
  then have "CHR ''['' \<notin> set (strip_port (url_host u))" using strip_port_subset by blast
  then have "CHR ''['' \<notin> set (url_hostname u)"
    unfolding url_hostname_def Let_def by (auto dest: in_set_butlastD in_set_dropD)
  then show ?thesis by auto
next
  fix x port
  assume h: "url_host u = ''['' @ x @ '']'' @ port" and "ipv6_literal x" "valid_optional_port port"
  then have "url_hostname u = x"
    unfolding url_hostname_def Let_def h strip_port_bracket [OF \<open>valid_optional_port port\<close>]
    by (simp add: has_prefix_iff has_suffix_iff)
  moreover have "\<not> ipv6_literal ''[::1]''" by code_simp
  ultimately show ?thesis using \<open>ipv6_literal x\<close> by metis
qed

end
