(* ===== verification/Go_Query.thy ===== *)
theory Go_Query
  imports Go_Url Go_Slices
begin

text \<open>
  \<^verbatim>\<open>url.Values\<close>: a query as an association list from a key to its values, in the order
  the keys were first added; \<^verbatim>\<open>ParseQuery\<close>, \<^verbatim>\<open>Get\<close>, \<^verbatim>\<open>Set\<close> and
  \<^verbatim>\<open>Encode\<close>, which sorts the keys. The contract the handlers rely on, that a value that
  was set is read back after the query has been written and parsed, is the locale
  \<open>query_store\<close>.
\<close>

type_synonym url_values = "(string \<times> string list) list"

fun values_add :: "string \<Rightarrow> string \<Rightarrow> url_values \<Rightarrow> url_values" where
  "values_add k v [] = [(k, [v])]"
| "values_add k v ((k', vs) # m) =
     (if k' = k then (k', vs @ [v]) # m else (k', vs) # values_add k v m)"

fun values_set :: "string \<Rightarrow> string \<Rightarrow> url_values \<Rightarrow> url_values" where
  "values_set k v [] = [(k, [v])]"
| "values_set k v ((k', vs) # m) =
     (if k' = k then (k, [v]) # m else (k', vs) # values_set k v m)"

definition values_get :: "url_values \<Rightarrow> string \<Rightarrow> string" where
  "values_get m k = (case map_of m k of Some (v # vs) \<Rightarrow> v | _ \<Rightarrow> [])"

text \<open>\<^verbatim>\<open>copyValues(dst, src)\<close> of \<^verbatim>\<open>net/http\<close>: appends every value.\<close>

definition values_copy :: "url_values \<Rightarrow> url_values \<Rightarrow> url_values" where
  "values_copy dst src = fold (\<lambda>(k, vs) m. fold (\<lambda>v m. values_add k v m) vs m) src dst"

section \<open>Parsing\<close>

definition max_query_params :: nat where "max_query_params = 10000"

text \<open>One key-value pair: \<open>None\<close> is the error that skips it.\<close>

definition parse_pair :: "string \<Rightarrow> (string \<times> string) option" where
  "parse_pair kv =
     (let (k, v, _) = cut CHR ''='' kv in
      case (url_unescape EncQuery k, url_unescape EncQuery v) of
        (Some k', Some v') \<Rightarrow> Some (k', v')
      | _ \<Rightarrow> None)"

text \<open>The loop: the values so far and whether no error occurred.\<close>

fun parse_pairs :: "string list \<Rightarrow> url_values \<Rightarrow> bool \<Rightarrow> url_values \<times> bool" where
  "parse_pairs [] m ok = (m, ok)"
| "parse_pairs (kv # kvs) m ok =
     (if CHR '';'' \<in> set kv then parse_pairs kvs m False
      else if kv = [] then parse_pairs kvs m ok
      else case parse_pair kv of
        None \<Rightarrow> parse_pairs kvs m False
      | Some (k, v) \<Rightarrow> parse_pairs kvs (values_add k v m) ok)"

definition parse_query :: "string \<Rightarrow> url_values \<times> bool" where
  "parse_query q =
     (let kvs = split CHR ''&'' q in
      if length kvs > max_query_params then ([], False) else parse_pairs kvs [] True)"

text \<open>\<^verbatim>\<open>u.Query()\<close> drops the error.\<close>

definition url_query :: "string \<Rightarrow> url_values" where
  "url_query raw = fst (parse_query raw)"

section \<open>Writing\<close>

definition encode_pair :: "string \<Rightarrow> string \<Rightarrow> string" where
  "encode_pair k v = url_escape EncQuery k @ ''='' @ url_escape EncQuery v"

definition sort_values :: "url_values \<Rightarrow> url_values" where
  "sort_values m = sort_by (\<lambda>a b. compare_strings (fst a) (fst b)) m"

definition values_pairs :: "url_values \<Rightarrow> (string \<times> string) list" where
  "values_pairs m = concat (map (\<lambda>(k, vs). map (Pair k) vs) m)"

definition values_encode :: "url_values \<Rightarrow> string" where
  "values_encode m = join ''&'' (map (\<lambda>(k, v). encode_pair k v) (values_pairs (sort_values m)))"

section \<open>Reading back what was written\<close>

lemma query_safe_simps [simp]:
  "\<not> query_safe CHR ''&''" "\<not> query_safe CHR ''=''" "\<not> query_safe CHR '';''"
  by (simp_all add: query_safe_def is_alnum_def is_alpha_def is_digit_def Let_def byte_ord_def)

lemma escaped_not_in [simp]:
  "CHR ''&'' \<notin> set (url_escape EncQuery s)" "CHR ''='' \<notin> set (url_escape EncQuery s)"
  "CHR '';'' \<notin> set (url_escape EncQuery s)"
  using url_escape_query_safe [of _ s] by (metis query_safe_simps)+

lemma encode_pair_not_in [simp]:
  "CHR ''&'' \<notin> set (encode_pair k v)" "CHR '';'' \<notin> set (encode_pair k v)" "encode_pair k v \<noteq> []"
  by (simp_all add: encode_pair_def)

lemma parse_pair_encode [simp]: "parse_pair (encode_pair k v) = Some (k, v)"
  by (simp add: parse_pair_def encode_pair_def cut_found url_unescape_escape)

lemma parse_pairs_encode:
  "parse_pairs (map (\<lambda>(k, v). encode_pair k v) ps) m ok = (fold (\<lambda>(k, v). values_add k v) ps m, ok)"
  by (induction ps arbitrary: m) (auto simp del: parse_pairs.simps simp: parse_pairs.simps(1) parse_pairs.simps(2))

lemma parse_query_encode:
  assumes "length ps \<le> max_query_params"
  shows "parse_query (join ''&'' (map (\<lambda>(k, v). encode_pair k v) ps)) =
    (fold (\<lambda>(k, v). values_add k v) ps [], True)"
proof (cases "ps = []")
  case True
  then show ?thesis by (simp add: parse_query_def max_query_params_def)
next
  case False
  have "split CHR ''&'' (join ''&'' (map (\<lambda>(k, v). encode_pair k v) ps)) = map (\<lambda>(k, v). encode_pair k v) ps"
    using False by (intro split_join) auto
  then show ?thesis using assms by (simp add: parse_query_def parse_pairs_encode)
qed

text \<open>Adding the pairs of sorted distinct keys one by one rebuilds the values.\<close>

lemma values_add_new: "k \<notin> fst ` set m \<Longrightarrow> values_add k v m = m @ [(k, [v])]"
  by (induction k v m rule: values_add.induct) auto

lemma values_add_last: "k \<notin> fst ` set m \<Longrightarrow> values_add k v (m @ [(k, vs)]) = m @ [(k, vs @ [v])]"
  by (induction k v m rule: values_add.induct) auto

lemma fold_add_last:
  "k \<notin> fst ` set m \<Longrightarrow> fold (\<lambda>(k, v). values_add k v) (map (Pair k) us) (m @ [(k, vs)]) = m @ [(k, vs @ us)]"
  by (induction us arbitrary: vs) (simp_all add: values_add_last)

definition values_ok :: "url_values \<Rightarrow> bool" where
  "values_ok m \<longleftrightarrow> distinct (map fst m) \<and> [] \<notin> snd ` set m"

lemma fold_add_pairs:
  assumes "distinct (map fst (m0 @ m))" and "[] \<notin> snd ` set m"
  shows "fold (\<lambda>(k, v). values_add k v) (values_pairs m) m0 = m0 @ m"
  using assms
proof (induction m arbitrary: m0)
  case Nil
  then show ?case by (simp add: values_pairs_def)
next
  case (Cons e m)
  obtain k v vs where e: "e = (k, v # vs)" using Cons.prems(2) by (cases e; cases "snd e") auto
  have k: "k \<notin> fst ` set m0" using Cons.prems(1) e by auto
  have "fold (\<lambda>(k, v). values_add k v) (map (Pair k) (v # vs)) m0 = m0 @ [e]"
    using fold_add_last [OF k, of vs "[v]"] e by (simp add: values_add_new [OF k])
  moreover have "fold (\<lambda>(k, v). values_add k v) (values_pairs m) (m0 @ [e]) = (m0 @ [e]) @ m"
    by (rule Cons.IH) (use Cons.prems in auto)
  ultimately show ?case using e by (simp add: values_pairs_def)
qed

lemma values_ok_sort [simp]: "values_ok (sort_values m) = values_ok m"
proof -
  have "mset (map fst (sort_values m)) = mset (map fst m)" by (simp add: sort_values_def)
  then have "distinct (map fst (sort_values m)) = distinct (map fst m)" by (metis mset_eq_imp_distinct_iff)
  then show ?thesis by (simp add: values_ok_def sort_values_def)
qed

lemma map_of_sort_values: "distinct (map fst m) \<Longrightarrow> map_of (sort_values m) = map_of m"
proof (rule map_of_eqI)
  show "set (map fst (sort_values m)) = set (map fst m)" by (simp add: sort_values_def)
  assume d: "distinct (map fst m)"
  have "mset (map fst (sort_values m)) = mset (map fst m)" by (simp add: sort_values_def)
  then have "distinct (map fst (sort_values m))" using d by (metis mset_eq_imp_distinct_iff)
  then show "\<forall>k \<in> set (map fst (sort_values m)). map_of (sort_values m) k = map_of m k"
    using d by (auto simp: sort_values_def)
qed

definition values_count :: "url_values \<Rightarrow> nat" where
  "values_count m = length (values_pairs m)"

lemma values_count_sort [simp]: "values_count (sort_values m) = values_count m"
proof -
  have "size (mset (values_pairs xs)) = sum_mset (image_mset (length \<circ> snd) (mset xs))" for xs :: url_values
    by (induction xs) (auto simp: values_pairs_def)
  then have "values_count xs = sum_mset (image_mset (length \<circ> snd) (mset xs))" for xs
    by (simp add: values_count_def)
  then show ?thesis by (simp add: sort_values_def)
qed

lemma parse_query_values_encode:
  assumes "values_ok m" and "values_count m \<le> max_query_params"
  shows "parse_query (values_encode m) = (sort_values m, True)"
proof -
  have "values_ok (sort_values m)" using assms(1) by simp
  then have "fold (\<lambda>(k, v). values_add k v) (values_pairs (sort_values m)) [] = sort_values m"
    using fold_add_pairs [of "[]" "sort_values m"] by (simp add: values_ok_def)
  then show ?thesis
    using parse_query_encode [of "values_pairs (sort_values m)"] assms(2) values_count_sort [of m]
    by (simp add: values_encode_def values_count_def)
qed

section \<open>Values that come from a parse\<close>

lemma values_add_ok: "values_ok m \<Longrightarrow> values_ok (values_add k v m)"
proof -
  have "fst ` set (values_add k v m) = insert k (fst ` set m)"
    by (induction k v m rule: values_add.induct) auto
  moreover have "distinct (map fst m) \<Longrightarrow> distinct (map fst (values_add k v m))"
  proof (induction k v m rule: values_add.induct)
    case (2 k v k' vs m)
    have "fst ` set (values_add k v m) = insert k (fst ` set m)"
      by (induction k v m rule: values_add.induct) auto
    then show ?case using 2 by auto
  qed simp
  moreover have "[] \<notin> snd ` set m \<Longrightarrow> [] \<notin> snd ` set (values_add k v m)"
    by (induction k v m rule: values_add.induct) auto
  ultimately show "values_ok m \<Longrightarrow> values_ok (values_add k v m)" by (simp add: values_ok_def)
qed

lemma values_add_count: "values_count (values_add k v m) = Suc (values_count m)"
  by (induction k v m rule: values_add.induct) (auto simp: values_count_def values_pairs_def)

lemma parse_pairs_ok: "values_ok m \<Longrightarrow> values_ok (fst (parse_pairs kvs m ok))"
  by (induction kvs m ok rule: parse_pairs.induct) (auto simp: values_add_ok split: option.splits)

lemma parse_pairs_count:
  "values_count (fst (parse_pairs kvs m ok)) \<le> values_count m + length kvs"
proof (induction kvs m ok rule: parse_pairs.induct)
  case (2 kv kvs m ok)
  then show ?case
    by (cases "CHR '';'' \<in> set kv"; cases "kv = []"; cases "parse_pair kv")
      (auto simp: values_add_count)
qed simp

lemma url_query_ok [simp]: "values_ok (url_query raw)"
  using parse_pairs_ok [of "[]"]
  by (simp add: url_query_def parse_query_def Let_def) (simp add: values_ok_def)

lemma url_query_count: "values_count (url_query raw) \<le> max_query_params"
  using parse_pairs_count [of "split CHR ''&'' raw" "[]" True]
  by (simp add: url_query_def parse_query_def Let_def values_count_def values_pairs_def)

section \<open>Setting a value\<close>

lemma map_of_values_set: "map_of (values_set k v m) = (map_of m)(k \<mapsto> [v])"
  by (induction k v m rule: values_set.induct) auto

lemma values_set_keys: "fst ` set (values_set k v m) = insert k (fst ` set m)"
  by (induction k v m rule: values_set.induct) auto

lemma values_set_ok: "values_ok m \<Longrightarrow> values_ok (values_set k v m)"
proof -
  have "distinct (map fst m) \<Longrightarrow> distinct (map fst (values_set k v m))"
    by (induction k v m rule: values_set.induct) (auto simp: values_set_keys)
  moreover have "[] \<notin> snd ` set m \<Longrightarrow> [] \<notin> snd ` set (values_set k v m)"
    by (induction k v m rule: values_set.induct) auto
  ultimately show "values_ok m \<Longrightarrow> values_ok (values_set k v m)" by (simp add: values_ok_def)
qed

lemma values_set_count: "[] \<notin> snd ` set m \<Longrightarrow> values_count (values_set k v m) \<le> Suc (values_count m)"
  by (induction k v m rule: values_set.induct) (auto simp: values_count_def values_pairs_def)

section \<open>The contract of a query\<close>

locale query_store =
  fixes get :: "'m \<Rightarrow> string \<Rightarrow> string" and put :: "string \<Rightarrow> string \<Rightarrow> 'm \<Rightarrow> 'm"
    and encode :: "'m \<Rightarrow> string" and parse :: "string \<Rightarrow> 'm" and ok :: "'m \<Rightarrow> bool"
  assumes get_put: "get (put k v m) k' = (if k' = k then v else get m k')"
    and get_parse_encode: "ok m \<Longrightarrow> get (parse (encode m)) k = get m k"
begin

text \<open>What was set last is read back after the query was written and parsed; the rest is kept.\<close>

lemma parse_encode_put:
  "ok (put k v m) \<Longrightarrow> get (parse (encode (put k v m))) k' = (if k' = k then v else get m k')"
  by (simp add: get_parse_encode get_put)

lemma parse_encode_put2:
  "ok (put k2 v2 (put k1 v1 m)) \<Longrightarrow> get (parse (encode (put k2 v2 (put k1 v1 m)))) k' =
     (if k' = k2 then v2 else if k' = k1 then v1 else get m k')"
  by (simp add: get_parse_encode get_put)

end

definition values_fit :: "url_values \<Rightarrow> bool" where
  "values_fit m \<longleftrightarrow> values_ok m \<and> values_count m \<le> max_query_params"

interpretation url_values: query_store values_get values_set values_encode url_query values_fit
proof
  show "values_get (values_set k v m) k' = (if k' = k then v else values_get m k')" for k v m k'
    by (simp add: values_get_def map_of_values_set)
  show "values_get (url_query (values_encode m)) k = values_get m k" if "values_fit m" for m k
    using that by (simp add: values_fit_def url_query_def parse_query_values_encode values_get_def
        map_of_sort_values values_ok_def)
qed

lemma values_fit_set:
  "values_ok m \<Longrightarrow> values_count m < max_query_params \<Longrightarrow> values_fit (values_set k v m)"
proof -
  assume ok: "values_ok m" and "values_count m < max_query_params"
  moreover have "values_count (values_set k v m) \<le> Suc (values_count m)"
    using ok values_set_count by (auto simp: values_ok_def)
  ultimately show ?thesis by (simp add: values_fit_def values_set_ok)
qed

end
