(* ===== verification/Go_Http.thy ===== *)
theory Go_Http
  imports Go_Query Go_Path Go_JsonStruct
begin

text \<open>
  \<^verbatim>\<open>net/http\<close> as the handlers see it: a request, a \<^verbatim>\<open>ResponseWriter\<close> whose
  headers are fixed by the first \<^verbatim>\<open>WriteHeader\<close> or \<^verbatim>\<open>Write\<close>, canonical header
  names, \<^verbatim>\<open>ParseForm\<close>, \<^verbatim>\<open>http.Redirect\<close> and \<^verbatim>\<open>http.Error\<close>. White
  space in header values and settings is recognised as Unicode does; the trailing space
  of a media type only in ASCII, header values being ASCII.
\<close>

section \<open>Headers\<close>

type_synonym http_header = "(string \<times> string list) list"

definition token_char :: "char \<Rightarrow> bool" where
  "token_char c \<longleftrightarrow> is_alnum c \<or> c \<in> set ''!#$%&*+-.^_`|~'' \<union> {CHR 0x27}"

fun canonical_loop :: "bool \<Rightarrow> string \<Rightarrow> string" where
  "canonical_loop up [] = []"
| "canonical_loop up (c # r) =
     (if up then upper_char c else lower_char c) # canonical_loop (c = CHR ''-'') r"

text \<open>\<^verbatim>\<open>textproto.CanonicalMIMEHeaderKey\<close>.\<close>

definition canonical_key :: "string \<Rightarrow> string" where
  "canonical_key k = (if list_all token_char k then canonical_loop True k else k)"

definition header_get :: "http_header \<Rightarrow> string \<Rightarrow> string" where
  "header_get h k = (case map_of h (canonical_key k) of Some (v # _) \<Rightarrow> v | _ \<Rightarrow> [])"

definition header_set :: "http_header \<Rightarrow> string \<Rightarrow> string \<Rightarrow> http_header" where
  "header_set h k v = values_set (canonical_key k) v h"

definition header_has :: "http_header \<Rightarrow> string \<Rightarrow> bool" where
  "header_has h k \<longleftrightarrow> k \<in> fst ` set h"

section \<open>Requests and responses\<close>

record request =
  req_method :: string
  req_tls :: bool
  req_host :: string
  req_header :: http_header
  req_path :: string
  req_raw_query :: string
  req_body :: string

text \<open>
  The writer: the header map, the status and the headers that were sent with it, the body.
\<close>

record response_writer =
  rw_header :: http_header
  rw_status :: "nat option"
  rw_sent :: http_header
  rw_body :: string

definition new_writer :: response_writer where
  "new_writer = \<lparr>rw_header = [], rw_status = None, rw_sent = [], rw_body = []\<rparr>"

definition set_header :: "string \<Rightarrow> string \<Rightarrow> response_writer \<Rightarrow> response_writer" where
  "set_header k v w = w\<lparr>rw_header := header_set (rw_header w) k v\<rparr>"

definition write_header :: "nat \<Rightarrow> response_writer \<Rightarrow> response_writer" where
  "write_header status w =
     (case rw_status w of
        Some _ \<Rightarrow> w
      | None \<Rightarrow> w\<lparr>rw_status := Some status, rw_sent := rw_header w\<rparr>)"

definition write_body :: "string \<Rightarrow> response_writer \<Rightarrow> response_writer" where
  "write_body s w = (write_header 200 w)\<lparr>rw_body := rw_body w @ s\<rparr>"

text \<open>\<^verbatim>\<open>json.NewEncoder(w).Encode(v)\<close>; the keys of a Go map are written in order.\<close>

definition write_json :: "json \<Rightarrow> response_writer \<Rightarrow> response_writer" where
  "write_json j w = write_body (json_line j) w"

definition json_map :: "(string \<times> json) list \<Rightarrow> json" where
  "json_map ms = JObj (sort_by (\<lambda>a b. compare_strings (fst a) (fst b)) ms)"

text \<open>What the client sees once the handler has returned: 200 unless a status was sent.\<close>

definition response_status :: "response_writer \<Rightarrow> nat" where
  "response_status w = (case rw_status w of None \<Rightarrow> 200 | Some s \<Rightarrow> s)"

definition response_header :: "response_writer \<Rightarrow> string \<Rightarrow> string" where
  "response_header w k = header_get (case rw_status w of None \<Rightarrow> rw_header w | Some _ \<Rightarrow> rw_sent w) k"

section \<open>White space\<close>

text \<open>\<^verbatim>\<open>unicode.IsSpace\<close> of an encoded rune: U+0085, U+00A0, U+1680, U+2000 to U+200A,
  U+2028, U+2029, U+202F, U+205F and U+3000 beside the ASCII ones.\<close>

fun unicode_space :: "string \<Rightarrow> bool" where
  "unicode_space [a] = (byte_ord a \<in> {9, 10, 11, 12, 13, 32})"
| "unicode_space [a, b] = (a = CHR 0xC2 \<and> b \<in> {CHR 0x85, CHR 0xA0})"
| "unicode_space [a, b, c] =
     (if a = CHR 0xE1 then b = CHR 0x9A \<and> c = CHR 0x80
      else if a = CHR 0xE2 \<and> b = CHR 0x80 then 128 \<le> byte_ord c \<and> byte_ord c \<le> 138 \<or> c \<in> {CHR 0xA8, CHR 0xA9, CHR 0xAF}
      else if a = CHR 0xE2 then b = CHR 0x81 \<and> c = CHR 0x9F
      else a = CHR 0xE3 \<and> b = CHR 0x80 \<and> c = CHR 0x80)"
| "unicode_space _ = False"

text \<open>The rest after a leading space, \<open>None\<close> when there is none.\<close>

definition cut_space :: "string \<Rightarrow> string option" where
  "cut_space s = (case utf8_take s of
       Some (c, r) \<Rightarrow> if unicode_space c then Some r else None
     | None \<Rightarrow> None)"

lemma cut_space_length: "cut_space s = Some r \<Longrightarrow> length r < length s"
  by (auto simp: cut_space_def dest: utf8_take_length split: option.splits if_splits)

function trim_left_space :: "string \<Rightarrow> string" where
  "trim_left_space s = (case cut_space s of None \<Rightarrow> s | Some r \<Rightarrow> trim_left_space r)"
  by pat_completeness auto
termination by (relation "measure length") (auto dest: cut_space_length)

declare trim_left_space.simps [simp del]

lemma trim_left_space_length: "length (trim_left_space s) \<le> length s"
proof (induction s rule: trim_left_space.induct)
  case (1 s)
  show ?case
  proof (cases "cut_space s")
    case None
    then show ?thesis by (subst trim_left_space.simps) simp
  next
    case (Some r)
    then show ?thesis using 1 [OF Some] cut_space_length [OF Some] by (subst trim_left_space.simps) simp
  qed
qed

text \<open>The first word of a text and what follows it.\<close>

function take_word :: "string \<Rightarrow> string \<times> string" where
  "take_word s =
     (case s of
        [] \<Rightarrow> ([], [])
      | c # r \<Rightarrow> if cut_space s \<noteq> None then ([], s) else apfst ((#) c) (take_word r))"
  by pat_completeness auto
termination by (relation "measure length") auto

declare take_word.simps [simp del]

lemma take_word_length: "length (snd (take_word s)) \<le> length s"
proof (induction s rule: take_word.induct)
  case (1 s)
  show ?case
  proof (cases s)
    case Nil
    then show ?thesis by (subst take_word.simps) simp
  next
    case (Cons c r)
    show ?thesis
    proof (cases "cut_space s = None")
      case True
      then show ?thesis using 1 [OF Cons] Cons by (subst take_word.simps) simp
    next
      case False
      then show ?thesis using Cons by (subst take_word.simps) auto
    qed
  qed
qed

text \<open>\<^verbatim>\<open>strings.Fields\<close>.\<close>

function go_fields :: "string \<Rightarrow> string list" where
  "go_fields s =
     (case trim_left_space s of
        [] \<Rightarrow> []
      | c # r \<Rightarrow> (case take_word r of (word, rest) \<Rightarrow> (c # word) # go_fields rest))"
  by pat_completeness auto
termination
proof (relation "measure length", simp)
  fix s c r word rest
  assume "trim_left_space s = c # r" "(word, rest) = take_word r"
  then have "length (c # r) \<le> length s" "length rest \<le> length r"
    using trim_left_space_length [of s] take_word_length [of r] by (metis, metis snd_conv)
  then show "(rest, s) \<in> measure length" by simp
qed

declare go_fields.simps [simp del]

section \<open>Media types\<close>

definition take_token :: "string \<Rightarrow> string \<times> string" where
  "take_token s = (takeWhile token_char s, dropWhile token_char s)"

definition ascii_space :: "char \<Rightarrow> bool" where
  "ascii_space c \<longleftrightarrow> byte_ord c \<in> {9, 10, 11, 12, 13, 32}"

definition trim_space :: "string \<Rightarrow> string" where
  "trim_space s = rev (dropWhile ascii_space (rev (trim_left_space s)))"

text \<open>\<^verbatim>\<open>checkMediaTypeDisposition\<close>: a token, or two with a slash between.\<close>

definition media_type_ok :: "string \<Rightarrow> bool" where
  "media_type_ok s =
     (let (typ, rest) = take_token s in
      if typ = [] then False
      else case rest of
        [] \<Rightarrow> True
      | c # r \<Rightarrow> c = CHR ''/'' \<and> r \<noteq> [] \<and> list_all token_char r)"

definition is_tspecial :: "char \<Rightarrow> bool" where
  "is_tspecial c \<longleftrightarrow> c \<in> set ''()<>@,;:/[]?='' \<union> {CHR 0x22, CHR 0x5C}"

text \<open>A quoted string after its opening quote: the value and the rest.\<close>

fun quoted_value :: "string \<Rightarrow> (string \<times> string) option" where
  "quoted_value [] = None"
| "quoted_value (c # r) =
     (if c = CHR 0x22 then Some ([], r)
      else if c = CHR 0x5C \<and> r \<noteq> [] \<and> is_tspecial (hd r)
        then map_option (apfst ((#) (hd r))) (quoted_value (tl r))
      else if c = CHR 0x0D \<or> c = CHR 0x0A then None
      else map_option (apfst ((#) c)) (quoted_value r))"

definition consume_value :: "string \<Rightarrow> string \<times> string" where
  "consume_value s =
     (case s of
        [] \<Rightarrow> ([], [])
      | c # r \<Rightarrow> if c \<noteq> CHR 0x22 then take_token s
                 else case quoted_value r of Some vr \<Rightarrow> vr | None \<Rightarrow> ([], s))"

text \<open>\<^verbatim>\<open>consumeMediaParam\<close>: key, value and rest, or \<open>None\<close> when the key is empty.\<close>

definition consume_param :: "string \<Rightarrow> (string \<times> string \<times> string) option" where
  "consume_param s =
     (case cut_prefix (trim_left_space s) '';'' of
        None \<Rightarrow> None
      | Some r1 \<Rightarrow>
          (let (param, r2) = take_token (trim_left_space r1) in
           if param = [] then None
           else case cut_prefix (trim_left_space r2) ''='' of
             None \<Rightarrow> None
           | Some r3 \<Rightarrow>
               (let r4 = trim_left_space r3; (v, r5) = consume_value r4 in
                if v = [] \<and> r5 = r4 then None else Some (to_lower param, v, r5))))"

text \<open>
  The loop over the parameters, with \<open>n\<close> at least the number of bytes left: whether the
  media type is kept (a duplicate drops it), and whether there is no error.
\<close>

fun media_params :: "nat \<Rightarrow> string \<Rightarrow> (string \<times> string) list \<Rightarrow> bool \<times> bool" where
  "media_params 0 s seen = (True, s = [])"
| "media_params (Suc n) s seen =
     (let v = trim_left_space s in
      if v = [] then (True, True)
      else case consume_param v of
        None \<Rightarrow> (True, trim_space v = '';'')
      | Some (key, val, rest) \<Rightarrow>
          (case map_of seen key of
             Some old \<Rightarrow> if old = val then media_params n rest seen else (False, False)
           | None \<Rightarrow> media_params n rest ((key, val) # seen)))"

text \<open>\<^verbatim>\<open>mime.ParseMediaType\<close>: the media type and whether the error is nil.\<close>

definition parse_media_type :: "string \<Rightarrow> string \<times> bool" where
  "parse_media_type v =
     (let base = fst (cut CHR '';'' v); mt = trim_space (to_lower base) in
      if \<not> media_type_ok mt then ([], False)
      else let params = drop (length base) v;
               (keep, ok) = media_params (Suc (length params)) params []
           in (if keep then mt else [], ok))"

section \<open>Forms\<close>

definition max_form_size :: nat where "max_form_size = 10 * 2 ^ 20"

text \<open>\<^verbatim>\<open>parsePostForm\<close>: the values of the body and whether the error is nil.\<close>

definition parse_post_form :: "request \<Rightarrow> url_values \<times> bool" where
  "parse_post_form r =
     (let ct = header_get (req_header r) ''Content-Type'';
          (mt, ok) = parse_media_type (if ct = [] then ''application/octet-stream'' else ct)
      in if mt \<noteq> ''application/x-www-form-urlencoded'' then ([], ok)
         else if length (req_body r) > max_form_size then ([], False)
         else let (vs, ok') = parse_query (req_body r) in (vs, ok \<and> ok'))"

text \<open>\<^verbatim>\<open>r.ParseForm()\<close>: the body's values come before those of the query.\<close>

definition parse_form :: "request \<Rightarrow> url_values \<times> bool" where
  "parse_form r =
     (let (post, ok) = (if req_method r \<in> {''POST'', ''PUT'', ''PATCH''} then parse_post_form r else ([], True));
          (qs, ok') = parse_query (req_raw_query r)
      in (values_copy post qs, ok \<and> ok'))"

section \<open>Redirects\<close>

definition hex_escape_non_ascii :: "string \<Rightarrow> string" where
  "hex_escape_non_ascii s =
     concat (map (\<lambda>c. if byte_ord c < 128 then [c]
                      else [CHR 0x25, hex_digit (byte_ord c div 16), hex_digit (byte_ord c mod 16)]) s)"

definition html_escape :: "string \<Rightarrow> string" where
  "html_escape s =
     concat (map (\<lambda>c. if c = CHR ''&'' then ''&amp;'' else if c = CHR ''<'' then ''&lt;''
                      else if c = CHR ''>'' then ''&gt;'' else if c = CHR 0x22 then ''&#34;''
                      else if c = CHR 0x27 then ''&#39;'' else [c]) s)"

text \<open>The target: relative ones are completed with the request's path and cleaned.\<close>

definition redirect_target :: "string \<Rightarrow> string \<Rightarrow> string" where
  "redirect_target path target =
     (case url_parse target of
        None \<Rightarrow> target
      | Some u \<Rightarrow>
          if url_scheme u \<noteq> [] \<or> url_host u \<noteq> [] then target
          else let full = (if has_prefix target ''/'' then target
                           else path_dir (if path = [] then ''/'' else path) @ target);
                   p = takeWhile (\<lambda>c. c \<noteq> CHR ''?'') full;
                   q = dropWhile (\<lambda>c. c \<noteq> CHR ''?'') full;
                   cleaned = path_clean p
               in (if has_suffix p ''/'' \<and> \<not> has_suffix cleaned ''/'' then cleaned @ ''/'' else cleaned) @ q)"

text \<open>A URL with a scheme is sent as it is written.\<close>

lemma redirect_target_absolute:
  assumes "good_scheme (url_scheme u)"
  shows "redirect_target path (url_string u) = url_string u"
proof (cases "url_parse (url_string u)")
  case None
  then show ?thesis by (simp add: redirect_target_def)
next
  case (Some v)
  obtain r where "url_string u = url_scheme u @ CHR '':'' # r"
    using url_string_scheme assms by (auto simp: good_scheme_def)
  then have "url_scheme v = to_lower (url_scheme u)"
    using url_parse_absolute assms Some by metis
  then have "url_scheme v \<noteq> []" using assms by (simp add: good_scheme_def)
  then show ?thesis using Some by (simp add: redirect_target_def)
qed

definition http_redirect :: "request \<Rightarrow> string \<Rightarrow> nat \<Rightarrow> string \<Rightarrow> response_writer \<Rightarrow> response_writer" where
  "http_redirect r target status status_text w =
     (let url = redirect_target (req_path r) target;
          hadCT = header_has (rw_header w) ''Content-Type'';
          w1 = set_header ''Location'' (hex_escape_non_ascii url) w;
          w2 = (if \<not> hadCT \<and> req_method r \<in> {''GET'', ''HEAD''}
                then set_header ''Content-Type'' ''text/html; charset=utf-8'' w1 else w1);
          w3 = write_header status w2
      in if \<not> hadCT \<and> req_method r = ''GET''
         then write_body (''<a href='' @ [CHR 0x22] @ html_escape url @ [CHR 0x22] @ ''>'' @ status_text @ ''</a>.''
                @ [CHR 0x0A, CHR 0x0A]) w3
         else w3)"

text \<open>\<^verbatim>\<open>http.Error\<close>.\<close>

definition http_error :: "string \<Rightarrow> nat \<Rightarrow> response_writer \<Rightarrow> response_writer" where
  "http_error msg status w =
     (let h = filter (\<lambda>(k, _). k \<noteq> ''Content-Length'') (rw_header w);
          w1 = set_header ''X-Content-Type-Options'' ''nosniff''
                 (set_header ''Content-Type'' ''text/plain; charset=utf-8'' (w\<lparr>rw_header := h\<rparr>))
      in write_body (msg @ [CHR 0x0A]) (write_header status w1))"

end
