(* ===== verification/OAuth_Proxy.thy ===== *)
theory OAuth_Proxy
  imports OAuth_Crypto Go_Http
begin

text \<open>
  The stateless OAuth 2.1 proxy, \<^verbatim>\<open>pkg/auth/oauth/proxy.go\<close>: its construction from
  the settings and every handler it registers. The OIDC provider is a parameter: discovery,
  \<^verbatim>\<open>AuthCodeURL\<close> and \<^verbatim>\<open>Exchange\<close> of the oauth2 package, and posting a form to
  the provider. Clock readings and random bytes are arguments of a handler, one for each
  place the code reads them. Logging is left out.
\<close>

section \<open>The provider and the proxy\<close>

record Config =
  cfg_Issuer :: string
  cfg_ClientID :: string
  cfg_ClientSecret :: string
  cfg_Scopes :: string
  cfg_RedirectURL :: string
  cfg_TLSInsecure :: bool
  cfg_SecretKey :: string

record oauth2_config =
  oc_ClientID :: string
  oc_ClientSecret :: string
  oc_Endpoint :: string
  oc_Scopes :: "string list"
  oc_RedirectURL :: string

text \<open>A discovered provider: its endpoint and the two claims the proxy reads, or an error.\<close>

record provider =
  pv_endpoint :: string
  pv_claims :: "(string \<times> string) option"

record oauth_token =
  tk_AccessToken :: string
  tk_RefreshToken :: string
  tk_TokenType :: string
  tk_Expiry :: gotime
  tk_id_token :: "string option"

record oauth_env =
  auth_code_url :: "oauth2_config \<Rightarrow> string \<Rightarrow> string"
  exchange :: "oauth2_config \<Rightarrow> string \<Rightarrow> oauth_token option"
  post_form :: "bool \<Rightarrow> string \<Rightarrow> url_values \<Rightarrow> (nat \<times> string) option"

record Proxy =
  px_oauth2Config :: oauth2_config
  px_insecureClient :: bool
  px_key :: bytes
  px_redirectURL :: string
  px_tokenURL :: string
  px_revocationURL :: string

datatype proxy_error = NoSecretKey | DiscoveryFailed | ClaimsFailed

definition stateTTL :: duration where "stateTTL = 5 * 60 * second"
definition authCodeTTL :: duration where "authCodeTTL = 60 * second"

definition NewProxy :: "(bool \<Rightarrow> string \<Rightarrow> provider option) \<Rightarrow> Config \<Rightarrow> proxy_error + Proxy" where
  "NewProxy discover cfg =
     (if cfg_SecretKey cfg = [] then Inl NoSecretKey
      else case discover (cfg_TLSInsecure cfg) (cfg_Issuer cfg) of
        None \<Rightarrow> Inl DiscoveryFailed
      | Some provider \<Rightarrow>
          (let scopes = (if cfg_Scopes cfg \<noteq> [] then go_fields (cfg_Scopes cfg) else [''openid'']) in
           case pv_claims provider of
             None \<Rightarrow> Inl ClaimsFailed
           | Some (token_endpoint, revocation_endpoint) \<Rightarrow>
               Inr \<lparr>px_oauth2Config = \<lparr>oc_ClientID = cfg_ClientID cfg, oc_ClientSecret = cfg_ClientSecret cfg,
                        oc_Endpoint = pv_endpoint provider, oc_Scopes = scopes, oc_RedirectURL = []\<rparr>,
                    px_insecureClient = cfg_TLSInsecure cfg,
                    px_key = deriveKey (cfg_SecretKey cfg),
                    px_redirectURL = cfg_RedirectURL cfg,
                    px_tokenURL = token_endpoint,
                    px_revocationURL = revocation_endpoint\<rparr>))"

section \<open>Helpers\<close>

definition requestScheme :: "request \<Rightarrow> string" where
  "requestScheme r =
     (if req_tls r then ''https''
      else if header_get (req_header r) ''X-Forwarded-Proto'' = ''https'' then ''https''
      else ''http'')"

definition baseURL :: "request \<Rightarrow> string" where
  "baseURL r = requestScheme r @ ''://'' @ req_host r"

definition callbackURL :: "Proxy \<Rightarrow> request \<Rightarrow> string" where
  "callbackURL p r =
     (if px_redirectURL p \<noteq> [] then px_redirectURL p
      else requestScheme r @ ''://'' @ req_host r @ ''/oauth/callback'')"

definition isValidRedirectURI :: "string \<Rightarrow> bool" where
  "isValidRedirectURI rawURI =
     (case url_parse rawURI of
        None \<Rightarrow> False
      | Some u \<Rightarrow>
          (let host = url_hostname u in
           if host = ''localhost'' \<or> host = ''127.0.0.1'' \<or> host = ''::1'' \<or> host = ''[::1]'' then True
           else url_scheme u = ''https''))"

definition generateClientID :: "bytes \<Rightarrow> string" where
  "generateClientID b = ''hugr_mcp_'' @ hex_encode b"

definition oauthError :: "nat \<Rightarrow> string \<Rightarrow> string \<Rightarrow> response_writer \<Rightarrow> response_writer" where
  "oauthError status code description w =
     write_json (json_map [(''error'', JStr code), (''error_description'', JStr description)])
       (write_header status (set_header ''Content-Type'' ''application/json'' w))"

section \<open>Metadata\<close>

definition metadata_json :: "string \<Rightarrow> json" where
  "metadata_json base = json_map
     [(''issuer'', JStr base),
      (''authorization_endpoint'', JStr (base @ ''/oauth/authorize'')),
      (''token_endpoint'', JStr (base @ ''/oauth/token'')),
      (''registration_endpoint'', JStr (base @ ''/oauth/register'')),
      (''revocation_endpoint'', JStr (base @ ''/oauth/revoke'')),
      (''response_types_supported'', JArr [JStr ''code'']),
      (''grant_types_supported'', JArr [JStr ''authorization_code'', JStr ''refresh_token'']),
      (''token_endpoint_auth_methods_supported'', JArr [JStr ''none'']),
      (''code_challenge_methods_supported'', JArr [JStr ''S256'']),
      (''scopes_supported'', JArr [])]"

definition handleMetadata :: "request \<Rightarrow> response_writer \<Rightarrow> response_writer" where
  "handleMetadata r w =
     write_json (metadata_json (baseURL r)) (set_header ''Content-Type'' ''application/json'' w)"

section \<open>Authorize and callback\<close>

definition handleAuthorize ::
    "oauth_env \<Rightarrow> Proxy \<Rightarrow> bytes option \<Rightarrow> gotime \<Rightarrow> request \<Rightarrow> response_writer \<Rightarrow> response_writer" where
  "handleAuthorize env p rnd now r w =
     (let q = url_query (req_raw_query r);
          responseType = values_get q ''response_type'';
          clientID = values_get q ''client_id'';
          redirectURI = values_get q ''redirect_uri'';
          state = values_get q ''state'';
          codeChallenge = values_get q ''code_challenge'';
          codeChallengeMethod = values_get q ''code_challenge_method''
      in if responseType \<noteq> ''code'' then
           oauthError 400 ''invalid_request'' (''response_type must be '' @ [CHR 0x27] @ ''code'' @ [CHR 0x27]) w
         else if clientID = [] \<or> redirectURI = [] \<or> state = [] \<or> codeChallenge = [] then
           oauthError 400 ''invalid_request'' ''missing required parameters'' w
         else if codeChallengeMethod \<noteq> ''S256'' then
           oauthError 400 ''invalid_request'' (''code_challenge_method must be '' @ [CHR 0x27] @ ''S256'' @ [CHR 0x27]) w
         else if \<not> isValidRedirectURI redirectURI then
           oauthError 400 ''invalid_request'' ''redirect_uri must be localhost or HTTPS'' w
         else
           (let payload = \<lparr>sp_RedirectURI = redirectURI, sp_CodeChallenge = codeChallenge,
                  sp_ClientID = clientID, sp_ClientState = state, sp_Timestamp = 0\<rparr>
            in case encryptState (px_key p) rnd now payload of
                 Inl _ \<Rightarrow> oauthError 500 ''server_error'' ''failed to process request'' w
               | Inr encryptedState \<Rightarrow>
                   (let cfg = (px_oauth2Config p)\<lparr>oc_RedirectURL := callbackURL p r\<rparr>
                    in http_redirect r (auth_code_url env cfg encryptedState) 302 ''Found'' w)))"

text \<open>The payload of the authorization code; \<open>now\<close> is the clock at \<^verbatim>\<open>time.Until\<close>.\<close>

definition auth_code_of :: "StatePayload \<Rightarrow> oauth_token \<Rightarrow> gotime \<Rightarrow> AuthCodePayload" where
  "auth_code_of state token now =
     \<lparr>ac_AccessToken = tk_AccessToken token,
      ac_IDToken = (case tk_id_token token of None \<Rightarrow> [] | Some s \<Rightarrow> s),
      ac_RefreshToken = tk_RefreshToken token,
      ac_TokenType = tk_TokenType token,
      ac_ExpiresIn = duration_seconds (time_sub (tk_Expiry token) now),
      ac_CodeChallenge = sp_CodeChallenge state,
      ac_ClientID = sp_ClientID state,
      ac_RedirectURI = sp_RedirectURI state,
      ac_Timestamp = 0\<rparr>"

text \<open>The client's redirect URI with code and state set in its query.\<close>

definition client_redirect :: "url \<Rightarrow> string \<Rightarrow> string \<Rightarrow> url" where
  "client_redirect u code state =
     (let rq = values_set ''state'' state (values_set ''code'' code (url_query (url_raw_query u)))
      in u\<lparr>url_raw_query := values_encode rq\<rparr>)"

definition handleCallback ::
    "oauth_env \<Rightarrow> Proxy \<Rightarrow> bytes option \<Rightarrow> gotime \<Rightarrow> gotime \<Rightarrow> gotime \<Rightarrow> request \<Rightarrow> response_writer \<Rightarrow> response_writer" where
  "handleCallback env p rnd t_state t_until t_code r w =
     (let q = url_query (req_raw_query r);
          errCode = values_get q ''error'';
          code = values_get q ''code'';
          encryptedState = values_get q ''state''
      in if errCode \<noteq> [] then oauthError 400 errCode (values_get q ''error_description'') w
         else if code = [] \<or> encryptedState = [] then
           oauthError 400 ''invalid_request'' ''missing code or state'' w
         else case decryptState (px_key p) encryptedState stateTTL t_state of
           Inl _ \<Rightarrow> oauthError 400 ''invalid_request'' ''invalid or expired state'' w
         | Inr state \<Rightarrow>
         case exchange env ((px_oauth2Config p)\<lparr>oc_RedirectURL := callbackURL p r\<rparr>) code of
           None \<Rightarrow> oauthError 502 ''server_error'' ''failed to exchange authorization code with OIDC provider'' w
         | Some token \<Rightarrow>
         case encryptAuthCode (px_key p) rnd t_code (auth_code_of state token t_until) of
           Inl _ \<Rightarrow> oauthError 500 ''server_error'' ''failed to process request'' w
         | Inr encryptedCode \<Rightarrow>
         case url_parse (sp_RedirectURI state) of
           None \<Rightarrow> oauthError 400 ''invalid_request'' ''invalid redirect_uri'' w
         | Some u \<Rightarrow>
             http_redirect r (url_string (client_redirect u encryptedCode (sp_ClientState state))) 302 ''Found'' w)"

section \<open>Token\<close>

definition token_response :: "AuthCodePayload \<Rightarrow> json" where
  "token_response a = json_map
     ([(''access_token'', JStr (ac_AccessToken a)), (''token_type'', JStr (ac_TokenType a))]
      @ (if ac_ExpiresIn a > 0 then [(''expires_in'', JInt (ac_ExpiresIn a))] else [])
      @ (if ac_IDToken a \<noteq> [] then [(''id_token'', JStr (ac_IDToken a))] else [])
      @ (if ac_RefreshToken a \<noteq> [] then [(''refresh_token'', JStr (ac_RefreshToken a))] else []))"

definition handleTokenAuthorizationCode ::
    "Proxy \<Rightarrow> gotime \<Rightarrow> url_values \<Rightarrow> response_writer \<Rightarrow> response_writer" where
  "handleTokenAuthorizationCode p now form w =
     (let code = values_get form ''code'';
          redirectURI = values_get form ''redirect_uri'';
          clientID = values_get form ''client_id'';
          codeVerifier = values_get form ''code_verifier''
      in if code = [] \<or> redirectURI = [] \<or> clientID = [] \<or> codeVerifier = [] then
           oauthError 400 ''invalid_request'' ''missing required parameters'' w
         else case decryptAuthCode (px_key p) code authCodeTTL now of
           Inl _ \<Rightarrow> oauthError 400 ''invalid_grant'' ''invalid or expired authorization code'' w
         | Inr authCode \<Rightarrow>
             if ac_ClientID authCode \<noteq> clientID then
               oauthError 400 ''invalid_grant'' ''client_id mismatch'' w
             else if ac_RedirectURI authCode \<noteq> redirectURI then
               oauthError 400 ''invalid_grant'' ''redirect_uri mismatch'' w
             else if \<not> verifyCodeChallenge codeVerifier (ac_CodeChallenge authCode) then
               oauthError 400 ''invalid_grant'' ''PKCE verification failed'' w
             else write_json (token_response authCode)
                    (set_header ''Cache-Control'' ''no-store''
                      (set_header ''Content-Type'' ''application/json'' w)))"

definition refresh_form :: "Proxy \<Rightarrow> string \<Rightarrow> url_values" where
  "refresh_form p refreshToken =
     [(''grant_type'', [''refresh_token'']), (''refresh_token'', [refreshToken]),
      (''client_id'', [oc_ClientID (px_oauth2Config p)]),
      (''client_secret'', [oc_ClientSecret (px_oauth2Config p)])]"

definition handleTokenRefresh :: "oauth_env \<Rightarrow> Proxy \<Rightarrow> url_values \<Rightarrow> response_writer \<Rightarrow> response_writer" where
  "handleTokenRefresh env p form w =
     (let refreshToken = values_get form ''refresh_token'' in
      if refreshToken = [] then oauthError 400 ''invalid_request'' ''missing refresh_token'' w
      else case post_form env (px_insecureClient p) (px_tokenURL p) (refresh_form p refreshToken) of
        None \<Rightarrow> oauthError 502 ''server_error'' ''failed to contact OIDC provider'' w
      | Some (status, body) \<Rightarrow>
          (case json_decode_raw body of
             None \<Rightarrow> oauthError 502 ''server_error'' ''invalid response from OIDC provider'' w
           | Some raw \<Rightarrow>
               write_body (json_raw_line raw) (write_header status
                 (set_header ''Cache-Control'' ''no-store'' (set_header ''Content-Type'' ''application/json'' w)))))"

definition handleToken :: "oauth_env \<Rightarrow> Proxy \<Rightarrow> gotime \<Rightarrow> request \<Rightarrow> response_writer \<Rightarrow> response_writer" where
  "handleToken env p now r w =
     (let (form, ok) = parse_form r in
      if \<not> ok then oauthError 400 ''invalid_request'' ''malformed request body'' w
      else let grantType = values_get form ''grant_type'' in
        if grantType = ''authorization_code'' then handleTokenAuthorizationCode p now form w
        else if grantType = ''refresh_token'' then handleTokenRefresh env p form w
        else oauthError 400 ''unsupported_grant_type''
               (''grant_type must be '' @ [CHR 0x27] @ ''authorization_code'' @ [CHR 0x27] @ '' or '' @
                [CHR 0x27] @ ''refresh_token'' @ [CHR 0x27]) w)"

section \<open>Revoke\<close>

definition revoke_form :: "Proxy \<Rightarrow> string \<Rightarrow> string \<Rightarrow> url_values" where
  "revoke_form p token hint =
     (let data = [(''token'', [token]), (''client_id'', [oc_ClientID (px_oauth2Config p)]),
                  (''client_secret'', [oc_ClientSecret (px_oauth2Config p)])]
      in if hint \<noteq> [] then values_set ''token_type_hint'' hint data else data)"

definition handleRevoke :: "oauth_env \<Rightarrow> Proxy \<Rightarrow> request \<Rightarrow> response_writer \<Rightarrow> response_writer" where
  "handleRevoke env p r w =
     (if px_revocationURL p = [] then
        oauthError 400 ''unsupported_operation'' ''OIDC provider does not support token revocation'' w
      else let (form, ok) = parse_form r in
        if \<not> ok then oauthError 400 ''invalid_request'' ''malformed request body'' w
        else let token = values_get form ''token'' in
          if token = [] then oauthError 400 ''invalid_request'' ''missing token parameter'' w
          else case post_form env (px_insecureClient p) (px_revocationURL p)
                      (revoke_form p token (values_get form ''token_type_hint'')) of
            None \<Rightarrow> oauthError 502 ''server_error'' ''failed to contact OIDC provider'' w
          | Some (status, body) \<Rightarrow>
              (case (if status \<noteq> 200 then json_decode_raw body else None) of
                 Some raw \<Rightarrow> write_body (json_raw_line raw)
                   (write_header status (set_header ''Content-Type'' ''application/json'' w))
               | None \<Rightarrow> write_header status w))"

section \<open>Register\<close>

record register_request =
  rr_RedirectURIs :: string_slice
  rr_ClientName :: string
  rr_GrantTypes :: string_slice
  rr_ResponseTypes :: string_slice
  rr_TokenEndpointAuthMethod :: string

definition empty_register :: register_request where
  "empty_register = \<lparr>rr_RedirectURIs = no_slice, rr_ClientName = [], rr_GrantTypes = no_slice,
     rr_ResponseTypes = no_slice, rr_TokenEndpointAuthMethod = []\<rparr>"

definition register_fields :: "register_request json_fields" where
  "register_fields =
     [(''redirect_uris'', slice_field rr_RedirectURIs rr_RedirectURIs_update),
      (''client_name'', string_field rr_ClientName_update),
      (''grant_types'', slice_field rr_GrantTypes rr_GrantTypes_update),
      (''response_types'', slice_field rr_ResponseTypes rr_ResponseTypes_update),
      (''token_endpoint_auth_method'', string_field rr_TokenEndpointAuthMethod_update)]"

text \<open>The loop over the redirect URIs: the first that is refused.\<close>

fun first_invalid :: "string list \<Rightarrow> string option" where
  "first_invalid [] = None"
| "first_invalid (uri # uris) = (if \<not> isValidRedirectURI uri then Some uri else first_invalid uris)"

definition register_response :: "string \<Rightarrow> int \<Rightarrow> register_request \<Rightarrow> json" where
  "register_response clientID issued req =
     (let grants = (if elems (rr_GrantTypes req) = [] then [''authorization_code''] else elems (rr_GrantTypes req));
          responses = (if elems (rr_ResponseTypes req) = [] then [''code''] else elems (rr_ResponseTypes req))
      in json_map
        [(''client_id'', JStr clientID),
         (''client_id_issued_at'', JInt issued),
         (''redirect_uris'', JArr (map JStr (elems (rr_RedirectURIs req)))),
         (''client_name'', JStr (rr_ClientName req)),
         (''grant_types'', JArr (map JStr grants)),
         (''response_types'', JArr (map JStr responses)),
         (''token_endpoint_auth_method'', JStr ''none'')])"

definition handleRegister :: "bytes \<Rightarrow> gotime \<Rightarrow> request \<Rightarrow> response_writer \<Rightarrow> response_writer" where
  "handleRegister rnd now r w =
     (case (case json_decode (req_body r) of None \<Rightarrow> None | Some j \<Rightarrow> decode_struct register_fields j empty_register) of
        None \<Rightarrow> oauthError 400 ''invalid_client_metadata'' ''malformed JSON body'' w
      | Some req \<Rightarrow>
          if elems (rr_RedirectURIs req) = [] then
            oauthError 400 ''invalid_client_metadata'' ''redirect_uris is required'' w
          else case first_invalid (elems (rr_RedirectURIs req)) of
            Some uri \<Rightarrow> oauthError 400 ''invalid_redirect_uri'' (''redirect_uri must be localhost or HTTPS: '' @ uri) w
          | None \<Rightarrow>
              write_json (register_response (generateClientID rnd) (unix_seconds now) req)
                (write_header 201 (set_header ''Content-Type'' ''application/json'' w)))"

section \<open>The routes\<close>

datatype oauth_endpoint =
    EpMetadata | EpAuthorize | EpCallback | EpToken | EpRevoke | EpRegister

definition RegisterHandlers :: "(string \<times> string \<times> oauth_endpoint) list" where
  "RegisterHandlers =
     [(''GET'', ''/.well-known/oauth-authorization-server'', EpMetadata),
      (''GET'', ''/oauth/authorize'', EpAuthorize),
      (''GET'', ''/oauth/callback'', EpCallback),
      (''POST'', ''/oauth/token'', EpToken),
      (''POST'', ''/oauth/revoke'', EpRevoke),
      (''POST'', ''/oauth/register'', EpRegister)]"

end
