(* ===== verification/OAuth_Tokens.thy ===== *)
theory OAuth_Tokens
  imports OAuth_Crypto
begin

text \<open>
  What the sealed tokens of the proxy guarantee: round trips with their time to live, the
  origin of every token that opens, the PKCE check, and what the tokens do not separate.
\<close>

section \<open>Facts on tokens\<close>

lemma encrypt_deriveKey [simp]:
  "encrypt (deriveKey secret) (Some nonce) v =
     Inr (b64_encode (nonce @ gcm_seal (deriveKey secret) nonce (bytes_of (json_text v))))"
  by (simp add: encrypt_def Let_def)

text \<open>A time to live below the largest duration is compared as if the clock were unbounded.\<close>

definition plain_ttl :: "duration \<Rightarrow> bool" where
  "plain_ttl ttl \<longleftrightarrow> min_int64 \<le> ttl \<and> ttl < max_int64"

lemma clamp_greater: "plain_ttl ttl \<Longrightarrow> clamp_int64 x > ttl \<longleftrightarrow> x > ttl"
  by (auto simp: plain_ttl_def clamp_int64_def max_def min_def)

lemma token_expired_iff:
  "clock_time t0 \<Longrightarrow> plain_ttl ttl \<Longrightarrow>
   token_expired t1 (unix_seconds t0) ttl \<longleftrightarrow> t1 - t0 div second * second > ttl"
  by (simp add: token_expired_def time_sub_def clamp_greater time_Unix_unix_seconds)

lemma decryptState_of:
  assumes "encryptState key (Some nonce) t0 s = Inr tok" and "length nonce = nonce_size"
  shows "decryptState key tok ttl t1 =
    (if token_expired t1 (unix_seconds t0) ttl then Inl ExpiredError
     else Inr (clean_state (s\<lparr>sp_Timestamp := unix_seconds t0\<rparr>)))"
  using decrypt_encrypt [OF assms(1) [unfolded encryptState_def] assms(2), where fds = state_fields and r = empty_state]
  by (simp add: decryptState_def decode_state_json) (simp add: clean_state_def)

lemma decryptAuthCode_of:
  assumes "encryptAuthCode key (Some nonce) t0 a = Inr tok" and "length nonce = nonce_size"
    and "clamp_int64 (ac_ExpiresIn a) = ac_ExpiresIn a"
  shows "decryptAuthCode key tok ttl t1 =
    (if token_expired t1 (unix_seconds t0) ttl then Inl ExpiredError
     else Inr (clean_auth_code (a\<lparr>ac_Timestamp := unix_seconds t0\<rparr>)))"
  using decrypt_encrypt [OF assms(1) [unfolded encryptAuthCode_def] assms(2),
      where fds = auth_code_fields and r = empty_auth_code] assms(3)
  by (simp add: decryptAuthCode_def decode_auth_code_json) (simp add: clean_auth_code_def)

lemma decryptAuthCode_of_state:
  assumes "encryptState key (Some nonce) t0 s = Inr tok" and "length nonce = nonce_size"
  shows "decryptAuthCode key tok ttl t1 =
    (if token_expired t1 (unix_seconds t0) ttl then Inl ExpiredError
     else Inr (state_as_auth_code (clean_state (s\<lparr>sp_Timestamp := unix_seconds t0\<rparr>))))"
  using decrypt_encrypt [OF assms(1) [unfolded encryptState_def] assms(2),
      where fds = auth_code_fields and r = empty_auth_code]
  by (simp add: decryptAuthCode_def decode_state_as_auth_code)
    (simp add: clean_state_def state_as_auth_code_def)

section \<open>A concrete session\<close>

definition example_key :: bytes where
  "example_key = deriveKey ''secret''"

definition example_nonce :: bytes where
  "example_nonce = replicate 12 7"

definition example_state :: StatePayload where
  "example_state = \<lparr>sp_RedirectURI = ''https://app/cb'', sp_CodeChallenge = ''c'', sp_ClientID = ''cl'',
     sp_ClientState = ''st'', sp_Timestamp = 0\<rparr>"

definition example_code :: AuthCodePayload where
  "example_code = \<lparr>ac_AccessToken = ''at'', ac_IDToken = [], ac_RefreshToken = ''rt'', ac_TokenType = ''Bearer'',
     ac_ExpiresIn = 300, ac_CodeChallenge = ''c'', ac_ClientID = ''cl'', ac_RedirectURI = ''https://app/cb'',
     ac_Timestamp = 0\<rparr>"

text \<open>A moment of 2026, half a second past its second.\<close>

definition example_time :: gotime where
  "example_time = (unix_to_internal + 1780000000) * second + 500000000"

definition example_state_token :: string where
  "example_state_token = projr (encryptState example_key (Some example_nonce) example_time example_state)"

definition example_code_token :: string where
  "example_code_token = projr (encryptAuthCode example_key (Some example_nonce) example_time example_code)"

lemma example_nonce_size [simp]: "length example_nonce = nonce_size"
  by (simp add: example_nonce_def nonce_size_def)

lemma example_clock [simp]: "clock_time example_time"
  by (simp add: example_time_def clock_time_def second_def unix_to_internal_def max_int64_def)

lemma example_tokens:
  "encryptState example_key (Some example_nonce) example_time example_state = Inr example_state_token"
  "encryptAuthCode example_key (Some example_nonce) example_time example_code = Inr example_code_token"
  by (simp_all add: example_state_token_def example_code_token_def example_key_def encryptState_def encryptAuthCode_def)

lemma example_code_expires [simp]: "clamp_int64 (ac_ExpiresIn example_code) = ac_ExpiresIn example_code"
  by (simp add: example_code_def clamp_int64_def min_int64_def max_int64_def)

lemma example_ttl [simp]: "plain_ttl (60 * second)" "plain_ttl (300 * second)"
  by (simp_all add: plain_ttl_def second_def min_int64_def max_int64_def)

section \<open>Round trips\<close>

text \<open>C14: a state token decrypts to the payload it was made from, stamped with its second,
  exactly until the time to live has passed since that second began; from then on it is expired.
  Only bytes that are not UTF-8 are replaced on the way.\<close>

theorem state_token_roundtrip:
  assumes "encryptState key (Some nonce) t0 s = Inr tok" and "length nonce = nonce_size"
    and "clock_time t0" and "plain_ttl ttl"
  shows "decryptState key tok ttl t1 =
    (if t1 - t0 div second * second > ttl then Inl ExpiredError
     else Inr (clean_state (s\<lparr>sp_Timestamp := unix_seconds t0\<rparr>)))"
  using decryptState_of [OF assms(1,2)] token_expired_iff [OF assms(3,4)] by simp

theorem state_token_roundtrip_witness:
  "decryptState example_key example_state_token (300 * second) (example_time + 299 * second) =
     Inr (clean_state (example_state\<lparr>sp_Timestamp := 1780000000\<rparr>)) \<and>
   decryptState example_key example_state_token (300 * second) (example_time + 300 * second) = Inl ExpiredError"
proof -
  note rt = state_token_roundtrip [OF example_tokens(1) example_nonce_size example_clock example_ttl(2)]
  have "unix_seconds example_time = 1780000000" by code_simp
  then show ?thesis
    unfolding rt by (simp add: example_time_def second_def unix_to_internal_def)
qed

text \<open>C15: an authorization code decrypts to the tokens and bindings it was made from until its
  time to live has passed, and is refused as expired afterwards.\<close>

theorem auth_code_roundtrip:
  assumes "encryptAuthCode key (Some nonce) t0 a = Inr tok" and "length nonce = nonce_size"
    and "clamp_int64 (ac_ExpiresIn a) = ac_ExpiresIn a" and "clock_time t0" and "plain_ttl ttl"
  shows "decryptAuthCode key tok ttl t1 =
    (if t1 - t0 div second * second > ttl then Inl ExpiredError
     else Inr (clean_auth_code (a\<lparr>ac_Timestamp := unix_seconds t0\<rparr>)))"
  using decryptAuthCode_of [OF assms(1,2,3)] token_expired_iff [OF assms(4,5)] by simp

theorem auth_code_roundtrip_witness:
  "decryptAuthCode example_key example_code_token (60 * second) (example_time + 59 * second) =
     Inr (clean_auth_code (example_code\<lparr>ac_Timestamp := 1780000000\<rparr>)) \<and>
   decryptAuthCode example_key example_code_token (60 * second) (example_time + 60 * second) = Inl ExpiredError"
proof -
  note rt = auth_code_roundtrip [OF example_tokens(2) example_nonce_size example_code_expires example_clock example_ttl(1)]
  have "unix_seconds example_time = 1780000000" by code_simp
  then show ?thesis
    unfolding rt by (simp add: example_time_def second_def unix_to_internal_def)
qed

section \<open>Where tokens come from\<close>

text \<open>C7: a token that decrypts is the encoding of a nonce and of the sealing, under the
  proxy's key and that nonce, of a JSON text with the payload: any other string is an error, so
  changing a token's bytes never gives another payload without the key.\<close>

theorem decrypt_authentic:
  assumes "decrypt key tok fds v = Inr r" 
  shows "aes_key_ok key \<and> (\<exists>nonce pt j. length nonce = nonce_size \<and>
    b64_decode tok = Some (nonce @ gcm_seal key nonce pt) \<and>
    json_parse (string_of_bytes pt) = Some j \<and> decode_struct fds j v = Some r)"
proof -
  obtain pt j where pt: "open_token key tok = Inr pt" "json_parse (string_of_bytes pt) = Some j"
    "decode_struct fds j v = Some r"
    using assms by (auto simp: decrypt_def split: sum.splits option.splits)
  have "aes_key_ok key" using pt(1) by (auto simp: open_token_def split: option.splits if_splits)
  then show ?thesis using pt open_token_iff by blast
qed

theorem decrypt_authentic_witness:
  "\<exists>nonce pt. b64_decode example_state_token = Some (nonce @ gcm_seal example_key nonce pt)"
proof -
  have "decrypt example_key example_state_token state_fields empty_state =
      Inr (clean_state (example_state\<lparr>sp_Timestamp := unix_seconds example_time\<rparr>))"
    using decrypt_encrypt [OF example_tokens(1) [unfolded encryptState_def] example_nonce_size,
        where fds = state_fields and r = empty_state]
    by (simp add: decode_state_json)
  from decrypt_authentic [OF this] show ?thesis by blast
qed

text \<open>C37: state tokens and authorization codes are not separated: a state token, which the
  browser carries in the open, is accepted as an authorization code for as long as a code would
  be, with the state's client, redirect URI and challenge and with empty tokens.\<close>

theorem state_token_is_auth_code:
  assumes "encryptState key (Some nonce) t0 s = Inr tok" and "length nonce = nonce_size"
    and "clock_time t0" and "plain_ttl ttl" and "t1 - t0 div second * second \<le> ttl"
  shows "decryptAuthCode key tok ttl t1 =
    Inr (state_as_auth_code (clean_state (s\<lparr>sp_Timestamp := unix_seconds t0\<rparr>)))"
  using decryptAuthCode_of_state [OF assms(1,2)] token_expired_iff [OF assms(3,4)] assms(5) by simp

theorem state_token_is_auth_code_witness:
  "\<exists>a. decryptAuthCode example_key example_state_token (60 * second) (example_time + second) = Inr a \<and>
       ac_AccessToken a = [] \<and> ac_ClientID a = ''cl''"
proof -
  have "example_time + second - example_time div second * second \<le> 60 * second"
    by (simp add: example_time_def second_def unix_to_internal_def)
  from state_token_is_auth_code [OF example_tokens(1) example_nonce_size example_clock example_ttl(1) this]
  show ?thesis
    by (simp add: state_as_auth_code_def empty_auth_code_def clean_state_def example_state_def
        to_valid_ascii byte_ord_def)
qed

section \<open>PKCE\<close>

lemma verifyCodeChallenge_iff:
  "verifyCodeChallenge v ch \<longleftrightarrow> v \<noteq> [] \<and> ch = b64_encode (sha256 (bytes_of v))"
proof -
  have "b64_encode (sha256 (bytes_of v)) \<noteq> []"
    using length_b64_encode [of "sha256 (bytes_of v)"] by auto
  then show ?thesis by (auto simp: verifyCodeChallenge_def)
qed

text \<open>C21: the PKCE check accepts a verifier exactly for the challenge that S256 makes of it:
  for a challenge derived from \<open>w\<close> the verifiers with the digest of \<open>w\<close> pass and the
  empty one never does, and a challenge that passes has the 43 characters of a digest.\<close>

theorem verifyCodeChallenge_exact:
  "(verifyCodeChallenge v (b64_encode (sha256 (bytes_of w))) \<longleftrightarrow>
      v \<noteq> [] \<and> sha256 (bytes_of v) = sha256 (bytes_of w)) \<and>
   (verifyCodeChallenge v ch \<longrightarrow> b64_decode ch = Some (sha256 (bytes_of v)) \<and> length ch = 43)"
  by (auto simp: verifyCodeChallenge_iff b64.enc_inject b64.dec_enc length_b64_encode)

theorem verifyCodeChallenge_exact_witness:
  "length (b64_encode (sha256 (bytes_of ''verifier''))) = 43"
proof -
  have "verifyCodeChallenge ''verifier'' (b64_encode (sha256 (bytes_of ''verifier'')))"
    using verifyCodeChallenge_exact [of "''verifier''" "''verifier''" "[]"] by simp
  then show ?thesis
    using verifyCodeChallenge_exact [of "''verifier''" "[]" "b64_encode (sha256 (bytes_of ''verifier''))"] by blast
qed

end
