(* ===== verification/Http_Response.thy ===== *)
theory Http_Response
  imports Go_Http
begin

text \<open>
  What a client sees of a response: the status, a header and the body that a handler left in
  a fresh \<^verbatim>\<open>ResponseWriter\<close>, and the fields of a JSON body.
\<close>

section \<open>Responses\<close>

lemma header_get_set [simp]:
  "header_get (header_set h k v) k' = (if canonical_key k' = canonical_key k then v else header_get h k')"
  by (simp add: header_get_def header_set_def map_of_values_set)

lemma canonical_names [simp]:
  "canonical_key ''Content-Type'' = ''Content-Type''" "canonical_key ''Location'' = ''Location''"
  "canonical_key ''Cache-Control'' = ''Cache-Control''"
  by code_simp+

lemma response_new_writer [simp]:
  "rw_status new_writer = None" "rw_header new_writer = []" "rw_body new_writer = []"
  by (simp_all add: new_writer_def)

lemma header_get_Nil [simp]: "header_get [] k = []"
  by (simp add: header_get_def)

lemma writer_simps [simp]:
  "rw_status (set_header k v w) = rw_status w" "rw_body (set_header k v w) = rw_body w"
  "rw_header (set_header k v w) = header_set (rw_header w) k v"
  "rw_status w = None \<Longrightarrow> rw_status (write_header s w) = Some s"
  "rw_status w = None \<Longrightarrow> rw_sent (write_header s w) = rw_header w"
  "rw_body (write_header s w) = rw_body w"
  by (auto simp: set_header_def write_header_def split: option.splits)

lemma write_body_simps [simp]:
  "rw_status w = Some s \<Longrightarrow> rw_status (write_body b w) = Some s"
  "rw_status w = Some s \<Longrightarrow> rw_sent (write_body b w) = rw_sent w"
  "rw_status w = None \<Longrightarrow> rw_status (write_body b w) = Some 200"
  "rw_status w = None \<Longrightarrow> rw_sent (write_body b w) = rw_header w"
  "rw_body (write_body b w) = rw_body w @ b"
  by (auto simp: write_body_def write_header_def split: option.splits)

lemma http_redirect_response [simp]:
  "response_status (http_redirect r target s t new_writer) = s"
  "response_header (http_redirect r target s t new_writer) ''Location'' =
     hex_escape_non_ascii (redirect_target (req_path r) target)"
  by (auto simp: http_redirect_def Let_def response_status_def response_header_def)

text \<open>An object whose keys are written in order, as \<^verbatim>\<open>map\<close> values are.\<close>

lemma sort_keys_sorted:
  "sorted_wrt (\<lambda>a b. compare_strings (fst a) (fst b) \<le> 0) ms \<Longrightarrow>
   sort_by (\<lambda>a b. compare_strings (fst a) (fst b)) ms = ms"
proof (induction ms)
  case (Cons m ms)
  then show ?case by (cases ms) (simp_all add: sort_by_def)
qed (simp add: sort_by_def)

lemma json_ok_map: "\<forall>m \<in> set ms. json_ok 1 (snd m) \<Longrightarrow> json_ok 0 (json_map ms)"
  by (auto simp: json_map_def max_nesting_def)

section \<open>Reading a JSON response\<close>

definition json_field :: "json \<Rightarrow> string \<Rightarrow> json option" where
  "json_field j k = (case j of JObj ms \<Rightarrow> map_of ms k | _ \<Rightarrow> None)"

lemma map_of_sort_by: "distinct (map fst ms) \<Longrightarrow> map_of (sort_by cmp ms) = map_of ms"
proof (rule map_of_eqI)
  assume d: "distinct (map fst ms)"
  have "mset (map fst (sort_by cmp ms)) = mset (map fst ms)" by simp
  then have "distinct (map fst (sort_by cmp ms))" using d by (metis mset_eq_imp_distinct_iff)
  then show "\<forall>k \<in> set (map fst (sort_by cmp ms)). map_of (sort_by cmp ms) k = map_of ms k"
    using d by auto
qed simp

definition ascii_keys :: "(string \<times> json) list \<Rightarrow> bool" where
  "ascii_keys ms \<longleftrightarrow> distinct (map fst ms) \<and> (\<forall>k \<in> fst ` set ms. list_all (\<lambda>c. byte_ord c < 128) k)"

lemma json_field_map:
  assumes "ascii_keys ms"
  shows "json_field (json_clean (json_map ms)) k = map_option json_clean (map_of ms k)"
proof -
  have "to_valid_utf8 k = k" if "k \<in> fst ` set ms" for k
    using assms that by (intro to_valid_ascii) (auto simp: ascii_keys_def list_all_iff)
  then have "map (\<lambda>(k, v). (to_valid_utf8 k, json_clean v)) xs = map (\<lambda>(k, v). (k, json_clean v)) xs"
    if "set xs = set ms" for xs
    using that by (intro map_cong) (auto simp: image_iff Bex_def)
  then have "json_clean (json_map ms) =
      JObj (map (\<lambda>(k, v). (k, json_clean v)) (sort_by (\<lambda>a b. compare_strings (fst a) (fst b)) ms))"
    by (simp add: json_map_def)
  moreover have "distinct (map fst ms)" using assms by (simp add: ascii_keys_def)
  ultimately show ?thesis by (simp add: json_field_def map_of_map map_of_sort_by)
qed

end
