(* ===== verification/OAuth_Handlers.thy ===== *)
theory OAuth_Handlers
  imports OAuth_Proxy OAuth_Tokens Http_Response
begin

text \<open>
  What the handlers of the OAuth proxy answer: the responses they can give, and for each
  endpoint exactly when it succeeds and what success means. The handlers are started on a
  fresh \<^verbatim>\<open>ResponseWriter\<close>.
\<close>

section \<open>Responses\<close>

lemma oauthError_response [simp]:
  "response_status (oauthError s c d new_writer) = s"
  "response_header (oauthError s c d new_writer) ''Content-Type'' = ''application/json''"
  "response_header (oauthError s c d new_writer) ''Location'' = []"
  by (simp_all add: oauthError_def write_json_def response_status_def response_header_def)

text \<open>Every error is a JSON object that names its code.\<close>

lemma oauthError_body:
  "json_decode (rw_body (oauthError s c d new_writer)) =
     Some (JObj [(''error'', JStr (to_valid_utf8 c)), (''error_description'', JStr (to_valid_utf8 d))])"
proof -
  let ?ms = "[(''error'', JStr c), (''error_description'', JStr d)]"
  have "compare_strings ''error'' ''error_description'' \<le> 0" by code_simp
  then have "json_map ?ms = JObj ?ms" unfolding json_map_def by (subst sort_keys_sorted) simp_all
  moreover have "json_ok 0 (json_map ?ms)" by (rule json_ok_map) simp
  moreover have "to_valid_utf8 ''error'' = ''error''" "to_valid_utf8 ''error_description'' = ''error_description''"
    by (rule to_valid_ascii; simp add: byte_ord_def)+
  ultimately show ?thesis
    using json_decode_line [of "json_map ?ms"] by (simp add: oauthError_def write_json_def)
qed

section \<open>Authorize\<close>

text \<open>The session a client asks for, as the state token carries it.\<close>

definition requested_session :: "request \<Rightarrow> StatePayload" where
  "requested_session r =
     (let q = url_query (req_raw_query r) in
      \<lparr>sp_RedirectURI = values_get q ''redirect_uri'', sp_CodeChallenge = values_get q ''code_challenge'',
       sp_ClientID = values_get q ''client_id'', sp_ClientState = values_get q ''state'', sp_Timestamp = 0\<rparr>)"

definition authorize_ok :: "request \<Rightarrow> bool" where
  "authorize_ok r \<longleftrightarrow>
     (let q = url_query (req_raw_query r); s = requested_session r in
      values_get q ''response_type'' = ''code'' \<and> values_get q ''code_challenge_method'' = ''S256'' \<and>
      sp_ClientID s \<noteq> [] \<and> sp_ClientState s \<noteq> [] \<and> sp_CodeChallenge s \<noteq> [] \<and>
      isValidRedirectURI (sp_RedirectURI s))"

lemma url_parse_Nil: "url_parse [] = Some empty_url"
  by code_simp

lemma isValidRedirectURI_Nil [simp]: "\<not> isValidRedirectURI []"
  by code_simp

lemma handleAuthorize_refused:
  "\<not> authorize_ok r \<Longrightarrow> \<exists>d. handleAuthorize env p rnd now r w = oauthError 400 ''invalid_request'' d w"
  by (auto simp: authorize_ok_def requested_session_def handleAuthorize_def Let_def)

lemma handleAuthorize_accepted:
  assumes "authorize_ok r" and "encryptState (px_key p) rnd now (requested_session r) = Inr tok"
  shows "handleAuthorize env p rnd now r w =
    http_redirect r (auth_code_url env ((px_oauth2Config p)\<lparr>oc_RedirectURL := callbackURL p r\<rparr>) tok) 302 ''Found'' w"
  using assms by (auto simp: authorize_ok_def requested_session_def handleAuthorize_def Let_def)

lemma encryptState_Inr: "\<exists>tok. encryptState (deriveKey secret) (Some nonce) now s = Inr tok"
  by (simp add: encryptState_def)

lemma encryptAuthCode_Inr: "\<exists>tok. encryptAuthCode (deriveKey secret) (Some nonce) now a = Inr tok"
  by (simp add: encryptAuthCode_def)

section \<open>Callback\<close>

text \<open>What the callback needs to succeed: the state, the provider's tokens, the client's URL.\<close>

definition callback_session ::
    "oauth_env \<Rightarrow> Proxy \<Rightarrow> gotime \<Rightarrow> request \<Rightarrow> (StatePayload \<times> oauth_token \<times> url) option" where
  "callback_session env p t r =
     (let q = url_query (req_raw_query r) in
      if values_get q ''error'' \<noteq> [] \<or> values_get q ''code'' = [] \<or> values_get q ''state'' = [] then None
      else case decryptState (px_key p) (values_get q ''state'') stateTTL t of
        Inl _ \<Rightarrow> None
      | Inr s \<Rightarrow>
          (case exchange env ((px_oauth2Config p)\<lparr>oc_RedirectURL := callbackURL p r\<rparr>) (values_get q ''code'') of
             None \<Rightarrow> None
           | Some tk \<Rightarrow> map_option (\<lambda>u. (s, tk, u)) (url_parse (sp_RedirectURI s))))"

lemma handleCallback_accepted:
  assumes "callback_session env p t1 r = Some (s, tk, u)"
    and "encryptAuthCode (px_key p) rnd t3 (auth_code_of s tk t2) = Inr code"
  shows "handleCallback env p rnd t1 t2 t3 r w =
    http_redirect r (url_string (client_redirect u code (sp_ClientState s))) 302 ''Found'' w"
  using assms by (auto simp: callback_session_def handleCallback_def Let_def split: if_splits sum.splits option.splits)

lemma handleCallback_refused:
  assumes "callback_session env p t1 r = None"
  shows "\<exists>s c d. s \<in> {400, 500, 502} \<and> handleCallback env p rnd t1 t2 t3 r w = oauthError s c d w"
  using assms by (auto simp: callback_session_def handleCallback_def Let_def split: if_splits sum.splits option.splits)

lemma ac_ExpiresIn_int64 [simp]:
  "clamp_int64 (ac_ExpiresIn (auth_code_of s tk t)) = ac_ExpiresIn (auth_code_of s tk t)"
  by (simp add: auth_code_of_def)

text \<open>The redirect carries the code and the client's state, and keeps its other parameters.\<close>

lemma client_redirect_query:
  assumes "values_count (url_query (url_raw_query u)) + 2 \<le> max_query_params"
  shows "values_get (url_query (url_raw_query (client_redirect u code state))) k =
    (if k = ''state'' then state else if k = ''code'' then code
     else values_get (url_query (url_raw_query u)) k)"
proof -
  let ?q = "url_query (url_raw_query u)"
  have "values_count (values_set ''code'' code ?q) < max_query_params"
    using values_set_count [of ?q "''code''" code] url_query_ok assms by (force simp: values_ok_def)
  then have "values_fit (values_set ''state'' state (values_set ''code'' code ?q))"
    by (intro values_fit_set values_set_ok) simp_all
  then show ?thesis
    using url_values.parse_encode_put2 by (simp add: client_redirect_def Let_def)
qed

lemma client_redirect_scheme [simp]: "url_scheme (client_redirect u code state) = url_scheme u"
  by (simp add: client_redirect_def Let_def)

section \<open>Token\<close>

definition token_accepts :: "Proxy \<Rightarrow> gotime \<Rightarrow> url_values \<Rightarrow> AuthCodePayload \<Rightarrow> bool" where
  "token_accepts p now form a \<longleftrightarrow>
     values_get form ''code'' \<noteq> [] \<and> values_get form ''redirect_uri'' \<noteq> [] \<and>
     values_get form ''client_id'' \<noteq> [] \<and>
     decryptAuthCode (px_key p) (values_get form ''code'') authCodeTTL now = Inr a \<and>
     ac_ClientID a = values_get form ''client_id'' \<and> ac_RedirectURI a = values_get form ''redirect_uri'' \<and>
     verifyCodeChallenge (values_get form ''code_verifier'') (ac_CodeChallenge a)"

lemma token_response_ok [simp]: "json_ok 0 (token_response a)"
  unfolding token_response_def by (rule json_ok_map) auto

lemma handleTokenAuthorizationCode_accepted:
  assumes "token_accepts p now form a"
  shows "response_status (handleTokenAuthorizationCode p now form new_writer) = 200"
    "response_header (handleTokenAuthorizationCode p now form new_writer) ''Cache-Control'' = ''no-store''"
    "json_decode (rw_body (handleTokenAuthorizationCode p now form new_writer)) = Some (json_clean (token_response a))"
  using assms json_decode_line [of "token_response a"]
  by (auto simp: token_accepts_def handleTokenAuthorizationCode_def Let_def verifyCodeChallenge_iff write_json_def
      response_status_def response_header_def)

lemma handleTokenAuthorizationCode_refused:
  assumes "\<nexists>a. token_accepts p now form a"
  shows "\<exists>c d. c \<in> {''invalid_request'', ''invalid_grant''} \<and>
    handleTokenAuthorizationCode p now form w = oauthError 400 c d w"
  using assms
  by (auto simp: token_accepts_def handleTokenAuthorizationCode_def Let_def verifyCodeChallenge_iff split: sum.splits)

section \<open>The token response\<close>

lemma token_response_keys:
  "ascii_keys ([(''access_token'', JStr (ac_AccessToken a)), (''token_type'', JStr (ac_TokenType a))]
      @ (if ac_ExpiresIn a > 0 then [(''expires_in'', JInt (ac_ExpiresIn a))] else [])
      @ (if ac_IDToken a \<noteq> [] then [(''id_token'', JStr (ac_IDToken a))] else [])
      @ (if ac_RefreshToken a \<noteq> [] then [(''refresh_token'', JStr (ac_RefreshToken a))] else []))"
  by (simp add: ascii_keys_def byte_ord_def)

lemma token_response_fields:
  "json_field (json_clean (token_response a)) ''access_token'' = Some (JStr (to_valid_utf8 (ac_AccessToken a)))"
  "json_field (json_clean (token_response a)) ''token_type'' = Some (JStr (to_valid_utf8 (ac_TokenType a)))"
  "json_field (json_clean (token_response a)) ''expires_in'' =
     (if ac_ExpiresIn a > 0 then Some (JInt (ac_ExpiresIn a)) else None)"
  "json_field (json_clean (token_response a)) ''id_token'' =
     (if ac_IDToken a \<noteq> [] then Some (JStr (to_valid_utf8 (ac_IDToken a))) else None)"
  "json_field (json_clean (token_response a)) ''refresh_token'' =
     (if ac_RefreshToken a \<noteq> [] then Some (JStr (to_valid_utf8 (ac_RefreshToken a))) else None)"
  unfolding token_response_def json_field_map [OF token_response_keys] by simp_all

section \<open>Register\<close>

lemma first_invalid_None: "first_invalid uris = None \<longleftrightarrow> (\<forall>u \<in> set uris. isValidRedirectURI u)"
  by (induction uris rule: first_invalid.induct) auto

lemma first_invalid_Some: "first_invalid uris = Some u \<Longrightarrow> u \<in> set uris \<and> \<not> isValidRedirectURI u"
  by (induction uris rule: first_invalid.induct) (auto split: if_splits)

definition registration :: "string \<Rightarrow> register_request option" where
  "registration body =
     (case json_decode body of None \<Rightarrow> None | Some j \<Rightarrow> decode_struct register_fields j empty_register)"

lemma register_keys:
  "ascii_keys [(''client_id'', a), (''client_id_issued_at'', b), (''redirect_uris'', c), (''client_name'', d),
     (''grant_types'', e), (''response_types'', f), (''token_endpoint_auth_method'', g)]"
  by (simp add: ascii_keys_def byte_ord_def)

lemma register_response_fields:
  "json_field (json_clean (register_response cid t req)) ''client_id'' = Some (JStr (to_valid_utf8 cid))"
  "json_field (json_clean (register_response cid t req)) ''client_id_issued_at'' = Some (JInt t)"
  "json_field (json_clean (register_response cid t req)) ''redirect_uris'' =
     Some (JArr (map (JStr \<circ> to_valid_utf8) (elems (rr_RedirectURIs req))))"
  "json_field (json_clean (register_response cid t req)) ''token_endpoint_auth_method'' = Some (JStr ''none'')"
proof -
  have "to_valid_utf8 ''none'' = ''none''" by (rule to_valid_ascii) (simp add: byte_ord_def)
  then show "json_field (json_clean (register_response cid t req)) ''client_id'' = Some (JStr (to_valid_utf8 cid))"
    "json_field (json_clean (register_response cid t req)) ''client_id_issued_at'' = Some (JInt t)"
    "json_field (json_clean (register_response cid t req)) ''redirect_uris'' =
       Some (JArr (map (JStr \<circ> to_valid_utf8) (elems (rr_RedirectURIs req))))"
    "json_field (json_clean (register_response cid t req)) ''token_endpoint_auth_method'' = Some (JStr ''none'')"
    unfolding register_response_def Let_def by (simp_all add: json_field_map [OF register_keys])
qed

lemma register_response_ok [simp]: "json_ok 0 (register_response cid t req)"
  unfolding register_response_def Let_def by (rule json_ok_map) (auto simp: max_nesting_def)

lemma handleRegister_accepted:
  assumes "registration (req_body r) = Some req" and "elems (rr_RedirectURIs req) \<noteq> []"
    and "\<forall>u \<in> set (elems (rr_RedirectURIs req)). isValidRedirectURI u"
  shows "response_status (handleRegister rnd now r new_writer) = 201"
    "json_decode (rw_body (handleRegister rnd now r new_writer)) =
       Some (json_clean (register_response (generateClientID rnd) (unix_seconds now) req))"
proof -
  have "first_invalid (elems (rr_RedirectURIs req)) = None" using assms(3) first_invalid_None by blast
  then have "handleRegister rnd now r new_writer =
      write_json (register_response (generateClientID rnd) (unix_seconds now) req)
        (write_header 201 (set_header ''Content-Type'' ''application/json'' new_writer))"
    using assms(1,2) by (simp add: handleRegister_def registration_def)
  then show "response_status (handleRegister rnd now r new_writer) = 201"
    "json_decode (rw_body (handleRegister rnd now r new_writer)) =
       Some (json_clean (register_response (generateClientID rnd) (unix_seconds now) req))"
    using json_decode_line [of "register_response (generateClientID rnd) (unix_seconds now) req"]
    by (simp_all add: write_json_def response_status_def)
qed

lemma handleRegister_refused:
  assumes "\<nexists>req. registration (req_body r) = Some req \<and> elems (rr_RedirectURIs req) \<noteq> [] \<and>
    (\<forall>u \<in> set (elems (rr_RedirectURIs req)). isValidRedirectURI u)"
  shows "\<exists>c d. c \<in> {''invalid_client_metadata'', ''invalid_redirect_uri''} \<and>
    handleRegister rnd now r w = oauthError 400 c d w"
proof (cases "registration (req_body r)")
  case None
  then show ?thesis by (auto simp: handleRegister_def registration_def)
next
  case (Some req)
  then show ?thesis
    using assms first_invalid_None [of "elems (rr_RedirectURIs req)"]
    by (cases "first_invalid (elems (rr_RedirectURIs req))") (auto simp: handleRegister_def registration_def)
qed

end
