(* ===== verification/OAuth_Correct.thy ===== *)
theory OAuth_Correct
  imports OAuth_Handlers
begin

text \<open>
  The properties of the OAuth proxy, endpoint by endpoint, and of the whole
  authorization-code flow through it. They are applied to one concrete proxy and provider.
\<close>

section \<open>A concrete proxy\<close>

definition example_proxy :: Proxy where
  "example_proxy = \<lparr>px_oauth2Config = \<lparr>oc_ClientID = ''hugr'', oc_ClientSecret = ''s'', oc_Endpoint = ''https://idp'',
       oc_Scopes = [''openid''], oc_RedirectURL = []\<rparr>,
     px_insecureClient = False, px_key = deriveKey ''secret'', px_redirectURL = [],
     px_tokenURL = ''https://idp/token'', px_revocationURL = ''https://idp/revoke''\<rparr>"

definition example_provider_token :: oauth_token where
  "example_provider_token = \<lparr>tk_AccessToken = ''at'', tk_RefreshToken = ''rt'', tk_TokenType = ''Bearer'',
     tk_Expiry = example_time + 300 * second, tk_id_token = None\<rparr>"

definition example_oauth :: oauth_env where
  "example_oauth = \<lparr>auth_code_url = (\<lambda>cfg s. ''https://idp/auth?state='' @ s),
     exchange = (\<lambda>cfg c. if c = ''c0'' then Some example_provider_token else None),
     post_form = (\<lambda>_ _ _. Some (200, ''{}''))\<rparr>"

definition example_challenge :: string where
  "example_challenge = b64_encode (sha256 (bytes_of ''verifier''))"

definition get_request :: "string \<Rightarrow> url_values \<Rightarrow> request" where
  "get_request path q = \<lparr>req_method = ''GET'', req_tls = True, req_host = ''hugr.app'', req_header = [],
     req_path = path, req_raw_query = values_encode q, req_body = []\<rparr>"

definition authorize_query :: url_values where
  "authorize_query = [(''response_type'', [''code'']), (''client_id'', [''cl'']),
     (''redirect_uri'', [''https://app/cb'']), (''state'', [''st'']),
     (''code_challenge'', [example_challenge]), (''code_challenge_method'', [''S256''])]"

definition example_session :: StatePayload where
  "example_session = \<lparr>sp_RedirectURI = ''https://app/cb'', sp_CodeChallenge = example_challenge,
     sp_ClientID = ''cl'', sp_ClientState = ''st'', sp_Timestamp = 0\<rparr>"

definition session_token :: string where
  "session_token = projr (encryptState (deriveKey ''secret'') (Some example_nonce) example_time example_session)"

lemma session_token: "encryptState (px_key example_proxy) (Some example_nonce) example_time example_session = Inr session_token"
  by (simp add: session_token_def example_proxy_def encryptState_def)

lemma example_key_derived [simp]: "px_key example_proxy = deriveKey ''secret''"
  by (simp add: example_proxy_def)

lemma authorize_query_fit: "values_fit authorize_query"
  by (simp add: values_fit_def values_ok_def values_count_def values_pairs_def authorize_query_def max_query_params_def)

lemma authorize_request_query:
  "values_get (url_query (req_raw_query (get_request path authorize_query))) k = values_get authorize_query k"
  by (simp add: get_request_def url_values.get_parse_encode [OF authorize_query_fit])

lemma example_challenge_length: "length example_challenge = 43"
  by (simp add: example_challenge_def length_b64_encode)

lemma example_challenge_Nil [simp]: "example_challenge \<noteq> []"
  using example_challenge_length by auto

lemma example_redirect_valid: "isValidRedirectURI ''https://app/cb''"
  by code_simp

lemma authorize_example_session: "requested_session (get_request path authorize_query) = example_session"
  by (simp add: requested_session_def authorize_request_query Let_def)
    (simp add: values_get_def authorize_query_def example_session_def)

lemma authorize_example_ok: "authorize_ok (get_request path authorize_query)"
  unfolding authorize_ok_def authorize_example_session Let_def authorize_request_query
  by (simp add: example_session_def values_get_def authorize_query_def example_redirect_valid)

section \<open>Authorize\<close>

text \<open>C5: the authorize endpoint redirects to the provider exactly when the request asks for a
  code with an S256 challenge, names client, state and challenge, and has a redirect URI that is
  allowed; the state it sends decrypts, for five minutes, to exactly that session. Every other
  request gets a 400 and no redirect.\<close>

theorem authorize_issues_state:
  assumes "px_key p = deriveKey secret" and "length nonce = nonce_size" and "clock_time now"
  shows "if authorize_ok r
    then \<exists>tok. handleAuthorize env p (Some nonce) now r new_writer =
           http_redirect r (auth_code_url env ((px_oauth2Config p)\<lparr>oc_RedirectURL := callbackURL p r\<rparr>) tok) 302 ''Found'' new_writer \<and>
         (\<forall>t. decryptState (px_key p) tok stateTTL t =
           (if t - now div second * second > stateTTL then Inl ExpiredError
            else Inr (clean_state ((requested_session r)\<lparr>sp_Timestamp := unix_seconds now\<rparr>))))
    else response_status (handleAuthorize env p (Some nonce) now r new_writer) = 400 \<and>
         response_header (handleAuthorize env p (Some nonce) now r new_writer) ''Location'' = []"
proof (cases "authorize_ok r")
  case True
  obtain tok where tok: "encryptState (px_key p) (Some nonce) now (requested_session r) = Inr tok"
    using encryptState_Inr assms(1) by metis
  have "plain_ttl stateTTL" by (simp add: plain_ttl_def stateTTL_def second_def min_int64_def max_int64_def)
  then show ?thesis
    using True handleAuthorize_accepted [OF True tok] decryptState_of [OF tok assms(2)]
      token_expired_iff [OF assms(3)] by auto
next
  case False
  then show ?thesis using handleAuthorize_refused [OF False] by (metis oauthError_response(1,3))
qed

theorem authorize_issues_state_witness:
  "response_status (handleAuthorize example_oauth example_proxy (Some example_nonce) example_time
     (get_request ''/oauth/authorize'' authorize_query) new_writer) = 302"
  using authorize_issues_state [OF example_key_derived example_nonce_size example_clock,
      of "get_request ''/oauth/authorize'' authorize_query" example_oauth] authorize_example_ok
  by auto

section \<open>Callback\<close>

definition callback_query :: url_values where
  "callback_query = [(''code'', [''c0'']), (''state'', [session_token])]"

abbreviation callback_request :: request where
  "callback_request \<equiv> get_request ''/oauth/callback'' callback_query"

definition example_client_url :: url where
  "example_client_url = the (url_parse ''https://app/cb'')"

lemma example_client_url: "url_parse ''https://app/cb'' = Some example_client_url"
  unfolding example_client_url_def by code_simp

lemma callback_request_query:
  "values_get (url_query (req_raw_query callback_request)) k = values_get callback_query k"
proof -
  have "values_fit callback_query"
    by (simp add: values_fit_def values_ok_def values_count_def values_pairs_def callback_query_def max_query_params_def)
  then show ?thesis by (simp add: get_request_def url_values.get_parse_encode)
qed

lemma session_token_Nil [simp]: "session_token \<noteq> []"
  using length_b64_encode [of "example_nonce @ gcm_seal (deriveKey ''secret'') example_nonce
      (bytes_of (json_text (state_json (example_session\<lparr>sp_Timestamp := unix_seconds example_time\<rparr>))))"]
  by (auto simp: session_token_def encryptState_def example_nonce_def)

lemma b64_valid_utf8 [simp]: "to_valid_utf8 (b64_encode bs) = b64_encode bs"
proof (rule to_valid_ascii, rule ballI)
  fix c assume "c \<in> set (b64_encode bs)"
  then have "c \<in> set b64_alphabet" by (rule b64_encode_safe)
  then show "byte_ord c < 128" unfolding b64_alphabet_text by (auto simp: byte_ord_def)
qed

lemma example_session_clean: "clean_state (example_session\<lparr>sp_Timestamp := t\<rparr>) = example_session\<lparr>sp_Timestamp := t\<rparr>"
  by (simp add: clean_state_def example_session_def example_challenge_def to_valid_ascii byte_ord_def)

definition stamped_session :: StatePayload where
  "stamped_session = example_session\<lparr>sp_Timestamp := unix_seconds example_time\<rparr>"

lemma example_callback_session:
  "callback_session example_oauth example_proxy (example_time + second) callback_request =
     Some (stamped_session, example_provider_token, example_client_url)"
proof -
  have "decryptState (px_key example_proxy) session_token stateTTL (example_time + second) = Inr stamped_session"
    using decryptState_of [OF session_token example_nonce_size] token_expired_iff [OF example_clock example_ttl(2)]
    by (simp add: example_session_clean stamped_session_def stateTTL_def)
      (simp add: example_time_def second_def unix_to_internal_def)
  then show ?thesis
    unfolding callback_session_def Let_def callback_request_query
    by (simp add: values_get_def callback_query_def example_oauth_def stamped_session_def example_session_def
        example_client_url)
qed

text \<open>C6: the callback redirects to the client exactly when the state decrypts within five
  minutes, the provider exchanges the code and the redirect URI parses; the code it sends decrypts,
  for one minute, to the provider's access, ID and refresh token, token type and remaining lifetime,
  bound to the client ID, the redirect URI and the challenge of the state (bytes that are not UTF-8
  replaced). Otherwise it answers 400, 500 or 502 and does not redirect.\<close>

theorem callback_issues_code:
  assumes "px_key p = deriveKey secret" and "length nonce = nonce_size" and "clock_time t3"
  shows "case callback_session env p t1 r of
      None \<Rightarrow> response_status (handleCallback env p (Some nonce) t1 t2 t3 r new_writer) \<in> {400, 500, 502} \<and>
              response_header (handleCallback env p (Some nonce) t1 t2 t3 r new_writer) ''Location'' = []
    | Some (s, tk, u) \<Rightarrow>
        \<exists>code. handleCallback env p (Some nonce) t1 t2 t3 r new_writer =
            http_redirect r (url_string (client_redirect u code (sp_ClientState s))) 302 ''Found'' new_writer \<and>
          (\<forall>t. decryptAuthCode (px_key p) code authCodeTTL t =
            (if t - t3 div second * second > 60 * second then Inl ExpiredError
             else Inr \<lparr>ac_AccessToken = to_valid_utf8 (tk_AccessToken tk),
                       ac_IDToken = to_valid_utf8 (case tk_id_token tk of None \<Rightarrow> [] | Some i \<Rightarrow> i),
                       ac_RefreshToken = to_valid_utf8 (tk_RefreshToken tk),
                       ac_TokenType = to_valid_utf8 (tk_TokenType tk),
                       ac_ExpiresIn = duration_seconds (time_sub (tk_Expiry tk) t2),
                       ac_CodeChallenge = to_valid_utf8 (sp_CodeChallenge s),
                       ac_ClientID = to_valid_utf8 (sp_ClientID s),
                       ac_RedirectURI = to_valid_utf8 (sp_RedirectURI s),
                       ac_Timestamp = unix_seconds t3\<rparr>))"
proof (cases "callback_session env p t1 r")
  case None
  obtain st c d where "st \<in> {400, 500, 502}"
    "handleCallback env p (Some nonce) t1 t2 t3 r new_writer = oauthError st c d new_writer"
    using handleCallback_refused [OF None] by metis
  then show ?thesis using None by simp
next
  case (Some x)
  obtain s tk u where x: "x = (s, tk, u)" by (cases x)
  obtain code where code: "encryptAuthCode (px_key p) (Some nonce) t3 (auth_code_of s tk t2) = Inr code"
    using encryptAuthCode_Inr assms(1) by metis
  have "plain_ttl authCodeTTL" by (simp add: plain_ttl_def authCodeTTL_def second_def min_int64_def max_int64_def)
  have payload: "clean_auth_code ((auth_code_of s tk t2)\<lparr>ac_Timestamp := unix_seconds t3\<rparr>) =
      \<lparr>ac_AccessToken = to_valid_utf8 (tk_AccessToken tk),
        ac_IDToken = to_valid_utf8 (case tk_id_token tk of None \<Rightarrow> [] | Some i \<Rightarrow> i),
        ac_RefreshToken = to_valid_utf8 (tk_RefreshToken tk), ac_TokenType = to_valid_utf8 (tk_TokenType tk),
        ac_ExpiresIn = duration_seconds (time_sub (tk_Expiry tk) t2),
        ac_CodeChallenge = to_valid_utf8 (sp_CodeChallenge s), ac_ClientID = to_valid_utf8 (sp_ClientID s),
        ac_RedirectURI = to_valid_utf8 (sp_RedirectURI s), ac_Timestamp = unix_seconds t3\<rparr>"
    by (simp add: clean_auth_code_def auth_code_of_def)
  have opens: "decryptAuthCode (px_key p) code authCodeTTL t =
      (if t - t3 div second * second > 60 * second then Inl ExpiredError
       else Inr (clean_auth_code ((auth_code_of s tk t2)\<lparr>ac_Timestamp := unix_seconds t3\<rparr>)))" for t
    using \<open>plain_ttl authCodeTTL\<close> decryptAuthCode_of [OF code assms(2)] token_expired_iff [OF assms(3)]
    by (auto simp: authCodeTTL_def)
  have "handleCallback env p (Some nonce) t1 t2 t3 r new_writer =
      http_redirect r (url_string (client_redirect u code (sp_ClientState s))) 302 ''Found'' new_writer"
    using handleCallback_accepted [OF _ code] Some x by simp
  then show ?thesis
    unfolding Some x option.case prod.case by (intro exI conjI allI) (assumption, rule opens [unfolded payload])
qed

theorem callback_issues_code_witness:
  "response_status (handleCallback example_oauth example_proxy (Some example_nonce) (example_time + second)
     (example_time + second) example_time callback_request new_writer) = 302"
  using callback_issues_code [OF example_key_derived example_nonce_size example_clock, where env = example_oauth
      and ?t1.0 = "example_time + second" and r = callback_request and ?t2.0 = "example_time + second"]
  by (auto simp: example_callback_session)

text \<open>C23: the redirect to the client is the parsed redirect URI with the code and the client's
  own state in its query, read back exactly, every other parameter kept; a URI with a scheme is
  sent in the Location header as written, never rewritten to a path of this server.\<close>

theorem client_redirect_faithful:
  assumes "url_parse raw = Some u" and "url_scheme u \<noteq> []"
    and "values_count (url_query (url_raw_query u)) + 2 \<le> max_query_params"
  shows "redirect_target path (url_string (client_redirect u code state)) = url_string (client_redirect u code state) \<and>
    (\<exists>rest. url_string (client_redirect u code state) = url_scheme u @ CHR '':'' # rest) \<and>
    values_get (url_query (url_raw_query (client_redirect u code state))) k =
      (if k = ''state'' then state else if k = ''code'' then code
       else values_get (url_query (url_raw_query u)) k)"
proof (intro conjI)
  have "good_scheme (url_scheme (client_redirect u code state))"
    using url_parse_scheme [OF assms(1,2)] by simp
  then show "redirect_target path (url_string (client_redirect u code state)) = url_string (client_redirect u code state)"
    by (rule redirect_target_absolute)
  show "\<exists>rest. url_string (client_redirect u code state) = url_scheme u @ CHR '':'' # rest"
    using url_string_scheme [of "client_redirect u code state"] assms(2) by simp
qed (rule client_redirect_query [OF assms(3)])

theorem client_redirect_faithful_witness:
  "values_get (url_query (url_raw_query (client_redirect example_client_url ''code value'' ''a&b''))) ''code'' = ''code value''"
proof -
  have "url_scheme example_client_url = ''https''" "url_raw_query example_client_url = []"
    unfolding example_client_url_def by code_simp+
  moreover have "url_query [] = []" by code_simp
  ultimately show ?thesis
    using client_redirect_faithful [OF example_client_url, of "[]" "''code value''" "''a&b''" "''code''"]
    by (simp add: values_count_def values_pairs_def max_query_params_def)
qed

section \<open>Token\<close>

definition session_code :: string where
  "session_code = projr (encryptAuthCode (deriveKey ''secret'') (Some example_nonce) example_time
     (auth_code_of stamped_session example_provider_token example_time))"

definition token_form :: url_values where
  "token_form = [(''code'', [session_code]), (''redirect_uri'', [''https://app/cb'']), (''client_id'', [''cl'']),
     (''code_verifier'', [''verifier''])]"

definition example_granted :: AuthCodePayload where
  "example_granted = (auth_code_of stamped_session example_provider_token example_time)\<lparr>ac_Timestamp := unix_seconds example_time\<rparr>"

lemma session_code:
  "encryptAuthCode (px_key example_proxy) (Some example_nonce) example_time
     (auth_code_of stamped_session example_provider_token example_time) = Inr session_code"
  by (simp add: session_code_def encryptAuthCode_def)

lemma session_code_Nil [simp]: "session_code \<noteq> []"
proof -
  obtain bs where "session_code = b64_encode (example_nonce @ bs)"
    by (auto simp: session_code_def encryptAuthCode_def)
  then show ?thesis using length_b64_encode [of "example_nonce @ bs"] by (auto simp: example_nonce_def)
qed

lemma example_granted_clean: "clean_auth_code example_granted = example_granted"
  by (simp add: clean_auth_code_def example_granted_def auth_code_of_def stamped_session_def example_session_def
      example_provider_token_def example_challenge_def to_valid_ascii byte_ord_def)

lemma example_token_accepts:
  "token_accepts example_proxy (example_time + 59 * second) token_form example_granted"
proof -
  have "decryptAuthCode (px_key example_proxy) session_code authCodeTTL (example_time + 59 * second) = Inr example_granted"
    using decryptAuthCode_of [OF session_code example_nonce_size] token_expired_iff [OF example_clock example_ttl(1)]
    by (simp add: example_granted_clean authCodeTTL_def flip: example_granted_def)
      (simp add: example_time_def second_def unix_to_internal_def)
  then show ?thesis
    by (simp add: token_accepts_def values_get_def token_form_def verifyCodeChallenge_iff)
      (simp add: example_granted_def auth_code_of_def stamped_session_def example_session_def example_challenge_def)
qed

text \<open>C4: the token endpoint answers 200 to an authorization-code grant exactly when the code
  decrypts within a minute, was issued for this client and redirect URI, and the verifier matches
  its challenge; otherwise it answers 400.\<close>

theorem token_grant_exact:
  "(response_status (handleTokenAuthorizationCode p now form new_writer) = 200 \<longleftrightarrow> (\<exists>a. token_accepts p now form a)) \<and>
   response_status (handleTokenAuthorizationCode p now form new_writer) \<in> {200, 400}"
proof -
  have "response_status (handleTokenAuthorizationCode p now form new_writer) = 400" if "\<nexists>a. token_accepts p now form a"
    using handleTokenAuthorizationCode_refused [OF that] by (metis oauthError_response(1))
  then show ?thesis using handleTokenAuthorizationCode_accepted(1) by fastforce
qed

text \<open>What a granted client reads: the provider's access token and token type, the lifetime
  only when it is positive, the ID and refresh tokens only when there are any, and the response
  must not be cached.\<close>

theorem token_grant_response:
  assumes "token_accepts p now form a"
  shows "\<exists>j. json_decode (rw_body (handleTokenAuthorizationCode p now form new_writer)) = Some j \<and>
    json_field j ''access_token'' = Some (JStr (to_valid_utf8 (ac_AccessToken a))) \<and>
    json_field j ''token_type'' = Some (JStr (to_valid_utf8 (ac_TokenType a))) \<and>
    json_field j ''expires_in'' = (if ac_ExpiresIn a > 0 then Some (JInt (ac_ExpiresIn a)) else None) \<and>
    json_field j ''id_token'' = (if ac_IDToken a \<noteq> [] then Some (JStr (to_valid_utf8 (ac_IDToken a))) else None) \<and>
    json_field j ''refresh_token'' = (if ac_RefreshToken a \<noteq> [] then Some (JStr (to_valid_utf8 (ac_RefreshToken a))) else None) \<and>
    response_header (handleTokenAuthorizationCode p now form new_writer) ''Cache-Control'' = ''no-store''"
  using handleTokenAuthorizationCode_accepted [OF assms] token_response_fields by simp

theorem token_grant_response_witness:
  "\<exists>j. json_decode (rw_body (handleTokenAuthorizationCode example_proxy (example_time + 59 * second) token_form new_writer)) = Some j \<and>
     json_field j ''access_token'' = Some (JStr ''at'')"
proof -
  have "to_valid_utf8 (ac_AccessToken example_granted) = ''at''"
    by (simp add: example_granted_def auth_code_of_def example_provider_token_def to_valid_ascii byte_ord_def)
  then show ?thesis using token_grant_response [OF example_token_accepts] by metis
qed

section \<open>The whole flow\<close>

text \<open>C3: the flow completes. When a client is sent to the provider and comes back with its state
  within five minutes, the provider exchanges the code, and the client redeems the code it was sent
  within a minute with the verifier of its challenge, then every step succeeds and the client gets
  the provider's access token.\<close>

theorem oauth_flow_completes:
  assumes key: "px_key p = deriveKey secret" "length n1 = nonce_size" "length n2 = nonce_size"
    and clocks: "clock_time t0" "clock_time t3"
    and asks: "authorize_ok r1" "clean_state (requested_session r1) = requested_session r1"
      "sp_CodeChallenge (requested_session r1) = b64_encode (sha256 (bytes_of verifier))" "verifier \<noteq> []"
    and state: "encryptState (px_key p) (Some n1) t0 (requested_session r1) = Inr tok"
    and returned: "values_get (url_query (req_raw_query r2)) ''state'' = tok" "tok \<noteq> []"
      "values_get (url_query (req_raw_query r2)) ''code'' = c" "c \<noteq> []"
      "values_get (url_query (req_raw_query r2)) ''error'' = []"
      "t1 - t0 div second * second \<le> stateTTL"
    and provider: "exchange env ((px_oauth2Config p)\<lparr>oc_RedirectURL := callbackURL p r2\<rparr>) c = Some tk"
    and code: "encryptAuthCode (px_key p) (Some n2) t3
      (auth_code_of ((requested_session r1)\<lparr>sp_Timestamp := unix_seconds t0\<rparr>) tk t2) = Inr code" "code \<noteq> []"
    and redeem: "values_get form ''code'' = code" "values_get form ''code_verifier'' = verifier"
      "values_get form ''client_id'' = sp_ClientID (requested_session r1)"
      "values_get form ''redirect_uri'' = sp_RedirectURI (requested_session r1)"
      "t4 - t3 div second * second \<le> authCodeTTL"
  shows "handleAuthorize env p (Some n1) t0 r1 new_writer =
      http_redirect r1 (auth_code_url env ((px_oauth2Config p)\<lparr>oc_RedirectURL := callbackURL p r1\<rparr>) tok) 302 ''Found'' new_writer \<and>
    (\<exists>u. url_parse (sp_RedirectURI (requested_session r1)) = Some u \<and>
      handleCallback env p (Some n2) t1 t2 t3 r2 new_writer =
        http_redirect r2 (url_string (client_redirect u code (sp_ClientState (requested_session r1)))) 302 ''Found'' new_writer) \<and>
    (\<exists>j. response_status (handleTokenAuthorizationCode p t4 form new_writer) = 200 \<and>
      json_decode (rw_body (handleTokenAuthorizationCode p t4 form new_writer)) = Some j \<and>
      json_field j ''access_token'' = Some (JStr (to_valid_utf8 (tk_AccessToken tk))))"
    (is "?authorize \<and> ?callback \<and> ?token")
proof -
  let ?s = "(requested_session r1)\<lparr>sp_Timestamp := unix_seconds t0\<rparr>"
  let ?a = "clean_auth_code ((auth_code_of ?s tk t2)\<lparr>ac_Timestamp := unix_seconds t3\<rparr>)"
  note clean = asks(2) [unfolded clean_state_def]
  have step1: ?authorize using handleAuthorize_accepted [OF asks(1) state] .
  have ttl: "plain_ttl stateTTL" "plain_ttl authCodeTTL"
    by (simp_all add: plain_ttl_def stateTTL_def authCodeTTL_def second_def min_int64_def max_int64_def)
  have "clean_state ?s = (clean_state (requested_session r1))\<lparr>sp_Timestamp := unix_seconds t0\<rparr>"
    by (simp add: clean_state_def)
  then have dec: "decryptState (px_key p) tok stateTTL t1 = Inr ?s"
    using decryptState_of [OF state key(2)] token_expired_iff [OF clocks(1) ttl(1)] returned(6) asks(2) by simp
  have "isValidRedirectURI (sp_RedirectURI (requested_session r1))"
    using asks(1) by (simp add: authorize_ok_def Let_def)
  then obtain u where u: "url_parse (sp_RedirectURI (requested_session r1)) = Some u"
    by (auto simp: isValidRedirectURI_def split: option.splits)
  then have "callback_session env p t1 r2 = Some (?s, tk, u)"
    using returned dec provider by (simp add: callback_session_def Let_def)
  then have step2: ?callback using u handleCallback_accepted [OF _ code(1)] by fastforce
  have "decryptAuthCode (px_key p) code authCodeTTL t4 = Inr ?a"
    using decryptAuthCode_of [OF code(1) key(3)] token_expired_iff [OF clocks(2) ttl(2)] redeem(5) by simp
  moreover have "to_valid_utf8 (sp_ClientID (requested_session r1)) = sp_ClientID (requested_session r1)"
    "to_valid_utf8 (sp_RedirectURI (requested_session r1)) = sp_RedirectURI (requested_session r1)"
    "to_valid_utf8 (sp_CodeChallenge (requested_session r1)) = sp_CodeChallenge (requested_session r1)"
    using arg_cong [OF asks(2), of sp_ClientID] arg_cong [OF asks(2), of sp_RedirectURI]
      arg_cong [OF asks(2), of sp_CodeChallenge] by (simp_all add: clean_state_def)
  moreover have "sp_ClientID (requested_session r1) \<noteq> []" "sp_RedirectURI (requested_session r1) \<noteq> []"
    using asks(1) isValidRedirectURI_Nil by (auto simp: authorize_ok_def Let_def)
  ultimately have acc: "token_accepts p t4 form ?a"
    using redeem(1-4) code(2) asks(3,4)
    by (simp add: token_accepts_def verifyCodeChallenge_iff clean_auth_code_def auth_code_of_def)
  have "to_valid_utf8 (ac_AccessToken ?a) = to_valid_utf8 (tk_AccessToken tk)"
    by (simp add: clean_auth_code_def auth_code_of_def)
  then have ?token
    using handleTokenAuthorizationCode_accepted [OF acc] token_response_fields(1) [of ?a] by auto
  with step1 step2 show ?thesis by blast
qed

theorem oauth_flow_completes_witness:
  "\<exists>j. response_status (handleTokenAuthorizationCode example_proxy (example_time + 59 * second) token_form new_writer) = 200 \<and>
     json_decode (rw_body (handleTokenAuthorizationCode example_proxy (example_time + 59 * second) token_form new_writer)) = Some j \<and>
     json_field j ''access_token'' = Some (JStr (to_valid_utf8 ''at''))"
proof -
  have clean: "clean_state example_session = example_session"
    by (simp add: clean_state_def example_session_def example_challenge_def to_valid_ascii byte_ord_def)
  have late: "example_time + second - example_time div second * second \<le> stateTTL"
    "example_time + 59 * second - example_time div second * second \<le> authCodeTTL"
    by (simp_all add: example_time_def second_def unix_to_internal_def stateTTL_def authCodeTTL_def)
  have returned: "values_get (url_query (req_raw_query callback_request)) ''state'' = session_token"
    "values_get (url_query (req_raw_query callback_request)) ''code'' = ''c0''"
    "values_get (url_query (req_raw_query callback_request)) ''error'' = []"
    unfolding callback_request_query by (simp_all add: values_get_def callback_query_def)
  have redeem: "values_get token_form ''code'' = session_code" "values_get token_form ''code_verifier'' = ''verifier''"
    "values_get token_form ''client_id'' = sp_ClientID example_session"
    "values_get token_form ''redirect_uri'' = sp_RedirectURI example_session"
    by (simp_all add: values_get_def token_form_def example_session_def)
  have provider: "exchange example_oauth cfg ''c0'' = Some example_provider_token" for cfg
    by (simp add: example_oauth_def)
  have challenge: "sp_CodeChallenge example_session = b64_encode (sha256 (bytes_of ''verifier''))"
    by (simp add: example_session_def example_challenge_def)
  have token: "tk_AccessToken example_provider_token = ''at''" by (simp add: example_provider_token_def)
  note flow = oauth_flow_completes [OF example_key_derived example_nonce_size example_nonce_size example_clock example_clock
      authorize_example_ok, unfolded authorize_example_session, OF clean challenge _ session_token returned(1) _ returned(2) _ returned(3)
      late(1) provider session_code [unfolded stamped_session_def] _ redeem late(2), unfolded token]
  show ?thesis using flow by simp
qed

end
