(* ===== verification/OAuth_Endpoints.thy ===== *)
theory OAuth_Endpoints
  imports OAuth_Correct
begin

text \<open>
  The other properties of the proxy: which redirect URIs it allows, what it registers and
  advertises, how it reads token requests and talks to the provider, what its errors look
  like, and how the missing separation of its tokens shows at the token endpoint.
\<close>

section \<open>Redirect URIs\<close>

text \<open>C22: a redirect URI is allowed exactly when it parses and either names one of the three
  loopback hosts, with any scheme and port, or has the scheme https; the test for a host in brackets
  never decides, because a parsed host name has none.\<close>

theorem isValidRedirectURI_exact:
  "isValidRedirectURI raw \<longleftrightarrow>
     (\<exists>u. url_parse raw = Some u \<and>
        (url_hostname u \<in> {''localhost'', ''127.0.0.1'', ''::1''} \<or> url_scheme u = ''https''))"
  using hostname_not_bracketed by (auto simp: isValidRedirectURI_def Let_def split: option.splits)

section \<open>Errors\<close>

text \<open>An error is a JSON response: its status, the content type, and a body that any JSON
  reader decodes to an object naming the error code and its description.\<close>

theorem oauthError_json:
  "\<exists>j. json_decode (rw_body (oauthError status code desc new_writer)) = Some j \<and>
     json_field j ''error'' = Some (JStr (to_valid_utf8 code)) \<and>
     json_field j ''error_description'' = Some (JStr (to_valid_utf8 desc)) \<and>
     response_status (oauthError status code desc new_writer) = status \<and>
     response_header (oauthError status code desc new_writer) ''Content-Type'' = ''application/json''"
  using oauthError_body by (simp add: json_field_def)

section \<open>Registration\<close>

text \<open>Everything the response holds, over the JSON reader's view of its keys.\<close>

lemma register_response_all:
  "json_field (json_clean (register_response cid t req)) k = map_option json_clean (map_of
     [(''client_id'', JStr cid), (''client_id_issued_at'', JInt t),
      (''redirect_uris'', JArr (map JStr (elems (rr_RedirectURIs req)))),
      (''client_name'', JStr (rr_ClientName req)),
      (''grant_types'', JArr (map JStr
        (if elems (rr_GrantTypes req) = [] then [''authorization_code''] else elems (rr_GrantTypes req)))),
      (''response_types'', JArr (map JStr
        (if elems (rr_ResponseTypes req) = [] then [''code''] else elems (rr_ResponseTypes req)))),
      (''token_endpoint_auth_method'', JStr ''none'')] k)"
  unfolding register_response_def Let_def by (simp only: json_field_map [OF register_keys])

lemma ascii_defaults [simp]:
  "to_valid_utf8 ''authorization_code'' = ''authorization_code''" "to_valid_utf8 ''code'' = ''code''"
  "to_valid_utf8 ''none'' = ''none''"
  by (auto intro!: to_valid_ascii simp: byte_ord_def)

lemma hex_digit_literal:
  assumes "n < 16"
  shows "hex_digit n = ''0123456789abcdef'' ! n"
proof -
  have "list_all (\<lambda>n. hex_digit n = ''0123456789abcdef'' ! n) [0..<16]" by code_simp
  then show ?thesis using assms by (simp add: list_all_iff)
qed

lemma hex_encode_literal:
  "hex_encode bs = concat (map (\<lambda>b. [''0123456789abcdef'' ! (unat b div 16), ''0123456789abcdef'' ! (unat b mod 16)]) bs)"
proof -
  have "unat (b :: byte) div 16 < 16" for b using unat_byte_less [of b] by (simp add: less_mult_imp_div_less)
  then show ?thesis by (simp add: hex_encode_def hex_digit_literal)
qed

lemma client_id_ascii: "to_valid_utf8 (generateClientID rnd) = generateClientID rnd"
proof (rule to_valid_ascii)
  have hex: "byte_ord (hex_digit n) < 128" if "n < 16" for n
    using that by (simp add: hex_digit_def)
  have "unat (b :: byte) div 16 < 16" for b using unat_byte_less [of b] by (simp add: less_mult_imp_div_less)
  then have "\<forall>c \<in> set (hex_encode rnd). byte_ord c < 128" using hex by (auto simp: hex_encode_def)
  moreover have "\<forall>c \<in> set ''hugr_mcp_''. byte_ord c < 128" by (simp add: byte_ord_def)
  ultimately show "\<forall>c \<in> set (generateClientID rnd). byte_ord c < 128" unfolding generateClientID_def by auto
qed

text \<open>C25: registration answers 201 exactly when the body decodes to a request with at least one
  redirect URI, all of them allowed. The response then names the client with \<open>hugr_mcp_\<close> and the
  32 lower-case hex digits of the 16 random bytes and stamps the time; it repeats the redirect URIs
  and the client's name, and the grant and response types, of which \<open>authorization_code\<close> and
  \<open>code\<close> are the defaults when none is given; the authentication method is \<open>none\<close> whatever was
  asked for. Any other request gets 400.\<close>

theorem handleRegister_exact:
  assumes "length rnd = 16"
  shows "case registration (req_body r) of
      None \<Rightarrow> response_status (handleRegister rnd now r new_writer) = 400
    | Some req \<Rightarrow>
        (let uris = elems (rr_RedirectURIs req); w = handleRegister rnd now r new_writer;
             texts = \<lambda>xs. JArr (map (\<lambda>x. JStr (to_valid_utf8 x)) xs) in
         if uris \<noteq> [] \<and> (\<forall>uri \<in> set uris. isValidRedirectURI uri)
         then response_status w = 201 \<and>
           (\<exists>j cid. json_decode (rw_body w) = Some j \<and> json_field j ''client_id'' = Some (JStr cid) \<and>
              cid = ''hugr_mcp_'' @ concat (map (\<lambda>b.
                [''0123456789abcdef'' ! (unat b div 16), ''0123456789abcdef'' ! (unat b mod 16)]) rnd) \<and>
              length cid = 41 \<and>
              json_field j ''client_id_issued_at'' = Some (JInt (unix_seconds now)) \<and>
              json_field j ''redirect_uris'' = Some (texts uris) \<and>
              json_field j ''client_name'' = Some (JStr (to_valid_utf8 (rr_ClientName req))) \<and>
              json_field j ''grant_types'' = Some (if elems (rr_GrantTypes req) = []
                then JArr [JStr ''authorization_code''] else texts (elems (rr_GrantTypes req))) \<and>
              json_field j ''response_types'' = Some (if elems (rr_ResponseTypes req) = []
                then JArr [JStr ''code''] else texts (elems (rr_ResponseTypes req))) \<and>
              json_field j ''token_endpoint_auth_method'' = Some (JStr ''none''))
         else response_status w = 400)"
proof (cases "registration (req_body r)")
  case None
  then show ?thesis using handleRegister_refused [of r rnd now new_writer] by auto
next
  case (Some req)
  let ?j = "json_clean (register_response (generateClientID rnd) (unix_seconds now) req)"
  have len: "length (generateClientID rnd) = 41" using assms by (simp add: generateClientID_def)
  have cid: "generateClientID rnd = ''hugr_mcp_'' @ concat (map (\<lambda>b.
      [''0123456789abcdef'' ! (unat b div 16), ''0123456789abcdef'' ! (unat b mod 16)]) rnd)"
    unfolding generateClientID_def hex_encode_literal ..
  show ?thesis
  proof (cases "elems (rr_RedirectURIs req) \<noteq> [] \<and> (\<forall>uri \<in> set (elems (rr_RedirectURIs req)). isValidRedirectURI uri)")
    case True
    then have uris: "elems (rr_RedirectURIs req) \<noteq> []" "\<forall>uri \<in> set (elems (rr_RedirectURIs req)). isValidRedirectURI uri"
      by simp_all
    show ?thesis
      unfolding Some option.case Let_def
      by (subst if_P [OF True], intro conjI exI [of _ ?j] exI [of _ "generateClientID rnd"])
        (use handleRegister_accepted [OF Some uris] cid len client_id_ascii [of rnd] in
          \<open>simp_all add: register_response_all comp_def\<close>)
  next
    case False
    then show ?thesis using handleRegister_refused [of r rnd now new_writer] Some
      by (auto simp: Let_def)
  qed
qed

definition register_body :: string where
  "register_body = json_text (JObj [(''redirect_uris'', JArr (map JStr [''http://localhost:8000/cb''])),
     (''client_name'', JStr ''app'')])"

lemma register_body_decodes:
  "registration register_body = Some (empty_register\<lparr>rr_RedirectURIs := \<lparr>elems = [''http://localhost:8000/cb''], spare = []\<rparr>,
     rr_ClientName := ''app''\<rparr>)"
  unfolding register_body_def by code_simp

definition register_request_example :: request where
  "register_request_example = \<lparr>req_method = ''POST'', req_tls = True, req_host = ''h'', req_header = [],
     req_path = ''/oauth/register'', req_raw_query = [], req_body = register_body\<rparr>"

theorem handleRegister_exact_witness:
  "response_status (handleRegister (replicate 16 0x2a) example_time register_request_example new_writer) = 201 \<and>
   (\<exists>j. json_decode (rw_body (handleRegister (replicate 16 0x2a) example_time register_request_example new_writer)) = Some j \<and>
      json_field j ''client_id'' = Some (JStr ''hugr_mcp_2a2a2a2a2a2a2a2a2a2a2a2a2a2a2a2a'') \<and>
      json_field j ''client_name'' = Some (JStr ''app'') \<and>
      json_field j ''grant_types'' = Some (JArr [JStr ''authorization_code'']))"
proof -
  have uri: "isValidRedirectURI ''http://localhost:8000/cb''" by code_simp
  have name: "to_valid_utf8 ''app'' = ''app''" by (rule to_valid_ascii) (simp add: byte_ord_def)
  have digits: "unat (0x2a :: byte) = 42" by simp
  have bytes: "replicate 16 (0x2a :: byte) = [0x2a, 0x2a, 0x2a, 0x2a, 0x2a, 0x2a, 0x2a, 0x2a,
      0x2a, 0x2a, 0x2a, 0x2a, 0x2a, 0x2a, 0x2a, 0x2a]" by (simp add: numeral_eq_Suc)
  have "registration (req_body register_request_example) =
      Some (empty_register\<lparr>rr_RedirectURIs := \<lparr>elems = [''http://localhost:8000/cb''], spare = []\<rparr>, rr_ClientName := ''app''\<rparr>)"
    by (simp add: register_request_example_def register_body_decodes)
  then show ?thesis
    using handleRegister_exact [of "replicate 16 0x2a", where r = register_request_example and now = example_time] uri name
    by (auto simp: Let_def empty_register_def no_slice_def bytes digits)
qed

section \<open>Metadata\<close>

definition advertised :: "(string \<times> string \<times> oauth_endpoint) list" where
  "advertised =
     [(''authorization_endpoint'', ''GET'', EpAuthorize), (''token_endpoint'', ''POST'', EpToken),
      (''registration_endpoint'', ''POST'', EpRegister), (''revocation_endpoint'', ''POST'', EpRevoke)]"

lemma metadata_keys:
  "ascii_keys [(''issuer'', a), (''authorization_endpoint'', b), (''token_endpoint'', c), (''registration_endpoint'', d),
     (''revocation_endpoint'', e), (''response_types_supported'', f), (''grant_types_supported'', g),
     (''token_endpoint_auth_methods_supported'', h), (''code_challenge_methods_supported'', i), (''scopes_supported'', k)]"
  by (simp add: ascii_keys_def byte_ord_def)

lemma metadata_fields:
  assumes "to_valid_utf8 (base @ ''/oauth/authorize'') = base @ ''/oauth/authorize''"
    "to_valid_utf8 (base @ ''/oauth/token'') = base @ ''/oauth/token''"
    "to_valid_utf8 (base @ ''/oauth/register'') = base @ ''/oauth/register''"
    "to_valid_utf8 (base @ ''/oauth/revoke'') = base @ ''/oauth/revoke''"
  shows "json_field (json_clean (metadata_json base)) ''authorization_endpoint'' = Some (JStr (base @ ''/oauth/authorize''))"
    "json_field (json_clean (metadata_json base)) ''token_endpoint'' = Some (JStr (base @ ''/oauth/token''))"
    "json_field (json_clean (metadata_json base)) ''registration_endpoint'' = Some (JStr (base @ ''/oauth/register''))"
    "json_field (json_clean (metadata_json base)) ''revocation_endpoint'' = Some (JStr (base @ ''/oauth/revoke''))"
    "json_field (json_clean (metadata_json base)) ''issuer'' = Some (JStr (to_valid_utf8 base))"
  unfolding metadata_json_def json_field_map [OF metadata_keys] using assms by simp_all

lemma metadata_ok [simp]: "json_ok 0 (metadata_json base)"
  unfolding metadata_json_def by (rule json_ok_map) (auto simp: max_nesting_def)

text \<open>C26: the metadata document is honest: for an ASCII host, every endpoint it advertises is the
  server's own base URL followed by a path under which \<^verbatim>\<open>RegisterHandlers\<close> serves that
  endpoint with the right method.\<close>

theorem metadata_served:
  assumes "\<forall>c \<in> set (req_host r). byte_ord c < 128"
  shows "\<exists>j. json_decode (rw_body (handleMetadata r new_writer)) = Some j \<and>
    json_field j ''issuer'' = Some (JStr (baseURL r)) \<and>
    (\<forall>(k, m, ep) \<in> set advertised. \<exists>path. json_field j k = Some (JStr (baseURL r @ path)) \<and>
       (m, path, ep) \<in> set RegisterHandlers)"
proof -
  have base: "\<forall>c \<in> set (baseURL r). byte_ord c < 128"
    using assms by (simp add: baseURL_def requestScheme_def byte_ord_def)
  have "to_valid_utf8 (baseURL r @ s) = baseURL r @ s" if "\<forall>c \<in> set s. byte_ord c < 128" for s
    using base that by (intro to_valid_ascii) auto
  then have fields: "to_valid_utf8 (baseURL r @ ''/oauth/authorize'') = baseURL r @ ''/oauth/authorize''"
    "to_valid_utf8 (baseURL r @ ''/oauth/token'') = baseURL r @ ''/oauth/token''"
    "to_valid_utf8 (baseURL r @ ''/oauth/register'') = baseURL r @ ''/oauth/register''"
    "to_valid_utf8 (baseURL r @ ''/oauth/revoke'') = baseURL r @ ''/oauth/revoke''"
    by (simp_all add: byte_ord_def)
  have "json_decode (rw_body (handleMetadata r new_writer)) = Some (json_clean (metadata_json (baseURL r)))"
    using json_decode_line [of "metadata_json (baseURL r)"] by (simp add: handleMetadata_def write_json_def)
  then show ?thesis
    using metadata_fields [OF fields] to_valid_ascii [OF base]
    by (simp add: advertised_def RegisterHandlers_def)
qed

theorem metadata_served_witness:
  "\<exists>j. json_decode (rw_body (handleMetadata (get_request ''/.well-known/oauth-authorization-server'' []) new_writer)) = Some j \<and>
     json_field j ''issuer'' = Some (JStr ''https://hugr.app'')"
proof -
  have "\<forall>c \<in> set (req_host (get_request ''/.well-known/oauth-authorization-server'' [])). byte_ord c < 128"
    by (simp add: get_request_def byte_ord_def)
  from metadata_served [OF this] show ?thesis
    by (auto simp: get_request_def baseURL_def requestScheme_def)
qed

section \<open>Token requests and the provider\<close>

lemma form_content_type:
  "parse_media_type ''application/x-www-form-urlencoded'' = (''application/x-www-form-urlencoded'', True)"
  by code_simp

lemma parse_form_post:
  assumes "req_method r = ''POST''" "req_raw_query r = []" "values_fit m" "req_body r = values_encode m"
    "length (req_body r) \<le> max_form_size"
    "header_get (req_header r) ''Content-Type'' = ''application/x-www-form-urlencoded''"
  shows "parse_form r = (sort_values m, True)"
proof -
  have "parse_query (req_body r) = (sort_values m, True)"
    using assms(3,4) parse_query_values_encode by (simp add: values_fit_def)
  moreover have "parse_query [] = ([], True)" by code_simp
  ultimately show ?thesis
    using assms by (simp add: parse_form_def parse_post_form_def form_content_type values_copy_def)
qed

lemma values_get_sort: "values_fit m \<Longrightarrow> values_get (sort_values m) k = values_get m k"
  by (simp add: values_fit_def values_ok_def values_get_def map_of_sort_values)

text \<open>C24: a form posted to the token endpoint is read as it was written: with the form content
  type, at most 10 MB and 10000 parameters, the authorization-code grant decides on exactly the
  values the client sent, whatever characters they hold.\<close>

theorem handleToken_form:
  assumes "req_method r = ''POST''" "req_raw_query r = []" "values_fit m" "req_body r = values_encode m"
    and "length (req_body r) \<le> max_form_size"
    and "header_get (req_header r) ''Content-Type'' = ''application/x-www-form-urlencoded''"
    and "values_get m ''grant_type'' = ''authorization_code''"
  shows "response_status (handleToken env p now r new_writer) = 200 \<longleftrightarrow> (\<exists>a. token_accepts p now m a)"
proof -
  have "handleToken env p now r new_writer = handleTokenAuthorizationCode p now (sort_values m) new_writer"
    using parse_form_post [OF assms(1-6)] assms(3,7) by (simp add: handleToken_def values_get_sort)
  moreover have "token_accepts p now (sort_values m) a = token_accepts p now m a" for a
    using assms(3) by (simp add: token_accepts_def values_get_sort)
  moreover have "response_status (handleTokenAuthorizationCode p now f new_writer) = 200 \<longleftrightarrow> (\<exists>a. token_accepts p now f a)" for f
  proof (cases "\<exists>a. token_accepts p now f a")
    case True
    then show ?thesis using handleTokenAuthorizationCode_accepted(1) by blast
  next
    case False
    then show ?thesis using handleTokenAuthorizationCode_refused [OF False, of new_writer] by auto
  qed
  ultimately show ?thesis by simp
qed

definition token_request :: "url_values \<Rightarrow> request" where
  "token_request m = \<lparr>req_method = ''POST'', req_tls = True, req_host = ''hugr.app'',
     req_header = [(''Content-Type'', [''application/x-www-form-urlencoded''])], req_path = ''/oauth/token'',
     req_raw_query = [], req_body = values_encode m\<rparr>"

theorem handleToken_form_witness:
  "response_status (handleToken example_oauth example_proxy 0
     (token_request [(''grant_type'', [''authorization_code''])]) new_writer) \<noteq> 200"
proof -
  let ?m = "[(''grant_type'', [''authorization_code''])] :: url_values"
  have "values_fit ?m" by (simp add: values_fit_def values_ok_def values_count_def values_pairs_def max_query_params_def)
  moreover have "length (values_encode ?m) = 29" by code_simp
  moreover have "\<not> token_accepts example_proxy 0 ?m a" for a by (simp add: token_accepts_def values_get_def)
  ultimately show ?thesis
    using handleToken_form [of "token_request ?m" ?m example_oauth example_proxy 0]
    by (simp add: token_request_def max_form_size_def values_get_def header_get_def)
qed

text \<open>The provider reads exactly what the proxy means: the form of a refresh or of a
  revocation, encoded and parsed again, gives the token of the client and the proxy's own
  credentials, with the hint only when there is one.\<close>

theorem provider_forms_roundtrip:
  "(let q = url_query (values_encode (refresh_form p tok)) in
      values_get q ''grant_type'' = ''refresh_token'' \<and> values_get q ''refresh_token'' = tok \<and>
      values_get q ''client_id'' = oc_ClientID (px_oauth2Config p) \<and>
      values_get q ''client_secret'' = oc_ClientSecret (px_oauth2Config p)) \<and>
   (let q = url_query (values_encode (revoke_form p tok hint)) in
      values_get q ''token'' = tok \<and> values_get q ''token_type_hint'' = hint \<and>
      values_get q ''client_id'' = oc_ClientID (px_oauth2Config p) \<and>
      values_get q ''client_secret'' = oc_ClientSecret (px_oauth2Config p))"
proof -
  have "values_fit (refresh_form p tok)" "values_fit (revoke_form p tok hint)"
    by (simp_all add: values_fit_def values_ok_def values_count_def values_pairs_def refresh_form_def revoke_form_def
        max_query_params_def Let_def)
  then show ?thesis
    by (simp add: url_values.get_parse_encode Let_def) (simp add: values_get_def refresh_form_def revoke_form_def Let_def)
qed

text \<open>A refresh is passed through or fails closed: without a token it is a 400 and the
  provider is not asked, an unreachable provider or a body that is not JSON is a 502, and otherwise
  the client gets the provider's status and the response must not be cached.\<close>

theorem handleTokenRefresh_outcomes:
  "response_status (handleTokenRefresh env p form new_writer) =
    (if values_get form ''refresh_token'' = [] then 400
     else case post_form env (px_insecureClient p) (px_tokenURL p) (refresh_form p (values_get form ''refresh_token'')) of
       None \<Rightarrow> 502
     | Some (status, body) \<Rightarrow> if json_decode body = None then 502 else status) \<and>
   (response_status (handleTokenRefresh env p form new_writer) = 200 \<longrightarrow>
    response_header (handleTokenRefresh env p form new_writer) ''Cache-Control'' = ''no-store'')"
proof (cases "values_get form ''refresh_token'' = []")
  case True
  then show ?thesis by (simp add: handleTokenRefresh_def)
next
  case False
  show ?thesis
  proof (cases "post_form env (px_insecureClient p) (px_tokenURL p) (refresh_form p (values_get form ''refresh_token''))")
    case None
    then show ?thesis using False by (simp add: handleTokenRefresh_def Let_def)
  next
    case (Some sb)
    obtain status body where sb: "sb = (status, body)" by (cases sb)
    show ?thesis
    proof (cases "json_decode_raw body")
      case None
      then have "json_decode body = None"
        by (auto simp: json_decode_raw_def json_decode_def Let_def split: option.splits)
      then show ?thesis using False Some sb None by (simp add: handleTokenRefresh_def Let_def)
    next
      case (Some raw)
      then have "json_decode body \<noteq> None"
        by (auto simp: json_decode_raw_def json_decode_def Let_def split: option.splits)
      moreover have "handleTokenRefresh env p form new_writer =
          write_body (json_raw_line raw) (write_header status (set_header ''Cache-Control'' ''no-store''
            (set_header ''Content-Type'' ''application/json'' new_writer)))"
        using False \<open>post_form _ _ _ _ = _\<close> sb Some by (simp add: handleTokenRefresh_def Let_def)
      ultimately show ?thesis
        using False \<open>post_form _ _ _ _ = _\<close> sb by (auto simp: response_status_def response_header_def)
    qed
  qed
qed

theorem handleTokenRefresh_outcomes_witness:
  "response_header (handleTokenRefresh example_oauth example_proxy [(''refresh_token'', [''rt''])] new_writer) ''Cache-Control'' = ''no-store''"
proof -
  have "json_decode ''{}'' \<noteq> None" by code_simp
  then show ?thesis
    using handleTokenRefresh_outcomes [of example_oauth example_proxy "[(''refresh_token'', [''rt''])]"]
    by (simp add: values_get_def example_oauth_def)
qed

section \<open>Lifetimes\<close>

lemma age_bounds:
  assumes "clock_time t0"
  shows "t1 - t0 \<le> ttl - second \<Longrightarrow> plain_ttl ttl \<Longrightarrow> \<not> token_expired t1 (unix_seconds t0) ttl"
    and "ttl < t1 - t0 \<Longrightarrow> plain_ttl ttl \<Longrightarrow> token_expired t1 (unix_seconds t0) ttl"
proof -
  have "0 \<le> t0 mod second" "t0 mod second < second" by (simp_all add: second_def)
  moreover have "t0 div second * second = t0 - t0 mod second" by (simp add: minus_mod_eq_div_mult)
  ultimately show "t1 - t0 \<le> ttl - second \<Longrightarrow> plain_ttl ttl \<Longrightarrow> \<not> token_expired t1 (unix_seconds t0) ttl"
    "ttl < t1 - t0 \<Longrightarrow> plain_ttl ttl \<Longrightarrow> token_expired t1 (unix_seconds t0) ttl"
    using token_expired_iff [OF assms] by simp_all
qed

lemma proxy_ttls: "plain_ttl authCodeTTL" "plain_ttl stateTTL"
  by (simp_all add: plain_ttl_def authCodeTTL_def stateTTL_def second_def min_int64_def max_int64_def)

text \<open>C16: how long tokens live. An authorization code is accepted for at least 59 seconds after it
  was sealed and for no longer than 60, a state for at least 299 and no longer than 300: the stamp
  is cut to whole seconds, so up to one second of the time to live is lost, and none is gained.\<close>

theorem token_lifetimes:
  assumes "encryptAuthCode key (Some nonce) t0 a = Inr code" and "encryptState key (Some nonce') t0 s = Inr state"
    and "length nonce = nonce_size" and "length nonce' = nonce_size"
    and "clamp_int64 (ac_ExpiresIn a) = ac_ExpiresIn a" and "clock_time t0"
  shows "(t1 - t0 \<le> 59 * second \<longrightarrow> (\<exists>b. decryptAuthCode key code authCodeTTL t1 = Inr b)) \<and>
    (60 * second < t1 - t0 \<longrightarrow> decryptAuthCode key code authCodeTTL t1 = Inl ExpiredError) \<and>
    (t1 - t0 \<le> 299 * second \<longrightarrow> (\<exists>b. decryptState key state stateTTL t1 = Inr b)) \<and>
    (300 * second < t1 - t0 \<longrightarrow> decryptState key state stateTTL t1 = Inl ExpiredError)"
  unfolding decryptAuthCode_of [OF assms(1,3,5)] decryptState_of [OF assms(2,4)]
  using age_bounds [OF assms(6) _ proxy_ttls(1)] age_bounds [OF assms(6) _ proxy_ttls(2)]
  by (simp add: authCodeTTL_def stateTTL_def)

theorem token_lifetimes_witness:
  "decryptAuthCode example_key example_code_token authCodeTTL (example_time + 61 * second) = Inl ExpiredError \<and>
   (\<exists>s. decryptState example_key example_state_token stateTTL (example_time + 299 * second) = Inr s)"
  using token_lifetimes [OF example_tokens(2,1) example_nonce_size example_nonce_size example_code_expires example_clock,
      of "example_time + 61 * second"]
    token_lifetimes [OF example_tokens(2,1) example_nonce_size example_nonce_size example_code_expires example_clock,
      of "example_time + 299 * second"]
  by (simp add: second_def)

end
