(* ===== verification/OAuth_Flow.thy ===== *)
theory OAuth_Flow
  imports OAuth_Correct
begin

text \<open>
  The proxy over time. It keeps no state of its own, so a run is recorded from outside:
  the texts it has sealed, the sessions it accepted at authorize, the callbacks it
  completed with the provider's tokens, and the grants of its token endpoint. Requests
  come from anyone, in any order and with any parameters; the one thing a requester
  cannot do is make a token that opens under the proxy's key to a text the proxy never
  sealed. The invariant says where every grant comes from.
\<close>

section \<open>The recorded run\<close>

record flow =
  fl_sealed :: "bytes set"
  fl_sessions :: "StatePayload set"
  fl_callbacks :: "(StatePayload \<times> oauth_token) set"
  fl_grants :: "(AuthCodePayload \<times> string) set"


definition unforged :: "Proxy \<Rightarrow> flow \<Rightarrow> string \<Rightarrow> bool" where
  "unforged p f tok \<longleftrightarrow> (\<forall>pt. open_token (px_key p) tok = Inr pt \<longrightarrow> pt \<in> fl_sealed f)"

definition state_text :: "StatePayload \<Rightarrow> bytes" where
  "state_text s = bytes_of (json_text (state_json s))"

definition code_text :: "AuthCodePayload \<Rightarrow> bytes" where
  "code_text a = bytes_of (json_text (auth_code_json a))"

text \<open>A step is a request a handler answers with success; the others change nothing.\<close>

inductive flow_step :: "Proxy \<Rightarrow> flow \<Rightarrow> flow \<Rightarrow> bool" for p :: Proxy where
  authorize:
    "response_status (handleAuthorize env p (Some nonce) now r new_writer) = 302 \<Longrightarrow>
     s = (requested_session r)\<lparr>sp_Timestamp := unix_seconds now\<rparr> \<Longrightarrow>
     flow_step p f (f\<lparr>fl_sessions := insert s (fl_sessions f), fl_sealed := insert (state_text s) (fl_sealed f)\<rparr>)"
| callback:
    "response_status (handleCallback env p (Some nonce) t1 t2 t3 r new_writer) = 302 \<Longrightarrow>
     unforged p f (values_get (url_query (req_raw_query r)) ''state'') \<Longrightarrow>
     callback_session env p t1 r = Some (s, tk, u) \<Longrightarrow>
     a = (auth_code_of s tk t2)\<lparr>ac_Timestamp := unix_seconds t3\<rparr> \<Longrightarrow>
     flow_step p f (f\<lparr>fl_callbacks := insert (s, tk) (fl_callbacks f), fl_sealed := insert (code_text a) (fl_sealed f)\<rparr>)"
| redeem:
    "response_status (handleTokenAuthorizationCode p now form new_writer) = 200 \<Longrightarrow>
     unforged p f (values_get form ''code'') \<Longrightarrow>
     decryptAuthCode (px_key p) (values_get form ''code'') authCodeTTL now = Inr a \<Longrightarrow>
     flow_step p f (f\<lparr>fl_grants := insert (a, values_get form ''code_verifier'') (fl_grants f)\<rparr>)"


inductive_cases flow_stepE: "flow_step p f g"

section \<open>What opens to what\<close>

text \<open>Who the tokens are for: client, redirect URI and challenge.\<close>

definition session_binding :: "StatePayload \<Rightarrow> string \<times> string \<times> string" where
  "session_binding s = (sp_ClientID s, sp_RedirectURI s, sp_CodeChallenge s)"

definition code_binding :: "AuthCodePayload \<Rightarrow> string \<times> string \<times> string" where
  "code_binding a = (ac_ClientID a, ac_RedirectURI a, ac_CodeChallenge a)"

definition clean_binding :: "string \<times> string \<times> string \<Rightarrow> string \<times> string \<times> string" where
  "clean_binding = (\<lambda>(c, r, h). (to_valid_utf8 c, to_valid_utf8 r, to_valid_utf8 h))"


lemma binding_simps [simp]:
  "session_binding (clean_state s) = clean_binding (session_binding s)"
  "code_binding (clean_auth_code a) = clean_binding (code_binding a)"
  "code_binding (state_as_auth_code s) = session_binding s"
  "code_binding ((auth_code_of s tk t)\<lparr>ac_Timestamp := n\<rparr>) = session_binding s"
  "session_binding (s\<lparr>sp_Timestamp := n\<rparr>) = session_binding s"
  by (simp_all add: session_binding_def code_binding_def clean_binding_def clean_state_def clean_auth_code_def
      state_as_auth_code_def auth_code_of_def)







section \<open>The invariant\<close>











section \<open>Every step keeps the invariant\<close>







section \<open>A run\<close>








section \<open>Where grants come from\<close>



text \<open>C36: a code is not used up. The proxy keeps no record of redeemed codes, so whoever is
  granted a code is granted it again, with the same form, at every moment until it expires.\<close>

theorem code_redeemable_again:
  assumes "token_accepts p t form a" and "\<not> token_expired t' (ac_Timestamp a) authCodeTTL"
  shows "response_status (handleTokenAuthorizationCode p t' form new_writer) = 200 \<and>
    rw_body (handleTokenAuthorizationCode p t' form new_writer) = rw_body (handleTokenAuthorizationCode p t form new_writer)"
proof -
  have "token_accepts p t' form a"
    using assms by (auto simp: token_accepts_def decryptAuthCode_def split: sum.splits if_splits)
  then show ?thesis
    using assms(1) by (auto simp: token_accepts_def handleTokenAuthorizationCode_def Let_def verifyCodeChallenge_iff
        write_json_def response_status_def)
qed

theorem code_redeemable_again_witness:
  "response_status (handleTokenAuthorizationCode example_proxy (example_time + 10 * second) token_form new_writer) = 200"
proof -
  have "\<not> token_expired (example_time + 10 * second) (ac_Timestamp example_granted) authCodeTTL"
    using token_expired_iff [OF example_clock example_ttl(1), of "example_time + 10 * second"]
    by (simp add: example_granted_def authCodeTTL_def) (simp add: example_time_def second_def unix_to_internal_def)
  from code_redeemable_again [OF example_token_accepts this] show ?thesis by simp
qed

end
