(* ===== verification/OAuth_Refine.thy ===== *)
theory OAuth_Refine
  imports OAuth_Flow
begin

text \<open>
  The stateless proxy as an implementation of an ordinary authorization server. The
  specification keeps what the proxy does not: tables of sessions, codes and grants. Every
  step of the proxy, whatever texts it is handed, is a step of that server.
\<close>

section \<open>The specification\<close>





section \<open>The abstraction\<close>





section \<open>The refinement\<close>



end
