(* ===== verification/Auth_Oidc.thy ===== *)
theory Auth_Oidc
  imports Go_Http Go_Time
begin

text \<open>
  The OIDC authentication provider, \<^verbatim>\<open>pkg/auth/oidc_provider.go\<close>: its settings and
  construction, the reading of claims, and the classification of a request. Token
  extraction, discovery, signature verification and unverified JWT parsing belong to
  third-party packages and are parameters; so is the engine's \<^verbatim>\<open>ScalarClaims\<close>.
\<close>

section \<open>Settings\<close>

text \<open>The engine's \<^verbatim>\<open>auth.UserAuthInfoConfig\<close>, of which \<^verbatim>\<open>OIDCClaims\<close> is an alias.\<close>

record OIDCClaims =
  cl_Role :: string
  cl_UserId :: string
  cl_UserName :: string

record OIDCConfig =
  oi_Issuer :: string
  oi_ClientID :: string
  oi_ClientSecret :: string
  oi_Timeout :: duration
  oi_TLSInsecure :: bool
  oi_CookieName :: string
  oi_Scopes :: string
  oi_RedirectURL :: string
  oi_ScopeRolePrefix :: string
  oi_Claims :: OIDCClaims

definition empty_oidc :: OIDCConfig where
  "empty_oidc = \<lparr>oi_Issuer = [], oi_ClientID = [], oi_ClientSecret = [], oi_Timeout = 0, oi_TLSInsecure = False,
     oi_CookieName = [], oi_Scopes = [], oi_RedirectURL = [], oi_ScopeRolePrefix = [],
     oi_Claims = \<lparr>cl_Role = [], cl_UserId = [], cl_UserName = []\<rparr>\<rparr>"

section \<open>Claims\<close>

text \<open>The values of \<^verbatim>\<open>jwt.MapClaims\<close>, as far as the type switch tells them apart.\<close>

datatype claim =
    ClaimString string
  | ClaimList "claim list" \<comment> \<open>\<^verbatim>\<open>[]any\<close>\<close>
  | ClaimStrings "string list" \<comment> \<open>\<^verbatim>\<open>[]string\<close>\<close>
  | ClaimOther

type_synonym claims = "(string \<times> claim) list"

text \<open>The loops over a list: the first string with the prefix, without it.\<close>

fun first_claim :: "string \<Rightarrow> claim list \<Rightarrow> string" where
  "first_claim prefix [] = []"
| "first_claim prefix (item # items) =
     (case item of
        ClaimString str \<Rightarrow>
          (case cut_prefix str prefix of Some after \<Rightarrow> after | None \<Rightarrow> first_claim prefix items)
      | _ \<Rightarrow> first_claim prefix items)"

fun first_string :: "string \<Rightarrow> string list \<Rightarrow> string" where
  "first_string prefix [] = []"
| "first_string prefix (str # strs) =
     (case cut_prefix str prefix of Some after \<Rightarrow> after | None \<Rightarrow> first_string prefix strs)"

definition claimString :: "claims \<Rightarrow> string \<Rightarrow> string \<Rightarrow> string" where
  "claimString claims key prefix =
     (if claims = [] then []
      else case map_of claims key of
        None \<Rightarrow> []
      | Some (ClaimString val) \<Rightarrow> (case cut_prefix val prefix of Some after \<Rightarrow> after | None \<Rightarrow> [])
      | Some (ClaimList val) \<Rightarrow> first_claim prefix val
      | Some (ClaimStrings val) \<Rightarrow> first_string prefix val
      | Some ClaimOther \<Rightarrow> [])"

section \<open>The provider\<close>

datatype extractor = OAuth2Extractor | WithCookie string

record OIDCProvider =
  op_c :: OIDCConfig
  op_extractor :: extractor

datatype oidc_error = IssuerRequired | OidcDiscoveryFailed

text \<open>\<open>discover\<close> is discovery with a client of the given timeout and TLS check.\<close>

definition NewOIDCProvider :: "(duration \<Rightarrow> bool \<Rightarrow> string \<Rightarrow> bool) \<Rightarrow> OIDCConfig \<Rightarrow> oidc_error + OIDCProvider" where
  "NewOIDCProvider discover c =
     (if oi_Issuer c = [] then Inl IssuerRequired
      else if \<not> discover (oi_Timeout c) (oi_TLSInsecure c) (oi_Issuer c) then Inl OidcDiscoveryFailed
      else let ext = (if oi_CookieName c \<noteq> [] then WithCookie (oi_CookieName c) else OAuth2Extractor);
               cl = oi_Claims c;
               cl1 = (if cl_Role cl = [] then cl\<lparr>cl_Role := ''x-hugr-role''\<rparr> else cl);
               cl2 = (if cl_UserId cl1 = [] then cl1\<lparr>cl_UserId := ''sub''\<rparr> else cl1);
               cl3 = (if cl_UserName cl2 = [] then cl2\<lparr>cl_UserName := ''name''\<rparr> else cl2)
           in Inr \<lparr>op_c = c\<lparr>oi_Claims := cl3\<rparr>, op_extractor = ext\<rparr>)"

section \<open>Authentication\<close>

datatype extract_result = NoTokenInRequest | ExtractFailed | Extracted string

text \<open>What the verifier answers: an ID token whose claims may fail to decode.\<close>

datatype verify_result = VerifyExpired | VerifyFailed | Verified "claims option"

record oidc_env =
  extract_token :: "extractor \<Rightarrow> request \<Rightarrow> extract_result"
  verify_token :: "string \<Rightarrow> verify_result"
  parse_unverified :: "string \<Rightarrow> claims option"
  scalar_claims :: "claims \<Rightarrow> claims"

datatype auth_failure = ErrSkipAuth | ErrExtract | ErrTokenExpired | ErrForbidden | ErrInvalidKeyType

record AuthInfo =
  ai_Role :: string
  ai_UserId :: string
  ai_UserName :: string
  ai_AuthType :: string
  ai_AuthProvider :: string
  ai_Token :: string
  ai_Claims :: claims

definition tokenIssuedHere :: "oidc_env \<Rightarrow> OIDCProvider \<Rightarrow> string \<Rightarrow> bool" where
  "tokenIssuedHere env p token =
     (case parse_unverified env token of
        None \<Rightarrow> False
      | Some claims \<Rightarrow>
          (case map_of claims ''iss'' of Some (ClaimString iss) \<Rightarrow> iss | _ \<Rightarrow> []) = oi_Issuer (op_c p))"

definition Authenticate :: "oidc_env \<Rightarrow> OIDCProvider \<Rightarrow> request \<Rightarrow> auth_failure + AuthInfo" where
  "Authenticate env p r =
     (case extract_token env (op_extractor p) r of
        NoTokenInRequest \<Rightarrow> Inl ErrSkipAuth
      | ExtractFailed \<Rightarrow> Inl ErrExtract
      | Extracted token \<Rightarrow>
          if token = [] then Inl ErrSkipAuth
          else case verify_token env token of
            VerifyExpired \<Rightarrow> Inl ErrTokenExpired
          | VerifyFailed \<Rightarrow> if tokenIssuedHere env p token then Inl ErrForbidden else Inl ErrInvalidKeyType
          | Verified None \<Rightarrow> Inl ErrForbidden
          | Verified (Some claims) \<Rightarrow>
              (let cfg = op_c p;
                   role = claimString claims (cl_Role (oi_Claims cfg)) (oi_ScopeRolePrefix cfg);
                   userId = claimString claims (cl_UserId (oi_Claims cfg)) [];
                   userName = claimString claims (cl_UserName (oi_Claims cfg)) [];
                   role' = (if role = [] then claimString claims ''scopes'' (oi_ScopeRolePrefix cfg) else role)
               in if role' = [] then Inl ErrForbidden
                  else Inr \<lparr>ai_Role = role', ai_UserId = userId, ai_UserName = userName,
                            ai_AuthType = ''oidc'', ai_AuthProvider = ''oidc'', ai_Token = token,
                            ai_Claims = scalar_claims env claims\<rparr>))"

section \<open>What claims give\<close>

text \<open>The strings a claim holds, in order.\<close>

definition claim_strings :: "claim \<Rightarrow> string list" where
  "claim_strings c = (case c of
       ClaimString s \<Rightarrow> [s]
     | ClaimList cs \<Rightarrow> concat (map (\<lambda>x. case x of ClaimString s \<Rightarrow> [s] | _ \<Rightarrow> []) cs)
     | ClaimStrings ss \<Rightarrow> ss
     | ClaimOther \<Rightarrow> [])"

lemma first_claim_strings:
  "first_claim prefix cs = first_string prefix (concat (map (\<lambda>x. case x of ClaimString s \<Rightarrow> [s] | _ \<Rightarrow> []) cs))"
  by (induction cs) (auto split: claim.splits option.splits)

lemma claimString_strings:
  "claimString claims key prefix =
     (case map_of claims key of None \<Rightarrow> [] | Some c \<Rightarrow> first_string prefix (claim_strings c))"
  by (auto simp: claimString_def claim_strings_def first_claim_strings split: claim.splits option.splits)

text \<open>The first string with the prefix decides, even when nothing follows the prefix.\<close>

lemma first_string_find:
  "first_string prefix ss = (case filter (\<lambda>s. has_prefix s prefix) ss of [] \<Rightarrow> [] | s # _ \<Rightarrow> trim_prefix s prefix)"
  by (induction ss) (auto simp: has_prefix_def trim_prefix_def split: option.splits)

lemma first_string_member:
  "first_string prefix ss \<noteq> [] \<Longrightarrow> prefix @ first_string prefix ss \<in> set ss"
  by (induction ss) (auto simp: cut_prefix_iff split: option.splits)

lemma claimString_member:
  "claimString claims key prefix \<noteq> [] \<Longrightarrow>
   \<exists>c. map_of claims key = Some c \<and> prefix @ claimString claims key prefix \<in> set (claim_strings c)"
  by (auto simp: claimString_strings dest: first_string_member split: option.splits)

text \<open>The role of verified claims: the role claim, then the scopes.\<close>

definition claimed_role :: "OIDCProvider \<Rightarrow> claims \<Rightarrow> string" where
  "claimed_role p claims =
     (let cfg = op_c p; role = claimString claims (cl_Role (oi_Claims cfg)) (oi_ScopeRolePrefix cfg)
      in if role = [] then claimString claims ''scopes'' (oi_ScopeRolePrefix cfg) else role)"

lemma claimed_role_member:
  assumes "claimed_role p claims \<noteq> []"
  shows "\<exists>key \<in> {cl_Role (oi_Claims (op_c p)), ''scopes''}. \<exists>c. map_of claims key = Some c \<and>
    oi_ScopeRolePrefix (op_c p) @ claimed_role p claims \<in> set (claim_strings c)"
  using claimString_member assms by (fastforce simp: claimed_role_def Let_def split: if_splits)

lemma Authenticate_claims:
  "extract_token env (op_extractor p) r = Extracted token \<Longrightarrow> token \<noteq> [] \<Longrightarrow>
   verify_token env token = Verified (Some claims) \<Longrightarrow>
   Authenticate env p r =
     (if claimed_role p claims = [] then Inl ErrForbidden
      else Inr \<lparr>ai_Role = claimed_role p claims,
                ai_UserId = claimString claims (cl_UserId (oi_Claims (op_c p))) [],
                ai_UserName = claimString claims (cl_UserName (oi_Claims (op_c p))) [],
                ai_AuthType = ''oidc'', ai_AuthProvider = ''oidc'', ai_Token = token,
                ai_Claims = scalar_claims env claims\<rparr>)"
  by (simp add: Authenticate_def claimed_role_def Let_def)

text \<open>Every other answer of extractor and verifier is an error.\<close>

lemma Authenticate_Inr:
  assumes "Authenticate env p r = Inr info"
  obtains token claims where "extract_token env (op_extractor p) r = Extracted token" "token \<noteq> []"
    "verify_token env token = Verified (Some claims)"
proof -
  obtain token where t: "extract_token env (op_extractor p) r = Extracted token" "token \<noteq> []"
    using assms by (cases "extract_token env (op_extractor p) r") (auto simp: Authenticate_def split: if_splits)
  show thesis
  proof (cases "verify_token env token")
    case (Verified oc)
    then show thesis using that t assms by (cases oc) (auto simp: Authenticate_def)
  qed (use t assms in \<open>auto simp: Authenticate_def split: if_splits\<close>)
qed

section \<open>Properties\<close>

text \<open>C12: nobody gets a role the identity provider did not sign. When a request is
  authenticated, its token is not empty and was verified, the role is not empty, and prefix and
  role together are a string of the role claim or of the scopes of that very token.\<close>

theorem authenticate_role_signed:
  assumes "Authenticate env p r = Inr info"
  shows "ai_Role info \<noteq> [] \<and> ai_Token info \<noteq> [] \<and>
    extract_token env (op_extractor p) r = Extracted (ai_Token info) \<and>
    (\<exists>claims. verify_token env (ai_Token info) = Verified (Some claims) \<and>
       (\<exists>key \<in> {cl_Role (oi_Claims (op_c p)), ''scopes''}. \<exists>c. map_of claims key = Some c \<and>
          oi_ScopeRolePrefix (op_c p) @ ai_Role info \<in> set (claim_strings c)))"
proof -
  obtain token claims where t: "extract_token env (op_extractor p) r = Extracted token" "token \<noteq> []"
      "verify_token env token = Verified (Some claims)"
    using assms by (rule Authenticate_Inr)
  then have i: "claimed_role p claims \<noteq> []" "ai_Role info = claimed_role p claims" "ai_Token info = token"
    using assms Authenticate_claims [OF t] by (auto split: if_splits)
  then show ?thesis using t claimed_role_member [OF i(1)] by simp
qed

definition example_oidc :: OIDCProvider where
  "example_oidc = \<lparr>op_c = empty_oidc\<lparr>oi_Issuer := ''https://idp'', oi_ScopeRolePrefix := ''hugr:'',
     oi_Claims := \<lparr>cl_Role = ''roles'', cl_UserId = ''sub'', cl_UserName = ''name''\<rparr>\<rparr>,
     op_extractor = OAuth2Extractor\<rparr>"

definition example_claims :: claims where
  "example_claims = [(''sub'', ClaimString ''u1''),
     (''roles'', ClaimList [ClaimOther, ClaimString ''app:user'', ClaimString ''hugr:admin''])]"

definition example_oidc_env :: oidc_env where
  "example_oidc_env = \<lparr>
     extract_token = (\<lambda>e r. case header_get (req_header r) ''Authorization'' of [] \<Rightarrow> NoTokenInRequest | t \<Rightarrow> Extracted t),
     verify_token = (\<lambda>t. if t = ''good'' then Verified (Some example_claims) else VerifyFailed),
     parse_unverified = (\<lambda>t. None), scalar_claims = (\<lambda>c. c)\<rparr>"

definition example_oidc_request :: request where
  "example_oidc_request = \<lparr>req_method = ''GET'', req_tls = False, req_host = ''h'',
     req_header = [(''Authorization'', [''good''])], req_path = ''/'', req_raw_query = [], req_body = []\<rparr>"

lemma example_authenticated:
  "map_option ai_Role (case Authenticate example_oidc_env example_oidc example_oidc_request of Inl _ \<Rightarrow> None | Inr i \<Rightarrow> Some i)
     = Some ''admin''"
  by code_simp

theorem authenticate_role_signed_witness:
  "\<exists>info. Authenticate example_oidc_env example_oidc example_oidc_request = Inr info \<and>
    ai_Role info = ''admin'' \<and> ai_Token info \<noteq> []"
proof -
  obtain info where i: "Authenticate example_oidc_env example_oidc example_oidc_request = Inr info" "ai_Role info = ''admin''"
    using example_authenticated by (auto split: sum.splits)
  with authenticate_role_signed [OF i(1)] show ?thesis by blast
qed

text \<open>C20: how a request that is not authenticated is classified. No token, or an empty one, lets
  the next provider try; an expired token is told apart; a token that does not verify is forbidden
  exactly when it names this issuer, and left to the next provider otherwise; a verified token is
  forbidden exactly when its claims do not decode or give no role.\<close>

theorem authenticate_failures:
  "(Authenticate env p r = Inl ErrSkipAuth \<longleftrightarrow>
      extract_token env (op_extractor p) r \<in> {NoTokenInRequest, Extracted []}) \<and>
   (Authenticate env p r = Inl ErrExtract \<longleftrightarrow> extract_token env (op_extractor p) r = ExtractFailed) \<and>
   (Authenticate env p r = Inl ErrTokenExpired \<longleftrightarrow>
      (\<exists>token. extract_token env (op_extractor p) r = Extracted token \<and> token \<noteq> [] \<and>
         verify_token env token = VerifyExpired)) \<and>
   (Authenticate env p r = Inl ErrInvalidKeyType \<longleftrightarrow>
      (\<exists>token. extract_token env (op_extractor p) r = Extracted token \<and> token \<noteq> [] \<and>
         verify_token env token = VerifyFailed \<and> \<not> tokenIssuedHere env p token)) \<and>
   (Authenticate env p r = Inl ErrForbidden \<longleftrightarrow>
      (\<exists>token. extract_token env (op_extractor p) r = Extracted token \<and> token \<noteq> [] \<and>
         (case verify_token env token of
            VerifyExpired \<Rightarrow> False
          | VerifyFailed \<Rightarrow> tokenIssuedHere env p token
          | Verified None \<Rightarrow> True
          | Verified (Some claims) \<Rightarrow> claimed_role p claims = [])))"
proof (cases "extract_token env (op_extractor p) r")
  case (Extracted token)
  show ?thesis
  proof (cases "token = []")
    case False
    show ?thesis
    proof (cases "verify_token env token")
      case (Verified oc)
      then show ?thesis
        using Extracted False Authenticate_claims [OF Extracted False]
        by (cases oc) (auto simp: Authenticate_def)
    qed (use Extracted False in \<open>auto simp: Authenticate_def\<close>)
  qed (use Extracted in \<open>auto simp: Authenticate_def\<close>)
qed (auto simp: Authenticate_def)

text \<open>C30: a claim is read alike in each of its shapes: of its strings in order, the first with
  the prefix decides and is returned without it, even when nothing follows the prefix.\<close>

theorem claimString_first:
  "claimString claims key prefix =
     (case map_of claims key of
        None \<Rightarrow> []
      | Some c \<Rightarrow> (case filter (\<lambda>s. has_prefix s prefix) (claim_strings c) of
                    [] \<Rightarrow> []
                  | s # _ \<Rightarrow> trim_prefix s prefix))"
  by (cases "map_of claims key") (simp_all add: claimString_strings first_string_find)

end
