(* ===== verification/Auth_Config.thy ===== *)
theory Auth_Config
  imports Auth_Oidc "HOL-Library.AList"
begin

text \<open>
  The authentication settings, \<^verbatim>\<open>pkg/auth/auth.go\<close>: the provider file in JSON, the
  merge of file and environment, the chain of providers the engine gets, the public
  \<^verbatim>\<open>/auth/config\<close> handler and the summary that is logged. The file system, YAML,
  the JSON tags of the engine's own structs and its JWT provider are parameters, and so is the
  order in which Go visits a map.
\<close>

section \<open>Settings and providers\<close>

record auth_Config =
  au_ManagementApiKeys :: bool
  au_AllowedAnonymous :: bool
  au_AnonymousRole :: string
  au_OIDC :: OIDCConfig
  au_SecretKey :: string
  au_ConfigFile :: string

text \<open>The fields the program uses of the engine's configuration structs.\<close>

record AnonymousConfig =
  an_Allowed :: bool
  an_Role :: string

record ApiKeyConfig =
  ak_Key :: string
  ak_Header :: string
  ak_DefaultRole :: string
  ak_Headers :: OIDCClaims

text \<open>A JWT provider is known by its issuer, \<open>'j\<close> being its settings.\<close>

datatype provider =
    ApiKeyProvider string ApiKeyConfig
  | JwtProvider string
  | OidcProvider OIDCProvider
  | AnonymousProvider AnonymousConfig

text \<open>The engine's \<^verbatim>\<open>auth.Config\<close>.\<close>

record engine_auth =
  ea_Providers :: "provider list"
  ea_DBApiKeysEnabled :: bool
  ea_LoginUrl :: string
  ea_RedirectUrl :: string
  ea_RedirectLoginPaths :: "string list"

definition empty_engine_auth :: engine_auth where
  "empty_engine_auth = \<lparr>ea_Providers = [], ea_DBApiKeysEnabled = False, ea_LoginUrl = [],
     ea_RedirectUrl = [], ea_RedirectLoginPaths = []\<rparr>"

text \<open>The file; its two Go maps are lists of pairs with distinct keys.\<close>

record 'j ProvidersConfig =
  pc_ManagedAPIKeysEnabled :: bool
  pc_Anonymous :: AnonymousConfig
  pc_APIKeys :: "(string \<times> ApiKeyConfig) list"
  pc_JWT :: "(string \<times> 'j) list"
  pc_OIDC :: OIDCConfig
  pc_RedirectLoginPaths :: string_slice
  pc_LoginUrl :: string
  pc_RedirectUrl :: string
  pc_SecretKey :: string

definition empty_providers :: "'j ProvidersConfig" where
  "empty_providers = \<lparr>pc_ManagedAPIKeysEnabled = False, pc_Anonymous = \<lparr>an_Allowed = False, an_Role = []\<rparr>,
     pc_APIKeys = [], pc_JWT = [], pc_OIDC = empty_oidc, pc_RedirectLoginPaths = no_slice,
     pc_LoginUrl = [], pc_RedirectUrl = [], pc_SecretKey = []\<rparr>"

section \<open>Reading the file\<close>

text \<open>A field that holds a struct: the member is decoded onto the value that is there.\<close>

definition struct_field ::
    "('r \<Rightarrow> 's) \<Rightarrow> (('s \<Rightarrow> 's) \<Rightarrow> 'r \<Rightarrow> 'r) \<Rightarrow> (json \<Rightarrow> 's \<Rightarrow> 's option) \<Rightarrow> json \<Rightarrow> 'r \<Rightarrow> 'r option" where
  "struct_field get upd dec j r = map_option (\<lambda>s. upd (\<lambda>_. s) r) (dec j (get r))"

text \<open>A map: each element is decoded onto a zero value; \<^verbatim>\<open>null\<close> is the nil map.\<close>

fun decode_entries :: "'s \<Rightarrow> (json \<Rightarrow> 's \<Rightarrow> 's option) \<Rightarrow> (string \<times> json) list \<Rightarrow> (string \<times> 's) list \<Rightarrow> (string \<times> 's) list option" where
  "decode_entries zero dec [] m = Some m"
| "decode_entries zero dec ((k, j) # ms) m =
     (case dec j zero of None \<Rightarrow> None | Some s \<Rightarrow> decode_entries zero dec ms (AList.update k s m))"

definition map_field ::
    "('r \<Rightarrow> (string \<times> 's) list) \<Rightarrow> (((string \<times> 's) list \<Rightarrow> (string \<times> 's) list) \<Rightarrow> 'r \<Rightarrow> 'r) \<Rightarrow>
     's \<Rightarrow> (json \<Rightarrow> 's \<Rightarrow> 's option) \<Rightarrow> json \<Rightarrow> 'r \<Rightarrow> 'r option" where
  "map_field get upd zero dec j r =
     (case j of
        JObj ms \<Rightarrow> map_option (\<lambda>m. upd (\<lambda>_. m) r) (decode_entries zero dec ms (get r))
      | JNull \<Rightarrow> Some (upd (\<lambda>_. []) r)
      | _ \<Rightarrow> None)"

text \<open>What the program does not define: the file system, the other packages' decoders, the
  construction of a JWT provider, discovery, and the order of the loops over the two maps.\<close>

record 'j auth_env =
  ae_ReadFile :: "string \<Rightarrow> string option"
  ae_yaml :: "string \<Rightarrow> 'j ProvidersConfig option"
  ae_dec_anonymous :: "json \<Rightarrow> AnonymousConfig \<Rightarrow> AnonymousConfig option"
  ae_dec_api_key :: "json \<Rightarrow> ApiKeyConfig \<Rightarrow> ApiKeyConfig option"
  ae_dec_jwt :: "json \<Rightarrow> 'j \<Rightarrow> 'j option"
  ae_zero_jwt :: 'j
  ae_dec_claims :: "json \<Rightarrow> OIDCClaims \<Rightarrow> OIDCClaims option"
  ae_NewJwt :: "'j \<Rightarrow> string option"
  ae_discover :: "duration \<Rightarrow> bool \<Rightarrow> string \<Rightarrow> bool"
  ae_range_keys :: "(string \<times> ApiKeyConfig) list \<Rightarrow> (string \<times> ApiKeyConfig) list"
  ae_range_jwt :: "(string \<times> 'j) list \<Rightarrow> (string \<times> 'j) list"

definition zero_api_key :: ApiKeyConfig where
  "zero_api_key = \<lparr>ak_Key = [], ak_Header = [], ak_DefaultRole = [],
     ak_Headers = \<lparr>cl_Role = [], cl_UserId = [], cl_UserName = []\<rparr>\<rparr>"

text \<open>The client secret has no JSON name.\<close>

definition oidc_fields :: "(json \<Rightarrow> OIDCClaims \<Rightarrow> OIDCClaims option) \<Rightarrow> OIDCConfig json_fields" where
  "oidc_fields dec_claims =
     [(''issuer'', string_field oi_Issuer_update),
      (''client_id'', string_field oi_ClientID_update),
      (''timeout'', int64_field oi_Timeout_update),
      (''tls_insecure'', bool_field oi_TLSInsecure_update),
      (''cookie_name'', string_field oi_CookieName_update),
      (''scopes'', string_field oi_Scopes_update),
      (''redirect_url'', string_field oi_RedirectURL_update),
      (''scope_role_prefix'', string_field oi_ScopeRolePrefix_update),
      (''claims'', struct_field oi_Claims oi_Claims_update dec_claims)]"

definition providers_fields :: "'j auth_env \<Rightarrow> 'j ProvidersConfig json_fields" where
  "providers_fields env =
     [(''managed_api_keys'', bool_field pc_ManagedAPIKeysEnabled_update),
      (''anonymous'', struct_field pc_Anonymous pc_Anonymous_update (ae_dec_anonymous env)),
      (''api_keys'', map_field pc_APIKeys pc_APIKeys_update zero_api_key (ae_dec_api_key env)),
      (''jwt'', map_field pc_JWT pc_JWT_update (ae_zero_jwt env) (ae_dec_jwt env)),
      (''oidc'', struct_field pc_OIDC pc_OIDC_update (decode_struct (oidc_fields (ae_dec_claims env)))),
      (''redirect_login_paths'', slice_field pc_RedirectLoginPaths pc_RedirectLoginPaths_update),
      (''login_url'', string_field pc_LoginUrl_update),
      (''redirect_url'', string_field pc_RedirectUrl_update),
      (''secret_key'', string_field pc_SecretKey_update)]"

datatype auth_error = ReadFailed | UnmarshalFailed | UnsupportedFormat string | JwtFailed | OidcFailed oidc_error

definition LoadFile :: "'j auth_env \<Rightarrow> string \<Rightarrow> auth_error + 'j ProvidersConfig" where
  "LoadFile env configFile =
     (case ae_ReadFile env configFile of
        None \<Rightarrow> Inl ReadFailed
      | Some b \<Rightarrow>
          if has_suffix configFile ''.json'' then
            (case Option.bind (json_parse b) (\<lambda>j. decode_struct (providers_fields env) j empty_providers) of
               None \<Rightarrow> Inl UnmarshalFailed | Some conf \<Rightarrow> Inr conf)
          else if has_suffix configFile ''.yaml'' \<or> has_suffix configFile ''.yml'' then
            (case ae_yaml env b of None \<Rightarrow> Inl UnmarshalFailed | Some conf \<Rightarrow> Inr conf)
          else Inl (UnsupportedFormat configFile))"

section \<open>The chain of providers\<close>

text \<open>The providers of the file that come first, and the settings it overrides.\<close>

definition file_providers :: "'j auth_env \<Rightarrow> 'j ProvidersConfig \<Rightarrow> provider list option" where
  "file_providers env pc =
     map_option (\<lambda>issuers. map (\<lambda>(name, cfg). ApiKeyProvider name cfg) (ae_range_keys env (pc_APIKeys pc)) @
                            map JwtProvider issuers)
       (all_some (map (\<lambda>(_, jwtConfig). ae_NewJwt env jwtConfig) (ae_range_jwt env (pc_JWT pc))))"

definition merge_file :: "'j ProvidersConfig \<Rightarrow> auth_Config \<Rightarrow> auth_Config" where
  "merge_file pc c =
     (let c1 = (if oi_Issuer (pc_OIDC pc) \<noteq> [] then c\<lparr>au_OIDC := pc_OIDC pc\<rparr> else c);
          c2 = (if an_Allowed (pc_Anonymous pc)
                then c1\<lparr>au_AllowedAnonymous := True, au_AnonymousRole := an_Role (pc_Anonymous pc)\<rparr> else c1);
          c3 = (if pc_SecretKey pc \<noteq> [] then c2\<lparr>au_SecretKey := pc_SecretKey pc\<rparr> else c2)
      in if pc_ManagedAPIKeysEnabled pc then c3\<lparr>au_ManagementApiKeys := True\<rparr> else c3)"

definition secret_provider :: "string \<Rightarrow> provider" where
  "secret_provider key = ApiKeyProvider ''x-hugr-secret''
     \<lparr>ak_Key = key, ak_Header = ''x-hugr-secret-key'', ak_DefaultRole = ''admin'',
      ak_Headers = \<lparr>cl_Role = ''x-hugr-role'', cl_UserId = ''x-hugr-user-id'', cl_UserName = ''x-hugr-user-name''\<rparr>\<rparr>"

text \<open>From the providers so far and the merged settings to the engine's settings.\<close>

definition configure_chain :: "'j auth_env \<Rightarrow> provider list \<Rightarrow> auth_Config \<Rightarrow> auth_error + engine_auth option" where
  "configure_chain env ps c =
     (let ps1 = (if au_SecretKey c \<noteq> [] then ps @ [secret_provider (au_SecretKey c)] else ps) in
      case (if oi_Issuer (au_OIDC c) = [] then Inr ps1
            else case NewOIDCProvider (ae_discover env) (au_OIDC c) of
              Inl e \<Rightarrow> Inl (OidcFailed e)
            | Inr oidc \<Rightarrow> Inr (ps1 @ [OidcProvider oidc])) of
        Inl e \<Rightarrow> Inl e
      | Inr ps2 \<Rightarrow>
          (let ps3 = (if au_AllowedAnonymous c
                      then ps2 @ [AnonymousProvider \<lparr>an_Allowed = True, an_Role = au_AnonymousRole c\<rparr>] else ps2);
               config = empty_engine_auth\<lparr>ea_Providers := ps3, ea_DBApiKeysEnabled := au_ManagementApiKeys c\<rparr>
           in Inr (if ea_Providers config = [] then None else Some config)))"

text \<open>
  \<^verbatim>\<open>Configure\<close> changes its receiver: the pair holds the settings it leaves behind
  and its result, where \<open>None\<close> is the nil configuration without an error.
\<close>

definition Configure :: "'j auth_env \<Rightarrow> auth_Config \<Rightarrow> auth_Config \<times> (auth_error + engine_auth option)" where
  "Configure env c =
     (if au_ConfigFile c = [] then (c, configure_chain env [] c)
      else case LoadFile env (au_ConfigFile c) of
        Inl e \<Rightarrow> (c, Inl e)
      | Inr pc \<Rightarrow>
          (case file_providers env pc of
             None \<Rightarrow> (c, Inl JwtFailed)
           | Some ps \<Rightarrow> (let c' = merge_file pc c in (c', configure_chain env ps c'))))"

definition OIDCEnabled :: "auth_Config \<Rightarrow> bool" where
  "OIDCEnabled c \<longleftrightarrow> oi_Issuer (au_OIDC c) \<noteq> []"

definition AuthConfigHandler :: "auth_Config \<Rightarrow> response_writer \<Rightarrow> response_writer" where
  "AuthConfigHandler c w =
     write_json (json_map [(''issuer'', JStr (oi_Issuer (au_OIDC c))), (''client_id'', JStr (oi_ClientID (au_OIDC c)))])
       (set_header ''Content-Type'' ''application/json'' w)"

section \<open>The logged summary\<close>

definition bool_text :: "bool \<Rightarrow> string" where
  "bool_text b = (if b then ''true'' else ''false'')"

definition provider_line :: "nat \<Rightarrow> provider \<Rightarrow> string" where
  "provider_line i p =
     (case p of
        ApiKeyProvider name cfg \<Rightarrow>
          if name = ''x-hugr-secret'' then ''Provider '' @ itoa (int i) @ '': Type: Secret''
          else ''Auth: Provider '' @ itoa (int i) @ '': Type: APIKey, Name: '' @ name
      | JwtProvider issuer \<Rightarrow> ''Auth: Provider '' @ itoa (int i) @ '': Type: JWT, Issuer: '' @ issuer
      | AnonymousProvider cfg \<Rightarrow>
          ''Auth: Provider '' @ itoa (int i) @ '': Type: Anonymous, Allowed: '' @ bool_text (an_Allowed cfg) @
          '', Role: '' @ an_Role cfg
      | OidcProvider v \<Rightarrow>
          ''Auth: Provider '' @ itoa (int i) @ '': Type: OIDC, Issuer: '' @ oi_Issuer (op_c v) @
          '', ClientID: '' @ oi_ClientID (op_c v))"

definition PrintSummary :: "engine_auth \<Rightarrow> string list" where
  "PrintSummary c =
     [''Auth: Number of providers: '' @ itoa (int (length (ea_Providers c)))] @
     map (\<lambda>(i, p). provider_line i p) (enumerate 0 (ea_Providers c)) @
     (if ea_DBApiKeysEnabled c then [''Auth: Managed API Keys enabled''] else []) @
     (if ea_LoginUrl c \<noteq> [] then [''Auth: LoginUrl: '' @ ea_LoginUrl c] else []) @
     (if ea_RedirectUrl c \<noteq> [] then [''Auth: RedirectUrl: '' @ ea_RedirectUrl c] else []) @
     (if ea_RedirectLoginPaths c \<noteq> []
      then [''Auth: RedirectLoginPaths: ['' @ join '' '' (ea_RedirectLoginPaths c) @ '']''] else [])"

end
