(* ===== verification/Cors.thy ===== *)
theory Cors
  imports Http_Response
begin

text \<open>
  The CORS middleware, \<^verbatim>\<open>pkg/cors/middlewares.go\<close>. A handler is a function from
  the request and the writer to the writer it leaves behind.
\<close>

type_synonym http_handler = "request \<Rightarrow> response_writer \<Rightarrow> response_writer"

record cors_Config =
  co_AllowedOrigins :: "string list"
  co_AllowedHeaders :: "string list"
  co_AllowedMethods :: "string list"

definition cors_defaults :: "cors_Config \<Rightarrow> cors_Config" where
  "cors_defaults c =
     (let c1 = (if co_AllowedHeaders c = []
                then c\<lparr>co_AllowedHeaders := [''Content-Type'', ''Authorization'', ''x-api-key'', ''Accept'',
                        ''Content-Length'', ''Accept-Encoding'', ''X-CSRF-Token'']\<rparr> else c)
      in if co_AllowedMethods c1 = []
         then c1\<lparr>co_AllowedMethods := [''GET'', ''POST'', ''PUT'', ''DELETE'', ''OPTIONS'']\<rparr> else c1)"

definition allow_headers :: "string \<Rightarrow> string \<Rightarrow> string \<Rightarrow> response_writer \<Rightarrow> response_writer" where
  "allow_headers origin headers methods w =
     set_header ''Access-Control-Allow-Credentials'' ''true''
       (set_header ''Access-Control-Allow-Methods'' methods
         (set_header ''Access-Control-Allow-Headers'' headers
           (set_header ''Access-Control-Allow-Origin'' origin w)))"

definition cors_headers :: "cors_Config \<Rightarrow> request \<Rightarrow> response_writer \<Rightarrow> response_writer" where
  "cors_headers c r w =
     (let w1 = (if length (co_AllowedOrigins c) = 1 \<and> co_AllowedOrigins c ! 0 = ''*''
                then allow_headers ''*'' ''*'' ''*'' w else w);
          origin = header_get (req_header r) ''Origin''
      in if origin \<noteq> [] \<and> origin \<in> set (co_AllowedOrigins c)
         then allow_headers origin (join '', '' (co_AllowedHeaders c)) (join '', '' (co_AllowedMethods c)) w1
         else w1)"

definition Middleware :: "cors_Config \<Rightarrow> http_handler \<Rightarrow> http_handler" where
  "Middleware c =
     (if co_AllowedOrigins c = [] then (\<lambda>next. next)
      else let c' = cors_defaults c in
        (\<lambda>next r w. let w' = cors_headers c' r w in
           if req_method r = ''OPTIONS'' then write_header 204 w' else next r w'))"

section \<open>Facts\<close>

lemma cors_names [simp]:
  "canonical_key ''Access-Control-Allow-Origin'' = ''Access-Control-Allow-Origin''"
  "canonical_key ''Access-Control-Allow-Headers'' = ''Access-Control-Allow-Headers''"
  "canonical_key ''Access-Control-Allow-Methods'' = ''Access-Control-Allow-Methods''"
  "canonical_key ''Access-Control-Allow-Credentials'' = ''Access-Control-Allow-Credentials''"
  by code_simp+

lemma cors_defaults_origins [simp]: "co_AllowedOrigins (cors_defaults c) = co_AllowedOrigins c"
  by (simp add: cors_defaults_def Let_def)

text \<open>The origin a response names: the one of the request when it is listed, else a lone star.\<close>

definition allowed_origin :: "cors_Config \<Rightarrow> request \<Rightarrow> string" where
  "allowed_origin c r =
     (let origin = header_get (req_header r) ''Origin'' in
      if origin \<noteq> [] \<and> origin \<in> set (co_AllowedOrigins c) then origin
      else if co_AllowedOrigins c = [''*''] then ''*'' else [])"

lemma lone_star: "length xs = 1 \<and> xs ! 0 = x \<longleftrightarrow> xs = [x]"
  by (cases xs) auto

lemma allow_headers_simps [simp]:
  "rw_status (allow_headers a h m w) = rw_status w" "rw_body (allow_headers a h m w) = rw_body w"
  "header_get (rw_header (allow_headers a h m w)) ''Access-Control-Allow-Origin'' = a"
  "header_get (rw_header (allow_headers a h m w)) ''Access-Control-Allow-Headers'' = h"
  "header_get (rw_header (allow_headers a h m w)) ''Access-Control-Allow-Methods'' = m"
  "header_get (rw_header (allow_headers a h m w)) ''Access-Control-Allow-Credentials'' = ''true''"
  by (simp_all add: allow_headers_def)

lemma cors_headers_simps [simp]:
  "rw_status (cors_headers c r w) = rw_status w" "rw_body (cors_headers c r w) = rw_body w"
  by (simp_all add: cors_headers_def Let_def)

lemma cors_headers_origin:
  "header_get (rw_header (cors_headers c r new_writer)) ''Access-Control-Allow-Origin'' = allowed_origin c r"
  "header_get (rw_header (cors_headers c r new_writer)) ''Access-Control-Allow-Credentials'' =
     (if allowed_origin c r = [] then [] else ''true'')"
  unfolding cors_headers_def allowed_origin_def lone_star Let_def by simp_all

section \<open>Properties\<close>

text \<open>C27: every preflight request is answered by the middleware itself with 204 and no body,
  whatever the inner handler is and whether or not the origin is allowed. The response names the
  request's origin exactly when it is listed, the star exactly when it is the only entry, and
  credentials are allowed exactly when an origin is named, the star included.\<close>

theorem preflight_answer:
  assumes "co_AllowedOrigins c \<noteq> []" and "req_method r = ''OPTIONS''"
  shows "response_status (Middleware c next r new_writer) = 204 \<and> rw_body (Middleware c next r new_writer) = [] \<and>
    response_header (Middleware c next r new_writer) ''Access-Control-Allow-Origin'' = allowed_origin c r \<and>
    response_header (Middleware c next r new_writer) ''Access-Control-Allow-Credentials'' =
      (if allowed_origin c r = [] then [] else ''true'')"
proof -
  have m: "Middleware c next r new_writer = write_header 204 (cors_headers (cors_defaults c) r new_writer)"
    using assms by (simp add: Middleware_def Let_def)
  have o: "allowed_origin (cors_defaults c) r = allowed_origin c r" by (simp add: allowed_origin_def)
  show ?thesis
    unfolding m response_status_def response_header_def by (simp add: cors_headers_origin o)
qed

definition example_preflight :: request where
  "example_preflight = \<lparr>req_method = ''OPTIONS'', req_tls = False, req_host = ''h'',
     req_header = [(''Origin'', [''http://a''])], req_path = ''/'', req_raw_query = [], req_body = []\<rparr>"

theorem preflight_answer_witness:
  "response_header (Middleware \<lparr>co_AllowedOrigins = [''http://b'', ''http://a''], co_AllowedHeaders = [], co_AllowedMethods = []\<rparr>
     (\<lambda>r w. w) example_preflight new_writer) ''Access-Control-Allow-Origin'' = ''http://a''"
proof -
  let ?c = "\<lparr>co_AllowedOrigins = [''http://b'', ''http://a''], co_AllowedHeaders = [], co_AllowedMethods = []\<rparr>"
  have "allowed_origin ?c example_preflight = ''http://a''" by code_simp
  then show ?thesis using preflight_answer [of ?c example_preflight "\<lambda>r w. w"] by (simp add: example_preflight_def)
qed

text \<open>An origin that is not allowed gets nothing from the middleware: for any other request
  the inner handler sees request and writer exactly as without it; an allowed one reaches the same
  handler with the four headers set; and without origins the middleware is the identity.\<close>

theorem middleware_transparent:
  assumes "req_method r \<noteq> ''OPTIONS''"
  shows "Middleware c next r w =
    (if co_AllowedOrigins c = [] \<or> allowed_origin c r = [] then next r w
     else next r (if header_get (req_header r) ''Origin'' \<in> set (co_AllowedOrigins c) - {[]}
                  then cors_headers (cors_defaults c) r w
                  else allow_headers ''*'' ''*'' ''*'' w))"
  unfolding Middleware_def cors_headers_def allowed_origin_def lone_star Let_def using assms by auto

theorem middleware_transparent_witness:
  "Middleware \<lparr>co_AllowedOrigins = [''http://b''], co_AllowedHeaders = [], co_AllowedMethods = []\<rparr>
     (\<lambda>r. write_header 404) (example_preflight\<lparr>req_method := ''GET''\<rparr>) new_writer = write_header 404 new_writer"
proof -
  have "req_method (example_preflight\<lparr>req_method := ''GET''\<rparr>) \<noteq> ''OPTIONS''" by simp
  moreover have "allowed_origin \<lparr>co_AllowedOrigins = [''http://b''], co_AllowedHeaders = [], co_AllowedMethods = []\<rparr>
      (example_preflight\<lparr>req_method := ''GET''\<rparr>) = []" by code_simp
  ultimately show ?thesis using middleware_transparent by simp
qed

end
