(* ===== verification/Server_Config.thy ===== *)
theory Server_Config
  imports Auth_Config Cors
begin

text \<open>
  The settings of the server, \<^verbatim>\<open>cmd/server/config.go\<close>: the defaults
  \<^verbatim>\<open>initEnvs\<close> registers and the whole of \<^verbatim>\<open>loadConfig\<close>. Viper is modelled
  as far as the program relies on it: a key has the value of a non-empty environment variable,
  else its default, else nothing. How viper converts a value to a type is a parameter.
\<close>

section \<open>Viper\<close>

datatype setting = SetString string | SetBool bool | SetInt int | SetDuration duration

record viper =
  vp_env :: "string \<Rightarrow> string"
  vp_defaults :: "(string \<times> setting) list"
  vp_cast_string :: "setting option \<Rightarrow> string"
  vp_cast_bool :: "setting option \<Rightarrow> bool"
  vp_cast_int :: "setting option \<Rightarrow> int"
  vp_cast_duration :: "setting option \<Rightarrow> duration"
  vp_cast_slice :: "setting option \<Rightarrow> string list"

definition viper_find :: "viper \<Rightarrow> string \<Rightarrow> setting option" where
  "viper_find v key = (if vp_env v key \<noteq> [] then Some (SetString (vp_env v key)) else map_of (vp_defaults v) key)"

definition GetString :: "viper \<Rightarrow> string \<Rightarrow> string" where "GetString v key = vp_cast_string v (viper_find v key)"
definition GetBool :: "viper \<Rightarrow> string \<Rightarrow> bool" where "GetBool v key = vp_cast_bool v (viper_find v key)"
definition GetInt :: "viper \<Rightarrow> string \<Rightarrow> int" where "GetInt v key = vp_cast_int v (viper_find v key)"
definition GetDuration :: "viper \<Rightarrow> string \<Rightarrow> duration" where "GetDuration v key = vp_cast_duration v (viper_find v key)"
definition GetStringSlice :: "viper \<Rightarrow> string \<Rightarrow> string list" where "GetStringSlice v key = vp_cast_slice v (viper_find v key)"

text \<open>\<^verbatim>\<open>SetDefault\<close>; a later default replaces an earlier one.\<close>

definition SetDefault :: "string \<times> setting \<Rightarrow> viper \<Rightarrow> viper" where
  "SetDefault d v = v\<lparr>vp_defaults := d # vp_defaults v\<rparr>"

definition server_defaults :: "(string \<times> setting) list" where
  "server_defaults =
     [(''BIND'', SetString '':15000''), (''ADMIN_UI'', SetBool True), (''ADMIN_UI_FETCH_PATH'', SetString []),
      (''DEBUG'', SetBool False), (''ALLOW_PARALLEL'', SetBool True), (''MAX_PARALLEL_QUERIES'', SetInt 0),
      (''MAX_DEPTH'', SetInt 0), (''SCHEMA_CACHE_MAX_ENTRIES'', SetInt 0), (''SCHEMA_CACHE_TTL'', SetString ''0s''),
      (''MCP_ENABLED'', SetBool False), (''DB_TIMEZONE'', SetString []), (''DB_PATH'', SetString []),
      (''DB_MAX_OPEN_CONNS'', SetInt 0), (''DB_MAX_IDLE_CONNS'', SetInt 0), (''ALLOWED_ANONYMOUS'', SetBool True),
      (''ANONYMOUS_ROLE'', SetString ''admin''), (''CLUSTER_ENABLED'', SetBool False), (''CLUSTER_ROLE'', SetString []),
      (''CLUSTER_HEARTBEAT'', SetDuration (30 * second)), (''CLUSTER_GHOST_TTL'', SetDuration (2 * 60 * second)),
      (''CLUSTER_POLL_INTERVAL'', SetDuration (30 * second)), (''OIDC_CLIENT_SECRET'', SetString []),
      (''OIDC_SCOPES'', SetString ''openid profile email''), (''OIDC_REDIRECT_URL'', SetString []),
      (''MCP_OAUTH_CLIENT_ID'', SetString []), (''MCP_OAUTH_CLIENT_SECRET'', SetString []),
      (''HUGR_APP_HEARTBEAT_INTERVAL'', SetString ''30s''), (''HUGR_APP_HEARTBEAT_TIMEOUT'', SetString ''10s''),
      (''HUGR_APP_HEARTBEAT_RETRIES'', SetInt 3), (''TLS_CERT_FILE'', SetString []), (''TLS_KEY_FILE'', SetString [])]"

text \<open>The environment is the one \<^verbatim>\<open>godotenv.Overload\<close> leaves.\<close>

definition initEnvs :: "viper \<Rightarrow> viper" where
  "initEnvs v = fold SetDefault server_defaults v"

section \<open>The records\<close>

record ClusterConfig =
  cc_Enabled :: bool
  cc_Role :: string
  cc_NodeName :: string
  cc_NodeURL :: string
  cc_Secret :: string
  cc_Heartbeat :: duration
  cc_GhostTTL :: duration
  cc_PollInterval :: duration

record DBSettings =
  ds_Timezone :: string
  ds_HomeDirectory :: string
  ds_AllowedDirectories :: "string list"
  ds_AllowedPaths :: "string list"
  ds_EnableLogging :: bool
  ds_MaxMemory :: int
  ds_MaxTempDirectorySize :: int
  ds_TempDirectory :: string
  ds_WorkerThreads :: int
  ds_PGConnectionLimit :: int
  ds_PGPagesPerTask :: int

record DBConfig =
  db_Path :: string
  db_MaxOpenConns :: int
  db_MaxIdleConns :: int
  db_Settings :: DBSettings

record CoreDBConfig =
  cd_Path :: string
  cd_VectorSize :: int
  cd_ReadOnly :: bool
  cd_S3Endpoint :: string
  cd_S3Region :: string
  cd_S3Key :: string
  cd_S3Secret :: string
  cd_S3UseSSL :: bool

record L1Config =
  l1_Enabled :: bool
  l1_MaxSize :: int
  l1_MaxItemSize :: int
  l1_Shards :: int
  l1_CleanTime :: duration
  l1_EvictionTime :: duration

record L2Config =
  l2_Enabled :: bool
  l2_Backend :: string
  l2_Addresses :: "string list"
  l2_Database :: int
  l2_Username :: string
  l2_Password :: string

record CacheConfig =
  ca_TTL :: duration
  ca_L1 :: L1Config
  ca_L2 :: L2Config

record EmbedderConfig =
  em_URL :: string
  em_VectorSize :: int

record HeartbeatConfig =
  hb_Interval :: duration
  hb_Timeout :: duration
  hb_MaxRetries :: int

record server_Config =
  sc_Bind :: string
  sc_ServiceBind :: string
  sc_Cluster :: ClusterConfig
  sc_EnableAdminUI :: bool
  sc_AdminUIFetchPath :: string
  sc_DebugMode :: bool
  sc_HttpProfiling :: bool
  sc_AllowParallel :: bool
  sc_MaxParallelQueries :: int
  sc_MaxDepthInTypes :: int
  sc_SchemaCacheMaxEntries :: int
  sc_SchemaCacheTTL :: duration
  sc_MCPEnabled :: bool
  sc_DB :: DBConfig
  sc_CoreDB :: CoreDBConfig
  sc_Cors :: cors_Config
  sc_Auth :: auth_Config
  sc_Cache :: CacheConfig
  sc_Embedder :: EmbedderConfig
  sc_Heartbeat :: HeartbeatConfig
  sc_TLSCertFile :: string
  sc_TLSKeyFile :: string
  sc_MCPOAuthClientID :: string
  sc_MCPOAuthClientSecret :: string

section \<open>Loading\<close>

definition loadCluster :: "viper \<Rightarrow> ClusterConfig" where
  "loadCluster v = \<lparr>cc_Enabled = GetBool v ''CLUSTER_ENABLED'',
     cc_Role = GetString v ''CLUSTER_ROLE'',
     cc_NodeName = GetString v ''CLUSTER_NODE_NAME'',
     cc_NodeURL = GetString v ''CLUSTER_NODE_URL'',
     cc_Secret = GetString v ''CLUSTER_SECRET'',
     cc_Heartbeat = GetDuration v ''CLUSTER_HEARTBEAT'',
     cc_GhostTTL = GetDuration v ''CLUSTER_GHOST_TTL'',
     cc_PollInterval = GetDuration v ''CLUSTER_POLL_INTERVAL''\<rparr>"

definition loadDBSettings :: "viper \<Rightarrow> DBSettings" where
  "loadDBSettings v = \<lparr>ds_Timezone = GetString v ''DB_TIMEZONE'',
     ds_HomeDirectory = GetString v ''DB_HOME_DIRECTORY'',
     ds_AllowedDirectories = GetStringSlice v ''DB_ALLOWED_DIRECTORIES'',
     ds_AllowedPaths = GetStringSlice v ''DB_ALLOWED_PATHS'',
     ds_EnableLogging = GetBool v ''DB_ENABLE_LOGGING'',
     ds_MaxMemory = GetInt v ''DB_MAX_MEMORY'',
     ds_MaxTempDirectorySize = GetInt v ''DB_MAX_TEMP_DIRECTORY_SIZE'',
     ds_TempDirectory = GetString v ''DB_TEMP_DIRECTORY'',
     ds_WorkerThreads = GetInt v ''DB_WORKER_THREADS'',
     ds_PGConnectionLimit = GetInt v ''DB_PG_CONNECTION_LIMIT'',
     ds_PGPagesPerTask = GetInt v ''DB_PG_PAGES_PER_TASK''\<rparr>"

definition loadDB :: "viper \<Rightarrow> DBConfig" where
  "loadDB v = \<lparr>db_Path = GetString v ''DB_PATH'',
     db_MaxOpenConns = GetInt v ''DB_MAX_OPEN_CONNS'',
     db_MaxIdleConns = GetInt v ''DB_MAX_IDLE_CONNS'',
     db_Settings = loadDBSettings v\<rparr>"

definition loadCoreDB :: "viper \<Rightarrow> CoreDBConfig" where
  "loadCoreDB v = \<lparr>cd_Path = GetString v ''CORE_DB_PATH'',
     cd_VectorSize = GetInt v ''EMBEDDER_VECTOR_SIZE'',
     cd_ReadOnly = GetBool v ''CORE_DB_READONLY'',
     cd_S3Endpoint = GetString v ''CORE_DB_S3_ENDPOINT'',
     cd_S3Region = GetString v ''CORE_DB_S3_REGION'',
     cd_S3Key = GetString v ''CORE_DB_S3_KEY'',
     cd_S3Secret = GetString v ''CORE_DB_S3_SECRET'',
     cd_S3UseSSL = GetBool v ''CORE_DB_S3_USE_SSL''\<rparr>"

definition loadL1 :: "viper \<Rightarrow> L1Config" where
  "loadL1 v = \<lparr>l1_Enabled = GetBool v ''CACHE_L1_ENABLED'',
     l1_MaxSize = GetInt v ''CACHE_L1_MAX_SIZE'',
     l1_MaxItemSize = GetInt v ''CACHE_L1_MAX_ITEM_SIZE'',
     l1_Shards = GetInt v ''CACHE_L1_SHARDS'',
     l1_CleanTime = GetDuration v ''CACHE_L1_CLEAN_TIME'',
     l1_EvictionTime = GetDuration v ''CACHE_L1_EVICTION_TIME''\<rparr>"

definition loadL2 :: "viper \<Rightarrow> L2Config" where
  "loadL2 v = \<lparr>l2_Enabled = GetBool v ''CACHE_L2_ENABLED'',
     l2_Backend = GetString v ''CACHE_L2_BACKEND'',
     l2_Addresses = GetStringSlice v ''CACHE_L2_ADDRESSES'',
     l2_Database = GetInt v ''CACHE_L2_DATABASE'',
     l2_Username = GetString v ''CACHE_L2_USERNAME'',
     l2_Password = GetString v ''CACHE_L2_PASSWORD''\<rparr>"

definition loadCache :: "viper \<Rightarrow> CacheConfig" where
  "loadCache v = \<lparr>ca_TTL = GetDuration v ''CACHE_TTL'',
     ca_L1 = loadL1 v,
     ca_L2 = loadL2 v\<rparr>"

definition loadEmbedder :: "viper \<Rightarrow> EmbedderConfig" where
  "loadEmbedder v = \<lparr>em_URL = GetString v ''EMBEDDER_URL'',
     em_VectorSize = GetInt v ''EMBEDDER_VECTOR_SIZE''\<rparr>"

definition loadHeartbeat :: "viper \<Rightarrow> HeartbeatConfig" where
  "loadHeartbeat v = \<lparr>hb_Interval = GetDuration v ''HUGR_APP_HEARTBEAT_INTERVAL'',
     hb_Timeout = GetDuration v ''HUGR_APP_HEARTBEAT_TIMEOUT'',
     hb_MaxRetries = GetInt v ''HUGR_APP_HEARTBEAT_RETRIES''\<rparr>"

definition loadCors :: "viper \<Rightarrow> cors_Config" where
  "loadCors v = \<lparr>co_AllowedOrigins = GetStringSlice v ''CORS_ALLOWED_ORIGINS'',
     co_AllowedHeaders = GetStringSlice v ''CORS_ALLOWED_HEADERS'',
     co_AllowedMethods = GetStringSlice v ''CORS_ALLOWED_METHODS''\<rparr>"

definition loadOIDC :: "viper \<Rightarrow> OIDCConfig" where
  "loadOIDC v = \<lparr>oi_Issuer = GetString v ''OIDC_ISSUER'',
     oi_ClientID = GetString v ''OIDC_CLIENT_ID'',
     oi_ClientSecret = GetString v ''OIDC_CLIENT_SECRET'',
     oi_Timeout = GetDuration v ''OIDC_TIMEOUT'',
     oi_TLSInsecure = GetBool v ''OIDC_TLS_INSECURE'',
     oi_CookieName = GetString v ''OIDC_COOKIE_NAME'',
     oi_Scopes = GetString v ''OIDC_SCOPES'',
     oi_RedirectURL = GetString v ''OIDC_REDIRECT_URL'',
     oi_ScopeRolePrefix = GetString v ''OIDC_SCOPE_ROLE_PREFIX'',
     oi_Claims = \<lparr>cl_Role = GetString v ''OIDC_ROLE_CLAIM'', cl_UserId = GetString v ''OIDC_USERID_CLAIM'',
         cl_UserName = GetString v ''OIDC_USERNAME_CLAIM''\<rparr>\<rparr>"

definition loadAuth :: "viper \<Rightarrow> auth_Config" where
  "loadAuth v = \<lparr>au_ManagementApiKeys = GetBool v ''ALLOW_MANAGED_API_KEYS'',
     au_AllowedAnonymous = GetBool v ''ALLOWED_ANONYMOUS'',
     au_AnonymousRole = GetString v ''ANONYMOUS_ROLE'',
     au_OIDC = loadOIDC v,
     au_SecretKey = GetString v ''SECRET_KEY'',
     au_ConfigFile = GetString v ''AUTH_CONFIG_FILE''\<rparr>"

definition loadConfig :: "viper \<Rightarrow> server_Config" where
  "loadConfig v = \<lparr>sc_Bind = GetString v ''BIND'',
     sc_ServiceBind = GetString v ''SERVICE_BIND'',
     sc_Cluster = loadCluster v,
     sc_EnableAdminUI = GetBool v ''ADMIN_UI'',
     sc_AdminUIFetchPath = GetString v ''ADMIN_UI_FETCH_PATH'',
     sc_DebugMode = GetBool v ''DEBUG'',
     sc_HttpProfiling = GetBool v ''HTTP_PROFILING'',
     sc_AllowParallel = GetBool v ''ALLOW_PARALLEL'',
     sc_MaxParallelQueries = GetInt v ''MAX_PARALLEL_QUERIES'',
     sc_MaxDepthInTypes = GetInt v ''MAX_DEPTH'',
     sc_SchemaCacheMaxEntries = GetInt v ''SCHEMA_CACHE_MAX_ENTRIES'',
     sc_SchemaCacheTTL = GetDuration v ''SCHEMA_CACHE_TTL'',
     sc_MCPEnabled = GetBool v ''MCP_ENABLED'',
     sc_DB = loadDB v,
     sc_CoreDB = loadCoreDB v,
     sc_Cors = loadCors v,
     sc_Auth = loadAuth v,
     sc_Cache = loadCache v,
     sc_Embedder = loadEmbedder v,
     sc_Heartbeat = loadHeartbeat v,
     sc_TLSCertFile = GetString v ''TLS_CERT_FILE'',
     sc_TLSKeyFile = GetString v ''TLS_KEY_FILE'',
     sc_MCPOAuthClientID = GetString v ''MCP_OAUTH_CLIENT_ID'',
     sc_MCPOAuthClientSecret = GetString v ''MCP_OAUTH_CLIENT_SECRET''\<rparr>"

end
