(* ===== verification/Go_Mux.thy ===== *)
theory Go_Mux
  imports Go_Http
begin

text \<open>
  \<^verbatim>\<open>http.ServeMux\<close> for the patterns the program registers: an optional method and
  an exact path, or \<^verbatim>\<open>/\<close> for every path. The registration of routes is an
  interface of its own, the locale \<open>route_table\<close>; both servers use it.
\<close>

section \<open>Registration\<close>

text \<open>Routes are registered in sequence; registering the same pattern twice panics.\<close>

fun register_all :: "('k \<Rightarrow> 'h \<Rightarrow> 't \<Rightarrow> 't option) \<Rightarrow> ('k \<times> 'h) list \<Rightarrow> 't \<Rightarrow> 't option" where
  "register_all reg [] t = Some t"
| "register_all reg ((k, h) # ps) t = (case reg k h t of None \<Rightarrow> None | Some t' \<Rightarrow> register_all reg ps t')"

locale route_table =
  fixes register :: "'k \<Rightarrow> 'h \<Rightarrow> 't \<Rightarrow> 't option"
    and route :: "'t \<Rightarrow> 'k \<Rightarrow> 'h option"
  assumes register_twice: "register k h t = None \<longleftrightarrow> route t k \<noteq> None"
    and register_route: "register k h t = Some t' \<Longrightarrow> route t' = (route t)(k \<mapsto> h)"
begin

lemma register_all_route:
  "register_all register ps t = Some t' \<Longrightarrow>
   route t' k = (case map_of ps k of Some h \<Rightarrow> Some h | None \<Rightarrow> route t k)"
proof (induction ps arbitrary: t)
  case (Cons p ps)
  obtain k1 h where p: "p = (k1, h)" by (cases p)
  with Cons.prems obtain t1 where t1: "register k1 h t = Some t1" "register_all register ps t1 = Some t'"
    by (auto split: option.splits)
  have "k1 \<notin> dom (map_of ps)"
  proof
    assume "k1 \<in> dom (map_of ps)"
    then have "k1 \<in> fst ` set ps" by (simp add: dom_map_of_conv_image_fst)
    moreover have "route t1 k1 \<noteq> None" using register_route [OF t1(1)] by simp
    ultimately have "register_all register ps t1 = None"
    proof (induction ps arbitrary: t1)
      case (Cons q qs)
      obtain k2 h2 where q: "q = (k2, h2)" by (cases q)
      show ?case
      proof (cases "register k2 h2 t1")
        case (Some t2)
        then have "k2 \<noteq> k1" using register_twice [of k2 h2 t1] Cons.prems(2) by auto
        then show ?thesis
          using Some q Cons.IH [of t2] Cons.prems register_route [OF Some] by auto
      qed (simp add: q)
    qed simp
    then show False using t1(2) by simp
  qed
  then show ?case
    using Cons.IH [OF t1(2)] register_route [OF t1(1)] p by (auto split: option.splits)
qed simp

text \<open>A sequence of registrations goes through exactly when no pattern is taken or repeated.\<close>

lemma register_all_ok:
  "register_all register ps t \<noteq> None \<longleftrightarrow>
   distinct (map fst ps) \<and> (\<forall>k \<in> fst ` set ps. route t k = None)"
proof (induction ps arbitrary: t)
  case (Cons p ps)
  obtain k h where p: "p = (k, h)" by (cases p)
  show ?case
  proof (cases "register k h t")
    case None
    then show ?thesis using register_twice [of k h t] p by auto
  next
    case (Some t1)
    then have "route t k = None" using register_twice [of k h t] by auto
    then show ?thesis
      using Some Cons.IH [of t1] register_route [OF Some] p by (auto simp: image_iff)
  qed
qed simp

end

section \<open>The multiplexer\<close>

text \<open>A pattern is a method, empty for every method, and a path.\<close>

type_synonym pattern = "string \<times> string"
type_synonym 'h mux = "(pattern \<times> 'h) list"

definition mux_handle :: "pattern \<Rightarrow> 'h \<Rightarrow> 'h mux \<Rightarrow> 'h mux option" where
  "mux_handle k h mux = (if map_of mux k \<noteq> None then None else Some ((k, h) # mux))"

interpretation mux_routes: route_table mux_handle map_of
  by unfold_locales (auto simp: mux_handle_def split: if_splits)

text \<open>The paths of one method: an exact path goes before \<^verbatim>\<open>/\<close>.\<close>

definition method_route :: "'h mux \<Rightarrow> string \<Rightarrow> string \<Rightarrow> 'h option" where
  "method_route mux m path =
     (case map_of mux (m, path) of Some h \<Rightarrow> Some h | None \<Rightarrow> map_of mux (m, ''/''))"

text \<open>\<^verbatim>\<open>matchMethodAndPath\<close>: the method itself, GET for HEAD, then every method.\<close>

definition mux_match :: "'h mux \<Rightarrow> string \<Rightarrow> string \<Rightarrow> 'h option" where
  "mux_match mux m path =
     (case method_route mux m path of
        Some h \<Rightarrow> Some h
      | None \<Rightarrow>
          (case (if m = ''HEAD'' then method_route mux ''GET'' path else None) of
             Some h \<Rightarrow> Some h
           | None \<Rightarrow> method_route mux [] path))"

text \<open>\<^verbatim>\<open>cleanPath\<close>.\<close>

definition clean_url_path :: "string \<Rightarrow> string" where
  "clean_url_path p =
     (if p = [] then ''/''
      else let q = (if hd p = CHR ''/'' then p else CHR ''/'' # p); c = path_clean q
           in if last q = CHR ''/'' \<and> c \<noteq> ''/'' then c @ ''/'' else c)"

datatype 'h mux_result = MuxFound 'h | MuxRedirect string | MuxNotAllowed "string list" | MuxNotFound

text \<open>
  What a request is answered with: an unclean path is redirected, a path served for other
  methods only is not allowed. The methods are those of the patterns that match the path.
\<close>

definition matching_methods :: "'h mux \<Rightarrow> string \<Rightarrow> string list" where
  "matching_methods mux path =
     (let ms = remdups (map (\<lambda>((m, p), h). m) (filter (\<lambda>((m, p), h). p = path \<or> p = ''/'') mux))
      in sort_by compare_strings (if ''GET'' \<in> set ms \<and> ''HEAD'' \<notin> set ms then ''HEAD'' # ms else ms))"

definition mux_find :: "'h mux \<Rightarrow> string \<Rightarrow> string \<Rightarrow> 'h mux_result" where
  "mux_find mux m path =
     (let clean = clean_url_path path in
      if m \<noteq> ''CONNECT'' \<and> clean \<noteq> path then MuxRedirect clean
      else case mux_match mux m path of
        Some h \<Rightarrow> MuxFound h
      | None \<Rightarrow> if matching_methods mux path \<noteq> [] then MuxNotAllowed (matching_methods mux path) else MuxNotFound)"

text \<open>Serving: \<open>redirect\<close> answers an unclean path, \<open>serve\<close> runs a handler.\<close>

definition mux_serve ::
    "(string \<Rightarrow> request \<Rightarrow> response_writer \<Rightarrow> response_writer) \<Rightarrow> ('h \<Rightarrow> request \<Rightarrow> response_writer \<Rightarrow> response_writer) \<Rightarrow>
     'h mux \<Rightarrow> request \<Rightarrow> response_writer \<Rightarrow> response_writer" where
  "mux_serve redirect serve mux r w =
     (case mux_find mux (req_method r) (req_path r) of
        MuxFound h \<Rightarrow> serve h r w
      | MuxRedirect p \<Rightarrow> redirect p r w
      | MuxNotAllowed ms \<Rightarrow> http_error ''Method Not Allowed'' 405 (set_header ''Allow'' (join '', '' ms) w)
      | MuxNotFound \<Rightarrow> http_error ''404 page not found'' 404 w)"

section \<open>Facts the servers use\<close>

lemma mux_find_clean:
  "clean_url_path path = path \<Longrightarrow> mux_match mux m path = Some h \<Longrightarrow> mux_find mux m path = MuxFound h"
  by (simp add: mux_find_def)

text \<open>With a handler for every path and method, a clean path always has one.\<close>

lemma mux_match_total: "map_of mux ([], ''/'') \<noteq> None \<Longrightarrow> mux_match mux m path \<noteq> None"
  by (auto simp: mux_match_def method_route_def split: option.splits)

lemma mux_Nil [simp]: "mux_match [] m path = None" "matching_methods [] path = []"
  by (simp_all add: mux_match_def method_route_def matching_methods_def sort_by_def)

end
