(* ===== verification/Service.thy ===== *)
theory Service
  imports Go_Mux Http_Response
begin

text \<open>
  The service endpoint, \<^verbatim>\<open>pkg/service/service.go\<close>: a second server for health and
  metrics, as a state machine of starting, stopping and serving. The Prometheus handler and the
  answer of \<^verbatim>\<open>Shutdown\<close> are parameters; a panic is \<open>None\<close>.
\<close>

section \<open>The service\<close>

datatype service_handler = Health | Metrics

record http_server =
  srv_Addr :: string
  srv_Handler :: "service_handler mux"
  srv_down :: bool

record Service =
  sv_bind :: string
  sv_mux :: "service_handler mux"
  sv_srv :: "http_server option"

definition new_service :: "string \<Rightarrow> Service" where
  "new_service bind = \<lparr>sv_bind = bind, sv_mux = [], sv_srv = None\<rparr>"

definition service_routes :: "(pattern \<times> service_handler) list" where
  "service_routes = [(([], ''/health''), Health), (([], ''/metrics''), Metrics)]"

definition Start :: "Service \<Rightarrow> Service option" where
  "Start s =
     (if sv_bind s = [] then Some s
      else case register_all mux_handle service_routes (sv_mux s) of
        None \<Rightarrow> None
      | Some mux \<Rightarrow> Some (s\<lparr>sv_mux := mux, sv_srv := Some \<lparr>srv_Addr = sv_bind s, srv_Handler = mux, srv_down = False\<rparr>\<rparr>))"

text \<open>What the goroutine of \<^verbatim>\<open>Start\<close> logs, by the answer of \<^verbatim>\<open>ListenAndServe\<close>.\<close>

datatype listen_result = ServerClosed | ListenError string | ListenNil

definition listen_log :: "string \<Rightarrow> listen_result \<Rightarrow> string list" where
  "listen_log bind res =
     (''Starting service server on '' @ bind) #
     (case res of
        ServerClosed \<Rightarrow> [''Service server closed'']
      | ListenError e \<Rightarrow> [''Error starting service: '' @ e]
      | ListenNil \<Rightarrow> [])"

text \<open>\<open>ok\<close> is whether \<^verbatim>\<open>Shutdown\<close> ends in time; the server is down either way.\<close>

definition Stop :: "bool \<Rightarrow> Service \<Rightarrow> Service \<times> bool" where
  "Stop ok s =
     (case sv_srv s of
        None \<Rightarrow> (s, True)
      | Some srv \<Rightarrow> (s\<lparr>sv_srv := Some (srv\<lparr>srv_down := True\<rparr>)\<rparr>, ok))"

definition service_handle ::
    "(request \<Rightarrow> response_writer \<Rightarrow> response_writer) \<Rightarrow> service_handler \<Rightarrow> request \<Rightarrow> response_writer \<Rightarrow> response_writer" where
  "service_handle metrics h r w =
     (case h of Health \<Rightarrow> write_body ''OK'' (write_header 200 w) | Metrics \<Rightarrow> metrics r w)"

definition ServeHTTP ::
    "(string \<Rightarrow> request \<Rightarrow> response_writer \<Rightarrow> response_writer) \<Rightarrow> (request \<Rightarrow> response_writer \<Rightarrow> response_writer) \<Rightarrow>
     Service \<Rightarrow> request \<Rightarrow> response_writer \<Rightarrow> response_writer" where
  "ServeHTTP redirect metrics s r w = mux_serve redirect (service_handle metrics) (sv_mux s) r w"

section \<open>Its runs\<close>

datatype service_event = EvStart | EvStop bool

inductive service_step :: "Service \<Rightarrow> service_event \<Rightarrow> Service \<Rightarrow> bool" where
  step_start: "Start s = Some s' \<Longrightarrow> service_step s EvStart s'"
| step_stop: "fst (Stop ok s) = s' \<Longrightarrow> service_step s (EvStop ok) s'"

inductive service_reachable :: "string \<Rightarrow> Service \<Rightarrow> bool" for bind :: string where
  reach_new: "service_reachable bind (new_service bind)"
| reach_step: "service_reachable bind s \<Longrightarrow> service_step s e s' \<Longrightarrow> service_reachable bind s'"

inductive_cases service_stepE: "service_step s e s'"
inductive_simps service_start_simp [simp]: "service_step s EvStart s'"
inductive_simps service_stop_simp [simp]: "service_step s (EvStop ok) s'"

section \<open>The invariant\<close>

text \<open>The routes are registered exactly when there is a server, which needs an address.\<close>

definition service_inv :: "string \<Rightarrow> Service \<Rightarrow> bool" where
  "service_inv bind s \<longleftrightarrow> sv_bind s = bind \<and>
     (case sv_srv s of
        None \<Rightarrow> sv_mux s = []
      | Some srv \<Rightarrow> bind \<noteq> [] \<and> srv_Addr srv = bind \<and> srv_Handler srv = sv_mux s \<and>
          map_of (sv_mux s) = map_of service_routes)"

lemma routes_registered:
  "register_all mux_handle service_routes [] = Some (rev service_routes)"
  "map_of (rev service_routes) = map_of service_routes"
  by (auto simp: service_routes_def mux_handle_def)

lemma Start_again: "sv_bind s \<noteq> [] \<Longrightarrow> map_of (sv_mux s) = map_of service_routes \<Longrightarrow> Start s = None"
  using mux_routes.register_all_ok [of service_routes "sv_mux s"]
  by (auto simp: Start_def service_routes_def split: option.splits)

lemma service_inv_start:
  assumes "service_inv bind s" "Start s = Some s'"
  shows "service_inv bind s'"
proof (cases "sv_srv s")
  case None
  then show ?thesis
    using assms routes_registered by (auto simp: service_inv_def Start_def split: if_splits)
next
  case (Some srv)
  then show ?thesis using assms Start_again [of s] by (auto simp: service_inv_def)
qed

lemma service_inv_step: "service_step s e s' \<Longrightarrow> service_inv bind s \<Longrightarrow> service_inv bind s'"
  by (erule service_stepE) (auto simp: service_inv_start, auto simp: service_inv_def Stop_def split: option.splits)

lemma service_inv_reachable: "service_reachable bind s \<Longrightarrow> service_inv bind s"
proof (induction rule: service_reachable.induct)
  case reach_new
  show ?case by (simp add: service_inv_def new_service_def)
next
  case (reach_step s e s')
  then show ?case using service_inv_step by blast
qed

section \<open>Properties\<close>

text \<open>C28: in every run of starts and stops, the service answers \<^verbatim>\<open>/health\<close> with 200
  and \<^verbatim>\<open>OK\<close>, for any method and even after it was stopped, exactly when a server was
  started, and with 404 otherwise; without an address there never is a server.\<close>

theorem health_exactly_when_started:
  assumes "service_reachable bind s" and "req_path r = ''/health''"
  shows "let w = ServeHTTP redirect metrics s r new_writer in
    (sv_srv s \<noteq> None \<longrightarrow> bind \<noteq> [] \<and> response_status w = 200 \<and> rw_body w = ''OK'') \<and>
    (sv_srv s = None \<longrightarrow> response_status w = 404)"
proof -
  have clean: "clean_url_path ''/health'' = ''/health''" by code_simp
  have inv: "service_inv bind s" using service_inv_reachable [OF assms(1)] .
  show ?thesis
  proof (cases "sv_srv s")
    case None
    then have "sv_mux s = []" using inv by (simp add: service_inv_def)
    then show ?thesis
      using assms(2) None clean
      by (simp add: ServeHTTP_def mux_serve_def mux_find_def Let_def http_error_def response_status_def)
  next
    case (Some srv)
    then have "map_of (sv_mux s) = map_of service_routes" "bind \<noteq> []" using inv by (auto simp: service_inv_def)
    then have "mux_match (sv_mux s) m ''/health'' = Some Health" for m
      by (auto simp: mux_match_def method_route_def service_routes_def)
    then have "mux_find (sv_mux s) (req_method r) ''/health'' = MuxFound Health"
      by (rule mux_find_clean [OF clean])
    then show ?thesis
      using assms(2) Some \<open>bind \<noteq> []\<close>
      by (simp add: ServeHTTP_def mux_serve_def service_handle_def response_status_def Let_def)
  qed
qed

definition example_started :: Service where
  "example_started = fst (Stop True (the (Start (new_service '':9090''))))"

lemma example_started_reachable: "service_reachable '':9090'' example_started"
proof (rule reach_step [OF reach_step [OF reach_new]])
  show "service_step (new_service '':9090'') EvStart (the (Start (new_service '':9090'')))"
    by (simp add: Start_def new_service_def routes_registered)
  show "service_step (the (Start (new_service '':9090''))) (EvStop True) example_started"
    by (simp add: example_started_def)
qed

lemma example_started_server: "sv_srv example_started \<noteq> None" "sv_bind example_started = '':9090''"
  by code_simp+

definition health_request :: request where
  "health_request = \<lparr>req_method = ''GET'', req_tls = False, req_host = ''h'', req_header = [],
     req_path = ''/health'', req_raw_query = [], req_body = []\<rparr>"

theorem health_exactly_when_started_witness:
  "response_status (ServeHTTP (\<lambda>p r w. w) (\<lambda>r w. w) example_started health_request new_writer) = 200"
  using health_exactly_when_started [OF example_started_reachable, of health_request "\<lambda>p r w. w" "\<lambda>r w. w"]
    example_started_server
  by (simp add: health_request_def Let_def)

text \<open>C40: a service can be started once. In every run a further start panics exactly when a server
  was started before, stopped or not, because the routes are registered again on the same
  multiplexer; without an address it does nothing.\<close>

theorem restart_panics:
  assumes "service_reachable bind s"
  shows "(Start s = None \<longleftrightarrow> sv_srv s \<noteq> None) \<and> (bind = [] \<longrightarrow> Start s = Some s)"
proof -
  have inv: "service_inv bind s" using service_inv_reachable [OF assms] .
  show ?thesis
  proof (cases "sv_srv s")
    case None
    then show ?thesis using inv routes_registered by (auto simp: service_inv_def Start_def)
  next
    case (Some srv)
    then show ?thesis using inv Start_again [of s] by (auto simp: service_inv_def)
  qed
qed

theorem restart_panics_witness: "Start example_started = None"
  using restart_panics [OF example_started_reachable] example_started_server by simp

end
