(* ===== verification/Go_Float.thy ===== *)
theory Go_Float
  imports Go_Strings "HOL-Library.Log_Nat"
begin

text \<open>
  Go's \<^verbatim>\<open>float64\<close> as far as the program meets it: \<^verbatim>\<open>strconv.ParseFloat(s, 64)\<close> on
  the number literals of JSON. A value is a sign and a rational magnitude; the literal is
  rounded to the nearest double, ties to even, and is an error beyond the largest one.
\<close>

datatype float64 = Float64 bool rat

text \<open>The exact value of a literal: its sign and its magnitude.\<close>

definition decimal_value :: "string \<Rightarrow> bool \<times> rat" where
  "decimal_value lit =
     (let (neg, s) = (case lit of c # cs \<Rightarrow> if c = CHR ''-'' then (True, cs) else (False, lit) | [] \<Rightarrow> (False, []));
          whole = takeWhile is_digit s;
          r = dropWhile is_digit s;
          (frac, r') = (case r of c # cs \<Rightarrow> if c = CHR ''.'' then (takeWhile is_digit cs, dropWhile is_digit cs) else ([], r)
                         | [] \<Rightarrow> ([], []));
          ex = (case r' of [] \<Rightarrow> 0 | _ # cs \<Rightarrow> (let (sg, ds) = signed_digits cs in sg * int (digits_val ds)))
      in (neg, of_nat (digits_val (whole @ frac)) * 10 powi (ex - int (length frac))))"

definition round_even :: "rat \<Rightarrow> int" where
  "round_even q =
     (let n = \<lfloor>q\<rfloor>; d = q - of_int n
      in if d < 1 / 2 then n else if d > 1 / 2 then n + 1 else if even n then n else n + 1)"

text \<open>The exponent of the last mantissa bit: 53 bits, none below \<open>2 ^ -1074\<close>.\<close>

definition float_exp :: "rat \<Rightarrow> int" where
  "float_exp q =
     (let (a, b) = quotient_of q;
          l = bitlen a - bitlen b
      in max (-1074) ((if q < 2 powi l then l - 1 else l) - 52))"

definition round_float64 :: "rat \<Rightarrow> rat option" where
  "round_float64 q =
     (if q = 0 then Some 0
      else let u = 2 powi float_exp q; r = of_int (round_even (q / u)) * u
           in if r \<ge> 2 ^ 1024 then None else Some r)"

definition parse_float64 :: "string \<Rightarrow> float64 option" where
  "parse_float64 lit =
     (case decimal_value lit of (neg, q) \<Rightarrow> map_option (Float64 neg) (round_float64 q))"

text \<open>Integers of up to 53 bits are represented exactly.\<close>

lemma round_even_int [simp]: "round_even (of_int n) = n"
  by (simp add: round_even_def)

lemma float_exp_nat:
  assumes "n < 2 ^ 53"
  shows "float_exp (of_nat n) \<le> 0"
proof -
  have "floorlog 2 n \<le> 53" using assms by (simp add: floorlog_le_iff)
  then have "bitlen (int n) \<le> 53" by (simp add: bitlen_def)
  moreover have "quotient_of (of_nat n) = (int n, 1)"
    using quotient_of_int [of "int n"] by simp
  moreover have "bitlen 1 = 1" by (simp add: bitlen_def floorlog_def)
  ultimately show ?thesis by (auto simp: float_exp_def Let_def)
qed

lemma round_float64_nat:
  assumes "n < 2 ^ 53"
  shows "round_float64 (of_nat n) = Some (of_nat n)"
proof -
  define k where "k = nat (- float_exp (of_nat n))"
  have "float_exp (of_nat n) = - int k" using float_exp_nat [OF assms] by (simp add: k_def)
  then have u: "(2 :: rat) powi float_exp (of_nat n) = 1 / 2 ^ k"
    by (simp add: power_int_minus divide_inverse)
  have "(of_nat n :: rat) / (1 / 2 ^ k) = of_int (int n * 2 ^ k)" by simp
  then have "round_even (of_nat n / (1 / 2 ^ k)) = int n * 2 ^ k" by (metis round_even_int)
  moreover have "\<not> (2 :: rat) ^ 1024 \<le> of_nat n"
  proof -
    have "n < 2 ^ 1024" using assms by (rule less_trans) simp
    then show ?thesis by (metis not_le of_nat_less_iff of_nat_numeral of_nat_power)
  qed
  ultimately show ?thesis using u by (simp add: round_float64_def Let_def)
qed

lemma decimal_value_digits:
  assumes "list_all is_digit ds" and "ds \<noteq> []"
  shows "decimal_value ds = (False, of_nat (digits_val ds))"
proof -
  have "takeWhile is_digit ds = ds" "dropWhile is_digit ds = []"
    using assms(1) by (auto simp: list_all_iff)
  moreover have "hd ds \<noteq> CHR ''-''" using assms by (cases ds) (auto simp: is_digit_def byte_ord_def)
  ultimately show ?thesis using assms(2) by (cases ds) (auto simp: decimal_value_def)
qed

lemma parse_float64_nat: "n < 2 ^ 53 \<Longrightarrow> parse_float64 (itoa (int n)) = Some (Float64 False (of_nat n))"
  using decimal_value_digits [OF digits_of_digits digits_of_not_Nil, of n]
  by (simp add: parse_float64_def itoa_def round_float64_nat)

end
