(* ===== verification/Info.thy ===== *)
theory Info
  imports Go_JsonStruct Go_Float "HOL-Library.AList"
begin

text \<open>
  The node information source, \<^verbatim>\<open>pkg/info/info.go\<close>: two functions registered in
  DuckDB with their declared result types, and the GraphQL types of
  \<^verbatim>\<open>schema.graphql\<close> under which their results are read. The engine's own information
  with its JSON encoding, the pool and the query engine are parameters.
\<close>

section \<open>Result types\<close>

datatype duck_type = Varchar | Boolean | Integer | DuckList duck_type | DuckStruct "(string \<times> duck_type) list"

definition duckdbEngineType :: duck_type where
  "duckdbEngineType = DuckStruct
     [(''admin_ui'', Boolean), (''debug'', Boolean), (''allow_parallel'', Boolean),
      (''max_parallel_queries'', Integer), (''max_depth'', Integer),
      (''duckdb'', DuckStruct
         [(''path'', Varchar), (''max_open_conns'', Integer), (''max_idle_conns'', Integer),
          (''settings'', DuckStruct
             [(''allowed_directories'', DuckList Varchar), (''allowed_paths'', DuckList Varchar),
              (''enable_logging'', Boolean), (''max_memory'', Integer), (''max_temp_directory_size'', Integer),
              (''temp_directory'', Varchar), (''worker_threads'', Integer), (''pg_connection_limit'', Integer),
              (''pg_pages_per_task'', Integer)])]),
      (''coredb'', DuckStruct [(''version'', Varchar), (''type'', Varchar)]),
      (''auth'', DuckList (DuckStruct [(''name'', Varchar), (''type'', Varchar)])),
      (''cache'', DuckStruct
         [(''ttl'', Varchar),
          (''l1'', DuckStruct
             [(''enabled'', Boolean), (''max_size'', Integer), (''max_item_size'', Integer), (''shards'', Integer),
              (''clean_time'', Varchar), (''eviction_time'', Varchar)]),
          (''l2'', DuckStruct
             [(''enabled'', Boolean), (''backend'', Varchar), (''addresses'', DuckList Varchar),
              (''database'', Integer), (''password'', Varchar), (''username'', Varchar)])])]"

definition duckdbNodeInfoType :: duck_type where
  "duckdbNodeInfoType = DuckStruct
     [(''version'', Varchar), (''build_date'', Varchar), (''node_role'', Varchar), (''node_name'', Varchar),
      (''cluster_mode'', Boolean), (''engine'', duckdbEngineType)]"

definition versionType :: duck_type where
  "versionType = DuckStruct [(''version'', Varchar), (''build_date'', Varchar)]"

section \<open>Node information\<close>

record 'i NodeInfo =
  ni_Version :: string
  ni_BuildDate :: string
  ni_InCluster :: bool
  ni_NodeRole :: string
  ni_NodeName :: string
  ni_Engine :: 'i

definition node_json :: "'i NodeInfo \<Rightarrow> json \<Rightarrow> json" where
  "node_json v engine = JObj
     [(''version'', JStr (ni_Version v)), (''build_date'', JStr (ni_BuildDate v)),
      (''cluster_mode'', JBool (ni_InCluster v)), (''node_role'', JStr (ni_NodeRole v)),
      (''node_name'', JStr (ni_NodeName v)), (''engine'', engine)]"

text \<open>
  What \<^verbatim>\<open>json.Unmarshal\<close> stores in a value of type \<^verbatim>\<open>any\<close>: numbers are
  \<^verbatim>\<open>float64\<close>, an error when out of range, and of several members with one key the last
  one stays. A map is a list of members with distinct keys, whose order means nothing.
\<close>

datatype any =
    AnyNil
  | AnyBool bool
  | AnyNum float64
  | AnyStr string
  | AnyList "any list"
  | AnyMap "(string \<times> any) list"

fun any_of :: "json \<Rightarrow> any option"
  and any_list :: "json list \<Rightarrow> any list option"
  and any_members :: "(string \<times> json) list \<Rightarrow> (string \<times> any) list \<Rightarrow> (string \<times> any) list option" where
  "any_of JNull = Some AnyNil"
| "any_of (JBool b) = Some (AnyBool b)"
| "any_of (JNum lit) = map_option AnyNum (parse_float64 lit)"
| "any_of (JStr s) = Some (AnyStr s)"
| "any_of (JArr js) = map_option AnyList (any_list js)"
| "any_of (JObj ms) = map_option AnyMap (any_members ms [])"
| "any_list [] = Some []"
| "any_list (j # js) =
     (case any_of j of None \<Rightarrow> None | Some a \<Rightarrow> map_option ((#) a) (any_list js))"
| "any_members [] acc = Some acc"
| "any_members ((k, j) # ms) acc =
     (case any_of j of None \<Rightarrow> None | Some a \<Rightarrow> any_members ms (AList.update k a acc))"

text \<open>
  Marshal, then unmarshal into a \<^verbatim>\<open>map[string]any\<close>. \<open>engine_json\<close> encodes the
  engine's part.
\<close>

definition toDuckdb :: "('i \<Rightarrow> json option) \<Rightarrow> 'i NodeInfo \<Rightarrow> (string \<times> any) list option" where
  "toDuckdb engine_json v =
     (case engine_json (ni_Engine v) of
        None \<Rightarrow> None
      | Some engine \<Rightarrow>
          (case json_parse (json_text (node_json v engine)) of
             Some (JObj info) \<Rightarrow> any_members info []
           | _ \<Rightarrow> None))"

section \<open>The source\<close>

text \<open>A scalar function without arguments: its name, declared type and converted result.\<close>

record udf =
  udf_Name :: string
  udf_OutputType :: duck_type
  udf_Result :: "(string \<times> any) list option"

record 'i Source =
  so_info :: "'i NodeInfo"

definition new_source :: "'i NodeInfo \<Rightarrow> 'i Source" where
  "new_source info = \<lparr>so_info = info\<rparr>"

definition node_version_udf :: "'i Source \<Rightarrow> udf" where
  "node_version_udf s = \<lparr>udf_Name = ''node_version'', udf_OutputType = versionType,
     udf_Result = Some [(''version'', AnyStr (ni_Version (so_info s))), (''build_date'', AnyStr (ni_BuildDate (so_info s)))]\<rparr>"

definition node_info_udf :: "('i \<Rightarrow> json option) \<Rightarrow> 'i Source \<Rightarrow> udf" where
  "node_info_udf engine_json s = \<lparr>udf_Name = ''node_info'', udf_OutputType = duckdbNodeInfoType,
     udf_Result = toDuckdb engine_json (so_info s)\<rparr>"

text \<open>\<open>reg\<close> registers a function in the pool and says whether the error is nil.\<close>

definition Attach :: "('i \<Rightarrow> json option) \<Rightarrow> (udf \<Rightarrow> 'p \<Rightarrow> 'p \<times> bool) \<Rightarrow> 'i Source \<Rightarrow> 'p \<Rightarrow> 'p \<times> bool" where
  "Attach engine_json reg s pool =
     (case reg (node_version_udf s) pool of
        (pool', ok) \<Rightarrow> if \<not> ok then (pool', False) else reg (node_info_udf engine_json s) pool')"

definition source_name :: string where "source_name = ''core.version''"
definition IsReadonly :: bool where "IsReadonly = True"
definition AsModule :: bool where "AsModule = False"

record ('e, 'c) compiler_options =
  opt_Name :: string
  opt_Prefix :: string
  opt_ReadOnly :: bool
  opt_AsModule :: bool
  opt_EngineType :: 'e
  opt_Capabilities :: 'c

text \<open>The catalog: options over the type and capabilities of the DuckDB engine.\<close>

definition Catalog ::
    "'e \<Rightarrow> 'c \<Rightarrow> (string \<Rightarrow> ('e, 'c) compiler_options \<Rightarrow> string \<Rightarrow> 'cat option) \<Rightarrow> string \<Rightarrow> 'cat option" where
  "Catalog engine_type capabilities new_string_source schema =
     new_string_source source_name
       \<lparr>opt_Name = source_name, opt_Prefix = ''core_version'', opt_ReadOnly = IsReadonly, opt_AsModule = AsModule,
        opt_EngineType = engine_type, opt_Capabilities = capabilities\<rparr> schema"

section \<open>The values of a node\<close>

lemma node_keys [simp]:
  "to_valid_utf8 ''version'' = ''version''" "to_valid_utf8 ''build_date'' = ''build_date''"
  "to_valid_utf8 ''cluster_mode'' = ''cluster_mode''" "to_valid_utf8 ''node_role'' = ''node_role''"
  "to_valid_utf8 ''node_name'' = ''node_name''" "to_valid_utf8 ''engine'' = ''engine''"
  by (auto intro!: to_valid_ascii simp: byte_ord_def)

lemma toDuckdb_members:
  assumes "engine_json (ni_Engine v) = Some e" and "json_ok 1 e"
  shows "toDuckdb engine_json v = map_option (\<lambda>a.
     [(''version'', AnyStr (to_valid_utf8 (ni_Version v))), (''build_date'', AnyStr (to_valid_utf8 (ni_BuildDate v))),
      (''cluster_mode'', AnyBool (ni_InCluster v)), (''node_role'', AnyStr (to_valid_utf8 (ni_NodeRole v))),
      (''node_name'', AnyStr (to_valid_utf8 (ni_NodeName v))), (''engine'', a)]) (any_of (json_clean e))"
proof -
  have "json_ok 0 (node_json v e)" using assms(2) by (simp add: node_json_def max_nesting_def)
  from json_parse_text [OF this] show ?thesis
    using assms(1) by (simp add: toDuckdb_def) (simp add: node_json_def split: option.splits)
qed

text \<open>A value of one of the scalar column types, with its Go type.\<close>

fun scalar_of :: "duck_type \<Rightarrow> any \<Rightarrow> bool" where
  "scalar_of Varchar (AnyStr s) = True"
| "scalar_of Boolean (AnyBool b) = True"
| "scalar_of _ _ = False"

section \<open>The GraphQL types\<close>

text \<open>\<^verbatim>\<open>schema.graphql\<close>: the object types with the field each reads, nullability left out.\<close>

datatype gql_type = GqlBoolean | GqlString | GqlInt | GqlList gql_type | GqlNamed string

definition graphql_types :: "(string \<times> (string \<times> gql_type) list) list" where
  "graphql_types =
     [(''NodeInfo'',
         [(''cluster_mode'', GqlBoolean), (''node_role'', GqlString), (''node_name'', GqlString),
          (''version'', GqlString), (''build_date'', GqlString), (''engine'', GqlNamed ''NodeConfig'')]),
      (''NodeVersion'', [(''version'', GqlString), (''build_date'', GqlString)]),
      (''NodeConfig'',
         [(''admin_ui'', GqlBoolean), (''debug'', GqlBoolean), (''allow_parallel'', GqlBoolean),
          (''max_parallel_queries'', GqlInt), (''max_depth'', GqlInt), (''duckdb'', GqlNamed ''DuckDBConfig''),
          (''coredb'', GqlNamed ''CoreDBConfig''), (''auth'', GqlList (GqlNamed ''AuthProviderConfig'')),
          (''cache'', GqlNamed ''CacheConfig'')]),
      (''DuckDBConfig'',
         [(''path'', GqlString), (''max_open_conns'', GqlInt), (''max_idle_conns'', GqlInt),
          (''settings'', GqlNamed ''DuckDBSettings'')]),
      (''DuckDBSettings'',
         [(''allowed_directories'', GqlList GqlString), (''allowed_paths'', GqlList GqlString),
          (''enable_logging'', GqlBoolean), (''max_memory'', GqlInt), (''max_temp_directory_size'', GqlInt),
          (''temp_directory'', GqlString), (''worker_threads'', GqlInt), (''pg_connection_limit'', GqlInt),
          (''pg_pages_per_task'', GqlInt)]),
      (''CoreDBConfig'', [(''version'', GqlString), (''type'', GqlBoolean)]),
      (''AuthProviderConfig'', [(''type'', GqlString), (''name'', GqlString)]),
      (''CacheConfig'', [(''ttl'', GqlString), (''l1'', GqlNamed ''CacheL1Config''), (''l2'', GqlNamed ''CacheL2Config'')]),
      (''CacheL1Config'',
         [(''enabled'', GqlBoolean), (''max_size'', GqlInt), (''max_item_size'', GqlInt), (''shards'', GqlInt),
          (''clean_time'', GqlString), (''eviction_time'', GqlString)]),
      (''CacheL2Config'',
         [(''enabled'', GqlBoolean), (''backend'', GqlString), (''addresses'', GqlList GqlString),
          (''database'', GqlString), (''username'', GqlString), (''password'', GqlString)])]"

text \<open>The paths below a GraphQL type whose column is missing or of another type, and the columns no field reads.\<close>

fun gql_mismatches :: "string list \<Rightarrow> gql_type \<Rightarrow> duck_type option \<Rightarrow> nat \<Rightarrow> string list list" where
  "gql_mismatches path GqlBoolean t n = (if t = Some Boolean then [] else [path])"
| "gql_mismatches path GqlString t n = (if t = Some Varchar then [] else [path])"
| "gql_mismatches path GqlInt t n = (if t = Some Integer then [] else [path])"
| "gql_mismatches path (GqlList g) t n =
     (case t of Some (DuckList d) \<Rightarrow> gql_mismatches path g (Some d) n | _ \<Rightarrow> [path])"
| "gql_mismatches path (GqlNamed name) t 0 = [path]"
| "gql_mismatches path (GqlNamed name) t (Suc n) =
     (case (t, map_of graphql_types name) of
        (Some (DuckStruct fds), Some gfs) \<Rightarrow>
          map (\<lambda>k. path @ [k]) (filter (\<lambda>k. k \<notin> set (map fst gfs)) (map fst fds)) @
          concat (map (\<lambda>(k, g). gql_mismatches (path @ [k]) g (map_of fds k) n) gfs)
      | _ \<Rightarrow> [path])"

text \<open>The GraphQL types read every column of the two functions at its declared type, with two
  exceptions: \<^verbatim>\<open>coredb.type\<close> is a text declared Boolean and
  \<^verbatim>\<open>cache.l2.database\<close> is a number declared String.\<close>

theorem graphql_mismatches:
  "gql_mismatches [] (GqlNamed ''NodeInfo'') (Some duckdbNodeInfoType) 6 =
     [[''engine'', ''coredb'', ''type''], [''engine'', ''cache'', ''l2'', ''database'']] \<and>
   gql_mismatches [] (GqlNamed ''NodeVersion'') (Some versionType) 6 = []"
  by (intro conjI) code_simp+

section \<open>Both functions\<close>

text \<open>C29: what the two DuckDB functions declare and return. \<^verbatim>\<open>node_version\<close> declares two
  text columns and returns the version and the build date in them. \<^verbatim>\<open>node_info\<close> declares
  exactly the members it returns: the version, the build date, the role and the name of the node as
  texts (with bytes that are not UTF-8 replaced), the cluster mode as a boolean, and under
  \<^verbatim>\<open>engine\<close> what the engine's own encoding decodes to (the encoding exists, is JSON that is not nested too
  deep, and its numbers are in range). The declared types are those
  \<^verbatim>\<open>schema.graphql\<close> reads, column by column down to the engine's settings, with the
  exceptions \<^verbatim>\<open>coredb.type\<close> (a text read as Boolean) and \<^verbatim>\<open>cache.l2.database\<close>
  (a number read as String).\<close>

theorem node_functions_typed:
  assumes "engine_json (ni_Engine v) = Some e" and "json_ok 1 e" and "any_of (json_clean e) = Some a"
  shows "udf_OutputType (node_version_udf (new_source v)) =
      DuckStruct [(''version'', Varchar), (''build_date'', Varchar)] \<and>
    udf_Result (node_version_udf (new_source v)) =
      Some [(''version'', AnyStr (ni_Version v)), (''build_date'', AnyStr (ni_BuildDate v))] \<and>
    (\<exists>fds info. udf_OutputType (node_info_udf engine_json (new_source v)) = DuckStruct fds \<and>
       udf_Result (node_info_udf engine_json (new_source v)) = Some info \<and>
       distinct (map fst info) \<and> set (map fst info) = set (map fst fds) \<and>
       map_of info ''version'' = Some (AnyStr (to_valid_utf8 (ni_Version v))) \<and>
       map_of info ''build_date'' = Some (AnyStr (to_valid_utf8 (ni_BuildDate v))) \<and>
       map_of info ''node_role'' = Some (AnyStr (to_valid_utf8 (ni_NodeRole v))) \<and>
       map_of info ''node_name'' = Some (AnyStr (to_valid_utf8 (ni_NodeName v))) \<and>
       map_of info ''cluster_mode'' = Some (AnyBool (ni_InCluster v)) \<and>
       map_of info ''engine'' = Some a \<and>
       (\<forall>(k, t) \<in> set fds. k \<noteq> ''engine'' \<longrightarrow> scalar_of t (the (map_of info k)))) \<and>
    gql_mismatches [] (GqlNamed ''NodeInfo'') (Some (udf_OutputType (node_info_udf engine_json (new_source v)))) 6 =
      [[''engine'', ''coredb'', ''type''], [''engine'', ''cache'', ''l2'', ''database'']] \<and>
    gql_mismatches [] (GqlNamed ''NodeVersion'') (Some (udf_OutputType (node_version_udf (new_source v)))) 6 = []"
proof (intro conjI)
  let ?u = "node_info_udf engine_json (new_source v)"
  have "toDuckdb engine_json v = Some
     [(''version'', AnyStr (to_valid_utf8 (ni_Version v))), (''build_date'', AnyStr (to_valid_utf8 (ni_BuildDate v))),
      (''cluster_mode'', AnyBool (ni_InCluster v)), (''node_role'', AnyStr (to_valid_utf8 (ni_NodeRole v))),
      (''node_name'', AnyStr (to_valid_utf8 (ni_NodeName v))), (''engine'', a)]"
    using toDuckdb_members [of engine_json, OF assms(1,2)] assms(3) by simp
  then show "\<exists>fds info. udf_OutputType ?u = DuckStruct fds \<and> udf_Result ?u = Some info \<and>
       distinct (map fst info) \<and> set (map fst info) = set (map fst fds) \<and>
       map_of info ''version'' = Some (AnyStr (to_valid_utf8 (ni_Version v))) \<and>
       map_of info ''build_date'' = Some (AnyStr (to_valid_utf8 (ni_BuildDate v))) \<and>
       map_of info ''node_role'' = Some (AnyStr (to_valid_utf8 (ni_NodeRole v))) \<and>
       map_of info ''node_name'' = Some (AnyStr (to_valid_utf8 (ni_NodeName v))) \<and>
       map_of info ''cluster_mode'' = Some (AnyBool (ni_InCluster v)) \<and>
       map_of info ''engine'' = Some a \<and>
       (\<forall>(k, t) \<in> set fds. k \<noteq> ''engine'' \<longrightarrow> scalar_of t (the (map_of info k)))"
    by (auto simp: node_info_udf_def new_source_def duckdbNodeInfoType_def)
qed (use graphql_mismatches in \<open>simp_all add: node_version_udf_def node_info_udf_def new_source_def versionType_def\<close>)

definition example_node :: "unit NodeInfo" where
  "example_node = \<lparr>ni_Version = ''v1'', ni_BuildDate = [], ni_InCluster = True, ni_NodeRole = ''worker'',
     ni_NodeName = ''n1'', ni_Engine = ()\<rparr>"

definition example_engine :: json where
  "example_engine = JObj [(''max_depth'', JNum ''3''), (''max_depth'', JNum ''7''), (''duckdb'', JNull)]"

theorem node_functions_typed_witness:
  "\<exists>info. udf_Result (node_info_udf (\<lambda>_. Some example_engine) (new_source example_node)) = Some info \<and>
     map_of info ''engine'' = Some (AnyMap [(''max_depth'', AnyNum (Float64 False 7)), (''duckdb'', AnyNil)])"
proof -
  have "json_ok 1 example_engine" by code_simp
  moreover have "any_of (json_clean example_engine) =
      Some (AnyMap [(''max_depth'', AnyNum (Float64 False 7)), (''duckdb'', AnyNil)])"
    unfolding example_engine_def by code_simp
  ultimately show ?thesis
    using node_functions_typed [of "\<lambda>_. Some example_engine" example_node example_engine] by blast
qed

end
