(* ===== verification/Server_Main.thy ===== *)
theory Server_Main
  imports Server_Config OAuth_Proxy Service Info
begin

text \<open>
  The server, \<^verbatim>\<open>cmd/server/main.go\<close>: the checks of the start, the engine's
  settings, the routes, the run until a signal and the shutdown with its exit status, and
  \<^verbatim>\<open>-install\<close>. The engine, the key pair, discovery and the listening sockets are
  parameters. Log lines are left out; \<^verbatim>\<open>os.Exit\<close> and a panic are values.
\<close>

section \<open>The engine's settings\<close>

text \<open>The core database stands for the settings \<^verbatim>\<open>coredb.New\<close> is called with.\<close>

record hugr_Config =
  hc_AdminUI :: bool
  hc_AdminUIFetchPath :: string
  hc_Debug :: bool
  hc_Profiling :: bool
  hc_AllowParallel :: bool
  hc_MaxParallelQueries :: int
  hc_MaxDepth :: int
  hc_SchemaCacheMaxEntries :: int
  hc_SchemaCacheTTL :: duration
  hc_MCPEnabled :: bool
  hc_DB :: DBConfig
  hc_CoreDB :: CoreDBConfig
  hc_Auth :: "engine_auth option"
  hc_Cache :: CacheConfig
  hc_Embedder :: EmbedderConfig
  hc_Cluster :: ClusterConfig
  hc_Heartbeat :: HeartbeatConfig

definition hugr_config :: "server_Config \<Rightarrow> engine_auth option \<Rightarrow> hugr_Config" where
  "hugr_config c authConfig = \<lparr>hc_AdminUI = sc_EnableAdminUI c, hc_AdminUIFetchPath = sc_AdminUIFetchPath c,
     hc_Debug = sc_DebugMode c, hc_Profiling = sc_HttpProfiling c, hc_AllowParallel = sc_AllowParallel c,
     hc_MaxParallelQueries = sc_MaxParallelQueries c, hc_MaxDepth = sc_MaxDepthInTypes c,
     hc_SchemaCacheMaxEntries = sc_SchemaCacheMaxEntries c, hc_SchemaCacheTTL = sc_SchemaCacheTTL c,
     hc_MCPEnabled = sc_MCPEnabled c, hc_DB = sc_DB c, hc_CoreDB = sc_CoreDB c, hc_Auth = authConfig,
     hc_Cache = sc_Cache c, hc_Embedder = sc_Embedder c, hc_Cluster = sc_Cluster c, hc_Heartbeat = sc_Heartbeat c\<rparr>"

text \<open>\<open>zero_engine\<close> is the zero value of the engine's own information.\<close>

definition node_info_of :: "'i \<Rightarrow> string \<Rightarrow> string \<Rightarrow> server_Config \<Rightarrow> 'i NodeInfo" where
  "node_info_of zero_engine version build_date c = \<lparr>ni_Version = version, ni_BuildDate = build_date,
     ni_InCluster = cc_Enabled (sc_Cluster c), ni_NodeRole = cc_Role (sc_Cluster c),
     ni_NodeName = cc_NodeName (sc_Cluster c), ni_Engine = zero_engine\<rparr>"

definition Version :: string where "Version = ''dev''"
definition BuildDate :: string where "BuildDate = []"

section \<open>The start\<close>

datatype start_error =
    TLSHalfSet | TLSLoadFailed | InvalidClusterRole string | ClusterNeedsPostgres
  | AuthConfiguration auth_error | CoreDBReadOnlyInMemory | EngineCreation | AttachVersion | EngineInit
  | OAuthProxyInit proxy_error | RoutePanic

record ('j, 'i) server_env =
  se_LoadX509KeyPair :: "string \<Rightarrow> string \<Rightarrow> bool"
  se_auth :: "'j auth_env"
  se_New :: "hugr_Config \<Rightarrow> bool"
  se_Attach :: "'i NodeInfo \<Rightarrow> bool"
  se_Init :: bool
  se_discover :: "bool \<Rightarrow> string \<Rightarrow> OAuth_Proxy.provider option"
  se_zero_engine :: 'i

datatype server_handler = AuthConfigRoute | OAuthRoute oauth_endpoint | EngineRoute

record started =
  st_addr :: string
  st_tls :: bool
  st_cors :: cors_Config
  st_auth :: auth_Config
  st_hugr :: hugr_Config
  st_oauth :: "Proxy option"
  st_mux :: "server_handler mux option"

definition tls_check :: "(string \<Rightarrow> string \<Rightarrow> bool) \<Rightarrow> server_Config \<Rightarrow> start_error option" where
  "tls_check load c =
     (if sc_TLSCertFile c \<noteq> [] \<or> sc_TLSKeyFile c \<noteq> []
      then if sc_TLSCertFile c = [] \<or> sc_TLSKeyFile c = [] then Some TLSHalfSet
           else if \<not> load (sc_TLSCertFile c) (sc_TLSKeyFile c) then Some TLSLoadFailed
           else None
      else None)"

definition cluster_check :: "server_Config \<Rightarrow> start_error option" where
  "cluster_check c =
     (if cc_Enabled (sc_Cluster c)
      then if cc_Role (sc_Cluster c) \<noteq> ''management'' \<and> cc_Role (sc_Cluster c) \<noteq> ''worker''
           then Some (InvalidClusterRole (cc_Role (sc_Cluster c)))
           else if \<not> has_prefix (cd_Path (sc_CoreDB c)) ''postgres'' then Some ClusterNeedsPostgres
           else None
      else None)"

text \<open>The credentials of the proxy: those for MCP, each falling back to that of OIDC.\<close>

definition mcp_client :: "server_Config \<Rightarrow> auth_Config \<Rightarrow> string \<times> string" where
  "mcp_client c au =
     (if sc_MCPOAuthClientID c = [] then oi_ClientID (au_OIDC au) else sc_MCPOAuthClientID c,
      if sc_MCPOAuthClientSecret c = [] then oi_ClientSecret (au_OIDC au) else sc_MCPOAuthClientSecret c)"

definition proxy_config :: "server_Config \<Rightarrow> auth_Config \<Rightarrow> OAuth_Proxy.Config" where
  "proxy_config c au = \<lparr>cfg_Issuer = oi_Issuer (au_OIDC au), cfg_ClientID = fst (mcp_client c au),
     cfg_ClientSecret = snd (mcp_client c au), cfg_Scopes = oi_Scopes (au_OIDC au),
     cfg_RedirectURL = oi_RedirectURL (au_OIDC au), cfg_TLSInsecure = oi_TLSInsecure (au_OIDC au),
     cfg_SecretKey = au_SecretKey au\<rparr>"

definition server_routes :: "bool \<Rightarrow> (pattern \<times> server_handler) list" where
  "server_routes oauth =
     [((''GET'', ''/auth/config''), AuthConfigRoute)] @
     (if oauth then map (\<lambda>(m, path, ep). ((m, path), OAuthRoute ep)) RegisterHandlers else []) @
     [(([], ''/''), EngineRoute)]"

text \<open>The proxy and the routes, with OIDC; \<open>au\<close> are the settings after \<^verbatim>\<open>Configure\<close>.\<close>

definition start_routes ::
    "(bool \<Rightarrow> string \<Rightarrow> OAuth_Proxy.provider option) \<Rightarrow> server_Config \<Rightarrow> auth_Config \<Rightarrow>
     start_error + (Proxy option \<times> server_handler mux option)" where
  "start_routes discover c au =
     (if \<not> OIDCEnabled au then Inr (None, None)
      else case (if sc_MCPEnabled c \<and> snd (mcp_client c au) \<noteq> []
                 then (case NewProxy discover (proxy_config c au) of
                         Inl e \<Rightarrow> Inl (OAuthProxyInit e) | Inr p \<Rightarrow> Inr (Some p))
                 else Inr None) of
             Inl e \<Rightarrow> Inl e
           | Inr oauthProxy \<Rightarrow>
               (case register_all mux_handle (server_routes (oauthProxy \<noteq> None)) [] of
                  None \<Rightarrow> Inl RoutePanic
                | Some mux \<Rightarrow> Inr (oauthProxy, Some mux)))"

definition startup :: "('j, 'i) server_env \<Rightarrow> server_Config \<Rightarrow> start_error + started" where
  "startup env c =
     (case tls_check (se_LoadX509KeyPair env) c of Some e \<Rightarrow> Inl e | None \<Rightarrow>
      case cluster_check c of Some e \<Rightarrow> Inl e | None \<Rightarrow>
      case Configure (se_auth env) (sc_Auth c) of
        (au, Inl e) \<Rightarrow> Inl (AuthConfiguration e)
      | (au, Inr authConfig) \<Rightarrow>
          (let hc = hugr_config c authConfig in
           if cd_Path (sc_CoreDB c) = [] \<and> cd_ReadOnly (sc_CoreDB c) then Inl CoreDBReadOnlyInMemory
           else if \<not> se_New env hc then Inl EngineCreation
           else if \<not> se_Attach env (node_info_of (se_zero_engine env) Version BuildDate c) then Inl AttachVersion
           else if \<not> se_Init env then Inl EngineInit
           else case start_routes (se_discover env) c au of
                  Inl e \<Rightarrow> Inl e
                | Inr (oauthProxy, mux) \<Rightarrow>
                    Inr \<lparr>st_addr = sc_Bind c, st_tls = sc_TLSCertFile c \<noteq> [] \<or> sc_TLSKeyFile c \<noteq> [],
                         st_cors = sc_Cors c, st_auth = au, st_hugr = hc, st_oauth = oauthProxy, st_mux = mux\<rparr>))"

section \<open>Serving\<close>

text \<open>What the proxy's handlers read beside the request: random bytes and the clock.\<close>

record oauth_inputs =
  in_nonce :: "bytes option"
  in_client_id :: bytes
  in_now :: gotime
  in_until :: gotime
  in_code :: gotime

definition oauth_serve ::
    "oauth_env \<Rightarrow> oauth_inputs \<Rightarrow> Proxy \<Rightarrow> oauth_endpoint \<Rightarrow> request \<Rightarrow> response_writer \<Rightarrow> response_writer" where
  "oauth_serve env inp p ep r w =
     (case ep of
        EpMetadata \<Rightarrow> handleMetadata r w
      | EpAuthorize \<Rightarrow> handleAuthorize env p (in_nonce inp) (in_now inp) r w
      | EpCallback \<Rightarrow> handleCallback env p (in_nonce inp) (in_now inp) (in_until inp) (in_code inp) r w
      | EpToken \<Rightarrow> handleToken env p (in_now inp) r w
      | EpRevoke \<Rightarrow> handleRevoke env p r w
      | EpRegister \<Rightarrow> handleRegister (in_client_id inp) (in_now inp) r w)"

text \<open>A route of the started server; OAuth routes exist only with a proxy.\<close>

definition route_serve ::
    "oauth_env \<Rightarrow> oauth_inputs \<Rightarrow> http_handler \<Rightarrow> started \<Rightarrow> server_handler \<Rightarrow> http_handler" where
  "route_serve env inp engine st h r w =
     (case h of
        AuthConfigRoute \<Rightarrow> AuthConfigHandler (st_auth st) w
      | OAuthRoute ep \<Rightarrow> (case st_oauth st of Some p \<Rightarrow> oauth_serve env inp p ep r w | None \<Rightarrow> w)
      | EngineRoute \<Rightarrow> engine r w)"

definition serve_request ::
    "oauth_env \<Rightarrow> oauth_inputs \<Rightarrow> (string \<Rightarrow> http_handler) \<Rightarrow> http_handler \<Rightarrow> started \<Rightarrow> http_handler" where
  "serve_request env inp redirect engine st =
     Middleware (st_cors st)
       (case st_mux st of
          None \<Rightarrow> engine
        | Some mux \<Rightarrow> mux_serve redirect (route_serve env inp engine st) mux)"

section \<open>The run\<close>

text \<open>
  How the run ends: listening fails before the signal, or the signal comes and the two servers
  are shut down, each in time or not.
\<close>

datatype run_end = ListenFailed | Signalled bool bool

datatype main_end = MainPanic | MainExit nat

definition run_server :: "server_Config \<Rightarrow> run_end \<Rightarrow> main_end" where
  "run_server c e =
     (case Start (new_service (sc_ServiceBind c)) of
        None \<Rightarrow> MainPanic
      | Some svc \<Rightarrow>
          (case e of
             ListenFailed \<Rightarrow> MainExit 1
           | Signalled shutdown_ok stop_ok \<Rightarrow>
               if \<not> shutdown_ok then MainExit 1
               else if \<not> snd (Stop stop_ok svc) then MainExit 1
               else MainExit 0))"

section \<open>Installing the extensions\<close>

record extension_row =
  er_name :: string
  er_desc :: string
  er_installed :: bool
  er_path :: string

record install_env =
  ie_connector :: bool
  ie_Exec :: "string list \<Rightarrow> bool"
  ie_version :: "string option"
  ie_extensions :: "extension_row option list option"

definition install_script :: "string list" where
  "install_script =
     [''INSTALL icu; LOAD icu;'', ''INSTALL postgres; LOAD postgres;'', ''INSTALL spatial; LOAD spatial;'',
      ''INSTALL sqlite; LOAD sqlite;'', ''INSTALL sqlite3; LOAD sqlite3;'', ''INSTALL h3 FROM community; LOAD h3;'',
      ''--  INSTALL arrow; LOAD arrow;'', ''INSTALL aws; LOAD aws;'', ''INSTALL delta; LOAD delta;'',
      ''INSTALL httpfs; LOAD httpfs;'', ''INSTALL fts; LOAD fts;'', ''INSTALL iceberg; LOAD iceberg;'',
      ''INSTALL json; LOAD json;'', ''INSTALL parquet; LOAD parquet;'', ''INSTALL mysql; LOAD mysql;'',
      ''INSTALL vss; LOAD vss;'', ''INSTALL azure; LOAD azure;'', ''INSTALL mssql FROM community; LOAD mssql;'',
      ''INSTALL airport FROM community; LOAD airport;'', ''INSTALL ducklake; LOAD ducklake;'']"

text \<open>The rows, a row that does not scan being \<open>None\<close>: the lines logged and whether all scan.\<close>

fun log_extensions :: "extension_row option list \<Rightarrow> string list \<times> bool" where
  "log_extensions [] = ([], True)"
| "log_extensions (None # rows) = ([], False)"
| "log_extensions (Some e # rows) =
     apfst ((#) (''Extension: '' @ er_name e @ '', '' @ er_desc e @ '', installed: '' @ bool_text (er_installed e) @
       '', path: '' @ er_path e)) (log_extensions rows)"

definition installDuckDBExtension :: "install_env \<Rightarrow> string list \<times> bool" where
  "installDuckDBExtension env =
     (if \<not> ie_connector env then ([], False)
      else if \<not> ie_Exec env install_script then ([], False)
      else case ie_version env of
        None \<Rightarrow> ([], False)
      | Some version \<Rightarrow>
          (let l = [''DuckDB version:  '' @ version] in
           case ie_extensions env of
             None \<Rightarrow> (l, False)
           | Some rows \<Rightarrow>
               (case log_extensions rows of (ls, ok) \<Rightarrow> (l @ [''Installed extensions:''] @ ls, ok))))"

text \<open>The whole program: a Go panic is exit status 2 to the shell, a return is 0.\<close>

definition server_main ::
    "('j, 'i) server_env \<Rightarrow> install_env \<Rightarrow> bool \<Rightarrow> viper \<Rightarrow> run_end \<Rightarrow> main_end" where
  "server_main env inst installFlag v e =
     (if installFlag
      then (if snd (installDuckDBExtension inst) then MainExit 0 else MainPanic)
      else let config = loadConfig (initEnvs v) in
        case startup env config of
          Inl RoutePanic \<Rightarrow> MainPanic
        | Inl _ \<Rightarrow> MainExit 1
        | Inr st \<Rightarrow> run_server config e)"

end
