(* ===== verification/Auth_Correct.thy ===== *)
theory Auth_Correct
  imports Auth_Config Http_Response
begin

text \<open>
  Properties of the authentication settings: the order and the well-formedness of the chain
  of providers, when anonymous access is possible, when there is no authentication at all,
  what a JSON file cannot set, and what the public handler and the log disclose.
\<close>

section \<open>The chain\<close>

lemma NewOIDCProvider_wf:
  "NewOIDCProvider discover c = Inr p \<Longrightarrow>
   oi_Issuer (op_c p) = oi_Issuer c \<and> oi_Issuer c \<noteq> [] \<and> cl_Role (oi_Claims (op_c p)) \<noteq> [] \<and>
   cl_UserId (oi_Claims (op_c p)) \<noteq> [] \<and> cl_UserName (oi_Claims (op_c p)) \<noteq> []"
  by (auto simp: NewOIDCProvider_def Let_def split: if_splits)

text \<open>The four parts the merged settings add, in their order.\<close>

definition oidc_part :: "'j auth_env \<Rightarrow> auth_Config \<Rightarrow> provider list" where
  "oidc_part env c =
     (if oi_Issuer (au_OIDC c) = [] then []
      else case NewOIDCProvider (ae_discover env) (au_OIDC c) of Inl _ \<Rightarrow> [] | Inr p \<Rightarrow> [OidcProvider p])"

definition secret_part :: "auth_Config \<Rightarrow> provider list" where
  "secret_part c = (if au_SecretKey c = [] then [] else [secret_provider (au_SecretKey c)])"

definition anonymous_part :: "auth_Config \<Rightarrow> provider list" where
  "anonymous_part c =
     (if au_AllowedAnonymous c then [AnonymousProvider \<lparr>an_Allowed = True, an_Role = au_AnonymousRole c\<rparr>] else [])"

lemmas chain_parts = oidc_part_def secret_part_def anonymous_part_def

lemma configure_chain_parts:
  assumes "configure_chain env ps c = Inr r"
  shows "r = (let ps' = ps @ secret_part c @ oidc_part env c @ anonymous_part c in
    if ps' = [] then None
    else Some (empty_engine_auth\<lparr>ea_Providers := ps', ea_DBApiKeysEnabled := au_ManagementApiKeys c\<rparr>))"
    and "oi_Issuer (au_OIDC c) \<noteq> [] \<longrightarrow> (\<exists>p. NewOIDCProvider (ae_discover env) (au_OIDC c) = Inr p)"
  using assms
  by (auto simp: configure_chain_def chain_parts Let_def empty_engine_auth_def split: sum.splits if_splits)

text \<open>What the file contributes: providers of its own, and the settings it overrides.\<close>

definition from_file :: "'j auth_env \<Rightarrow> auth_Config \<Rightarrow> 'j ProvidersConfig option" where
  "from_file env c =
     (if au_ConfigFile c = [] then None
      else case LoadFile env (au_ConfigFile c) of Inl _ \<Rightarrow> None | Inr pc \<Rightarrow> Some pc)"

lemma Configure_success:
  assumes "Configure env c = (c', Inr r)"
  obtains "from_file env c = None" "c' = c" "configure_chain env [] c' = Inr r"
  | pc ps where "from_file env c = Some pc" "c' = merge_file pc c" "file_providers env pc = Some ps"
      "configure_chain env ps c' = Inr r"
  using assms that
  by (auto simp: Configure_def from_file_def Let_def split: if_splits sum.splits option.splits)

lemma file_providers_parts:
  "file_providers env pc = Some ps \<Longrightarrow>
   \<exists>issuers. ps = map (\<lambda>(name, cfg). ApiKeyProvider name cfg) (ae_range_keys env (pc_APIKeys pc)) @ map JwtProvider issuers \<and>
     length issuers = length (ae_range_jwt env (pc_JWT pc))"
  by (auto simp: file_providers_def dest!: all_some_SomeD) (metis length_map)

lemma merge_file_anonymous [simp]:
  "au_AllowedAnonymous (merge_file pc c) \<longleftrightarrow> au_AllowedAnonymous c \<or> an_Allowed (pc_Anonymous pc)"
  by (simp add: merge_file_def Let_def)

text \<open>The OIDC part: one provider exactly when an issuer is set, with it and all claim names.\<close>

definition sound_oidc :: "auth_Config \<Rightarrow> OIDCProvider list \<Rightarrow> bool" where
  "sound_oidc c oidc \<longleftrightarrow>
     length oidc = (if oi_Issuer (au_OIDC c) = [] then 0 else 1) \<and>
     (\<forall>p \<in> set oidc. oi_Issuer (op_c p) = oi_Issuer (au_OIDC c) \<and> cl_Role (oi_Claims (op_c p)) \<noteq> [] \<and>
        cl_UserId (oi_Claims (op_c p)) \<noteq> [] \<and> cl_UserName (oi_Claims (op_c p)) \<noteq> [])"

lemma oidc_part_sound:
  assumes "configure_chain env ps c = Inr r"
  shows "\<exists>oidc. oidc_part env c = map OidcProvider oidc \<and> sound_oidc c oidc"
proof (cases "oi_Issuer (au_OIDC c) = []")
  case False
  then obtain p where p: "NewOIDCProvider (ae_discover env) (au_OIDC c) = Inr p"
    using configure_chain_parts(2) [OF assms] by blast
  show ?thesis
    by (rule exI [of _ "[p]"]) (use False p NewOIDCProvider_wf [OF p] in \<open>simp add: oidc_part_def sound_oidc_def\<close>)
qed (simp add: oidc_part_def sound_oidc_def)

lemma chain_providers:
  assumes "configure_chain env ps c = Inr (Some ea)"
  obtains oidc where "ea_Providers ea = ps @ secret_part c @ map OidcProvider oidc @ anonymous_part c"
    "sound_oidc c oidc" "ea_DBApiKeysEnabled ea = au_ManagementApiKeys c"
    "ea = empty_engine_auth\<lparr>ea_Providers := ea_Providers ea, ea_DBApiKeysEnabled := ea_DBApiKeysEnabled ea\<rparr>"
proof -
  obtain oidc where o: "oidc_part env c = map OidcProvider oidc" "sound_oidc c oidc"
    using oidc_part_sound [OF assms] by blast
  have "ea = empty_engine_auth\<lparr>ea_Providers := ps @ secret_part c @ oidc_part env c @ anonymous_part c,
      ea_DBApiKeysEnabled := au_ManagementApiKeys c\<rparr>"
    using configure_chain_parts(1) [OF assms] by (auto simp: Let_def split: if_splits)
  then show thesis by (intro that [of oidc]) (use o in simp_all)
qed

section \<open>Order and soundness\<close>

text \<open>C10: the chain of every successful configuration has one order: API keys of the file, its
  JWT issuers, the secret key, OIDC, anonymous access. There is a secret key provider exactly when
  the merged settings hold a key, at most one OIDC provider, present exactly when an issuer is set,
  with that issuer and with names for all three claims, and one anonymous provider, last, exactly
  when anonymous access is allowed by the environment or the file.\<close>

theorem configured_chain:
  assumes "Configure env c = (c', Inr (Some ea))"
  shows "\<exists>keys issuers oidc.
    ea_Providers ea = map (\<lambda>(name, cfg). ApiKeyProvider name cfg) keys @ map JwtProvider issuers @
      (if au_SecretKey c' = [] then [] else [secret_provider (au_SecretKey c')]) @ map OidcProvider oidc @
      (if au_AllowedAnonymous c' then [AnonymousProvider \<lparr>an_Allowed = True, an_Role = au_AnonymousRole c'\<rparr>] else []) \<and>
    (case from_file env c of None \<Rightarrow> keys = [] \<and> issuers = []
     | Some pc \<Rightarrow> keys = ae_range_keys env (pc_APIKeys pc) \<and> length issuers = length (ae_range_jwt env (pc_JWT pc))) \<and>
    sound_oidc c' oidc \<and>
    (au_AllowedAnonymous c' \<longleftrightarrow> au_AllowedAnonymous c \<or>
       (\<exists>pc. from_file env c = Some pc \<and> an_Allowed (pc_Anonymous pc))) \<and>
    ea_DBApiKeysEnabled ea = au_ManagementApiKeys c'"
  using assms
proof (cases rule: Configure_success)
  case 1
  from 1(3) obtain oidc where o: "ea_Providers ea = [] @ secret_part c' @ map OidcProvider oidc @ anonymous_part c'"
      "sound_oidc c' oidc" "ea_DBApiKeysEnabled ea = au_ManagementApiKeys c'"
    by (rule chain_providers)
  show ?thesis
    by (rule exI [of _ "[]"], rule exI [of _ "[]"], rule exI [of _ oidc])
      (use 1 o in \<open>simp add: secret_part_def anonymous_part_def\<close>)
next
  case (2 pc ps)
  from 2(4) obtain oidc where o: "ea_Providers ea = ps @ secret_part c' @ map OidcProvider oidc @ anonymous_part c'"
      "sound_oidc c' oidc" "ea_DBApiKeysEnabled ea = au_ManagementApiKeys c'"
    by (rule chain_providers)
  from file_providers_parts [OF 2(3)] obtain issuers where i:
      "ps = map (\<lambda>(name, cfg). ApiKeyProvider name cfg) (ae_range_keys env (pc_APIKeys pc)) @ map JwtProvider issuers"
      "length issuers = length (ae_range_jwt env (pc_JWT pc))" by blast
  show ?thesis
    by (rule exI [of _ "ae_range_keys env (pc_APIKeys pc)"], rule exI [of _ issuers], rule exI [of _ oidc])
      (use 2(1,2) o i in \<open>simp add: secret_part_def anonymous_part_def\<close>)
qed

text \<open>A server with a provider file: environment and file both set an issuer.\<close>

definition example_settings :: auth_Config where
  "example_settings = \<lparr>au_ManagementApiKeys = False, au_AllowedAnonymous = False, au_AnonymousRole = [],
     au_OIDC = empty_oidc\<lparr>oi_Issuer := ''https://env'', oi_ClientSecret := ''s3cret''\<rparr>,
     au_SecretKey = ''key'', au_ConfigFile = ''a.json''\<rparr>"

definition example_auth_env :: "unit auth_env" where
  "example_auth_env = \<lparr>
     ae_ReadFile = (\<lambda>f. if f = ''a.json'' then
       Some (json_text (JObj [(''oidc'', JObj [(''issuer'', JStr ''https://idp''), (''client_secret'', JStr ''x'')])])) else None),
     ae_yaml = (\<lambda>b. None), ae_dec_anonymous = (\<lambda>j r. Some r), ae_dec_api_key = (\<lambda>j r. Some r),
     ae_dec_jwt = (\<lambda>j r. Some r), ae_zero_jwt = (), ae_dec_claims = (\<lambda>j r. Some r), ae_NewJwt = (\<lambda>j. None),
     ae_discover = (\<lambda>t i u. True), ae_range_keys = (\<lambda>m. m), ae_range_jwt = (\<lambda>m. m)\<rparr>"

definition configured_providers :: "'j auth_env \<Rightarrow> auth_Config \<Rightarrow> provider list" where
  "configured_providers env c =
     (case snd (Configure env c) of Inr (Some ea) \<Rightarrow> ea_Providers ea | _ \<Rightarrow> [])"

lemma example_configured: "length (configured_providers example_auth_env example_settings) = 2"
  by code_simp

theorem configured_chain_witness:
  "\<exists>c' ea. Configure example_auth_env example_settings = (c', Inr (Some ea)) \<and> length (ea_Providers ea) = 2 \<and>
     (\<exists>oidc. sound_oidc c' oidc)"
proof -
  obtain c' ea where c: "Configure example_auth_env example_settings = (c', Inr (Some ea))" "length (ea_Providers ea) = 2"
    using example_configured
    by (cases "Configure example_auth_env example_settings")
      (auto simp: configured_providers_def split: sum.splits option.splits)
  from configured_chain [OF c(1)] c show ?thesis by blast
qed

section \<open>No authentication\<close>

lemma configure_chain_None:
  "configure_chain env ps c = Inr None \<longleftrightarrow>
   ps = [] \<and> au_SecretKey c = [] \<and> oi_Issuer (au_OIDC c) = [] \<and> \<not> au_AllowedAnonymous c"
  by (auto simp: configure_chain_def Let_def empty_engine_auth_def split: sum.splits)

lemma file_providers_Nil:
  "file_providers env pc = Some [] \<longleftrightarrow> ae_range_keys env (pc_APIKeys pc) = [] \<and> ae_range_jwt env (pc_JWT pc) = []"
  by (auto simp: file_providers_def dest!: all_some_SomeD)

text \<open>C33: when there is no authentication at all. \<^verbatim>\<open>Configure\<close> returns the nil
  configuration exactly when neither the file nor the merged settings name a provider; whether
  managed API keys are enabled makes no difference, so a server that allows nothing but managed
  keys starts without any authentication.\<close>

theorem no_provider_no_auth:
  "snd (Configure env c) = Inr None \<longleftrightarrow>
   (case from_file env c of
      None \<Rightarrow> au_ConfigFile c = []
    | Some pc \<Rightarrow> ae_range_keys env (pc_APIKeys pc) = [] \<and> ae_range_jwt env (pc_JWT pc) = []) \<and>
   (let c' = fst (Configure env c) in
    au_SecretKey c' = [] \<and> oi_Issuer (au_OIDC c') = [] \<and> \<not> au_AllowedAnonymous c')"
proof (cases "au_ConfigFile c = []")
  case False
  then show ?thesis
  proof (cases "LoadFile env (au_ConfigFile c)")
    case (Inr pc)
    show ?thesis
    proof (cases "file_providers env pc")
      case None
      then have "ae_range_jwt env (pc_JWT pc) \<noteq> []" by (auto simp: file_providers_def)
      then show ?thesis using False Inr None by (simp add: Configure_def from_file_def)
    next
      case (Some ps)
      then show ?thesis
        using False Inr file_providers_Nil [of env pc]
        by (auto simp: Configure_def from_file_def Let_def configure_chain_None)
    qed
  qed (simp add: Configure_def from_file_def)
qed (simp add: Configure_def from_file_def Let_def configure_chain_None)

section \<open>What a JSON file cannot say\<close>

lemma oidc_fields_secret:
  "d \<in> snd ` set (oidc_fields dec) \<Longrightarrow> d j r = Some r' \<Longrightarrow> oi_ClientSecret r' = oi_ClientSecret r"
  by (auto simp: oidc_fields_def string_field_def int64_field_def bool_field_def struct_field_def
      split: json.splits if_splits prod.splits)

lemma decode_oidc_secret:
  assumes "decode_struct (oidc_fields dec) j r = Some r'"
  shows "oi_ClientSecret r' = oi_ClientSecret r"
proof (cases j)
  case (JObj ms)
  then have d: "decode_members (oidc_fields dec) ms r = Some r'" using assms by simp
  have keep: "oi_ClientSecret y = oi_ClientSecret r"
    if "d \<in> snd ` set (oidc_fields dec)" "oi_ClientSecret x = oi_ClientSecret r" "d j x = Some y" for d j x y
    using oidc_fields_secret [OF that(1,3)] that(2) by simp
  show ?thesis
    using decode_members_keep [where P = "\<lambda>x. oi_ClientSecret x = oi_ClientSecret r", OF keep d] by simp
qed (use assms in \<open>simp_all add: decode_struct_def\<close>)

lemma providers_fields_secret:
  assumes "d \<in> snd ` set (providers_fields env)" "d j r = Some r'"
  shows "oi_ClientSecret (pc_OIDC r') = oi_ClientSecret (pc_OIDC r)"
proof -
  consider "d = struct_field pc_OIDC pc_OIDC_update (decode_struct (oidc_fields (ae_dec_claims env)))"
    | "pc_OIDC r' = pc_OIDC r"
    using assms
    by (auto simp: providers_fields_def string_field_def bool_field_def struct_field_def map_field_def slice_field_def
        split: json.splits list.splits)
  then show ?thesis
  proof cases
    case 1
    then obtain z where "decode_struct (oidc_fields (ae_dec_claims env)) j (pc_OIDC r) = Some z" "pc_OIDC r' = z"
      using assms(2) by (auto simp: struct_field_def)
    then show ?thesis using decode_oidc_secret by metis
  qed simp
qed

lemma decode_providers_secret:
  assumes "decode_struct (providers_fields env) j empty_providers = Some pc"
  shows "oi_ClientSecret (pc_OIDC pc) = []"
proof (cases j)
  case (JObj ms)
  then have d: "decode_members (providers_fields env) ms empty_providers = Some pc" using assms by simp
  have keep: "oi_ClientSecret (pc_OIDC r') = []"
    if "d \<in> snd ` set (providers_fields env)" "oi_ClientSecret (pc_OIDC r) = []" "d j r = Some r'" for d j r r'
    using providers_fields_secret [OF that(1,3)] that(2) by simp
  show ?thesis
    using decode_members_keep [where P = "\<lambda>x. oi_ClientSecret (pc_OIDC x) = []", OF keep d]
    by (simp add: empty_providers_def empty_oidc_def)
qed (use assms in \<open>simp_all add: decode_struct_def\<close>, auto simp: empty_providers_def empty_oidc_def)

lemma LoadFile_json_secret:
  assumes "LoadFile env f = Inr pc" "has_suffix f ''.json''"
  shows "oi_ClientSecret (pc_OIDC pc) = []"
proof -
  obtain b where b: "ae_ReadFile env f = Some b" using assms by (cases "ae_ReadFile env f") (simp_all add: LoadFile_def)
  obtain j where "json_parse b = Some j" "decode_struct (providers_fields env) j empty_providers = Some pc"
    using assms b by (cases "json_parse b") (simp_all add: LoadFile_def split: option.splits)
  then show ?thesis using decode_providers_secret by blast
qed

text \<open>A JSON file that names an OIDC issuer takes the client secret away. The member
  \<^verbatim>\<open>client_secret\<close> is not read from JSON, and the OIDC settings of the environment are
  replaced as a whole, so the secret is empty afterwards, whatever file and environment say.\<close>

lemma merged_oidc:
  assumes "from_file env c = Some pc" and "has_suffix (au_ConfigFile c) ''.json''"
    and "oi_Issuer (pc_OIDC pc) \<noteq> []" and "Configure env c = (c', Inr r)"
  shows "oi_Issuer (au_OIDC c') = oi_Issuer (pc_OIDC pc) \<and> oi_ClientSecret (au_OIDC c') = []"
  using assms(4)
proof (cases rule: Configure_success)
  case (2 pc' ps)
  have "oi_ClientSecret (pc_OIDC pc) = []"
    using assms(1,2) by (intro LoadFile_json_secret) (auto simp: from_file_def split: if_splits sum.splits)
  then show ?thesis using 2 assms(1,3) by (simp add: merge_file_def Let_def)
qed (use assms(1) in simp)

lemma example_file:
  "map_option (\<lambda>pc. oi_Issuer (pc_OIDC pc)) (from_file example_auth_env example_settings) = Some ''https://idp''"
  "has_suffix (au_ConfigFile example_settings) ''.json''"
  "oi_ClientSecret (au_OIDC example_settings) = ''s3cret''"
  by code_simp+

text \<open>A JSON file cannot give the OIDC timeout as a text: with a member like
  \<^verbatim>\<open>"timeout": "5s"\<close> the file is refused as a whole.\<close>

theorem json_timeout_text_refused:
  assumes "ae_ReadFile env f = Some b" and "has_suffix f ''.json''" and "json_parse b = Some (JObj ms)"
    and "(''oidc'', JObj os) \<in> set ms" and "(''timeout'', JStr s) \<in> set os"
  shows "LoadFile env f = Inl UnmarshalFailed"
proof -
  have "decode_members (oidc_fields (ae_dec_claims env)) os r = None" for r
    by (rule decode_members_bad [OF assms(5)], simp add: oidc_fields_def, simp add: int64_field_def)
  then have "decode_members (providers_fields env) ms empty_providers = None"
    by (intro decode_members_bad [OF assms(4)], simp add: providers_fields_def, simp add: struct_field_def)
  then show ?thesis using assms(1-3) by (simp add: LoadFile_def)
qed

definition timeout_file :: json where
  "timeout_file = JObj [(''oidc'', JObj [(''timeout'', JStr ''5s'')])]"

theorem json_timeout_text_refused_witness:
  "LoadFile (example_auth_env\<lparr>ae_ReadFile := (\<lambda>_. Some (json_text timeout_file))\<rparr>) ''a.json'' = Inl UnmarshalFailed"
proof (rule json_timeout_text_refused)
  show "json_parse (json_text timeout_file) = Some (JObj [(''oidc'', JObj [(''timeout'', JStr ''5s'')])])" by code_simp
  show "has_suffix ''a.json'' ''.json''" by code_simp
  show "(''timeout'', JStr ''5s'') \<in> set [(''timeout'', JStr ''5s'')]" by simp
qed simp_all

section \<open>What is disclosed\<close>

text \<open>\<^verbatim>\<open>/auth/config\<close> answers 200 with a JSON object of exactly two members, issuer
  and client id, and nothing else of the settings.\<close>

theorem auth_config_public:
  "json_decode (rw_body (AuthConfigHandler c new_writer)) =
     Some (JObj [(''client_id'', JStr (to_valid_utf8 (oi_ClientID (au_OIDC c)))),
                 (''issuer'', JStr (to_valid_utf8 (oi_Issuer (au_OIDC c))))]) \<and>
   response_status (AuthConfigHandler c new_writer) = 200 \<and>
   response_header (AuthConfigHandler c new_writer) ''Content-Type'' = ''application/json''"
proof -
  let ?j = "json_map [(''issuer'', JStr (oi_Issuer (au_OIDC c))), (''client_id'', JStr (oi_ClientID (au_OIDC c)))]"
  have j: "?j = JObj [(''client_id'', JStr (oi_ClientID (au_OIDC c))), (''issuer'', JStr (oi_Issuer (au_OIDC c)))]"
    by (simp add: json_map_def sort_by_def byte_ord_def)
  have ok: "json_ok 0 ?j" by (simp add: j max_nesting_def)
  have keys: "to_valid_utf8 ''client_id'' = ''client_id''" "to_valid_utf8 ''issuer'' = ''issuer''"
    by (auto intro!: to_valid_ascii simp: byte_ord_def)
  show ?thesis
    using json_decode_line [OF ok]
    by (simp add: AuthConfigHandler_def write_json_def response_status_def response_header_def j keys)
qed

text \<open>Settings without their secrets: keys of API keys and client secrets.\<close>

definition redact :: "provider \<Rightarrow> provider" where
  "redact p = (case p of
       ApiKeyProvider name cfg \<Rightarrow> ApiKeyProvider name (cfg\<lparr>ak_Key := []\<rparr>)
     | OidcProvider v \<Rightarrow> OidcProvider (v\<lparr>op_c := (op_c v)\<lparr>oi_ClientSecret := []\<rparr>\<rparr>)
     | p \<Rightarrow> p)"

text \<open>C34: the logged summary contains no secret: it is the summary of the same configuration with
  the keys of all API keys and the client secret of OIDC removed.\<close>

theorem summary_hides_secrets:
  "PrintSummary c = PrintSummary (c\<lparr>ea_Providers := map redact (ea_Providers c)\<rparr>)"
proof -
  have "provider_line i (redact p) = provider_line i p" for i p
    by (cases p) (simp_all add: provider_line_def redact_def)
  then show ?thesis
    by (simp add: PrintSummary_def enumerate_map_upt [symmetric] enumerate_eq_zip zip_map2 split_def comp_def)
qed

end
