(* ===== verification/Server_Correct.thy ===== *)
theory Server_Correct
  imports Server_Main Auth_Correct
begin

text \<open>
  Properties of the server as a whole: what is certain once it has started, which handler a
  request reaches, when the OAuth proxy is there, what the defaults mean, and how the program
  ends. They combine the settings, the authentication chain, the routes, the CORS
  middleware and the service endpoint.
\<close>

section \<open>A start that goes through\<close>

lemma startup_Inr:
  assumes "startup env c = Inr st"
  obtains au authConfig oauthProxy mux where
    "tls_check (se_LoadX509KeyPair env) c = None" "cluster_check c = None"
    "Configure (se_auth env) (sc_Auth c) = (au, Inr authConfig)"
    "\<not> (cd_Path (sc_CoreDB c) = [] \<and> cd_ReadOnly (sc_CoreDB c))"
    "start_routes (se_discover env) c au = Inr (oauthProxy, mux)"
    "st = \<lparr>st_addr = sc_Bind c, st_tls = sc_TLSCertFile c \<noteq> [] \<or> sc_TLSKeyFile c \<noteq> [],
       st_cors = sc_Cors c, st_auth = au, st_hugr = hugr_config c authConfig, st_oauth = oauthProxy, st_mux = mux\<rparr>"
  using assms
  by (auto simp: startup_def Let_def split: option.splits prod.splits sum.splits if_splits)

section \<open>Routes\<close>

lemma server_routes_mux: "register_all mux_handle (server_routes oauth) [] = Some (rev (server_routes oauth))"
  by (cases oauth) (simp_all add: server_routes_def RegisterHandlers_def mux_handle_def)

lemma registered_route:
  "register_all mux_handle ps [] = Some mux \<Longrightarrow> map_of mux k = map_of ps k"
  using mux_routes.register_all_route [of ps "[]" mux k] by (auto split: option.splits)

text \<open>What the table of the started server gives for a method and a path.\<close>

definition table_route :: "bool \<Rightarrow> string \<Rightarrow> string \<Rightarrow> server_handler" where
  "table_route oauth m path =
     (case map_of (server_routes oauth) (if m = ''HEAD'' then ''GET'' else m, path) of
        Some h \<Rightarrow> h | None \<Rightarrow> EngineRoute)"

text \<open>
  What a request is meant to reach, written out: the handler of each public path and its
  method, for the settings \<open>au\<close> and the proxy, if there is one.
\<close>

definition meant_handler :: "oauth_env \<Rightarrow> oauth_inputs \<Rightarrow> http_handler \<Rightarrow> auth_Config \<Rightarrow> Proxy option \<Rightarrow> http_handler" where
  "meant_handler env inp engine au proxy r w =
     (let path = req_path r;
          reads = (req_method r = ''GET'' \<or> req_method r = ''HEAD'');
          posts = (req_method r = ''POST'')
      in if reads \<and> path = ''/auth/config'' then AuthConfigHandler au w
         else case proxy of None \<Rightarrow> engine r w | Some p \<Rightarrow>
           if reads \<and> path = ''/.well-known/oauth-authorization-server'' then handleMetadata r w
           else if reads \<and> path = ''/oauth/authorize'' then handleAuthorize env p (in_nonce inp) (in_now inp) r w
           else if reads \<and> path = ''/oauth/callback''
                then handleCallback env p (in_nonce inp) (in_now inp) (in_until inp) (in_code inp) r w
           else if posts \<and> path = ''/oauth/token'' then handleToken env p (in_now inp) r w
           else if posts \<and> path = ''/oauth/revoke'' then handleRevoke env p r w
           else if posts \<and> path = ''/oauth/register'' then handleRegister (in_client_id inp) (in_now inp) r w
           else engine r w)"

lemma table_route_eq:
  "table_route oauth m path =
     (let reads = (m = ''GET'' \<or> m = ''HEAD''); posts = (m = ''POST'') in
      if reads \<and> path = ''/auth/config'' then AuthConfigRoute
      else if \<not> oauth then EngineRoute
      else if reads \<and> path = ''/.well-known/oauth-authorization-server'' then OAuthRoute EpMetadata
      else if reads \<and> path = ''/oauth/authorize'' then OAuthRoute EpAuthorize
      else if reads \<and> path = ''/oauth/callback'' then OAuthRoute EpCallback
      else if posts \<and> path = ''/oauth/token'' then OAuthRoute EpToken
      else if posts \<and> path = ''/oauth/revoke'' then OAuthRoute EpRevoke
      else if posts \<and> path = ''/oauth/register'' then OAuthRoute EpRegister
      else EngineRoute)"
  by (auto simp: table_route_def server_routes_def RegisterHandlers_def Let_def)

lemma route_serve_meant:
  "route_serve env inp engine st (table_route (st_oauth st \<noteq> None) (req_method r) (req_path r)) r w =
     meant_handler env inp engine (st_auth st) (st_oauth st) r w"
  by (cases "st_oauth st") (simp_all add: table_route_eq meant_handler_def route_serve_def oauth_serve_def Let_def)

lemma no_method_root: "m \<noteq> [] \<Longrightarrow> map_of (server_routes oauth) (m, ''/'') = None"
  by (auto simp: server_routes_def RegisterHandlers_def)

lemma no_head_routes: "map_of (server_routes oauth) (''HEAD'', path) = None"
  by (auto simp: server_routes_def RegisterHandlers_def)

lemma engine_routes: "map_of (server_routes oauth) ([], path) = (if path = ''/'' then Some EngineRoute else None)"
  by (auto simp: server_routes_def RegisterHandlers_def)

lemma mux_table_route:
  assumes "register_all mux_handle (server_routes oauth) [] = Some mux" "m \<noteq> []"
  shows "mux_match mux m path = Some (table_route oauth m path)"
proof -
  have r: "map_of mux k = map_of (server_routes oauth) k" for k using registered_route [OF assms(1)] .
  show ?thesis
    using assms(2)
    by (auto simp: mux_match_def method_route_def r no_method_root no_head_routes engine_routes table_route_def split: option.splits)
qed

lemma start_routes_mux:
  assumes "start_routes discover c au = Inr (oauthProxy, mux)"
  shows "case mux of None \<Rightarrow> \<not> OIDCEnabled au
    | Some mx \<Rightarrow> OIDCEnabled au \<and> register_all mux_handle (server_routes (oauthProxy \<noteq> None)) [] = Some mx"
  using assms by (auto simp: start_routes_def server_routes_mux split: if_splits sum.splits)

lemma start_routes_no_panic: "start_routes discover c au \<noteq> Inl RoutePanic"
  by (simp add: start_routes_def server_routes_mux split: sum.split)

lemma start_routes_proxy:
  assumes "start_routes discover c au = Inr (oauthProxy, mux)"
  shows "oauthProxy \<noteq> None \<longleftrightarrow> OIDCEnabled au \<and> sc_MCPEnabled c \<and> snd (mcp_client c au) \<noteq> []"
    and "oauthProxy = Some p \<Longrightarrow> NewProxy discover (proxy_config c au) = Inr p"
  using assms by (auto simp: start_routes_def split: if_splits sum.splits option.splits)

lemma NewProxy_key:
  "NewProxy discover cfg = Inr p \<Longrightarrow>
   cfg_SecretKey cfg \<noteq> [] \<and> px_key p = deriveKey (cfg_SecretKey cfg) \<and> px_redirectURL p = cfg_RedirectURL cfg \<and>
   oc_ClientID (px_oauth2Config p) = cfg_ClientID cfg \<and> oc_ClientSecret (px_oauth2Config p) = cfg_ClientSecret cfg"
  by (auto simp: NewProxy_def Let_def split: if_splits option.splits)

lemma Middleware_cong: "(\<And>w. f r w = g r w) \<Longrightarrow> Middleware c f r w = Middleware c g r w"
  by (simp add: Middleware_def Let_def)

section \<open>Example servers\<close>

text \<open>A start goes through when each of its steps does.\<close>

lemma startup_goes:
  assumes "tls_check (se_LoadX509KeyPair env) c = None" "cluster_check c = None"
    "snd (Configure (se_auth env) (sc_Auth c)) = Inr a" "\<not> (cd_Path (sc_CoreDB c) = [] \<and> cd_ReadOnly (sc_CoreDB c))"
    "\<And>hc. se_New env hc" "\<And>n. se_Attach env n" "se_Init env"
    "start_routes (se_discover env) c (fst (Configure (se_auth env) (sc_Auth c))) = Inr x"
  shows "\<exists>st. startup env c = Inr st \<and> st_auth st = fst (Configure (se_auth env) (sc_Auth c)) \<and> st_oauth st = fst x"
  using assms by (cases "Configure (se_auth env) (sc_Auth c)"; cases x) (simp add: startup_def Let_def)

definition example_env :: "(unit, unit) server_env" where
  "example_env = \<lparr>se_LoadX509KeyPair = (\<lambda>c k. True), se_auth = example_auth_env, se_New = (\<lambda>h. True),
     se_Attach = (\<lambda>n. True), se_Init = True,
     se_discover = (\<lambda>i u. Some \<lparr>pv_endpoint = u, pv_claims = Some (''https://idp/token'', [])\<rparr>), se_zero_engine = ()\<rparr>"

lemma example_env_simps:
  "se_New example_env h" "se_Attach example_env n" "se_Init example_env" "se_auth example_env = example_auth_env"
  by (simp_all add: example_env_def)

definition example_viper :: "(string \<times> string) list \<Rightarrow> viper" where
  "example_viper vars = \<lparr>vp_env = (\<lambda>k. case map_of vars k of Some s \<Rightarrow> s | None \<Rightarrow> []), vp_defaults = [],
     vp_cast_string = (\<lambda>x. case x of Some (SetString s) \<Rightarrow> s | _ \<Rightarrow> []),
     vp_cast_bool = (\<lambda>x. case x of Some (SetBool b) \<Rightarrow> b | Some (SetString s) \<Rightarrow> s = ''true'' | _ \<Rightarrow> False),
     vp_cast_int = (\<lambda>x. case x of Some (SetInt n) \<Rightarrow> n | _ \<Rightarrow> 0),
     vp_cast_duration = (\<lambda>x. case x of Some (SetDuration d) \<Rightarrow> d | _ \<Rightarrow> 0),
     vp_cast_slice = (\<lambda>x. case x of Some (SetString s) \<Rightarrow> [s] | _ \<Rightarrow> [])\<rparr>"

definition example_config :: "(string \<times> string) list \<Rightarrow> server_Config" where
  "example_config vars = loadConfig (initEnvs (example_viper vars))"

definition oidc_vars :: "(string \<times> string) list" where
  "oidc_vars = [(''MCP_ENABLED'', ''true''), (''SECRET_KEY'', ''key''), (''OIDC_ISSUER'', ''https://idp''),
     (''OIDC_CLIENT_SECRET'', ''s3cret''), (''CORS_ALLOWED_ORIGINS'', ''https://app'')]"

definition file_vars :: "(string \<times> string) list" where
  "file_vars = (''AUTH_CONFIG_FILE'', ''a.json'') # oidc_vars"

definition example_auth :: "(string \<times> string) list \<Rightarrow> auth_Config" where
  "example_auth vars = loadAuth (initEnvs (example_viper vars))"

lemma example_config_simps:
  "sc_Auth (example_config vars) = example_auth vars"
  "sc_TLSCertFile (example_config vars) = GetString (initEnvs (example_viper vars)) ''TLS_CERT_FILE''"
  "sc_TLSKeyFile (example_config vars) = GetString (initEnvs (example_viper vars)) ''TLS_KEY_FILE''"
  "cc_Enabled (sc_Cluster (example_config vars)) = GetBool (initEnvs (example_viper vars)) ''CLUSTER_ENABLED''"
  "cd_ReadOnly (sc_CoreDB (example_config vars)) = GetBool (initEnvs (example_viper vars)) ''CORE_DB_READONLY''"
  "sc_MCPEnabled (example_config vars) = GetBool (initEnvs (example_viper vars)) ''MCP_ENABLED''"
  "sc_MCPOAuthClientSecret (example_config vars) = GetString (initEnvs (example_viper vars)) ''MCP_OAUTH_CLIENT_SECRET''"
  by (simp_all add: example_config_def example_auth_def loadConfig_def loadCluster_def loadCoreDB_def)

definition example_passes :: "(string \<times> string) list \<Rightarrow> bool" where
  "example_passes vars \<longleftrightarrow>
     (let v = initEnvs (example_viper vars) in
      GetString v ''TLS_CERT_FILE'' = [] \<and> GetString v ''TLS_KEY_FILE'' = [] \<and>
      \<not> GetBool v ''CLUSTER_ENABLED'' \<and> \<not> GetBool v ''CORE_DB_READONLY'') \<and>
     (case Configure example_auth_env (example_auth vars) of
        (au, r) \<Rightarrow> (case r of Inl _ \<Rightarrow> False | Inr _ \<Rightarrow> True) \<and> (au_SecretKey au = [] \<longrightarrow> \<not> OIDCEnabled au))"

lemma examples_pass: "example_passes oidc_vars" "example_passes file_vars" "example_passes []"
  by code_simp+

lemma example_starts:
  assumes "example_passes vars"
  obtains st where "startup example_env (example_config vars) = Inr st"
    "st_auth st = fst (Configure example_auth_env (example_auth vars))"
proof -
  let ?c = "example_config vars" and ?au = "fst (Configure example_auth_env (example_auth vars))"
  obtain a where a: "snd (Configure example_auth_env (sc_Auth ?c)) = Inr a"
    using assms
    by (cases "snd (Configure example_auth_env (example_auth vars))")
      (auto simp: example_passes_def example_config_simps split_beta)
  have key: "au_SecretKey ?au = [] \<longrightarrow> \<not> OIDCEnabled ?au" using assms by (auto simp: example_passes_def)
  have "au_SecretKey ?au \<noteq> [] \<Longrightarrow> \<exists>p. NewProxy (se_discover example_env) (proxy_config ?c ?au) = Inr p"
    by (simp add: NewProxy_def proxy_config_def example_env_def Let_def)
  then obtain x where x: "start_routes (se_discover example_env) ?c (fst (Configure (se_auth example_env) (sc_Auth ?c))) = Inr x"
    using key by (cases "start_routes (se_discover example_env) ?c ?au")
      (auto simp: start_routes_def server_routes_mux example_config_simps example_env_simps split: if_splits)
  have "tls_check (se_LoadX509KeyPair example_env) ?c = None" "cluster_check ?c = None" "\<not> cd_ReadOnly (sc_CoreDB ?c)"
    using assms by (simp_all add: example_passes_def tls_check_def cluster_check_def example_config_simps Let_def)
  then show thesis
    using startup_goes [of example_env ?c a x] a x that by (auto simp: example_env_simps example_config_simps)
qed

section \<open>Properties\<close>

text \<open>C18: a server that has started has passed its checks: TLS is on exactly when a key pair was
  given and loads, a cluster node has one of the two roles and a PostgreSQL core database, and a
  read-only core database has a path.\<close>

theorem started_sound:
  assumes "startup env c = Inr st"
  shows "(st_tls st \<longleftrightarrow> sc_TLSCertFile c \<noteq> [] \<and> sc_TLSKeyFile c \<noteq> [] \<and>
       se_LoadX509KeyPair env (sc_TLSCertFile c) (sc_TLSKeyFile c)) \<and>
    (cc_Enabled (sc_Cluster c) \<longrightarrow> cc_Role (sc_Cluster c) \<in> {''management'', ''worker''} \<and>
       has_prefix (cd_Path (sc_CoreDB c)) ''postgres'') \<and>
    (cd_ReadOnly (sc_CoreDB c) \<longrightarrow> cd_Path (sc_CoreDB c) \<noteq> [])"
  using assms
proof (rule startup_Inr)
qed (auto simp: tls_check_def cluster_check_def split: if_splits)

lemma example_no_tls: "GetString (initEnvs (example_viper oidc_vars)) ''TLS_CERT_FILE'' = []"
  by code_simp

theorem started_sound_witness:
  "\<exists>st. startup example_env (example_config oidc_vars) = Inr st \<and> \<not> st_tls st"
proof -
  obtain st where st: "startup example_env (example_config oidc_vars) = Inr st"
    using example_starts [OF examples_pass(1)] .
  from started_sound [OF st] st show ?thesis by (simp add: example_config_simps example_no_tls)
qed

text \<open>C11: once the server has started, every request with a clean path reaches exactly one
  handler, behind the CORS middleware. With OIDC, \<^verbatim>\<open>/auth/config\<close> gives the public
  configuration for GET and HEAD; when there is a proxy, GET and HEAD reach its metadata, authorize
  and callback handlers and POST its token, revoke and register handlers, each at its own path; and
  everything else reaches the engine, so that the routes never answer 404 or 405 themselves. Without
  OIDC it is always the engine. The paths, methods and handlers are those written in
  \<open>meant_handler\<close>.\<close>

theorem request_routed:
  assumes "startup env c = Inr st" and "clean_url_path (req_path r) = req_path r" and "req_method r \<noteq> []"
  shows "serve_request oenv inp redirect engine st r w =
    Middleware (sc_Cors c)
      (if OIDCEnabled (st_auth st) then meant_handler oenv inp engine (st_auth st) (st_oauth st) else engine) r w"
  using assms(1)
proof (rule startup_Inr)
  fix au authConfig oauthProxy mux
  assume routes: "start_routes (se_discover env) c au = Inr (oauthProxy, mux)"
    and st: "st = \<lparr>st_addr = sc_Bind c, st_tls = sc_TLSCertFile c \<noteq> [] \<or> sc_TLSKeyFile c \<noteq> [],
       st_cors = sc_Cors c, st_auth = au, st_hugr = hugr_config c authConfig, st_oauth = oauthProxy, st_mux = mux\<rparr>"
  show ?thesis
  proof (cases mux)
    case None
    then show ?thesis using start_routes_mux [OF routes] st by (simp add: serve_request_def)
  next
    case (Some mx)
    then have en: "OIDCEnabled (st_auth st)" "st_oauth st = oauthProxy" "st_mux st = Some mx" "st_cors st = sc_Cors c"
      "register_all mux_handle (server_routes (oauthProxy \<noteq> None)) [] = Some mx"
      using start_routes_mux [OF routes] st by auto
    have "mux_find mx (req_method r) (req_path r) = MuxFound (table_route (st_oauth st \<noteq> None) (req_method r) (req_path r))"
      unfolding en(2) by (rule mux_find_clean [OF assms(2) mux_table_route [OF en(5) assms(3)]])
    then have "mux_serve redirect (route_serve oenv inp engine st) mx r v =
        meant_handler oenv inp engine (st_auth st) (st_oauth st) r v" for v
      unfolding mux_serve_def by (simp only: mux_result.case route_serve_meant)
    then show ?thesis
      unfolding serve_request_def en(3,4) using en(1) by (simp cong: Middleware_cong)
  qed
qed

definition token_request :: request where
  "token_request = \<lparr>req_method = ''POST'', req_tls = True, req_host = ''h'', req_header = [],
     req_path = ''/oauth/token'', req_raw_query = [], req_body = []\<rparr>"

lemma example_oidc_enabled:
  "OIDCEnabled (fst (Configure example_auth_env (example_auth oidc_vars)))"
  by code_simp

lemma example_client_secret:
  "GetBool (initEnvs (example_viper oidc_vars)) ''MCP_ENABLED''"
  "oi_ClientSecret (au_OIDC (fst (Configure example_auth_env (example_auth oidc_vars)))) = ''s3cret''"
  "au_SecretKey (fst (Configure example_auth_env (example_auth oidc_vars))) = ''key''"
  by code_simp+

lemma started_oauth:
  assumes "startup env c = Inr st"
  shows "st_oauth st \<noteq> None \<longleftrightarrow> OIDCEnabled (st_auth st) \<and> sc_MCPEnabled c \<and> snd (mcp_client c (st_auth st)) \<noteq> []"
  using assms by (rule startup_Inr) (use start_routes_proxy(1) in auto)

lemma example_oauth_started:
  obtains st p where "startup example_env (example_config oidc_vars) = Inr st" "OIDCEnabled (st_auth st)"
    "st_oauth st = Some p" "st_auth st = fst (Configure example_auth_env (example_auth oidc_vars))"
proof -
  obtain st where st: "startup example_env (example_config oidc_vars) = Inr st"
      "st_auth st = fst (Configure example_auth_env (example_auth oidc_vars))"
    using example_starts [OF examples_pass(1)] .
  have "OIDCEnabled (st_auth st)" using st(2) example_oidc_enabled by simp
  moreover have "st_oauth st \<noteq> None"
    using started_oauth [OF st(1)] st(2) example_oidc_enabled example_client_secret
    by (simp add: mcp_client_def example_config_simps)
  ultimately show thesis using st that by blast
qed

theorem request_routed_witness:
  "\<exists>st p. startup example_env (example_config oidc_vars) = Inr st \<and> st_oauth st = Some p \<and>
     (\<forall>oenv inp redirect engine w. serve_request oenv inp redirect engine st token_request w =
       Middleware (sc_Cors (example_config oidc_vars)) (handleToken oenv p (in_now inp)) token_request w)"
proof -
  obtain st p where st: "startup example_env (example_config oidc_vars) = Inr st" "OIDCEnabled (st_auth st)"
      "st_oauth st = Some p"
    using example_oauth_started .
  have clean: "clean_url_path (req_path token_request) = req_path token_request" "req_method token_request \<noteq> []"
    by code_simp+
  have "meant_handler oenv inp engine (st_auth st) (st_oauth st) token_request v =
      handleToken oenv p (in_now inp) token_request v" for oenv inp engine v
    by (simp add: meant_handler_def token_request_def st(3) Let_def)
  then have "serve_request oenv inp redirect engine st token_request w =
       Middleware (sc_Cors (example_config oidc_vars)) (handleToken oenv p (in_now inp)) token_request w"
    for oenv inp redirect engine w
    using request_routed [OF st(1) clean] st(2) by (simp cong: Middleware_cong)
  then show ?thesis using st by blast
qed

text \<open>C17: the OAuth proxy is there exactly when an issuer is set, MCP is enabled and one of the two
  client secrets is given, after the file has had its say; it then has the secret key of the merged
  settings, which is not empty, and as client ID and secret those given for MCP, each replaced by
  that of OIDC when it is empty.\<close>

theorem oauth_proxy_mounted:
  assumes "startup env c = Inr st"
  shows "(st_oauth st \<noteq> None \<longleftrightarrow> OIDCEnabled (st_auth st) \<and> sc_MCPEnabled c \<and>
       (sc_MCPOAuthClientSecret c \<noteq> [] \<or> oi_ClientSecret (au_OIDC (st_auth st)) \<noteq> [])) \<and>
    (\<forall>p. st_oauth st = Some p \<longrightarrow> au_SecretKey (st_auth st) \<noteq> [] \<and> px_key p = deriveKey (au_SecretKey (st_auth st)) \<and>
       oc_ClientID (px_oauth2Config p) =
         (if sc_MCPOAuthClientID c = [] then oi_ClientID (au_OIDC (st_auth st)) else sc_MCPOAuthClientID c) \<and>
       oc_ClientSecret (px_oauth2Config p) =
         (if sc_MCPOAuthClientSecret c = [] then oi_ClientSecret (au_OIDC (st_auth st)) else sc_MCPOAuthClientSecret c))"
  using assms
proof (rule startup_Inr)
  fix au authConfig oauthProxy mux
  assume routes: "start_routes (se_discover env) c au = Inr (oauthProxy, mux)"
    and st: "st = \<lparr>st_addr = sc_Bind c, st_tls = sc_TLSCertFile c \<noteq> [] \<or> sc_TLSKeyFile c \<noteq> [],
       st_cors = sc_Cors c, st_auth = au, st_hugr = hugr_config c authConfig, st_oauth = oauthProxy, st_mux = mux\<rparr>"
  have "au_SecretKey au \<noteq> [] \<and> px_key p = deriveKey (au_SecretKey au) \<and>
      oc_ClientID (px_oauth2Config p) =
        (if sc_MCPOAuthClientID c = [] then oi_ClientID (au_OIDC au) else sc_MCPOAuthClientID c) \<and>
      oc_ClientSecret (px_oauth2Config p) =
        (if sc_MCPOAuthClientSecret c = [] then oi_ClientSecret (au_OIDC au) else sc_MCPOAuthClientSecret c)"
    if "oauthProxy = Some p" for p
    using NewProxy_key [OF start_routes_proxy(2) [OF routes that]] by (auto simp: proxy_config_def mcp_client_def)
  then show ?thesis
    using start_routes_proxy(1) [OF routes] unfolding st by (auto simp: mcp_client_def)
qed

theorem oauth_proxy_mounted_witness:
  "\<exists>st p. startup example_env (example_config oidc_vars) = Inr st \<and> st_oauth st = Some p \<and>
     px_key p = deriveKey ''key'' \<and> oc_ClientSecret (px_oauth2Config p) = ''s3cret''"
proof -
  obtain st p where st: "startup example_env (example_config oidc_vars) = Inr st" "st_oauth st = Some p"
      "st_auth st = fst (Configure example_auth_env (example_auth oidc_vars))"
    using example_oauth_started .
  have "sc_MCPOAuthClientSecret (example_config oidc_vars) = []"
    unfolding example_config_simps by code_simp
  with oauth_proxy_mounted [OF st(1)] show ?thesis using st example_client_secret by auto
qed

text \<open>C31: a JSON provider file with an issuer disables the OAuth proxy unless MCP has a client
  secret of its own: whatever \<^verbatim>\<open>OIDC_CLIENT_SECRET\<close> says, the server starts with OIDC
  but without any OAuth endpoint.\<close>

theorem json_file_disables_proxy:
  assumes "startup env c = Inr st" and "from_file (se_auth env) (sc_Auth c) = Some pc"
    and "has_suffix (au_ConfigFile (sc_Auth c)) ''.json''" and "oi_Issuer (pc_OIDC pc) \<noteq> []"
    and "sc_MCPOAuthClientSecret c = []"
  shows "OIDCEnabled (st_auth st) \<and> st_oauth st = None"
  using assms(1)
proof (rule startup_Inr)
  fix au authConfig oauthProxy mux
  assume conf: "Configure (se_auth env) (sc_Auth c) = (au, Inr authConfig)"
    and routes: "start_routes (se_discover env) c au = Inr (oauthProxy, mux)"
    and st: "st = \<lparr>st_addr = sc_Bind c, st_tls = sc_TLSCertFile c \<noteq> [] \<or> sc_TLSKeyFile c \<noteq> [],
       st_cors = sc_Cors c, st_auth = au, st_hugr = hugr_config c authConfig, st_oauth = oauthProxy, st_mux = mux\<rparr>"
  have "oi_Issuer (au_OIDC au) = oi_Issuer (pc_OIDC pc)" "oi_ClientSecret (au_OIDC au) = []"
    using merged_oidc [OF assms(2-4) conf] by auto
  then show ?thesis
    using start_routes_proxy(1) [OF routes] assms(4,5) unfolding st by (simp add: mcp_client_def OIDCEnabled_def)
qed

lemma example_file_config:
  "au_ConfigFile (example_auth file_vars) = ''a.json''"
  "GetString (initEnvs (example_viper file_vars)) ''MCP_OAUTH_CLIENT_SECRET'' = []"
  "GetBool (initEnvs (example_viper file_vars)) ''MCP_ENABLED''"
  "oi_ClientSecret (au_OIDC (example_auth file_vars)) = ''s3cret''"
  by code_simp+

lemma example_from_file: "from_file env (example_auth file_vars) = from_file env example_settings"
  by (simp add: from_file_def example_file_config) (simp add: example_settings_def)

theorem json_file_disables_proxy_witness:
  "\<exists>st. startup example_env (example_config file_vars) = Inr st \<and> sc_MCPEnabled (example_config file_vars) \<and>
     oi_ClientSecret (au_OIDC (sc_Auth (example_config file_vars))) \<noteq> [] \<and> st_oauth st = None"
proof -
  obtain st where st: "startup example_env (example_config file_vars) = Inr st"
    using example_starts [OF examples_pass(2)] .
  obtain pc where pc: "from_file (se_auth example_env) (sc_Auth (example_config file_vars)) = Some pc"
      "oi_Issuer (pc_OIDC pc) = ''https://idp''"
    using example_file(1) by (auto simp: example_from_file example_env_simps example_config_simps)
  have "has_suffix (au_ConfigFile (sc_Auth (example_config file_vars))) ''.json''"
    using example_file(2) by (simp add: example_file_config example_settings_def example_config_simps)
  from json_file_disables_proxy [OF st pc(1) this] pc(2) st
  show ?thesis using example_file_config by (simp add: example_config_simps)
qed

section \<open>The defaults\<close>

text \<open>What the program relies on of viper's conversions: a value of the type asked for is kept, and
  nothing gives the zero value.\<close>

definition viper_casts :: "viper \<Rightarrow> bool" where
  "viper_casts v \<longleftrightarrow>
     vp_cast_string v None = [] \<and> (\<forall>s. vp_cast_string v (Some (SetString s)) = s) \<and>
     vp_cast_bool v None = False \<and> (\<forall>b. vp_cast_bool v (Some (SetBool b)) = b) \<and>
     vp_cast_slice v None = []"

lemma fold_SetDefault: "vp_defaults (fold SetDefault ds v) = rev ds @ vp_defaults v"
  by (induction ds arbitrary: v) (simp_all add: SetDefault_def)

lemma fold_SetDefault_env: "vp_env (fold SetDefault ds v) = vp_env v"
  "vp_cast_string (fold SetDefault ds v) = vp_cast_string v" "vp_cast_bool (fold SetDefault ds v) = vp_cast_bool v"
  "vp_cast_slice (fold SetDefault ds v) = vp_cast_slice v"
  by (induction ds arbitrary: v) (simp_all add: SetDefault_def)

lemma server_defaults_distinct: "distinct (map fst server_defaults)"
  by code_simp

text \<open>A variable that is set wins over the default.\<close>

lemma viper_find_initEnvs:
  assumes "vp_defaults v = []"
  shows "viper_find (initEnvs v) key =
    (if vp_env v key \<noteq> [] then Some (SetString (vp_env v key)) else map_of server_defaults key)"
proof -
  have "map_of (rev server_defaults) = map_of server_defaults"
    using server_defaults_distinct by (subst map_of_inject_set) (simp_all add: rev_map [symmetric])
  then show ?thesis
    using assms by (simp add: viper_find_def initEnvs_def fold_SetDefault fold_SetDefault_env)
qed

lemma default_auth:
  assumes "viper_casts v" "vp_defaults v = []" "\<And>key. vp_env v key = []"
  shows "loadAuth (initEnvs v) = \<lparr>au_ManagementApiKeys = False, au_AllowedAnonymous = True, au_AnonymousRole = ''admin'',
      au_OIDC = loadOIDC (initEnvs v), au_SecretKey = [], au_ConfigFile = []\<rparr>"
    and "oi_Issuer (loadOIDC (initEnvs v)) = []" and "loadCors (initEnvs v) = \<lparr>co_AllowedOrigins = [], co_AllowedHeaders = [],
      co_AllowedMethods = []\<rparr>"
    and "GetString (initEnvs v) ''BIND'' = '':15000''" and "GetString (initEnvs v) ''TLS_CERT_FILE'' = []"
    and "GetString (initEnvs v) ''TLS_KEY_FILE'' = []"
proof -
  note find = viper_find_initEnvs [OF assms(2), unfolded assms(3), simplified]
  have casts: "vp_cast_string (initEnvs v) = vp_cast_string v" "vp_cast_bool (initEnvs v) = vp_cast_bool v"
      "vp_cast_slice (initEnvs v) = vp_cast_slice v"
    by (simp_all add: initEnvs_def fold_SetDefault_env)
  note eval = loadAuth_def loadOIDC_def loadCors_def GetString_def GetBool_def GetStringSlice_def find casts server_defaults_def
  show "loadAuth (initEnvs v) = \<lparr>au_ManagementApiKeys = False, au_AllowedAnonymous = True, au_AnonymousRole = ''admin'',
      au_OIDC = loadOIDC (initEnvs v), au_SecretKey = [], au_ConfigFile = []\<rparr>"
    using assms(1) by (simp add: viper_casts_def loadAuth_def GetString_def GetBool_def find casts server_defaults_def)
  show "oi_Issuer (loadOIDC (initEnvs v)) = []" using assms(1) by (simp add: viper_casts_def eval)
  show "loadCors (initEnvs v) = \<lparr>co_AllowedOrigins = [], co_AllowedHeaders = [], co_AllowedMethods = []\<rparr>"
    using assms(1) by (simp add: viper_casts_def eval)
  show "GetString (initEnvs v) ''BIND'' = '':15000''" "GetString (initEnvs v) ''TLS_CERT_FILE'' = []"
    "GetString (initEnvs v) ''TLS_KEY_FILE'' = []"
    using assms(1) by (simp_all add: viper_casts_def eval)
qed

text \<open>C32: without any setting everybody is admin. A server started in an empty environment has
  one provider, anonymous access with the role admin, serves without TLS and hands every request to
  the engine with no CORS middleware before it.\<close>

theorem default_server_open:
  assumes "viper_casts v" and "vp_defaults v = []" and "\<And>key. vp_env v key = []"
    and "startup env (loadConfig (initEnvs v)) = Inr st"
  shows "map_option ea_Providers (hc_Auth (st_hugr st)) = Some [AnonymousProvider \<lparr>an_Allowed = True, an_Role = ''admin''\<rparr>] \<and>
    \<not> st_tls st \<and> st_addr st = '':15000'' \<and> serve_request oenv inp redirect engine st = engine"
  using assms(4)
proof (rule startup_Inr)
  fix au authConfig oauthProxy mux
  let ?c = "loadConfig (initEnvs v)"
  assume conf: "Configure (se_auth env) (sc_Auth ?c) = (au, Inr authConfig)"
    and routes: "start_routes (se_discover env) ?c au = Inr (oauthProxy, mux)"
    and st: "st = \<lparr>st_addr = sc_Bind ?c, st_tls = sc_TLSCertFile ?c \<noteq> [] \<or> sc_TLSKeyFile ?c \<noteq> [],
       st_cors = sc_Cors ?c, st_auth = au, st_hugr = hugr_config ?c authConfig, st_oauth = oauthProxy, st_mux = mux\<rparr>"
  note d = default_auth [OF assms(1-3)]
  have a: "au = loadAuth (initEnvs v)"
      "map_option ea_Providers authConfig = Some [AnonymousProvider \<lparr>an_Allowed = True, an_Role = ''admin''\<rparr>]"
    using conf d(1,2) by (auto simp: loadConfig_def Configure_def configure_chain_def)
  have "mux = None" using routes a(1) d(1,2) by (simp add: start_routes_def OIDCEnabled_def)
  then show ?thesis
    using a(2) d(3-6) unfolding st
    by (simp add: loadConfig_def hugr_config_def serve_request_def Middleware_def fun_eq_iff)
qed

theorem default_server_open_witness:
  "\<exists>st. startup example_env (loadConfig (initEnvs (example_viper []))) = Inr st \<and>
     map_option ea_Providers (hc_Auth (st_hugr st)) = Some [AnonymousProvider \<lparr>an_Allowed = True, an_Role = ''admin''\<rparr>]"
proof -
  obtain st where st: "startup example_env (loadConfig (initEnvs (example_viper []))) = Inr st"
    using example_starts [OF examples_pass(3)] unfolding example_config_def .
  have "viper_casts (example_viper [])" "vp_defaults (example_viper []) = []" "vp_env (example_viper []) key = []" for key
    by (simp_all add: viper_casts_def example_viper_def)
  from default_server_open [OF this st] st show ?thesis by blast
qed

section \<open>The end\<close>

text \<open>C19: how the program ends. It exits with 0 exactly when the extensions install, or when the
  server starts, listens until the signal and shuts down in time, the service endpoint too when it
  has an address; it panics exactly when the installation fails; every other run exits with 1.\<close>

theorem main_ends:
  "(server_main env inst flag v e = MainExit 0 \<longleftrightarrow>
      (if flag then snd (installDuckDBExtension inst)
       else (\<exists>st. startup env (loadConfig (initEnvs v)) = Inr st) \<and>
         (\<exists>stop_ok. e = Signalled True stop_ok \<and> (stop_ok \<or> GetString (initEnvs v) ''SERVICE_BIND'' = [])))) \<and>
   (server_main env inst flag v e = MainPanic \<longleftrightarrow> flag \<and> \<not> snd (installDuckDBExtension inst)) \<and>
   server_main env inst flag v e \<in> {MainExit 0, MainExit 1, MainPanic}"
proof -
  have start: "startup env c \<noteq> Inl RoutePanic" for c
    using start_routes_no_panic by (auto simp: startup_def tls_check_def cluster_check_def Let_def split: option.splits prod.splits sum.splits if_splits)
  have run: "run_server c e \<noteq> MainPanic" "run_server c e \<in> {MainExit 0, MainExit 1}"
      "run_server c e = MainExit 0 \<longleftrightarrow> (\<exists>stop_ok. e = Signalled True stop_ok \<and> (stop_ok \<or> sc_ServiceBind c = []))" for c
    by (cases e; auto simp: run_server_def Start_def Stop_def new_service_def routes_registered)+
  show ?thesis
  proof (cases flag)
    case False
    let ?c = "loadConfig (initEnvs v)"
    have bind: "sc_ServiceBind ?c = GetString (initEnvs v) ''SERVICE_BIND''" by (simp add: loadConfig_def)
    show ?thesis
    proof (cases "startup env ?c")
      case (Inl x)
      then have "server_main env inst flag v e = MainExit 1"
        using start [of ?c] False by (cases x) (simp_all add: server_main_def)
      then show ?thesis using Inl False by simp
    next
      case (Inr st)
      then have "server_main env inst flag v e = run_server ?c e" using False by (simp add: server_main_def)
      then show ?thesis using run [of ?c] Inr False bind by auto
    qed
  qed (simp add: server_main_def)
qed

end
