(* ===== verification/Spec2Isabelle.thy ===== *)
theory Spec2Isabelle
  imports Migrate_Correct OAuth_Endpoints OAuth_Refine Server_Correct
begin

text \<open>
  Hugr: a GraphQL gateway server (\<^verbatim>\<open>cmd/server\<close>) and the migration tool of its
  core database (\<^verbatim>\<open>cmd/migrate\<close>). This development models all Go code of the
  repository outside its tests.

  \<^bold>\<open>The program.\<close> The server reads its settings from the environment, merges them with a
  provider file, builds the chain of authentication providers the query engine runs for each
  request, and serves the engine behind a CORS middleware. With OIDC it adds a public
  configuration endpoint, and for MCP clients an OAuth 2.1 proxy that keeps no state: sessions and
  authorization codes travel sealed in the parameters of requests and redirects. A second small
  server answers health checks. The engine itself, the identity provider, DuckDB and viper are other
  packages and appear as parameters. The migration tool selects, orders and applies SQL files.

  \<^bold>\<open>Theories and sources.\<close>
  \<^item> \<^theory_text>\<open>Go_Prelude\<close>, \<^theory_text>\<open>Go_Strings\<close>, \<^theory_text>\<open>Go_Slices\<close>, \<^theory_text>\<open>Go_Path\<close>, \<^theory_text>\<open>Go_Encoding\<close>,
    \<^theory_text>\<open>Go_Sha256\<close>, \<^theory_text>\<open>Go_AesGcm\<close>, \<^theory_text>\<open>Go_Utf8\<close>, \<^theory_text>\<open>Go_JsonString\<close>, \<^theory_text>\<open>Go_Json\<close>, \<^theory_text>\<open>Go_JsonStruct\<close>,
    \<^theory_text>\<open>Go_Float\<close>, \<^theory_text>\<open>Go_Time\<close>, \<^theory_text>\<open>Go_Url\<close>, \<^theory_text>\<open>Go_Query\<close>, \<^theory_text>\<open>Go_Http\<close>, \<^theory_text>\<open>Http_Response\<close>, \<^theory_text>\<open>Go_Mux\<close>: the parts of
    the Go language and standard library the program uses, at the level of bytes, with the lemmas
    the components share.
  \<^item> \<^theory_text>\<open>Migrate\<close>, \<^theory_text>\<open>Migrate_Correct\<close>: \<^verbatim>\<open>cmd/migrate/main.go\<close>. A run is a function of the
    directory, the database and what each script does: whether it fails, and what it leaves in the
    version row, which the scripts of \<^verbatim>\<open>src/migrations\<close> from \<^verbatim>\<open>0.0.11\<close> on update
    themselves. The result holds the error, the version row and every script executed.
  \<^item> \<^theory_text>\<open>OAuth_Crypto\<close>, \<^theory_text>\<open>OAuth_Tokens\<close>: \<^verbatim>\<open>pkg/auth/oauth/crypto.go\<close> and
    \<^verbatim>\<open>pkce.go\<close>. \<^theory_text>\<open>OAuth_Proxy\<close>, \<^theory_text>\<open>OAuth_Handlers\<close>, \<^theory_text>\<open>OAuth_Correct\<close>, \<^theory_text>\<open>OAuth_Endpoints\<close>,
    \<^theory_text>\<open>OAuth_Flow\<close>: \<^verbatim>\<open>pkg/auth/oauth/proxy.go\<close>. A handler is a function of the request,
    the clock, random bytes and the response writer; \<^theory_text>\<open>OAuth_Flow\<close> is the step relation of all
    requests together, with the attacker's part, and \<^theory_text>\<open>OAuth_Refine\<close> its specification.
  \<^item> \<^theory_text>\<open>Auth_Oidc\<close>: \<^verbatim>\<open>pkg/auth/oidc_provider.go\<close>; \<^theory_text>\<open>Auth_Config\<close>, \<^theory_text>\<open>Auth_Correct\<close>:
    \<^verbatim>\<open>pkg/auth/auth.go\<close>.
  \<^item> \<^theory_text>\<open>Cors\<close>: \<^verbatim>\<open>pkg/cors/middlewares.go\<close>. \<^theory_text>\<open>Service\<close>: \<^verbatim>\<open>pkg/service/service.go\<close>, a
    state machine of starts and stops. \<^theory_text>\<open>Info\<close>: \<^verbatim>\<open>pkg/info/info.go\<close> and
    \<^verbatim>\<open>schema.graphql\<close>.
  \<^item> \<^theory_text>\<open>Server_Config\<close>: \<^verbatim>\<open>cmd/server/config.go\<close>. \<^theory_text>\<open>Server_Main\<close>, \<^theory_text>\<open>Server_Correct\<close>:
    \<^verbatim>\<open>cmd/server/main.go\<close> and \<^verbatim>\<open>version.go\<close>.

  \<^bold>\<open>Interfaces.\<close> Locales state what one part relies on in another; each is interpreted on
  the program's definitions: a comparison for sorting (interpreted on the order of migration files),
  a sealed text that opens to what was sealed (on AES-GCM under the derived key), a store of query
  values (on \<^verbatim>\<open>url.Values\<close>), a table of routes (on \<^verbatim>\<open>http.ServeMux\<close>).

  \<^bold>\<open>What is shown.\<close> Of the migrations: the version order, the selection and order of files, what a
  successful run has applied, under which conditions on the scripts and the version names nothing is
  lost when a run fails (and that it is lost without them), and which runs replay or skip. Of the OAuth proxy: round trips of
  its tokens through JSON, AES-GCM and base64, that only sealed tokens open, what each endpoint
  answers and when, that a full flow completes, and that in every run, with requests of anyone in
  any order, each grant goes back to an accepted session, a completed callback and the holder of the
  verifier, so that the proxy refines a server with tables; also what it does not guard against (a
  code is good more than once, a state token passes as a code). Of authentication: that no role is given without a verified claim, how failures are
  told apart, the order and soundness of the provider chain, what the file changes, what is logged.
  Of the server: its routes, when the proxy exists, what holds after a start, what the defaults
  mean, how it ends.

  \<^bold>\<open>Bounds.\<close> Recursions end by structure or by a measure on the input's length; these count
  instead. JSON is nested to Go's own limit, 10000. SHA-256 and GHASH run over the number of blocks
  the padded input has. The loop over media type parameters gets the number of bytes left plus one,
  and each round consumes a byte. The paths below a GraphQL type are followed to depth 6; the types
  nest to 4. Integers are unbounded except where Go's width decides: \<^verbatim>\<open>Atoi\<close>, JSON
  numbers and durations clamp at 64 bits, AES, GHASH and SHA-256 work on machine words.

  \<^bold>\<open>Not modelled.\<close> The SQL of the migrations beyond success and the version row (a script
  that deletes the row is left out), tests, build files and containers. Log lines,
  except the summary of the providers and those of the service and of \<^verbatim>\<open>-install\<close>. Of
  other packages only what the code relies on, as parameters: OIDC discovery and verification, JWT,
  the oauth2 exchange, YAML, viper's conversions, Prometheus, DuckDB, PostgreSQL and the query
  engine. The multiplexer is modelled for the patterns the program registers. Concurrency is not
  observable in the model: handlers share no mutable state after the start, and the goroutines of
  the two servers appear through the results they end with.
\<close>

end
